(* ===== verification/Prelude.thy ===== *)
theory Prelude
  imports Main "HOL-Library.AList" "HOL-Library.List_Lexorder" "HOL-Library.Char_ord"
begin

text \<open>
  Shared vocabulary of the development.

  \<^item> Python code that mutates state and may raise is a function from the state before to a
    result and the state after (\<open>sm\<close>). An exception keeps every mutation made before it was
    raised: nothing is rolled back, as in the source.
  \<^item> \<open>wp\<close> is the weakest precondition of such a function for a pair of postconditions, one
    for a normal return and one for an exception; its equations are collected in
    \<open>wp_eqs\<close> and turn a program into the condition that has to be shown.
  \<^item> A Python \<open>dict\<close> is an association list in insertion order (\<open>AList.update\<close> keeps
    the position of an existing key and appends a new one, as assignment to a dict does).
\<close>

named_theorems wp_eqs "equations that compute weakest preconditions"
named_theorems run_eqs "equations that run a state-exception program"

section \<open>State and exceptions\<close>

type_synonym ('s, 'e, 'a) sm = "'s \<Rightarrow> ('e + 'a) \<times> 's"

definition retM :: "'a \<Rightarrow> ('s, 'e, 'a) sm" where
  "retM a = (\<lambda>s. (Inr a, s))"

definition raiseM :: "'e \<Rightarrow> ('s, 'e, 'a) sm" where
  "raiseM e = (\<lambda>s. (Inl e, s))"

definition bindM :: "('s, 'e, 'a) sm \<Rightarrow> ('a \<Rightarrow> ('s, 'e, 'b) sm) \<Rightarrow> ('s, 'e, 'b) sm" where
  "bindM m f = (\<lambda>s. case m s of (Inl e, t) \<Rightarrow> (Inl e, t) | (Inr a, t) \<Rightarrow> f a t)"

definition thenM :: "('s, 'e, 'a) sm \<Rightarrow> ('s, 'e, 'b) sm \<Rightarrow> ('s, 'e, 'b) sm" where
  "thenM m n = bindM m (\<lambda>_. n)"

definition getM :: "('s \<Rightarrow> 'a) \<Rightarrow> ('s, 'e, 'a) sm" where
  "getM f = (\<lambda>s. (Inr (f s), s))"

definition updM :: "('s \<Rightarrow> 's) \<Rightarrow> ('s, 'e, unit) sm" where
  "updM f = (\<lambda>s. (Inr (), f s))"

text \<open>\<open>if not b: raise e\<close>\<close>

definition guardM :: "bool \<Rightarrow> 'e \<Rightarrow> ('s, 'e, unit) sm" where
  "guardM b e = (if b then retM () else raiseM e)"

text \<open>\<open>if o is None: raise e\<close>, otherwise the value\<close>

definition optM :: "'a option \<Rightarrow> 'e \<Rightarrow> ('s, 'e, 'a) sm" where
  "optM opt e = (case opt of None \<Rightarrow> raiseM e | Some a \<Rightarrow> retM a)"

text \<open>A pure computation that may raise\<close>

definition liftM :: "'e + 'a \<Rightarrow> ('s, 'e, 'a) sm" where
  "liftM r = (case r of Inl e \<Rightarrow> raiseM e | Inr a \<Rightarrow> retM a)"

text \<open>\<open>try: m except Exception as e: h(e)\<close>; the state is the one at the point of the raise\<close>

definition tryM :: "('s, 'e, 'a) sm \<Rightarrow> ('e \<Rightarrow> ('s, 'e, 'a) sm) \<Rightarrow> ('s, 'e, 'a) sm" where
  "tryM m h = (\<lambda>s. case m s of (Inl e, t) \<Rightarrow> h e t | (Inr a, t) \<Rightarrow> (Inr a, t))"

text \<open>A call whose result is not used\<close>

definition ignore :: "('s, 'e, 'a) sm \<Rightarrow> ('s, 'e, unit) sm" where
  "ignore m = thenM m (retM ())"

text \<open>A \<open>for\<close> loop that collects one value per element, stopping at the first exception\<close>

primrec mapM :: "('x \<Rightarrow> ('s, 'e, 'a) sm) \<Rightarrow> 'x list \<Rightarrow> ('s, 'e, 'a list) sm" where
  "mapM f [] = retM []"
| "mapM f (x # xs) = bindM (f x) (\<lambda>y. bindM (mapM f xs) (\<lambda>ys. retM (y # ys)))"

primrec forM :: "('x \<Rightarrow> ('s, 'e, unit) sm) \<Rightarrow> 'x list \<Rightarrow> ('s, 'e, unit) sm" where
  "forM f [] = retM ()"
| "forM f (x # xs) = thenM (f x) (forM f xs)"

lemmas sm_defs = retM_def raiseM_def bindM_def thenM_def getM_def updM_def guardM_def optM_def
  liftM_def tryM_def

subsection \<open>Running\<close>

lemma retM_run [run_eqs]: "retM a s = (Inr a, s)"
  by (simp add: retM_def)

lemma raiseM_run [run_eqs]: "raiseM e s = (Inl e, s)"
  by (simp add: raiseM_def)

lemma getM_run [run_eqs]: "getM f s = (Inr (f s), s)"
  by (simp add: getM_def)

lemma updM_run [run_eqs]: "updM f s = (Inr (), f s)"
  by (simp add: updM_def)

lemma bindM_run [run_eqs]:
  "bindM m f s = (case m s of (Inl e, t) \<Rightarrow> (Inl e, t) | (Inr a, t) \<Rightarrow> f a t)"
  by (simp add: bindM_def)

lemma thenM_run [run_eqs]:
  "thenM m n s = (case m s of (Inl e, t) \<Rightarrow> (Inl e, t) | (Inr a, t) \<Rightarrow> n t)"
  by (simp add: thenM_def bindM_def)

lemma guardM_run [run_eqs]: "guardM b e s = (if b then Inr () else Inl e, s)"
  by (simp add: guardM_def retM_def raiseM_def)

lemma optM_run [run_eqs]: "optM opt e s = (case opt of None \<Rightarrow> Inl e | Some a \<Rightarrow> Inr a, s)"
  by (simp add: optM_def retM_def raiseM_def split: option.split)

lemma liftM_run [run_eqs]: "liftM r s = (r, s)"
  by (simp add: liftM_def retM_def raiseM_def split: sum.split)

lemma tryM_run [run_eqs]:
  "tryM m h s = (case m s of (Inl e, t) \<Rightarrow> h e t | (Inr a, t) \<Rightarrow> (Inr a, t))"
  by (simp add: tryM_def)

lemma bindM_Inr:
  "bindM m f s = (Inr b, u) \<longleftrightarrow> (\<exists>a t. m s = (Inr a, t) \<and> f a t = (Inr b, u))"
  by (auto simp: bindM_def split: prod.splits sum.splits)

lemma thenM_Inr:
  "thenM m n s = (Inr b, u) \<longleftrightarrow> (\<exists>a t. m s = (Inr a, t) \<and> n t = (Inr b, u))"
  by (simp add: thenM_def bindM_Inr)

lemma guardM_Inr [simp]: "guardM b e s = (Inr x, t) \<longleftrightarrow> b \<and> t = s"
  by (auto simp: guardM_run split: if_splits)

lemma optM_Inr [simp]: "optM opt e s = (Inr a, t) \<longleftrightarrow> opt = Some a \<and> t = s"
  by (auto simp: optM_run split: option.splits)

lemma getM_Inr [simp]: "getM f s = (Inr a, t) \<longleftrightarrow> a = f s \<and> t = s"
  by (auto simp: getM_run)

lemma retM_Inr [simp]: "retM a s = (Inr b, t) \<longleftrightarrow> b = a \<and> t = s"
  by (auto simp: retM_run)

lemma raiseM_Inr [simp]: "raiseM e s = (Inr b, t) \<longleftrightarrow> False"
  by (simp add: raiseM_run)

lemma liftM_Inr [simp]: "liftM r s = (Inr a, t) \<longleftrightarrow> r = Inr a \<and> t = s"
  by (auto simp: liftM_run)

lemma updM_Inr [simp]: "updM f s = (Inr a, t) \<longleftrightarrow> t = f s"
  by (auto simp: updM_run)

lemmas inr_eqs = bindM_Inr thenM_Inr

subsection \<open>Evaluating on a ground state\<close>

text \<open>Weak congruences: the continuations are not simplified before the value they are applied
  to is known, so that a run on a concrete state is evaluated step by step\<close>

lemma if_run: "(if b then m else n) s = (if b then m s else n s)"
  by simp

lemma mapM_run:
  "mapM f [] s = (Inr [], s)"
  "mapM f (x # xs) s = bindM (f x) (\<lambda>y. bindM (mapM f xs) (\<lambda>ys. retM (y # ys))) s"
  by (simp_all add: retM_run)

lemma forM_run: "forM f [] s = (Inr (), s)" "forM f (x # xs) s = thenM (f x) (forM f xs) s"
  by (simp_all add: retM_run)

lemma lazy_bind: "s = t \<Longrightarrow> bindM m f s = bindM m f t"
  and lazy_then: "s = t \<Longrightarrow> thenM m n s = thenM m n t"
  and lazy_try: "s = t \<Longrightarrow> tryM m h s = tryM m h t"
  and lazy_mapM: "xs = ys \<Longrightarrow> s = t \<Longrightarrow> mapM g xs s = mapM g ys t"
  and lazy_let: "a = b \<Longrightarrow> Let a k = Let b k"
  by simp_all

lemma lazy_forM:
  "xs = ys \<Longrightarrow> s = t \<Longrightarrow> (\<And>x. f x = g x) \<Longrightarrow> forM f xs s = forM g ys t"
  by (simp add: ext [of f g])

lemmas lazy_congs = lazy_bind lazy_then lazy_try lazy_mapM lazy_let lazy_forM

lemmas lazy_eqs = run_eqs mapM_run forM_run if_run Let_def

subsection \<open>Weakest preconditions\<close>

definition wp :: "('s, 'e, 'a) sm \<Rightarrow> ('a \<Rightarrow> 's \<Rightarrow> bool) \<Rightarrow> ('e \<Rightarrow> 's \<Rightarrow> bool) \<Rightarrow> 's \<Rightarrow> bool" where
  "wp m Q E s = (case m s of (Inl e, t) \<Rightarrow> E e t | (Inr a, t) \<Rightarrow> Q a t)"

lemma wp_ret [wp_eqs]: "wp (retM a) Q E s = Q a s"
  by (simp add: wp_def retM_def)

lemma wp_raise [wp_eqs]: "wp (raiseM e) Q E s = E e s"
  by (simp add: wp_def raiseM_def)

lemma wp_get [wp_eqs]: "wp (getM f) Q E s = Q (f s) s"
  by (simp add: wp_def getM_def)

lemma wp_upd [wp_eqs]: "wp (updM f) Q E s = Q () (f s)"
  by (simp add: wp_def updM_def)

lemma wp_bind [wp_eqs]: "wp (bindM m f) Q E s = wp m (\<lambda>a. wp (f a) Q E) E s"
  by (simp add: wp_def bindM_def split: prod.split sum.split)

lemma wp_then [wp_eqs]: "wp (thenM m n) Q E s = wp m (\<lambda>_. wp n Q E) E s"
  by (simp add: thenM_def wp_bind)

lemma wp_guard [wp_eqs]: "wp (guardM b e) Q E s = (if b then Q () s else E e s)"
  by (simp add: guardM_def wp_ret wp_raise)

lemma wp_opt [wp_eqs]:
  "wp (optM opt e) Q E s = (case opt of None \<Rightarrow> E e s | Some a \<Rightarrow> Q a s)"
  by (simp add: optM_def wp_ret wp_raise split: option.split)

lemma wp_lift [wp_eqs]:
  "wp (liftM r) Q E s = (case r of Inl e \<Rightarrow> E e s | Inr a \<Rightarrow> Q a s)"
  by (simp add: liftM_def wp_ret wp_raise split: sum.split)

lemma wp_try [wp_eqs]: "wp (tryM m h) Q E s = wp m Q (\<lambda>e. wp (h e) Q E) s"
  by (simp add: wp_def tryM_def split: prod.split sum.split)

lemma wp_ignore [wp_eqs]: "wp (ignore m) Q E s = wp m (\<lambda>_. Q ()) E s"
  by (simp add: ignore_def wp_def thenM_def bindM_def retM_def split: prod.split sum.split)

lemma wp_if [wp_eqs]: "wp (if b then m else n) Q E s = (if b then wp m Q E s else wp n Q E s)"
  by simp

lemma wp_conseq:
  assumes "wp m Q E s" and "\<And>a t. Q a t \<Longrightarrow> Q' a t" and "\<And>e t. E e t \<Longrightarrow> E' e t"
  shows "wp m Q' E' s"
  using assms by (auto simp: wp_def split: prod.splits sum.splits)

lemma wp_InrD: "wp m Q E s \<Longrightarrow> m s = (Inr a, t) \<Longrightarrow> Q a t"
  by (simp add: wp_def)

lemma wp_sndD: "wp m (\<lambda>_ t. I t) (\<lambda>_ t. I t) s \<Longrightarrow> I (snd (m s))"
  by (auto simp: wp_def split: prod.splits sum.splits)

lemma wp_mapM_inv:
  assumes "\<And>x s. x \<in> set xs \<Longrightarrow> I s \<Longrightarrow> wp (f x) (\<lambda>_. I) (\<lambda>_. I) s"
  shows "I s \<Longrightarrow> wp (mapM f xs) (\<lambda>_. I) (\<lambda>_. I) s"
  using assms
proof (induction xs arbitrary: s)
  case Nil
  then show ?case by (simp add: wp_eqs)
next
  case (Cons x xs)
  have "wp (f x) (\<lambda>_. I) (\<lambda>_. I) s" using Cons.prems by simp
  then show ?case
    unfolding mapM.simps wp_bind wp_ret
    by (rule wp_conseq) (use Cons in auto)
qed

lemma wp_forM_inv:
  assumes "\<And>x s. x \<in> set xs \<Longrightarrow> I s \<Longrightarrow> wp (f x) (\<lambda>_. I) (\<lambda>_. I) s"
  shows "I s \<Longrightarrow> wp (forM f xs) (\<lambda>_. I) (\<lambda>_. I) s"
  using assms
proof (induction xs arbitrary: s)
  case Nil
  then show ?case by (simp add: wp_eqs)
next
  case (Cons x xs)
  have "wp (f x) (\<lambda>_. I) (\<lambda>_. I) s" using Cons.prems by simp
  then show ?case
    unfolding forM.simps wp_then
    by (rule wp_conseq) (use Cons in auto)
qed

section \<open>Association lists as Python dictionaries\<close>

type_synonym ('k, 'v) dict = "('k \<times> 'v) list"

abbreviation dget :: "('k, 'v) dict \<Rightarrow> 'k \<Rightarrow> 'v option" where
  "dget d k \<equiv> map_of d k"

abbreviation dset :: "'k \<Rightarrow> 'v \<Rightarrow> ('k, 'v) dict \<Rightarrow> ('k, 'v) dict" where
  "dset k v d \<equiv> AList.update k v d"

abbreviation ddel :: "'k \<Rightarrow> ('k, 'v) dict \<Rightarrow> ('k, 'v) dict" where
  "ddel k d \<equiv> AList.delete k d"

definition keys :: "('k, 'v) dict \<Rightarrow> 'k list" where
  "keys d = map fst d"

text \<open>\<open>a == b\<close> on dictionaries: the order of insertion does not count\<close>

definition same_dict :: "('k, 'v) dict \<Rightarrow> ('k, 'v) dict \<Rightarrow> bool" where
  "same_dict a b \<longleftrightarrow> (\<forall>k\<in>set (keys a @ keys b). dget a k = dget b k)"

text \<open>A \<open>defaultdict(list)\<close>: a missing key reads as the empty list\<close>

definition lget :: "('k, 'v list) dict \<Rightarrow> 'k \<Rightarrow> 'v list" where
  "lget d k = (case map_of d k of None \<Rightarrow> [] | Some xs \<Rightarrow> xs)"

definition lappend :: "'k \<Rightarrow> 'v \<Rightarrow> ('k, 'v list) dict \<Rightarrow> ('k, 'v list) dict" where
  "lappend k v d = AList.update k (lget d k @ [v]) d"

text \<open>The values in the order of the sorted keys: \<open>[d[k] for k in sorted(d)]\<close>\<close>

definition sorted_values :: "('k :: linorder, 'v) dict \<Rightarrow> 'v list" where
  "sorted_values d = map snd (sort_key fst d)"

lemma dget_dset [simp]: "dget (dset k v d) k' = (if k' = k then Some v else dget d k')"
  by (simp add: update_conv')

lemma dget_ddel [simp]: "dget (ddel k d) k' = (if k' = k then None else dget d k')"
  by (simp add: delete_conv')

lemma same_dict_iff: "same_dict a b \<longleftrightarrow> dget a = dget b"
proof
  assume s: "same_dict a b"
  show "dget a = dget b"
  proof
    fix k
    show "dget a k = dget b k"
    proof (cases "k \<in> set (keys a @ keys b)")
      case True
      with s show ?thesis unfolding same_dict_def by blast
    next
      case False
      then have "dget a k = None" "dget b k = None"
        by (auto simp: keys_def map_of_eq_None_iff)
      then show ?thesis by simp
    qed
  qed
qed (simp add: same_dict_def)

lemma lget_lappend [simp]:
  "lget (lappend k v d) k' = (if k' = k then lget d k @ [v] else lget d k')"
  by (simp add: lget_def lappend_def)

lemma lget_Nil [simp]: "lget [] k = []"
  by (simp add: lget_def)

lemma distinct_dset [simp]: "distinct (map fst d) \<Longrightarrow> distinct (map fst (dset k v d))"
  by (rule distinct_update)

lemma distinct_ddel [simp]: "distinct (map fst d) \<Longrightarrow> distinct (map fst (ddel k d))"
  by (rule distinct_delete)

lemma dom_keys_dset: "fst ` set (dset k v d) = insert k (fst ` set d)"
  by (simp add: dom_update)

lemma set_sorted_values: "set (sorted_values d) = snd ` set d"
  by (simp add: sorted_values_def)

lemma sorted_values_member:
  assumes "distinct (map fst d)"
  shows "v \<in> set (sorted_values d) \<longleftrightarrow> (\<exists>k. dget d k = Some v)"
proof -
  have "v \<in> snd ` set d \<longleftrightarrow> (\<exists>k. (k, v) \<in> set d)" by force
  with assms show ?thesis by (simp add: set_sorted_values map_of_eq_Some_iff)
qed

lemma distinct_keys_sort_key: "distinct (map fst d) \<Longrightarrow> distinct (map fst (sort_key fst d))"
  by (metis card_distinct distinct_card length_map length_sort set_map set_sort)

lemma map_of_sort_key: "distinct (map fst d) \<Longrightarrow> map_of (sort_key fst d) = map_of d"
  by (rule map_of_inject_set [THEN iffD2]) (simp_all add: distinct_keys_sort_key)

lemma sorted_values_eq:
  assumes "distinct (map fst d)"
  shows "sorted_values d = map (\<lambda>k. the (dget d k)) (sorted_list_of_set (dom (dget d)))"
proof -
  let ?s = "sort_key fst d"
  have ds: "distinct (map fst ?s)" using assms by (rule distinct_keys_sort_key)
  have "set (map fst ?s) = dom (dget d)" by (simp add: dom_map_of_conv_image_fst)
  then have keys: "map fst ?s = sorted_list_of_set (dom (dget d))"
    using ds by (metis sorted_list_of_set.idem_if_sorted_distinct sorted_sort_key)
  have "map snd ?s = map (\<lambda>k. the (map_of ?s k)) (map fst ?s)"
  proof -
    have "snd x = the (map_of ?s (fst x))" if "x \<in> set ?s" for x
      using map_of_is_SomeI [OF ds, of "fst x" "snd x"] that by simp
    then show ?thesis unfolding map_map by (intro map_cong refl) simp
  qed
  then show ?thesis
    by (simp only: sorted_values_def keys map_of_sort_key [OF assms])
qed

section \<open>Sorted sets and first-occurrence de-duplication\<close>

text \<open>\<open>sorted(set(xs))\<close>\<close>

definition sorted_set :: "'a :: linorder list \<Rightarrow> 'a list" where
  "sorted_set xs = sort (remdups xs)"

text \<open>\<open>list(dict.fromkeys(xs))\<close>: first occurrences, in order\<close>

primrec fromkeys_acc :: "'a list \<Rightarrow> 'a list \<Rightarrow> 'a list" where
  "fromkeys_acc seen [] = []"
| "fromkeys_acc seen (x # xs) =
     (if x \<in> set seen then fromkeys_acc seen xs else x # fromkeys_acc (x # seen) xs)"

definition fromkeys :: "'a list \<Rightarrow> 'a list" where
  "fromkeys xs = fromkeys_acc [] xs"

lemma set_sorted_set [simp]: "set (sorted_set xs) = set xs"
  by (simp add: sorted_set_def)

lemma sorted_sorted_set [simp]: "sorted (sorted_set xs)"
  by (simp add: sorted_set_def)

lemma distinct_sorted_set [simp]: "distinct (sorted_set xs)"
  by (simp add: sorted_set_def)

lemma sorted_set_Nil_iff [simp]: "sorted_set xs = [] \<longleftrightarrow> xs = []"
  by (metis set_empty set_sorted_set)

lemma sorted_set_Nil [simp]: "sorted_set [] = []"
  by simp

lemma sorted_set_cong: "set xs = set ys \<Longrightarrow> sorted_set xs = sorted_set ys"
  by (metis sorted_sorted_set distinct_sorted_set set_sorted_set sorted_distinct_set_unique)

lemma set_fromkeys_acc: "set (fromkeys_acc seen xs) = set xs - set seen"
  by (induction xs arbitrary: seen) auto

lemma distinct_fromkeys_acc: "distinct (fromkeys_acc seen xs)"
  by (induction xs arbitrary: seen) (auto simp: set_fromkeys_acc)

lemma set_fromkeys [simp]: "set (fromkeys xs) = set xs"
  by (simp add: fromkeys_def set_fromkeys_acc)

lemma distinct_fromkeys [simp]: "distinct (fromkeys xs)"
  by (simp add: fromkeys_def distinct_fromkeys_acc)

lemma map_filter_append [simp]: "List.map_filter f (xs @ ys) = List.map_filter f xs @ List.map_filter f ys"
  by (simp add: List.map_filter_def)

end
