(* ===== verification/PyText.thy ===== *)
theory PyText
  imports Prelude
begin

text \<open>
  The string and path operations of the Python standard library that the source uses:
  \<open>str.startswith\<close>, \<open>removeprefix\<close>, \<open>lstrip\<close>, \<open>strip\<close>, \<open>split\<close>,
  \<open>join\<close>, \<open>partition\<close>, \<open>lower\<close>/\<open>casefold\<close> and the lexical part of
  \<open>pathlib.PurePosixPath\<close>. A Python \<open>str\<close> is a list of characters; the case
  operations act on ASCII letters.
\<close>

section \<open>Strings\<close>

definition startswith :: "string \<Rightarrow> string \<Rightarrow> bool" where
  "startswith s p \<longleftrightarrow> take (length p) s = p"

definition endswith :: "string \<Rightarrow> string \<Rightarrow> bool" where
  "endswith s p \<longleftrightarrow> length p \<le> length s \<and> drop (length s - length p) s = p"

definition removeprefix :: "string \<Rightarrow> string \<Rightarrow> string" where
  "removeprefix p s = (if startswith s p then drop (length p) s else s)"

definition removesuffix :: "string \<Rightarrow> string \<Rightarrow> string" where
  "removesuffix p s = (if endswith s p then take (length s - length p) s else s)"

definition lstrip_chars :: "string \<Rightarrow> string \<Rightarrow> string" where
  "lstrip_chars cs s = dropWhile (\<lambda>c. c \<in> set cs) s"

definition rstrip_chars :: "string \<Rightarrow> string \<Rightarrow> string" where
  "rstrip_chars cs s = rev (dropWhile (\<lambda>c. c \<in> set cs) (rev s))"

definition white :: string where
  "white = [CHR '' '', CHR 0x09, CHR 0x0A, CHR 0x0B, CHR 0x0C, CHR 0x0D, CHR 0x1C, CHR 0x1D,
     CHR 0x1E, CHR 0x1F]"

definition strip :: "string \<Rightarrow> string" where
  "strip s = rstrip_chars white (lstrip_chars white s)"

text \<open>\<open>s.split(c)\<close> for a one-character separator: always at least one piece\<close>

fun split_on :: "char \<Rightarrow> string \<Rightarrow> string list" where
  "split_on c [] = [[]]"
| "split_on c (x # xs) =
     (if x = c then [] # split_on c xs
      else (case split_on c xs of [] \<Rightarrow> [[x]] | p # ps \<Rightarrow> (x # p) # ps))"

fun join :: "string \<Rightarrow> string list \<Rightarrow> string" where
  "join sep [] = []"
| "join sep [x] = x"
| "join sep (x # y # ys) = x @ sep @ join sep (y # ys)"

text \<open>\<open>sub in s\<close>\<close>

fun contains :: "string \<Rightarrow> string \<Rightarrow> bool" where
  "contains sub [] = (sub = [])"
| "contains sub (x # xs) = (startswith (x # xs) sub \<or> contains sub xs)"

text \<open>\<open>s.partition(sep)\<close>: the parts before and after the first separator, and whether it was
  found\<close>

fun partition_at :: "string \<Rightarrow> string \<Rightarrow> string \<times> bool \<times> string" where
  "partition_at sep [] = ([], False, [])"
| "partition_at sep (x # xs) =
     (if startswith (x # xs) sep then ([], True, drop (length sep) (x # xs))
      else (case partition_at sep xs of (a, f, b) \<Rightarrow> (x # a, f, b)))"

definition lower_char :: "char \<Rightarrow> char" where
  "lower_char c =
     (if CHR ''A'' \<le> c \<and> c \<le> CHR ''Z'' then char_of ((of_char c :: nat) + 32) else c)"

definition lower :: "string \<Rightarrow> string" where
  "lower s = map lower_char s"

subsection \<open>Evaluation\<close>

text \<open>Code equations that let the kernel compare characters bit by bit, most significant first,
  and stop at the first difference\<close>

fun bits_le :: "bool list \<Rightarrow> bool list \<Rightarrow> bool" where
  "bits_le (a # as) (c # cs) = (if a = c then bits_le as cs else c)"
| "bits_le _ _ = True"

lemma bits_le_lexordp: "length as = length cs \<Longrightarrow> bits_le as cs = lexordp_eq as cs"
  by (induction as cs rule: list_induct2) auto

lemma char_le_code [code]:
  "Char a0 a1 a2 a3 a4 a5 a6 a7 \<le> Char c0 c1 c2 c3 c4 c5 c6 c7 \<longleftrightarrow>
     bits_le [a7, a6, a5, a4, a3, a2, a1, a0] [c7, c6, c5, c4, c3, c2, c1, c0]"
  by (simp only: less_eq_char_simp) (simp add: bits_le_lexordp del: bits_le.simps)

lemma char_less_code [code]:
  "Char a0 a1 a2 a3 a4 a5 a6 a7 < Char c0 c1 c2 c3 c4 c5 c6 c7 \<longleftrightarrow>
     \<not> bits_le [c7, c6, c5, c4, c3, c2, c1, c0] [a7, a6, a5, a4, a3, a2, a1, a0]"
  by (simp only: not_le [symmetric] char_le_code)

lemma startswith_code [code]:
  "startswith s [] = True"
  "startswith [] (p # ps) = False"
  "startswith (c # cs) (p # ps) = (if c = p then startswith cs ps else False)"
  by (auto simp: startswith_def)

subsection \<open>Laws\<close>

lemma startswith_append [simp]: "startswith (p @ s) p"
  by (simp add: startswith_def)

lemma startswith_iff: "startswith s p \<longleftrightarrow> (\<exists>r. s = p @ r)"
  unfolding startswith_def by (metis append_eq_conv_conj append_take_drop_id)

lemma startswith_refl [simp]: "startswith s s"
  by (simp add: startswith_def)

lemma endswith_iff: "endswith s p \<longleftrightarrow> (\<exists>r. s = r @ p)"
proof
  assume "endswith s p"
  then have "s = take (length s - length p) s @ p"
    unfolding endswith_def by (metis append_take_drop_id)
  then show "\<exists>r. s = r @ p" ..
qed (auto simp: endswith_def)

lemma removeprefix_append [simp]: "removeprefix p (p @ s) = s"
  by (simp add: removeprefix_def)

lemma removeprefix_iff: "startswith s p \<Longrightarrow> s = p @ removeprefix p s"
  by (auto simp: startswith_iff)

lemma split_on_ne [simp]: "split_on c s \<noteq> []"
  by (cases s) (auto split: list.split)

lemma split_on_no_sep: "c \<notin> set s \<Longrightarrow> split_on c s = [s]"
  by (induction s) auto

lemma split_on_pieces: "p \<in> set (split_on c s) \<Longrightarrow> c \<notin> set p"
proof (induction s arbitrary: p)
  case (Cons x xs)
  then show ?case by (cases "split_on c xs") (auto split: if_splits)
qed simp

lemma split_on_parts: "split_on c (s @ c # t) = split_on c s @ split_on c t"
proof (induction s)
  case (Cons x xs)
  then show ?case by (cases "split_on c xs") (auto split: list.split)
qed simp

lemma split_on_append:
  "c \<notin> set s \<Longrightarrow> split_on c (s @ c # t) = s # split_on c t"
  by (induction s) auto

lemma join_split_on: "join [c] (split_on c s) = s"
proof (induction s)
  case (Cons x xs)
  obtain p ps where "split_on c xs = p # ps" by (cases "split_on c xs") auto
  with Cons show ?case by (cases ps) auto
qed simp

lemma split_on_join:
  assumes "xs \<noteq> []" and "\<And>x. x \<in> set xs \<Longrightarrow> c \<notin> set x"
  shows "split_on c (join [c] xs) = xs"
  using assms
proof (induction "[c]" xs rule: join.induct)
  case (2 x)
  then show ?case by (simp add: split_on_no_sep)
next
  case (3 x y ys)
  then show ?case by (simp add: split_on_append)
qed simp

lemma join_append:
  "xs \<noteq> [] \<Longrightarrow> ys \<noteq> [] \<Longrightarrow> join sep (xs @ ys) = join sep xs @ sep @ join sep ys"
proof (induction sep xs rule: join.induct)
  case (2 sep x)
  then show ?case by (cases ys) auto
qed auto

lemma join_eq_Nil: "join sep xs = [] \<Longrightarrow> xs = [] \<or> xs = [[]] \<or> sep = []"
  by (induction sep xs rule: join.induct) auto

lemma dropWhile_id: "(xs = [] \<or> \<not> P (hd xs)) \<Longrightarrow> dropWhile P xs = xs"
  by (cases xs) auto

lemma set_strip: "set (strip s) \<subseteq> set s"
  unfolding strip_def rstrip_chars_def lstrip_chars_def
  by (auto dest!: set_dropWhileD)

subsection \<open>Substrings\<close>

lemma contains_iff: "contains t s \<longleftrightarrow> (\<exists>a b. s = a @ t @ b)"
proof (induction s)
  case (Cons x xs)
  show ?case
  proof
    assume "contains t (x # xs)"
    then show "\<exists>a b. x # xs = a @ t @ b"
    proof (cases "startswith (x # xs) t")
      case True
      then show ?thesis by (metis append_Nil startswith_iff)
    next
      case False
      with \<open>contains t (x # xs)\<close> Cons obtain a b where "xs = a @ t @ b" by auto
      then show ?thesis by (metis append_Cons)
    qed
  next
    assume "\<exists>a b. x # xs = a @ t @ b"
    then obtain a b where ab: "x # xs = a @ t @ b" by blast
    show "contains t (x # xs)"
    proof (cases a)
      case Nil
      with ab have "startswith (x # xs) t" by (auto simp: startswith_iff)
      then show ?thesis by simp
    next
      case (Cons y ys)
      with ab Cons.IH show ?thesis by auto
    qed
  qed
qed auto

lemma contains_trans: "contains a b \<Longrightarrow> contains b c \<Longrightarrow> contains a c"
  unfolding contains_iff by (metis append.assoc)

lemma contains_mid: "contains t (a @ t @ b)"
  unfolding contains_iff by blast

lemma contains_lower: "contains t s \<Longrightarrow> contains (lower t) (lower s)"
  unfolding contains_iff lower_def by (metis map_append)

lemma contains_append: "contains t s \<Longrightarrow> contains t (a @ s @ b)"
  unfolding contains_iff by (metis append.assoc)

lemma contains_join: "x \<in> set xs \<Longrightarrow> contains x (join sep xs)"
proof (induction sep xs rule: join.induct)
  case (2 sep y)
  then show ?case by (auto simp: contains_iff intro: exI [of _ "[]"])
next
  case (3 sep y z zs)
  show ?case
  proof (cases "x = y")
    case True
    then show ?thesis using contains_mid [of y "[]"] by simp
  next
    case False
    with 3 have "contains x (join sep (z # zs))" by simp
    from contains_append [OF this, of "y @ sep" "[]"] show ?thesis by simp
  qed
qed simp

lemma contains_around:
  assumes "contains t (x @ c # r)" and "c \<notin> set t"
  shows "contains t x \<or> contains t r"
proof -
  from assms(1) obtain a b where ab: "x @ c # r = a @ t @ b" by (auto simp: contains_iff)
  then consider u where "x = a @ u" "u @ c # r = t @ b" | u where "x @ u = a" "c # r = u @ t @ b"
    by (auto simp: append_eq_append_conv2)
  then show ?thesis
  proof cases
    case 1
    then consider v where "u = t @ v" | v where "t = u @ v" "c # r = v @ b"
      by (auto simp: append_eq_append_conv2)
    then show ?thesis
    proof cases
      case 1
      with \<open>x = a @ u\<close> show ?thesis by (auto simp: contains_iff)
    next
      case 2
      with assms(2) have "v = []" by (cases v) auto
      with 2(1) \<open>x = a @ u\<close> contains_mid [of t a "[]"] show ?thesis by simp
    qed
  next
    case 2
    show ?thesis
    proof (cases u)
      case Nil
      with 2 assms(2) have "t = []" by (cases t) auto
      then show ?thesis by (auto simp: contains_iff)
    next
      case (Cons y ys)
      with 2 show ?thesis by (auto simp: contains_iff)
    qed
  qed
qed

lemma contains_joined:
  assumes "contains t (join [c] xs)" and "c \<notin> set t" and "t \<noteq> []"
  shows "\<exists>x\<in>set xs. contains t x"
  using assms(1)
proof (induction "[c]" xs rule: join.induct)
  case 1
  with assms(3) show ?case by simp
next
  case (3 x y ys)
  then have "contains t x \<or> contains t (join [c] (y # ys))"
    using contains_around [of t x c] assms(2) by simp
  with 3 show ?case by auto
qed simp

section \<open>Pure POSIX paths\<close>

text \<open>
  \<open>PurePosixPath(s)\<close> splits at slashes and drops empty and dot segments; it keeps
  \<open>..\<close>. A leading slash makes it absolute.
\<close>

definition slash :: char where
  "slash = CHR ''/''"

definition segments :: "string \<Rightarrow> string list" where
  "segments s = filter (\<lambda>p. p \<noteq> [] \<and> p \<noteq> ''.'') (split_on slash s)"

definition is_absolute :: "string \<Rightarrow> bool" where
  "is_absolute s \<longleftrightarrow> startswith s [slash]"

definition path_root :: "string \<Rightarrow> string" where
  "path_root s =
     (if \<not> is_absolute s then []
      else if startswith s ''//'' \<and> \<not> startswith s ''///'' then ''//'' else ''/'')"

text \<open>\<open>.parts\<close>: the root, if any, and the segments\<close>

definition path_parts :: "string \<Rightarrow> string list" where
  "path_parts s = (if is_absolute s then [path_root s] else []) @ segments s"

definition as_posix :: "string \<Rightarrow> string" where
  "as_posix s =
     (if path_root s = [] \<and> segments s = [] then ''.''
      else path_root s @ join [slash] (segments s))"

text \<open>\<open>Path(s).name\<close>: the last segment, or the empty string\<close>

definition path_name :: "string \<Rightarrow> string" where
  "path_name s = (case rev (segments s) of [] \<Rightarrow> [] | x # _ \<Rightarrow> x)"

text \<open>\<open>Path(s).parent\<close> and \<open>Path(a) / b\<close> for a relative \<open>b\<close>\<close>

definition path_parent :: "string \<Rightarrow> string" where
  "path_parent s =
     (let ps = butlast (segments s) in
      if path_root s = [] \<and> ps = [] then ''.'' else path_root s @ join [slash] ps)"

definition path_join :: "string \<Rightarrow> string \<Rightarrow> string" where
  "path_join a b = (if is_absolute b then as_posix b else as_posix (a @ [slash] @ b))"

text \<open>\<open>a in Path(b).parents\<close> for absolute resolved paths: a proper segment prefix\<close>

definition in_parents :: "string \<Rightarrow> string \<Rightarrow> bool" where
  "in_parents a b \<longleftrightarrow>
     path_root a = path_root b \<and> length (segments a) < length (segments b) \<and>
     take (length (segments a)) (segments b) = segments a"

definition is_relative_to :: "string \<Rightarrow> string \<Rightarrow> bool" where
  "is_relative_to b a \<longleftrightarrow>
     path_root a = path_root b \<and> take (length (segments a)) (segments b) = segments a"

lemma segments_no_slash: "p \<in> set (segments s) \<Longrightarrow> slash \<notin> set p \<and> p \<noteq> [] \<and> p \<noteq> ''.''"
  by (auto simp: segments_def dest: split_on_pieces)

lemma segments_join:
  assumes "\<And>p. p \<in> set ps \<Longrightarrow> slash \<notin> set p \<and> p \<noteq> [] \<and> p \<noteq> ''.''"
  shows "segments (join [slash] ps) = ps"
proof (cases "ps = []")
  case False
  with assms have "split_on slash (join [slash] ps) = ps"
    by (intro split_on_join) auto
  with assms show ?thesis by (simp add: segments_def)
qed (simp add: segments_def)

lemma path_root_relative [simp]: "\<not> is_absolute s \<Longrightarrow> path_root s = []"
  by (simp add: path_root_def)

lemma in_parents_irrefl [simp]: "\<not> in_parents a a"
  by (simp add: in_parents_def)

lemma is_relative_to_refl [simp]: "is_relative_to a a"
  by (simp add: is_relative_to_def)

lemma in_parents_relative: "in_parents a b \<Longrightarrow> is_relative_to b a"
  by (simp add: in_parents_def is_relative_to_def)

section \<open>Scope roots\<close>

text \<open>
  \<open>path == root or path.startswith(f"{root}/")\<close>: the containment test that the
  delegation services share.
\<close>

definition under :: "string \<Rightarrow> string \<Rightarrow> bool" where
  "under path root \<longleftrightarrow> path = root \<or> startswith path (root @ ''/'')"

lemma under_refl [simp]: "under p p"
  by (simp add: under_def)

lemma under_trans: "under a b \<Longrightarrow> under b c \<Longrightarrow> under a c"
  by (auto simp: under_def startswith_iff)

lemma under_root: "under a b \<longleftrightarrow> a = b \<or> (\<exists>r. a = b @ ''/'' @ r)"
  by (auto simp: under_def startswith_iff)

lemma prefix_cases:
  "a @ s = b @ t \<Longrightarrow> (\<exists>u. b = a @ u) \<or> (\<exists>u. a = b @ u)"
  by (auto simp: append_eq_append_conv2)

lemma under_common: "under p a \<Longrightarrow> under p b \<Longrightarrow> under a b \<or> under b a"
proof -
  assume pa: "under p a" and pb: "under p b"
  from pa obtain s where s: "p @ ''/'' = a @ ''/'' @ s"
    by (auto simp: under_root)
  from pb obtain t where t: "p @ ''/'' = b @ ''/'' @ t"
    by (auto simp: under_root)
  from s t have "(a @ ''/'') @ s = (b @ ''/'') @ t" by simp
  then consider u where "b @ ''/'' = (a @ ''/'') @ u" | u where "a @ ''/'' = (b @ ''/'') @ u"
    using prefix_cases by blast
  then show ?thesis
  proof cases
    case 1
    then show ?thesis by (cases u rule: rev_cases) (auto simp: under_root)
  next
    case 2
    then show ?thesis by (cases u rule: rev_cases) (auto simp: under_root)
  qed
qed

end
