(* ===== verification/Models_AI.thy ===== *)
theory Models_AI
  imports Complex_Main PyText
begin

text \<open>
  JSON values and the records of \<open>canto/models/ai_workers.py\<close>: endpoints, the model
  catalog, probes, budgets, selection policies and decisions, usage and health records.
  Every field of the source is a field here; a \<open>Literal\<close> is a datatype, a
  \<open>float\<close> is a rational number and a timestamp is the string the source stores.
\<close>

section \<open>JSON\<close>

datatype json =
    JNull
  | JBool bool
  | JInt int
  | JFloat rat
  | JStr string
  | JList "json list"
  | JObj "(string \<times> json) list"

section \<open>Enumerations\<close>

datatype ai_provider = P_openai | P_anthropic | P_google | P_openai_compatible | P_ollama

datatype classification = C_implementation | C_advisory | C_unavailable | C_unvalidated

datatype priority = Pr_economy | Pr_balanced | Pr_quality | Pr_urgent

datatype transport = T_http | T_cli

datatype availability = A_available | A_missing | A_endpoint_unreachable | A_unknown

datatype probe_state = PS_current | PS_stale | PS_absent

datatype metadata_kind = MK_runtime | MK_declared | MK_curated | MK_observed

datatype confidence_level = Conf_low | Conf_medium | Conf_high

datatype validation_status = V_unvalidated | V_valid | V_invalid

datatype catalog_mode = CM_discover | CM_refresh

datatype required_class = RC_implementation | RC_advisory

primrec required_as_class :: "required_class \<Rightarrow> classification" where
  "required_as_class RC_implementation = C_implementation"
| "required_as_class RC_advisory = C_advisory"

section \<open>Endpoints and models\<close>

record endpoint_rec =
  ep_endpoint_id :: string
  ep_provider :: ai_provider
  ep_base_url :: string
  ep_credential_ref :: "string option"
  ep_enabled :: bool
  ep_validation_status :: validation_status
  ep_validation_detail :: string
  ep_validated_at :: "string option"
  ep_capabilities :: "(string, json) dict"
  ep_configuration :: "(string, json) dict"
  ep_created_at :: string
  ep_updated_at :: string

record pricing =
  pr_currency :: string
  pr_input_per_million :: "rat option"
  pr_cached_input_per_million :: "rat option"
  pr_output_per_million :: "rat option"
  pr_source :: "string option"
  pr_version :: "string option"

record model_rec =
  md_model_key :: string
  md_endpoint_id :: string
  md_provider :: ai_provider
  md_provider_model_id :: string
  md_resolved_version :: string
  md_display_name :: "string option"
  md_aliases :: "string list"
  md_context_tokens :: "nat option"
  md_max_output_tokens :: "nat option"
  md_capabilities :: "(string, bool) dict"
  md_pricing :: pricing
  md_classification :: classification
  md_probe_version :: "string option"
  md_probe_stale :: bool
  md_probe_state :: probe_state
  md_availability :: availability
  md_availability_reason :: string
  md_last_seen_at :: "string option"
  md_missing_since :: "string option"
  md_runtime_metadata :: "(string, json) dict"
  md_metadata_provenance :: "string list"
  md_catalog_checksum :: string
  md_discovered_at :: string
  md_updated_at :: string

record catalog_snapshot =
  cs_snapshot_id :: string
  cs_endpoint_id :: string
  cs_models :: "string list"
  cs_response_checksum :: string
  cs_mode :: catalog_mode
  cs_authoritative_success :: bool
  cs_added :: "string list"
  cs_changed :: "string list"
  cs_missing :: "string list"
  cs_unchanged :: "string list"
  cs_discovered_at :: string

record reconciliation_rec =
  rc_reconciliation_id :: string
  rc_endpoint_id :: string
  rc_previous_snapshot_id :: "string option"
  rc_current_snapshot_id :: "string option"
  rc_authoritative_success :: bool
  rc_added :: "string list"
  rc_changed :: "string list"
  rc_missing :: "string list"
  rc_unchanged :: "string list"
  rc_error :: "string option"
  rc_created_at :: string

record metadata_rec =
  mm_metadata_id :: string
  mm_model_key :: string
  mm_source_kind :: metadata_kind
  mm_source_uri :: "string option"
  mm_source_checksum :: "string option"
  mm_fields :: "(string, json) dict"
  mm_confidence :: confidence_level
  mm_reviewed :: bool
  mm_created_at :: string

record probe_assertion =
  pa_name :: string
  pa_passed :: bool
  pa_detail :: string

record probe_result =
  pb_probe_id :: string
  pb_model_key :: string
  pb_endpoint_id :: string
  pb_provider_model_id :: string
  pb_resolved_version :: string
  pb_probe_version :: string
  pb_classification :: classification
  pb_assertions :: "probe_assertion list"
  pb_artifact_root :: "string option"
  pb_evidence_checksum :: "string option"
  pb_estimated_cost_usd :: "rat option"
  pb_actual_cost_usd :: "rat option"
  pb_started_at :: string
  pb_ended_at :: "string option"

section \<open>Policies, decisions and usage\<close>

record budget_policy =
  bp_enabled :: bool
  bp_max_estimated_usd :: "rat option"
  bp_max_actual_usd :: "rat option"
  bp_max_input_tokens :: "nat option"
  bp_max_output_tokens :: "nat option"
  bp_max_turns :: "nat option"
  bp_max_tool_calls :: "nat option"
  bp_max_wall_seconds :: "nat option"
  bp_allow_unknown_pricing :: bool

record selection_policy =
  sp_priority :: priority
  sp_allowed_transports :: "transport list"
  sp_allowed_endpoints :: "string list"
  sp_allowed_providers :: "ai_provider list"
  sp_allowed_models :: "string list"
  sp_preferred_models :: "string list"
  sp_allowed_cli_profile_pools :: "string list"
  sp_preferred_cli_profile_pools :: "string list"
  sp_allowed_cli_profiles :: "string list"
  sp_preferred_cli_profiles :: "string list"
  sp_prefer_subscription_cli :: bool
  sp_api_fallback_requires_approval :: bool
  sp_orchestrator_provider :: "string option"
  sp_cloud_allowed :: bool
  sp_cloud_fallback_allowed :: bool
  sp_local_first :: bool
  sp_required_classification :: required_class
  sp_budget :: budget_policy

record candidate_score =
  cd_model_key :: string
  cd_eligible :: bool
  cd_rejection_reasons :: "string list"
  cd_components :: "(string, rat) dict"
  cd_estimated_cost_usd :: "rat option"
  cd_score :: "rat option"

record selection_decision =
  sd_decision_id :: string
  sd_task_id :: string
  sd_policy :: selection_policy
  sd_catalog_snapshot_ids :: "string list"
  sd_candidates :: "candidate_score list"
  sd_selected_model_key :: "string option"
  sd_reason :: string
  sd_created_at :: string

record usage_rec =
  us_usage_id :: string
  us_task_id :: string
  us_session_id :: "string option"
  us_decision_id :: "string option"
  us_model_key :: string
  us_endpoint_id :: string
  us_provider_model_id :: string
  us_resolved_version :: string
  us_input_tokens :: nat
  us_cached_input_tokens :: nat
  us_output_tokens :: nat
  us_reasoning_tokens :: nat
  us_turns :: nat
  us_tool_calls :: nat
  us_tool_names :: "string list"
  us_estimated_cost_usd :: "rat option"
  us_actual_cost_usd :: "rat option"
  us_provider_request_ids :: "string list"
  us_terminal_reason :: string
  us_started_at :: string
  us_ended_at :: "string option"

record health_rec =
  hl_health_id :: string
  hl_endpoint_id :: string
  hl_available :: bool
  hl_detail :: string
  hl_latency_ms :: "rat option"
  hl_cooldown_until :: "string option"
  hl_checked_at :: string

section \<open>Defaults of the pydantic models\<close>

definition default_budget :: budget_policy where
  "default_budget = \<lparr>bp_enabled = False, bp_max_estimated_usd = None, bp_max_actual_usd = None,
     bp_max_input_tokens = None, bp_max_output_tokens = None, bp_max_turns = None,
     bp_max_tool_calls = None, bp_max_wall_seconds = None, bp_allow_unknown_pricing = False\<rparr>"

definition default_policy :: selection_policy where
  "default_policy = \<lparr>sp_priority = Pr_balanced, sp_allowed_transports = [],
     sp_allowed_endpoints = [], sp_allowed_providers = [], sp_allowed_models = [],
     sp_preferred_models = [], sp_allowed_cli_profile_pools = [],
     sp_preferred_cli_profile_pools = [], sp_allowed_cli_profiles = [],
     sp_preferred_cli_profiles = [], sp_prefer_subscription_cli = False,
     sp_api_fallback_requires_approval = True, sp_orchestrator_provider = None,
     sp_cloud_allowed = False, sp_cloud_fallback_allowed = False, sp_local_first = True,
     sp_required_classification = RC_implementation, sp_budget = default_budget\<rparr>"

text \<open>The before-validator of \<open>AIModelRecord\<close>: a record stored without a probe state gets
  one from its probe version and staleness flag; a missing flag counts as stale.\<close>

definition infer_legacy_probe_state ::
  "probe_state option \<Rightarrow> string option \<Rightarrow> bool option \<Rightarrow> probe_state" where
  "infer_legacy_probe_state stored version stale =
     (case stored of
        Some p \<Rightarrow> p
      | None \<Rightarrow>
          (if version \<noteq> None \<and> version \<noteq> Some [] \<and> stale = Some False then PS_current
           else if version \<noteq> None \<and> version \<noteq> Some [] then PS_stale
           else PS_absent))"

end
