(* ===== verification/Models_Delegation.thy ===== *)
theory Models_Delegation
  imports Models_AI
begin

text \<open>
  The records of \<open>canto/models/delegation.py\<close>: a delegation task with its repository
  identity and scope, the workspace, executor, message, result, review, promotion and queue
  records that are appended to a task, and the read-only views built from them. A
  \<open>Literal\<close> is a datatype whose constructors carry the literal's words, a
  \<open>dict[str, Any]\<close> is an association list of JSON values, and \<open>model_dump\<close> followed
  by \<open>model_validate\<close> is the identity on the typed record.
\<close>

type_synonym jobj = "(string, json) dict"

section \<open>Enumerations\<close>

datatype dstatus =
    D_draft
  | D_assigned
  | D_workspace_ready
  | D_executor_working
  | D_executor_blocked
  | D_executor_done
  | D_reviewing
  | D_revision_requested
  | D_accepted
  | D_promoting
  | D_promoted
  | D_promotion_failed
  | D_rejected
  | D_cancelled
  | D_failed

text \<open>The word of a status, as it stands in event types and messages\<close>

primrec dstatus_str :: "dstatus \<Rightarrow> string" where
  "dstatus_str D_draft = ''draft''"
| "dstatus_str D_assigned = ''assigned''"
| "dstatus_str D_workspace_ready = ''workspace_ready''"
| "dstatus_str D_executor_working = ''executor_working''"
| "dstatus_str D_executor_blocked = ''executor_blocked''"
| "dstatus_str D_executor_done = ''executor_done''"
| "dstatus_str D_reviewing = ''reviewing''"
| "dstatus_str D_revision_requested = ''revision_requested''"
| "dstatus_str D_accepted = ''accepted''"
| "dstatus_str D_promoting = ''promoting''"
| "dstatus_str D_promoted = ''promoted''"
| "dstatus_str D_promotion_failed = ''promotion_failed''"
| "dstatus_str D_rejected = ''rejected''"
| "dstatus_str D_cancelled = ''cancelled''"
| "dstatus_str D_failed = ''failed''"

definition all_dstatus :: "dstatus list" where
  "all_dstatus = [D_draft, D_assigned, D_workspace_ready, D_executor_working, D_executor_blocked,
     D_executor_done, D_reviewing, D_revision_requested, D_accepted, D_promoting, D_promoted,
     D_promotion_failed, D_rejected, D_cancelled, D_failed]"

lemma all_dstatus_complete: "s \<in> set all_dstatus"
  by (cases s) (simp_all add: all_dstatus_def)

lemma dstatus_str_inj: "dstatus_str a = dstatus_str b \<longleftrightarrow> a = b"
  by (cases a; cases b) simp_all

datatype workspace_status = WS_ready | WS_removed

datatype enforcement = E_manual_unverified | E_canto_observed

datatype harness = H_manual | H_codex_cli | H_claude_cli | H_gemini_cli | H_api_worker

datatype launch_mode = LM_manual | LM_canto

datatype session_status = SS_prepared | SS_running | SS_blocked | SS_completed | SS_failed

datatype outcome = O_completed_work | O_advisory | O_no_work | O_failed

datatype sender = Sender_orchestrator | Sender_executor

datatype message_kind = Mk_assignment | Mk_progress | Mk_blocker | Mk_revision | Mk_done

datatype review_decision = Rv_revision_requested | Rv_accepted | Rv_rejected

datatype promote_decision = Pd_promote | Pd_cancel

datatype promotion_status = Ps_promoted | Ps_promotion_failed

datatype command_source = Src_executor_reported | Src_canto_observed

datatype command_status = Cs_reported | Cs_passed | Cs_failed | Cs_waived

datatype queue_status = Q_pending | Q_blocked | Q_promoted | Q_failed

datatype attention = At_working | At_review | At_blocked | At_ready | At_terminal

datatype blocker_code =
    B_queue_overlap
  | B_stale_base
  | B_dirty_worktree
  | B_artifact_checksum
  | B_workspace_changed
  | B_promotion_failure

section \<open>Tasks\<close>

record repo_identity =
  ri_repo_id :: "string option"
  ri_canonical_path :: string
  ri_git_common_dir :: "string option"
  ri_initial_head :: "string option"
  ri_remotes :: "(string, string) dict"

record dscope =
  sc_allowed_paths :: "string list"
  sc_denied_paths :: "string list"
  sc_allowed_commands :: "string list"
  sc_required_commands :: "string list"
  sc_allow_network :: bool
  sc_allow_secrets :: bool

record dtask =
  dt_task_id :: string
  dt_title :: string
  dt_status :: dstatus
  dt_repository :: repo_identity
  dt_scope :: dscope
  dt_instructions :: string
  dt_comparison_id :: "string option"
  dt_variant_name :: "string option"
  dt_prompt_supplement :: "string option"
  dt_created_by :: string
  dt_executor_id :: "string option"
  dt_workspace_id :: "string option"
  dt_latest_result_revision :: int
  dt_accepted_result_revision :: "int option"
  dt_worker_priority :: priority
  dt_worker_policy :: "selection_policy option"
  dt_selection_decision_id :: "string option"
  dt_selected_model_key :: "string option"
  dt_created_at :: string
  dt_updated_at :: string

record dworkspace =
  ws_workspace_id :: string
  ws_task_id :: string
  ws_path :: string
  ws_branch :: string
  ws_base_commit :: string
  ws_repository :: repo_identity
  ws_allowed_paths :: "string list"
  ws_denied_paths :: "string list"
  ws_status :: workspace_status
  ws_created_at :: string
  ws_removed_at :: "string option"

section \<open>Executors\<close>

record permissions =
  pm_allow_network :: bool
  pm_allow_secrets :: bool
  pm_command_enforcement :: enforcement

record profile =
  xp_executor_id :: string
  xp_name :: string
  xp_harness :: harness
  xp_executable :: "string option"
  xp_configuration :: jobj
  xp_model_provider :: "string option"
  xp_model :: "string option"
  xp_launch_mode :: launch_mode
  xp_permissions :: permissions
  xp_created_at :: string
  xp_updated_at :: string

record session =
  se_session_id :: string
  se_task_id :: string
  se_executor_id :: string
  se_status :: session_status
  se_enforcement :: enforcement
  se_started_at :: "string option"
  se_ended_at :: "string option"

record launch =
  la_launch_id :: string
  la_task_id :: string
  la_session_id :: string
  la_executor_id :: string
  la_argv :: "string list"
  la_cwd :: string
  la_prompt_path :: string
  la_stdout_path :: string
  la_stderr_path :: string
  la_prompt_variant :: "string option"
  la_prompt_supplement :: "string option"
  la_token_usage :: "(string, int) dict option"
  la_workspace_changed :: "bool option"
  la_outcome :: "outcome option"
  la_outcome_detail :: "string option"
  la_exit_code :: "int option"
  la_timed_out :: bool
  la_started_at :: string
  la_ended_at :: "string option"

record message =
  ms_message_id :: string
  ms_task_id :: string
  ms_sender :: sender
  ms_kind :: message_kind
  ms_body :: string
  ms_created_at :: string

section \<open>Results, reviews and promotions\<close>

record artifact =
  ar_name :: string
  ar_relative_path :: string
  ar_sha256 :: string
  ar_size :: nat

record result_rec =
  rs_result_id :: string
  rs_task_id :: string
  rs_revision :: int
  rs_base_commit :: string
  rs_workspace_patch_sha256 :: string
  rs_artifacts :: "artifact list"
  rs_executor_summary :: string
  rs_producing_session_id :: "string option"
  rs_producing_launch_id :: "string option"
  rs_prompt_variant :: "string option"
  rs_created_at :: string

record review =
  rw_review_id :: string
  rw_task_id :: string
  rw_result_revision :: int
  rw_decision :: review_decision
  rw_reviewer :: string
  rw_note :: string
  rw_created_at :: string

record decision =
  dc_decision_id :: string
  dc_task_id :: string
  dc_result_revision :: int
  dc_decision :: promote_decision
  dc_decided_by :: string
  dc_note :: string
  dc_created_at :: string

record promotion =
  po_promotion_id :: string
  po_task_id :: string
  po_result_revision :: int
  po_status :: promotion_status
  po_changed_files :: "string list"
  po_repository_head :: string
  po_rollback_attempted :: bool
  po_rollback_succeeded :: "bool option"
  po_error :: "string option"
  po_created_at :: string

record command_rec =
  cm_record_id :: string
  cm_task_id :: string
  cm_command :: string
  cm_argv :: "string list"
  cm_cwd :: string
  cm_source :: command_source
  cm_status :: command_status
  cm_exit_code :: "int option"
  cm_stdout_path :: "string option"
  cm_stderr_path :: "string option"
  cm_waiver_reason :: "string option"
  cm_created_at :: string

record devent =
  de_event_id :: string
  de_task_id :: string
  de_event_type :: string
  de_status :: dstatus
  de_details :: jobj
  de_created_at :: string

record queue_entry =
  qe_queue_id :: string
  qe_task_id :: string
  qe_result_revision :: int
  qe_base_commit :: string
  qe_changed_files :: "string list"
  qe_status :: queue_status
  qe_blockers :: "string list"
  qe_enqueued_by :: string
  qe_created_at :: string

section \<open>Views\<close>

record pool_entry =
  pe_executor_id :: string
  pe_harness :: harness
  pe_available :: bool
  pe_availability_detail :: string
  pe_active_tasks :: nat
  pe_task_ids :: "string list"

record task_status_view =
  tv_task_id :: string
  tv_title :: string
  tv_status :: dstatus
  tv_executor_id :: "string option"
  tv_workspace_id :: "string option"
  tv_latest_result_revision :: int
  tv_updated_at :: string

record dashboard_task =
  db_task_id :: string
  db_title :: string
  db_status :: dstatus
  db_attention :: attention
  db_executor_id :: "string option"
  db_harness :: "harness option"
  db_repository :: string
  db_latest_result_revision :: int
  db_accepted_result_revision :: "int option"
  db_worker_outcome :: "outcome option"
  db_next_action :: string
  db_updated_at :: string

record blocker =
  bk_code :: blocker_code
  bk_message :: string
  bk_repository :: string
  bk_task_id :: string
  bk_result_revision :: "int option"
  bk_conflicting_task_id :: "string option"
  bk_overlapping_paths :: "string list"
  bk_expected_base :: "string option"
  bk_actual_head :: "string option"
  bk_rollback_attempted :: bool
  bk_rollback_succeeded :: "bool option"
  bk_safe_actions :: "string list"

section \<open>The records appended to a task\<close>

text \<open>
  \<open>append_record\<close> stores a record under a type name. The source passes the name and the
  record together at every call; \<open>rtype\<close> lists the names it uses, and \<open>drec\<close> is the
  stored value.
\<close>

datatype rtype =
    T_workspaces
  | T_workspace_lifecycle
  | T_sessions
  | T_launches
  | T_messages
  | T_commands
  | T_results
  | T_reviews
  | T_promotion_decisions
  | T_promotion_queue
  | T_promotions
  | T_worker_usage

datatype drec =
    RWorkspace dworkspace
  | RSession session
  | RLaunch launch
  | RMessage message
  | RCommand command_rec
  | RResult result_rec
  | RReview review
  | RDecision decision
  | RQueue queue_entry
  | RPromotion promotion
  | RUsage usage_rec

text \<open>The first field of the dump whose name ends in \<open>_id\<close> and is not \<open>task_id\<close>\<close>

primrec record_id_of :: "drec \<Rightarrow> string" where
  "record_id_of (RWorkspace w) = ws_workspace_id w"
| "record_id_of (RSession s) = se_session_id s"
| "record_id_of (RLaunch l) = la_launch_id l"
| "record_id_of (RMessage m) = ms_message_id m"
| "record_id_of (RCommand c) = cm_record_id c"
| "record_id_of (RResult r) = rs_result_id r"
| "record_id_of (RReview r) = rw_review_id r"
| "record_id_of (RDecision d) = dc_decision_id d"
| "record_id_of (RQueue q) = qe_queue_id q"
| "record_id_of (RPromotion p) = po_promotion_id p"
| "record_id_of (RUsage u) = us_usage_id u"

text \<open>Reading the records of one type back at their type\<close>

primrec as_workspace :: "drec \<Rightarrow> dworkspace option" where
  "as_workspace (RWorkspace w) = Some w"
| "as_workspace (RSession s) = None"
| "as_workspace (RLaunch l) = None"
| "as_workspace (RMessage m) = None"
| "as_workspace (RCommand c) = None"
| "as_workspace (RResult r) = None"
| "as_workspace (RReview r) = None"
| "as_workspace (RDecision d) = None"
| "as_workspace (RQueue q) = None"
| "as_workspace (RPromotion p) = None"
| "as_workspace (RUsage u) = None"

definition workspaces_of :: "drec list \<Rightarrow> dworkspace list" where
  "workspaces_of = List.map_filter as_workspace"

definition launches_of :: "drec list \<Rightarrow> launch list" where
  "launches_of = List.map_filter (\<lambda>r. case r of RLaunch l \<Rightarrow> Some l | _ \<Rightarrow> None)"

definition sessions_of :: "drec list \<Rightarrow> session list" where
  "sessions_of = List.map_filter (\<lambda>r. case r of RSession l \<Rightarrow> Some l | _ \<Rightarrow> None)"

definition messages_of :: "drec list \<Rightarrow> message list" where
  "messages_of = List.map_filter (\<lambda>r. case r of RMessage m \<Rightarrow> Some m | _ \<Rightarrow> None)"

definition commands_of :: "drec list \<Rightarrow> command_rec list" where
  "commands_of = List.map_filter (\<lambda>r. case r of RCommand c \<Rightarrow> Some c | _ \<Rightarrow> None)"

definition results_of :: "drec list \<Rightarrow> result_rec list" where
  "results_of = List.map_filter (\<lambda>r. case r of RResult x \<Rightarrow> Some x | _ \<Rightarrow> None)"

definition reviews_of :: "drec list \<Rightarrow> review list" where
  "reviews_of = List.map_filter (\<lambda>r. case r of RReview x \<Rightarrow> Some x | _ \<Rightarrow> None)"

definition decisions_of :: "drec list \<Rightarrow> decision list" where
  "decisions_of = List.map_filter (\<lambda>r. case r of RDecision x \<Rightarrow> Some x | _ \<Rightarrow> None)"

definition queue_of :: "drec list \<Rightarrow> queue_entry list" where
  "queue_of = List.map_filter (\<lambda>r. case r of RQueue q \<Rightarrow> Some q | _ \<Rightarrow> None)"

definition promotions_of :: "drec list \<Rightarrow> promotion list" where
  "promotions_of = List.map_filter (\<lambda>r. case r of RPromotion p \<Rightarrow> Some p | _ \<Rightarrow> None)"

definition usage_of :: "drec list \<Rightarrow> usage_rec list" where
  "usage_of = List.map_filter (\<lambda>r. case r of RUsage p \<Rightarrow> Some p | _ \<Rightarrow> None)"

lemma map_filter_single: "List.map_filter f [x] = (case f x of None \<Rightarrow> [] | Some y \<Rightarrow> [y])"
  by (simp add: List.map_filter_def split: option.split)

lemmas records_of_defs = workspaces_of_def launches_of_def sessions_of_def messages_of_def
  commands_of_def results_of_def reviews_of_def decisions_of_def queue_of_def promotions_of_def
  usage_of_def map_filter_single

text \<open>Whether a stored value is of the kind that its type name announces\<close>

primrec rtype_ok :: "rtype \<Rightarrow> drec \<Rightarrow> bool" where
  "rtype_ok T_workspaces r = (case r of RWorkspace _ \<Rightarrow> True | _ \<Rightarrow> False)"
| "rtype_ok T_workspace_lifecycle r = (case r of RWorkspace _ \<Rightarrow> True | _ \<Rightarrow> False)"
| "rtype_ok T_sessions r = (case r of RSession _ \<Rightarrow> True | _ \<Rightarrow> False)"
| "rtype_ok T_launches r = (case r of RLaunch _ \<Rightarrow> True | _ \<Rightarrow> False)"
| "rtype_ok T_messages r = (case r of RMessage _ \<Rightarrow> True | _ \<Rightarrow> False)"
| "rtype_ok T_commands r = (case r of RCommand _ \<Rightarrow> True | _ \<Rightarrow> False)"
| "rtype_ok T_results r = (case r of RResult _ \<Rightarrow> True | _ \<Rightarrow> False)"
| "rtype_ok T_reviews r = (case r of RReview _ \<Rightarrow> True | _ \<Rightarrow> False)"
| "rtype_ok T_promotion_decisions r = (case r of RDecision _ \<Rightarrow> True | _ \<Rightarrow> False)"
| "rtype_ok T_promotion_queue r = (case r of RQueue _ \<Rightarrow> True | _ \<Rightarrow> False)"
| "rtype_ok T_promotions r = (case r of RPromotion _ \<Rightarrow> True | _ \<Rightarrow> False)"
| "rtype_ok T_worker_usage r = (case r of RUsage _ \<Rightarrow> True | _ \<Rightarrow> False)"

end
