(* ===== verification/Models_Core.thy ===== *)
theory Models_Core
  imports Models_Delegation
begin

text \<open>
  The records of \<open>canto/models/schemas.py\<close> (policies, jobs, approvals) and of
  \<open>canto/models/memory.py\<close> (memory items with their scope validator, events, projects,
  recall results, context packs and the activation policy).
\<close>

section \<open>Jobs and approvals\<close>

datatype policy_mode = Mode_dry_run | Mode_live

record policy_rec =
  py_mode :: policy_mode
  py_allow_network :: bool
  py_allow_filesystem_write :: bool
  py_allow_destructive :: bool
  py_approved_domains :: "string list"

definition default_policy_rec :: policy_rec where
  "default_policy_rec = \<lparr>py_mode = Mode_dry_run, py_allow_network = False,
     py_allow_filesystem_write = True, py_allow_destructive = False, py_approved_domains = []\<rparr>"

record job_request =
  jr_skill :: string
  jr_provider :: string
  jr_goal :: string
  jr_inputs :: jobj
  jr_policy :: policy_rec
  jr_requested_by :: string
  jr_approval_id :: "string option"

datatype job_status =
    J_queued
  | J_checking_dependencies
  | J_waiting_for_dependency
  | J_waiting_for_approval
  | J_running
  | J_completed
  | J_failed
  | J_cancelled
  | J_rejected

record job_rec =
  jb_job_id :: string
  jb_status :: job_status
  jb_created_at :: string
  jb_updated_at :: string
  jb_requested_by :: string
  jb_skill :: string
  jb_provider :: string
  jb_goal :: string
  jb_inputs :: jobj
  jb_policy :: policy_rec
  jb_artifact_dir :: string
  jb_result :: "jobj option"
  jb_error :: "jobj option"
  jb_requires_approval :: bool
  jb_approval_id :: "string option"
  jb_promotion :: "jobj option"
  jb_recovery :: "jobj option"

datatype subject_kind = Sk_job | Sk_plan | Sk_memory

datatype approval_status = Ap_pending | Ap_approved | Ap_rejected

record approval_rec =
  ap_approval_id :: string
  ap_subject_kind :: "subject_kind option"
  ap_subject_id :: "string option"
  ap_job_id :: "string option"
  ap_plan_id :: "string option"
  ap_step_capability :: "string option"
  ap_skill :: "string option"
  ap_provider :: "string option"
  ap_reason :: string
  ap_risk_level :: int
  ap_status :: approval_status
  ap_created_at :: string
  ap_updated_at :: string
  ap_decided_by :: "string option"
  ap_note :: string
  ap_promotion :: "jobj option"
  ap_recovery :: "jobj option"

section \<open>Memory\<close>

datatype mstatus =
    M_observed
  | M_proposed
  | M_active
  | M_superseded
  | M_expired
  | M_rejected
  | M_deleted

datatype mtype =
    MT_terminology
  | MT_decision
  | MT_preference
  | MT_constraint
  | MT_fact
  | MT_observation
  | MT_outcome
  | MT_known_trap
  | MT_open_question
  | MT_summary
  | MT_source_pointer

datatype mconfidence = Mc_verified | Mc_supported | Mc_derived | Mc_observed | Mc_uncertain

datatype actor_kind = Ak_developer | Ak_worker | Ak_system

record source_ref =
  sr_kind :: string
  sr_ref :: string
  sr_freshness :: "string option"
  sr_resolved :: bool

record mitem =
  mi_memory_id :: string
  mi_scope :: string
  mi_type :: mtype
  mi_status :: mstatus
  mi_title :: string
  mi_body :: string
  mi_confidence :: mconfidence
  mi_source :: source_ref
  mi_author_kind :: actor_kind
  mi_author_id :: string
  mi_aliases :: "string list"
  mi_tags :: "string list"
  mi_approval_id :: "string option"
  mi_repo_id :: "string option"
  mi_project_id :: "string option"
  mi_low_value :: bool
  mi_created_at :: string
  mi_reviewed_at :: "string option"
  mi_expires_at :: "string option"
  mi_superseded_by :: "string option"
  mi_deleted_at :: "string option"

datatype scope_error =
    Repo_scope_mismatch
  | Project_scope_mismatch
  | Global_not_terminology
  | Unsupported_scope string

text \<open>The after-validator of \<open>MemoryItem\<close>\<close>

definition validate_scope_identity :: "mitem \<Rightarrow> scope_error + mitem" where
  "validate_scope_identity m =
     (let s = mi_scope m in
      if startswith s ''repo:'' \<and> mi_repo_id m \<noteq> Some (removeprefix ''repo:'' s)
      then Inl Repo_scope_mismatch
      else if startswith s ''project:'' \<and> mi_project_id m \<noteq> Some (removeprefix ''project:'' s)
      then Inl Project_scope_mismatch
      else if s = ''global:terminology'' \<and> mi_type m \<noteq> MT_terminology
      then Inl Global_not_terminology
      else if \<not> (s = ''global:terminology'' \<or> startswith s ''repo:'' \<or>
                 startswith s ''project:'' \<or> startswith s ''job:'' \<or> startswith s ''plan:'' \<or>
                 startswith s ''delegation:'' \<or> startswith s ''session:'')
      then Inl (Unsupported_scope s)
      else Inr m)"

record mevent =
  me_event_id :: string
  me_memory_id :: string
  me_event_type :: string
  me_actor_kind :: actor_kind
  me_actor_id :: string
  me_payload :: jobj
  me_created_at :: string

record mproject =
  mp_project_id :: string
  mp_label :: string
  mp_created_by :: string
  mp_repository_ids :: "string list"
  mp_created_at :: string
  mp_updated_at :: string

record recall_result =
  rr_items :: "mitem list"
  rr_estimated_tokens :: nat
  rr_truncated :: bool

datatype pack_profile = Pk_startup | Pk_resolve_reference | Pk_review | Pk_planning

record context_pack =
  ck_profile :: pack_profile
  ck_scopes :: "string list"
  ck_sections :: "(string, mitem list) dict"
  ck_estimated_tokens :: nat

datatype activation_mode = Am_bounded_orchestrator | Am_developer_only

record activation_policy =
  av_mode :: activation_mode
  av_orchestrator_id :: string
  av_auto_activate_types :: "mtype list"
  av_auto_activate_scopes :: "string list"
  av_require_governed_source :: bool
  av_require_no_conflicts :: bool
  av_require_distinct_proposer_and_approver :: bool
  av_allow_non_conflicting_aliases :: bool
  av_max_auto_activations_per_task :: int
  av_max_auto_activations_per_day :: int

definition default_activation_policy :: activation_policy where
  "default_activation_policy = \<lparr>av_mode = Am_bounded_orchestrator, av_orchestrator_id = ''local'',
     av_auto_activate_types = [MT_outcome, MT_source_pointer],
     av_auto_activate_scopes = [''repo'', ''project''], av_require_governed_source = True,
     av_require_no_conflicts = True, av_require_distinct_proposer_and_approver = True,
     av_allow_non_conflicting_aliases = True, av_max_auto_activations_per_task = 5,
     av_max_auto_activations_per_day = 25\<rparr>"

end
