(* ===== verification/Interfaces.thy ===== *)
theory Interfaces
  imports Prelude
begin

text \<open>
  The contracts that the services of the program rely on when they talk to a state store, as
  locales: a table of values with a status and a compare-and-set on it, a table of plain
  values, and an append-only log. The three stores of \<open>canto/core/state.py\<close> interpret
  them. The lemmas of the locales are the facts the services use: what a read returns after a
  sequence of writes, and that of two racing compare-and-sets at most one wins.
\<close>

section \<open>Tables\<close>

text \<open>\<open>inv\<close> is the representation invariant; \<open>get\<close> after \<open>put\<close> determines a table\<close>

locale table =
  fixes inv :: "'t \<Rightarrow> bool"
    and get :: "'k :: linorder \<Rightarrow> 't \<Rightarrow> 'v option"
    and put :: "'k \<Rightarrow> 'v \<Rightarrow> 't \<Rightarrow> 't"
  assumes put_inv: "inv t \<Longrightarrow> inv (put k v t)"
    and get_put: "inv t \<Longrightarrow> get k' (put k v t) = (if k' = k then Some v else get k' t)"
begin

lemma get_put_same [simp]: "inv t \<Longrightarrow> get k (put k v t) = Some v"
  by (simp add: get_put)

lemma get_put_other [simp]: "inv t \<Longrightarrow> k' \<noteq> k \<Longrightarrow> get k' (put k v t) = get k' t"
  by (simp add: get_put)

lemma put_put_get: "inv t \<Longrightarrow> get k' (put k w (put k v t)) = get k' (put k w t)"
  by (simp add: get_put put_inv)

definition puts :: "('k \<times> 'v) list \<Rightarrow> 't \<Rightarrow> 't" where
  "puts kvs t = foldl (\<lambda>u (k, v). put k v u) t kvs"

lemma puts_inv: "inv t \<Longrightarrow> inv (puts kvs t)"
  unfolding puts_def by (induction kvs arbitrary: t) (auto simp: put_inv)

text \<open>A read returns the last write of its key\<close>

lemma get_puts:
  "inv t \<Longrightarrow> get k (puts kvs t) =
     (case map_of (rev kvs) k of None \<Rightarrow> get k t | Some v \<Rightarrow> Some v)"
  unfolding puts_def
proof (induction kvs arbitrary: t)
  case (Cons kv kvs)
  obtain a b where kv: "kv = (a, b)" by (cases kv)
  show ?case using Cons by (auto simp: kv put_inv get_put map_add_def split: option.splits)
qed simp

end

text \<open>A table that can be listed in the order of its keys\<close>

locale listed_table = table inv get put
  for inv :: "'t \<Rightarrow> bool"
    and get :: "'k :: linorder \<Rightarrow> 't \<Rightarrow> 'v option"
    and put :: "'k \<Rightarrow> 'v \<Rightarrow> 't \<Rightarrow> 't" +
  fixes listing :: "'t \<Rightarrow> 'v list"
  assumes finite_keys: "inv t \<Longrightarrow> finite {k. get k t \<noteq> None}"
    and listing_get:
      "inv t \<Longrightarrow> listing t = map (\<lambda>k. the (get k t)) (sorted_list_of_set {k. get k t \<noteq> None})"
begin

lemma listing_set: "inv t \<Longrightarrow> v \<in> set (listing t) \<longleftrightarrow> (\<exists>k. get k t = Some v)"
proof -
  assume i: "inv t"
  then have "set (sorted_list_of_set {k. get k t \<noteq> None}) = {k. get k t \<noteq> None}"
    using finite_keys by simp
  then show ?thesis unfolding listing_get [OF i] set_map by force
qed

lemma listing_length: "inv t \<Longrightarrow> length (listing t) = card {k. get k t \<noteq> None}"
  by (simp add: listing_get finite_keys)

lemma listing_cong:
  "inv t \<Longrightarrow> inv u \<Longrightarrow> (\<And>k. get k t = get k u) \<Longrightarrow> listing t = listing u"
  by (simp add: listing_get)

end

section \<open>Compare-and-set\<close>

text \<open>
  \<open>cas k E v t\<close> writes \<open>v\<close> when the value stored under \<open>k\<close> has a status in
  \<open>E\<close>, and otherwise leaves the table as it is.
\<close>

locale cas_table = table inv get put
  for inv :: "'t \<Rightarrow> bool"
    and get :: "'k :: linorder \<Rightarrow> 't \<Rightarrow> 'v option"
    and put :: "'k \<Rightarrow> 'v \<Rightarrow> 't \<Rightarrow> 't" +
  fixes status :: "'v \<Rightarrow> 's"
    and cas :: "'k \<Rightarrow> 's list \<Rightarrow> 'v \<Rightarrow> 't \<Rightarrow> bool \<times> 't"
  assumes cas_result:
      "inv t \<Longrightarrow> fst (cas k E v t) \<longleftrightarrow> (\<exists>u. get k t = Some u \<and> status u \<in> set E)"
    and cas_get:
      "inv t \<Longrightarrow> get k' (snd (cas k E v t)) =
         (if fst (cas k E v t) \<and> k' = k then Some v else get k' t)"
    and cas_inv: "inv t \<Longrightarrow> inv (snd (cas k E v t))"
begin

lemma cas_missing: "inv t \<Longrightarrow> get k t = None \<Longrightarrow> \<not> fst (cas k E v t)"
  by (simp add: cas_result)

lemma cas_empty: "inv t \<Longrightarrow> \<not> fst (cas k [] v t)"
  by (simp add: cas_result)

lemma cas_refused: "inv t \<Longrightarrow> \<not> fst (cas k E v t) \<Longrightarrow> get k' (snd (cas k E v t)) = get k' t"
  by (simp add: cas_get)

lemma cas_other: "inv t \<Longrightarrow> k' \<noteq> k \<Longrightarrow> get k' (snd (cas k E v t)) = get k' t"
  by (simp add: cas_get)

text \<open>Of two writers that both expect \<open>E\<close> and both leave \<open>E\<close>, only the first wins\<close>

lemma cas_race:
  assumes "inv t" and "fst (cas k E v t)" and "status v \<notin> set E"
  shows "\<not> fst (cas k E w (snd (cas k E v t)))"
    and "get k (snd (cas k E w (snd (cas k E v t)))) = Some v"
proof -
  have got: "get k (snd (cas k E v t)) = Some v" and i: "inv (snd (cas k E v t))"
    using assms by (simp_all add: cas_get cas_inv)
  show lost: "\<not> fst (cas k E w (snd (cas k E v t)))"
    using assms(3) by (simp add: cas_result [OF i] got)
  show "get k (snd (cas k E w (snd (cas k E v t)))) = Some v"
    using cas_get [OF i] lost got by simp
qed

definition cas_all :: "'k \<Rightarrow> 's list \<Rightarrow> 'v list \<Rightarrow> 't \<Rightarrow> bool list \<times> 't" where
  "cas_all k E vs t =
     foldl (\<lambda>(bs, u) v. let (b, u') = cas k E v u in (bs @ [b], u')) ([], t) vs"

lemma cas_all_snoc:
  "cas_all k E (vs @ [v]) t =
     (let (bs, u) = cas_all k E vs t; (b, u') = cas k E v u in (bs @ [b], u'))"
  by (simp add: cas_all_def case_prod_unfold Let_def)

text \<open>Of any number of such writers at most one wins, and its value is what the table holds\<close>

lemma cas_at_most_one:
  assumes "inv t" and "\<And>v. v \<in> set vs \<Longrightarrow> status v \<notin> set E"
  shows "inv (snd (cas_all k E vs t)) \<and>
    (length (filter (\<lambda>b. b) (fst (cas_all k E vs t))) = 0 \<and>
       get k (snd (cas_all k E vs t)) = get k t \<or>
     length (filter (\<lambda>b. b) (fst (cas_all k E vs t))) = 1 \<and>
       (\<exists>v\<in>set vs. get k (snd (cas_all k E vs t)) = Some v))"
  using assms(2)
proof (induction vs rule: rev_induct)
  case Nil
  then show ?case using assms(1) by (simp add: cas_all_def)
next
  case (snoc v vs)
  obtain bs u where bu: "cas_all k E vs t = (bs, u)" by fastforce
  obtain b u' where c: "cas k E v u = (b, u')" by fastforce
  have i: "inv u" using snoc by (simp add: bu)
  have r: "b \<longleftrightarrow> (\<exists>w. get k u = Some w \<and> status w \<in> set E)" and
    g: "get k u' = (if b then Some v else get k u)" and i': "inv u'"
    using cas_result [OF i, of k E v] cas_get [OF i, of k k E v] cas_inv [OF i, of k E v]
    by (simp_all add: c)
  have "length (filter (\<lambda>b. b) bs) = 0 \<and> get k u = get k t \<or>
      length (filter (\<lambda>b. b) bs) = 1 \<and> (\<exists>v\<in>set vs. get k u = Some v)"
    using snoc by (simp add: bu)
  then show ?case using i' r g snoc.prems
    by (auto simp: cas_all_snoc bu c)
qed

end

section \<open>Append-only logs\<close>

locale append_log =
  fixes inv :: "'t \<Rightarrow> bool"
    and append :: "'k \<Rightarrow> 'v \<Rightarrow> 't \<Rightarrow> 't"
    and read :: "'k \<Rightarrow> 't \<Rightarrow> 'v list"
  assumes append_inv: "inv t \<Longrightarrow> inv (append k v t)"
    and read_append:
      "inv t \<Longrightarrow> read k' (append k v t) = (if k' = k then read k t @ [v] else read k' t)"
begin

definition appends :: "('k \<times> 'v) list \<Rightarrow> 't \<Rightarrow> 't" where
  "appends kvs t = foldl (\<lambda>u (k, v). append k v u) t kvs"

lemma read_append_prefix: "inv t \<Longrightarrow> \<exists>ys. read k' (append k v t) = read k' t @ ys"
  by (simp add: read_append)

text \<open>A reader sees the entries of its key in the order they were appended\<close>

lemma read_appends:
  "inv t \<Longrightarrow> read k (appends kvs t) = read k t @ map snd (filter (\<lambda>kv. fst kv = k) kvs)"
  unfolding appends_def
proof (induction kvs arbitrary: t)
  case (Cons kv kvs)
  obtain a b where kv: "kv = (a, b)" by (cases kv)
  show ?case using Cons.IH [of "append a b t"] Cons.prems
    by (simp add: kv append_inv read_append)
qed simp

end

section \<open>Two tables with one contract\<close>

text \<open>
  The abstract specification of a store table is the finite map it represents; two tables
  that satisfy the contract and represent the same map return the same results after any
  sequence of operations.
\<close>

datatype ('k, 's, 'v) table_op = Put 'k 'v | Cas 'k "'s list" 'v

locale two_tables =
  A: cas_table inv1 get1 put1 status cas1 + B: cas_table inv2 get2 put2 status cas2
  for inv1 :: "'t \<Rightarrow> bool" and get1 :: "'k :: linorder \<Rightarrow> 't \<Rightarrow> 'v option"
    and put1 :: "'k \<Rightarrow> 'v \<Rightarrow> 't \<Rightarrow> 't" and status :: "'v \<Rightarrow> 's"
    and cas1 :: "'k \<Rightarrow> 's list \<Rightarrow> 'v \<Rightarrow> 't \<Rightarrow> bool \<times> 't"
    and inv2 :: "'u \<Rightarrow> bool" and get2 :: "'k \<Rightarrow> 'u \<Rightarrow> 'v option"
    and put2 :: "'k \<Rightarrow> 'v \<Rightarrow> 'u \<Rightarrow> 'u"
    and cas2 :: "'k \<Rightarrow> 's list \<Rightarrow> 'v \<Rightarrow> 'u \<Rightarrow> bool \<times> 'u"
begin

definition sim :: "'t \<Rightarrow> 'u \<Rightarrow> bool" where
  "sim t u \<longleftrightarrow> inv1 t \<and> inv2 u \<and> (\<forall>k. get1 k t = get2 k u)"

lemma sim_put: "sim t u \<Longrightarrow> sim (put1 k v t) (put2 k v u)"
  by (auto simp: sim_def A.put_inv B.put_inv A.get_put B.get_put)

lemma sim_cas:
  assumes "sim t u"
  shows "fst (cas1 k E v t) = fst (cas2 k E v u)"
    and "sim (snd (cas1 k E v t)) (snd (cas2 k E v u))"
  using assms
  by (auto simp: sim_def A.cas_result B.cas_result A.cas_inv B.cas_inv A.cas_get B.cas_get)

definition step1 :: "('k, 's, 'v) table_op \<Rightarrow> 't \<Rightarrow> bool \<times> 't" where
  "step1 oper t = (case oper of Put k v \<Rightarrow> (True, put1 k v t) | Cas k E v \<Rightarrow> cas1 k E v t)"

definition step2 :: "('k, 's, 'v) table_op \<Rightarrow> 'u \<Rightarrow> bool \<times> 'u" where
  "step2 oper u = (case oper of Put k v \<Rightarrow> (True, put2 k v u) | Cas k E v \<Rightarrow> cas2 k E v u)"

lemma sim_step:
  "sim t u \<Longrightarrow> fst (step1 oper t) = fst (step2 oper u) \<and> sim (snd (step1 oper t)) (snd (step2 oper u))"
  by (auto simp: step1_def step2_def sim_put sim_cas split: table_op.split)

end

text \<open>Running a sequence of operations, collecting the results\<close>

primrec run_ops :: "('o \<Rightarrow> 't \<Rightarrow> 'r \<times> 't) \<Rightarrow> 'o list \<Rightarrow> 't \<Rightarrow> 'r list \<times> 't" where
  "run_ops step [] t = ([], t)"
| "run_ops step (oper # ops) t =
     (let (r, u) = step oper t; (rs, w) = run_ops step ops u in (r # rs, w))"

lemma run_ops_sim:
  assumes "\<And>oper t u. R t u \<Longrightarrow> fst (f oper t) = fst (g oper u) \<and> R (snd (f oper t)) (snd (g oper u))"
  shows "R t u \<Longrightarrow> fst (run_ops f ops t) = fst (run_ops g ops u) \<and>
    R (snd (run_ops f ops t)) (snd (run_ops g ops u))"
proof (induction ops arbitrary: t u)
  case (Cons oper ops)
  from assms [OF Cons.prems] have "fst (f oper t) = fst (g oper u)" and
    "R (snd (f oper t)) (snd (g oper u))" by auto
  with Cons.IH [of "snd (f oper t)" "snd (g oper u)"] show ?case
    by (simp add: case_prod_unfold Let_def)
qed simp

context two_tables
begin

lemma observationally_equal:
  assumes "sim t u"
  shows "fst (run_ops step1 ops t) = fst (run_ops step2 ops u)"
    and "sim (snd (run_ops step1 ops t)) (snd (run_ops step2 ops u))"
  using run_ops_sim [where R = sim and f = step1 and g = step2, OF sim_step assms, of ops] by auto

end

end
