(* ===== verification/Store.thy ===== *)
theory Store
  imports Models_Core Interfaces "HOL-Library.Product_Lexorder"
begin

text \<open>
  \<open>MemoryStateStore\<close> of \<open>canto/core/state.py\<close>: one dict per table, one method per
  operation. The methods hold the store's lock, so each is one atomic step. The copies made
  by \<open>json.loads(json.dumps(value))\<close> are the values themselves here, since HOL values
  have no identity. The state-store contracts are interpreted on these operations.
\<close>

declare map_of_eq_Some_iff [simp del]

section \<open>State\<close>

datatype idem_status = Id_running | Id_failed | Id_completed

record idem_rec =
  id_status :: idem_status
  id_job_id :: string
  id_change_set_checksum :: string

datatype ai_rec =
    AEndpoint endpoint_rec
  | AModel model_rec
  | ASnapshot catalog_snapshot
  | AReconciliation reconciliation_rec
  | AMetadata metadata_rec
  | AProbe probe_result
  | ASelection selection_decision
  | AUsage usage_rec
  | AHealth health_rec

record mem_store =
  st_jobs :: "(string, job_rec) dict"
  st_events :: "(string, jobj list) dict"
  st_artifacts :: "(string, jobj list) dict"
  st_approvals :: "(string, approval_rec) dict"
  st_registry :: jobj
  st_plans :: "(string, jobj) dict"
  st_idempotency :: "(string, idem_rec) dict"
  st_delegation_tasks :: "(string, dtask) dict"
  st_delegation_events :: "(string, devent list) dict"
  st_executor_profiles :: "(string, profile) dict"
  st_delegation_records :: "(string \<times> rtype, drec list) dict"
  st_delegation_record_ids :: "(string \<times> rtype \<times> string) list"
  st_ai_records :: "(string \<times> string, ai_rec) dict"
  st_memory_items :: "(string, mitem) dict"
  st_memory_events :: "mevent list"
  st_memory_projects :: "(string, mproject) dict"

definition empty_store :: mem_store where
  "empty_store = \<lparr>st_jobs = [], st_events = [], st_artifacts = [], st_approvals = [],
     st_registry = [], st_plans = [], st_idempotency = [], st_delegation_tasks = [],
     st_delegation_events = [], st_executor_profiles = [], st_delegation_records = [],
     st_delegation_record_ids = [], st_ai_records = [], st_memory_items = [],
     st_memory_events = [], st_memory_projects = []\<rparr>"

text \<open>A stored dict that is empty reads as \<open>None\<close> (\<open>if value\<close>)\<close>

definition truthy :: "jobj option \<Rightarrow> jobj option" where
  "truthy v = (case v of Some (x # xs) \<Rightarrow> v | _ \<Rightarrow> None)"

section \<open>Jobs and approvals\<close>

definition set_job :: "string \<Rightarrow> job_rec \<Rightarrow> mem_store \<Rightarrow> mem_store" where
  "set_job k v s = s\<lparr>st_jobs := dset k v (st_jobs s)\<rparr>"

definition get_job :: "string \<Rightarrow> mem_store \<Rightarrow> job_rec option" where
  "get_job k s = dget (st_jobs s) k"

definition transition_job ::
  "string \<Rightarrow> job_status list \<Rightarrow> job_rec \<Rightarrow> mem_store \<Rightarrow> bool \<times> mem_store" where
  "transition_job k expected v s =
     (case dget (st_jobs s) k of
        None \<Rightarrow> (False, s)
      | Some current \<Rightarrow>
          if jb_status current \<notin> set expected then (False, s)
          else (True, s\<lparr>st_jobs := dset k v (st_jobs s)\<rparr>))"

definition append_event :: "string \<Rightarrow> jobj \<Rightarrow> mem_store \<Rightarrow> mem_store" where
  "append_event k v s = s\<lparr>st_events := lappend k v (st_events s)\<rparr>"

definition get_events :: "string \<Rightarrow> mem_store \<Rightarrow> jobj list" where
  "get_events k s = lget (st_events s) k"

definition set_artifacts :: "string \<Rightarrow> jobj list \<Rightarrow> mem_store \<Rightarrow> mem_store" where
  "set_artifacts k v s = s\<lparr>st_artifacts := dset k v (st_artifacts s)\<rparr>"

definition get_artifacts :: "string \<Rightarrow> mem_store \<Rightarrow> jobj list" where
  "get_artifacts k s = lget (st_artifacts s) k"

definition set_approval :: "string \<Rightarrow> approval_rec \<Rightarrow> mem_store \<Rightarrow> mem_store" where
  "set_approval k v s = s\<lparr>st_approvals := dset k v (st_approvals s)\<rparr>"

definition get_approval :: "string \<Rightarrow> mem_store \<Rightarrow> approval_rec option" where
  "get_approval k s = dget (st_approvals s) k"

definition transition_approval ::
  "string \<Rightarrow> approval_status list \<Rightarrow> approval_rec \<Rightarrow> mem_store \<Rightarrow> bool \<times> mem_store" where
  "transition_approval k expected v s =
     (case dget (st_approvals s) k of
        None \<Rightarrow> (False, s)
      | Some current \<Rightarrow>
          if ap_status current \<notin> set expected then (False, s)
          else (True, s\<lparr>st_approvals := dset k v (st_approvals s)\<rparr>))"

section \<open>Registry, plans and idempotency\<close>

definition set_registry :: "jobj \<Rightarrow> mem_store \<Rightarrow> mem_store" where
  "set_registry v s = s\<lparr>st_registry := v\<rparr>"

definition get_registry :: "mem_store \<Rightarrow> jobj option" where
  "get_registry s = truthy (Some (st_registry s))"

definition set_plan :: "string \<Rightarrow> jobj \<Rightarrow> mem_store \<Rightarrow> mem_store" where
  "set_plan k v s = s\<lparr>st_plans := dset k v (st_plans s)\<rparr>"

definition get_plan :: "string \<Rightarrow> mem_store \<Rightarrow> jobj option" where
  "get_plan k s = truthy (dget (st_plans s) k)"

text \<open>A key that is held by a record that has not failed is returned; otherwise the claim is
  written and \<open>None\<close> says that the caller owns the key\<close>

definition claim_idempotency ::
  "string \<Rightarrow> idem_rec \<Rightarrow> mem_store \<Rightarrow> idem_rec option \<times> mem_store" where
  "claim_idempotency k v s =
     (case dget (st_idempotency s) k of
        Some current \<Rightarrow>
          if id_status current \<noteq> Id_failed then (Some current, s)
          else (None, s\<lparr>st_idempotency := dset k v (st_idempotency s)\<rparr>)
      | None \<Rightarrow> (None, s\<lparr>st_idempotency := dset k v (st_idempotency s)\<rparr>))"

definition set_idempotency :: "string \<Rightarrow> idem_rec \<Rightarrow> mem_store \<Rightarrow> mem_store" where
  "set_idempotency k v s = s\<lparr>st_idempotency := dset k v (st_idempotency s)\<rparr>"

section \<open>Delegation tasks, events, profiles and records\<close>

definition set_delegation_task :: "string \<Rightarrow> dtask \<Rightarrow> mem_store \<Rightarrow> mem_store" where
  "set_delegation_task k v s = s\<lparr>st_delegation_tasks := dset k v (st_delegation_tasks s)\<rparr>"

definition get_delegation_task :: "string \<Rightarrow> mem_store \<Rightarrow> dtask option" where
  "get_delegation_task k s = dget (st_delegation_tasks s) k"

definition list_delegation_tasks :: "mem_store \<Rightarrow> dtask list" where
  "list_delegation_tasks s = sorted_values (st_delegation_tasks s)"

definition transition_delegation_task ::
  "string \<Rightarrow> dstatus list \<Rightarrow> dtask \<Rightarrow> mem_store \<Rightarrow> bool \<times> mem_store" where
  "transition_delegation_task k expected v s =
     (case dget (st_delegation_tasks s) k of
        None \<Rightarrow> (False, s)
      | Some current \<Rightarrow>
          if dt_status current \<notin> set expected then (False, s)
          else (True, s\<lparr>st_delegation_tasks := dset k v (st_delegation_tasks s)\<rparr>))"

definition append_delegation_event :: "string \<Rightarrow> devent \<Rightarrow> mem_store \<Rightarrow> mem_store" where
  "append_delegation_event k v s =
     s\<lparr>st_delegation_events := lappend k v (st_delegation_events s)\<rparr>"

definition get_delegation_events :: "string \<Rightarrow> mem_store \<Rightarrow> devent list" where
  "get_delegation_events k s = lget (st_delegation_events s) k"

definition set_executor_profile :: "string \<Rightarrow> profile \<Rightarrow> mem_store \<Rightarrow> mem_store" where
  "set_executor_profile k v s = s\<lparr>st_executor_profiles := dset k v (st_executor_profiles s)\<rparr>"

definition get_executor_profile :: "string \<Rightarrow> mem_store \<Rightarrow> profile option" where
  "get_executor_profile k s = dget (st_executor_profiles s) k"

definition list_executor_profiles :: "mem_store \<Rightarrow> profile list" where
  "list_executor_profiles s = sorted_values (st_executor_profiles s)"

text \<open>The \<open>ValueError\<close> of a second record with the same identity\<close>

datatype store_error = Record_exists string

definition append_delegation_record ::
  "string \<Rightarrow> rtype \<Rightarrow> string \<Rightarrow> drec \<Rightarrow> mem_store \<Rightarrow> store_error + mem_store" where
  "append_delegation_record k ty rid v s =
     (if (k, ty, rid) \<in> set (st_delegation_record_ids s) then Inl (Record_exists rid)
      else Inr (s\<lparr>st_delegation_record_ids := (k, ty, rid) # st_delegation_record_ids s,
                  st_delegation_records := lappend (k, ty) v (st_delegation_records s)\<rparr>))"

definition get_delegation_records :: "string \<Rightarrow> rtype \<Rightarrow> mem_store \<Rightarrow> drec list" where
  "get_delegation_records k ty s = lget (st_delegation_records s) (k, ty)"

section \<open>Model records\<close>

definition set_ai_record :: "string \<Rightarrow> string \<Rightarrow> ai_rec \<Rightarrow> mem_store \<Rightarrow> mem_store" where
  "set_ai_record ty k v s = s\<lparr>st_ai_records := dset (ty, k) v (st_ai_records s)\<rparr>"

definition get_ai_record :: "string \<Rightarrow> string \<Rightarrow> mem_store \<Rightarrow> ai_rec option" where
  "get_ai_record ty k s = dget (st_ai_records s) (ty, k)"

definition list_ai_records :: "string \<Rightarrow> mem_store \<Rightarrow> ai_rec list" where
  "list_ai_records ty s =
     map snd (filter (\<lambda>kv. fst (fst kv) = ty) (sort_key fst (st_ai_records s)))"

definition delete_ai_record :: "string \<Rightarrow> string \<Rightarrow> mem_store \<Rightarrow> bool \<times> mem_store" where
  "delete_ai_record ty k s =
     (dget (st_ai_records s) (ty, k) \<noteq> None, s\<lparr>st_ai_records := ddel (ty, k) (st_ai_records s)\<rparr>)"

section \<open>Memory\<close>

definition set_memory_item :: "string \<Rightarrow> mitem \<Rightarrow> mem_store \<Rightarrow> mem_store" where
  "set_memory_item k v s = s\<lparr>st_memory_items := dset k v (st_memory_items s)\<rparr>"

definition get_memory_item :: "string \<Rightarrow> mem_store \<Rightarrow> mitem option" where
  "get_memory_item k s = dget (st_memory_items s) k"

definition list_memory_items :: "mem_store \<Rightarrow> mitem list" where
  "list_memory_items s = sorted_values (st_memory_items s)"

definition transition_memory_item ::
  "string \<Rightarrow> mstatus list \<Rightarrow> mitem \<Rightarrow> mem_store \<Rightarrow> bool \<times> mem_store" where
  "transition_memory_item k expected v s =
     (case dget (st_memory_items s) k of
        None \<Rightarrow> (False, s)
      | Some current \<Rightarrow>
          if mi_status current \<notin> set expected then (False, s)
          else (True, s\<lparr>st_memory_items := dset k v (st_memory_items s)\<rparr>))"

definition delete_memory_item :: "string \<Rightarrow> mem_store \<Rightarrow> bool \<times> mem_store" where
  "delete_memory_item k s =
     (dget (st_memory_items s) k \<noteq> None, s\<lparr>st_memory_items := ddel k (st_memory_items s)\<rparr>)"

definition append_memory_event :: "string \<Rightarrow> mevent \<Rightarrow> mem_store \<Rightarrow> mem_store" where
  "append_memory_event k v s = s\<lparr>st_memory_events := st_memory_events s @ [v]\<rparr>"

text \<open>A missing or empty id selects every event\<close>

definition get_memory_events :: "string option \<Rightarrow> mem_store \<Rightarrow> mevent list" where
  "get_memory_events k s =
     (case k of
        Some (c # cs) \<Rightarrow> filter (\<lambda>e. me_memory_id e = c # cs) (st_memory_events s)
      | _ \<Rightarrow> st_memory_events s)"

definition set_memory_project :: "string \<Rightarrow> mproject \<Rightarrow> mem_store \<Rightarrow> mem_store" where
  "set_memory_project k v s = s\<lparr>st_memory_projects := dset k v (st_memory_projects s)\<rparr>"

definition get_memory_project :: "string \<Rightarrow> mem_store \<Rightarrow> mproject option" where
  "get_memory_project k s = dget (st_memory_projects s) k"

definition list_memory_projects :: "mem_store \<Rightarrow> mproject list" where
  "list_memory_projects s = sorted_values (st_memory_projects s)"

text \<open>Both rows or neither\<close>

definition transition_memory_approval ::
  "string \<Rightarrow> string \<Rightarrow> approval_status list \<Rightarrow> mstatus list \<Rightarrow> approval_rec \<Rightarrow> mitem \<Rightarrow>
   mem_store \<Rightarrow> bool \<times> mem_store" where
  "transition_memory_approval ak mk aexp mexp av mv s =
     (case (dget (st_approvals s) ak, dget (st_memory_items s) mk) of
        (Some a, Some m) \<Rightarrow>
          if ap_status a \<notin> set aexp \<or> mi_status m \<notin> set mexp then (False, s)
          else (True, s\<lparr>st_approvals := dset ak av (st_approvals s),
                        st_memory_items := dset mk mv (st_memory_items s)\<rparr>)
      | _ \<Rightarrow> (False, s))"

lemmas store_defs = set_job_def get_job_def transition_job_def append_event_def get_events_def
  set_artifacts_def get_artifacts_def set_approval_def get_approval_def transition_approval_def
  set_registry_def get_registry_def set_plan_def get_plan_def claim_idempotency_def
  set_idempotency_def set_delegation_task_def get_delegation_task_def list_delegation_tasks_def
  transition_delegation_task_def append_delegation_event_def get_delegation_events_def
  set_executor_profile_def get_executor_profile_def list_executor_profiles_def
  append_delegation_record_def get_delegation_records_def set_ai_record_def get_ai_record_def
  list_ai_records_def delete_ai_record_def set_memory_item_def get_memory_item_def
  list_memory_items_def transition_memory_item_def delete_memory_item_def
  append_memory_event_def get_memory_events_def set_memory_project_def get_memory_project_def
  list_memory_projects_def transition_memory_approval_def

section \<open>The representation invariant\<close>

definition store_ok :: "mem_store \<Rightarrow> bool" where
  "store_ok s \<longleftrightarrow>
     distinct (map fst (st_jobs s)) \<and> distinct (map fst (st_approvals s)) \<and>
     distinct (map fst (st_delegation_tasks s)) \<and> distinct (map fst (st_executor_profiles s)) \<and>
     distinct (map fst (st_ai_records s)) \<and> distinct (map fst (st_memory_items s)) \<and>
     distinct (map fst (st_memory_projects s))"

lemma store_ok_empty [simp]: "store_ok empty_store"
  by (simp add: store_ok_def empty_store_def)

lemma finite_dget [simp]: "finite {k. dget d k \<noteq> None}"
  using finite_dom_map_of [of d] by (simp add: dom_def)

section \<open>The contracts hold\<close>

interpretation mem_jobs: cas_table store_ok get_job set_job jb_status transition_job
  by unfold_locales (auto simp: store_defs store_ok_def split: option.splits)

interpretation mem_approvals: cas_table store_ok get_approval set_approval ap_status transition_approval
  by unfold_locales (auto simp: store_defs store_ok_def split: option.splits)

interpretation mem_tasks: cas_table store_ok get_delegation_task set_delegation_task dt_status
    transition_delegation_task
  by unfold_locales (auto simp: store_defs store_ok_def split: option.splits)

interpretation mem_task_list: listed_table store_ok get_delegation_task set_delegation_task
    list_delegation_tasks
  by unfold_locales
    (simp_all add: store_defs store_ok_def sorted_values_eq dom_def del: not_None_eq)

interpretation mem_profiles: listed_table store_ok get_executor_profile set_executor_profile
    list_executor_profiles
  by unfold_locales
    (simp_all add: store_defs store_ok_def sorted_values_eq dom_def del: not_None_eq)

interpretation mem_items: cas_table store_ok get_memory_item set_memory_item mi_status
    transition_memory_item
  by unfold_locales (auto simp: store_defs store_ok_def split: option.splits)

interpretation mem_item_list: listed_table store_ok get_memory_item set_memory_item
    list_memory_items
  by unfold_locales
    (simp_all add: store_defs store_ok_def sorted_values_eq dom_def del: not_None_eq)

interpretation mem_project_list: listed_table store_ok get_memory_project set_memory_project
    list_memory_projects
  by unfold_locales
    (simp_all add: store_defs store_ok_def sorted_values_eq dom_def del: not_None_eq)

interpretation mem_events: append_log store_ok append_event get_events
  by unfold_locales (simp_all add: store_defs store_ok_def)

interpretation mem_delegation_events: append_log store_ok append_delegation_event
    get_delegation_events
  by unfold_locales (simp_all add: store_defs store_ok_def)

end
