(* ===== verification/System.thy ===== *)
theory System
  imports Store
begin

text \<open>
  What the delegation and memory services run on: the state store, a file system, and the
  outside world. The outside world (\<open>env\<close>) is a parameter of every operation: fresh
  identifiers, the clock, the Git executable, other subprocesses, SHA-256, the JSON codec of
  the standard library and \<open>Path.resolve\<close>. Each call to it reads the state's \<open>tick\<close> and
  advances it, so that two calls need not agree, and a subprocess may change the file system
  in any way. An exception is a class and the message the source builds.
\<close>

section \<open>Exceptions\<close>

datatype exc_class =
    DelegationError
  | WorkspaceError
  | ArtifactCaptureError
  | ReviewError
  | CommandError
  | PromotionError
  | QueueError
  | MemoryServiceError
  | ValueError
  | ValidationError
  | CalledProcessError
  | FileExistsError
  | RepositoryConfigError
  | CliExecutorError
  | ExecutorError
  | WorkerAuthError
  | ExecutorProfileError
  | OSError
  | TypeError
  | KeyError
  | JobError
  | PolicyDenied
  | SensitiveInputError
  | RunnerError
  | RunnerContractError
  | WriteContractError
  | ArtifactError
  | CredentialError
  | OrchestrationError
  | SelectionError
  | AttributeError
  | RegistryError
  | LocalRegistryError
  | CapabilityManifestError
  | CapabilityPackageError
  | ComparisonError
  | IndexError
  | StopIteration

datatype exc = Exc (exc_cls: exc_class) (exc_str: string)

text \<open>\<open>class WorkspaceError(DelegationError)\<close> and so on\<close>

definition is_delegation_error :: "exc \<Rightarrow> bool" where
  "is_delegation_error e \<longleftrightarrow> exc_cls e \<in> {DelegationError, WorkspaceError, ArtifactCaptureError,
     ReviewError, CommandError, PromotionError, QueueError, CliExecutorError, ExecutorError,
     WorkerAuthError, ExecutorProfileError, ComparisonError}"

text \<open>\<open>class ExecutorError(CliExecutorError)\<close>, \<open>class WorkerAuthError(CliExecutorError)\<close>\<close>

definition is_cli_error :: "exc \<Rightarrow> bool" where
  "is_cli_error e \<longleftrightarrow> exc_cls e \<in> {CliExecutorError, ExecutorError, WorkerAuthError}"

text \<open>Decimal digits, as an f-string writes an integer\<close>

fun show_nat :: "nat \<Rightarrow> string" where
  "show_nat n =
     (if n < 10 then [char_of (48 + n)] else show_nat (n div 10) @ [char_of (48 + n mod 10)])"

declare show_nat.simps [simp del]

definition show_int :: "int \<Rightarrow> string" where
  "show_int i = (if i < 0 then ''-'' @ show_nat (nat (- i)) else show_nat (nat i))"

text \<open>\<open>if v\<close> on an optional string: the empty string counts as missing\<close>

definition given :: "string option \<Rightarrow> bool" where
  "given v \<longleftrightarrow> v \<noteq> None \<and> v \<noteq> Some []"

section \<open>The file system\<close>

record fsys =
  fs_files :: "(string, string) dict"
  fs_dirs :: "string list"
  fs_links :: "string list"
  fs_readonly :: "string list"

definition is_dir :: "fsys \<Rightarrow> string \<Rightarrow> bool" where
  "is_dir f p \<longleftrightarrow> p \<in> set (fs_dirs f)"

definition is_file :: "fsys \<Rightarrow> string \<Rightarrow> bool" where
  "is_file f p \<longleftrightarrow> dget (fs_files f) p \<noteq> None"

definition is_symlink :: "fsys \<Rightarrow> string \<Rightarrow> bool" where
  "is_symlink f p \<longleftrightarrow> p \<in> set (fs_links f)"

definition path_exists :: "fsys \<Rightarrow> string \<Rightarrow> bool" where
  "path_exists f p \<longleftrightarrow> is_dir f p \<or> is_file f p"

text \<open>\<open>os.path.lexists\<close> also sees a dangling link\<close>

definition lexists :: "fsys \<Rightarrow> string \<Rightarrow> bool" where
  "lexists f p \<longleftrightarrow> path_exists f p \<or> is_symlink f p"

definition read_file :: "fsys \<Rightarrow> string \<Rightarrow> string" where
  "read_file f p = (case dget (fs_files f) p of None \<Rightarrow> [] | Some c \<Rightarrow> c)"

definition write_file :: "string \<Rightarrow> string \<Rightarrow> fsys \<Rightarrow> fsys" where
  "write_file p c f = f\<lparr>fs_files := dset p c (fs_files f)\<rparr>"

definition make_dir :: "string \<Rightarrow> fsys \<Rightarrow> fsys" where
  "make_dir p f = f\<lparr>fs_dirs := p # fs_dirs f\<rparr>"

definition remove_dir :: "string \<Rightarrow> fsys \<Rightarrow> fsys" where
  "remove_dir p f = f\<lparr>fs_dirs := filter (\<lambda>d. d \<noteq> p) (fs_dirs f)\<rparr>"

definition set_readonly :: "string \<Rightarrow> fsys \<Rightarrow> fsys" where
  "set_readonly p f = f\<lparr>fs_readonly := p # fs_readonly f\<rparr>"

section \<open>The outside world\<close>

text \<open>\<open>subprocess.run(["git", "-C", cwd, *args], input=stdin, env={..., GIT_INDEX_FILE})\<close>\<close>

record git_call =
  gc_cwd :: string
  gc_args :: "string list"
  gc_stdin :: "string option"
  gc_index :: "string option"

record proc_out =
  px_code :: int
  px_stdout :: string
  px_stderr :: string

text \<open>\<open>subprocess.run(argv, cwd=cwd, input=input, timeout=...)\<close> ends, is killed at its timeout
  with the output so far, or cannot be started at all\<close>

datatype exec_result = Finished proc_out | Timed_out proc_out | Not_started string

text \<open>The TOML files of a repository, \<open>RepositoryConfig\<close> and \<open>RepositoryPolicy\<close>; parsing
  and validating their text is the work of \<open>tomllib\<close> and pydantic, which answer with a
  record or an error message\<close>

record repo_config =
  cf_version :: int
  cf_repo_id :: string
  cf_canonical_path :: string
  cf_git_common_dir :: string
  cf_initial_head :: string
  cf_remotes :: "(string, string) dict"

record repo_policy =
  rp_version :: int
  rp_allowed_paths :: "string list"
  rp_denied_paths :: "string list"
  rp_allowed_commands :: "string list"
  rp_required_commands :: "string list"
  rp_allow_network :: bool
  rp_allow_secrets :: bool

record env =
  e_uuid :: "nat \<Rightarrow> string"
  e_now :: "nat \<Rightarrow> string"
  e_git :: "nat \<Rightarrow> git_call \<Rightarrow> fsys \<Rightarrow> proc_out \<times> fsys"
  e_exec :: "nat \<Rightarrow> string list \<Rightarrow> string \<Rightarrow> string option \<Rightarrow> fsys \<Rightarrow> exec_result \<times> fsys"
  e_which :: "fsys \<Rightarrow> string \<Rightarrow> string option"
  e_state_root :: "string"
  e_sha :: "string \<Rightarrow> string"
  e_resolve :: "fsys \<Rightarrow> string \<Rightarrow> string"
  e_dumps :: "nat \<Rightarrow> json \<Rightarrow> string"
  e_float :: "rat \<Rightarrow> string"
  e_loads :: "string \<Rightarrow> json option"
  e_shlex :: "string \<Rightarrow> string list option"
  e_toml_repo :: "string \<Rightarrow> string + repo_config"
  e_toml_policy :: "string \<Rightarrow> string + repo_policy"
  e_toml_workers :: "string \<Rightarrow> string + selection_policy"

record sys =
  sy_store :: mem_store
  sy_fs :: fsys
  sy_tick :: nat

type_synonym 'a run = "(sys, exc, 'a) sm"

definition raise :: "exc_class \<Rightarrow> string \<Rightarrow> 'a run" where
  "raise c m = raiseM (Exc c m)"

definition require :: "bool \<Rightarrow> exc_class \<Rightarrow> string \<Rightarrow> unit run" where
  "require b c m = guardM b (Exc c m)"

section \<open>Calls to the outside world\<close>

definition tick :: "unit run" where
  "tick = updM (\<lambda>s. s\<lparr>sy_tick := Suc (sy_tick s)\<rparr>)"

text \<open>\<open>f"prefix_{uuid4().hex}"\<close>\<close>

definition fresh :: "env \<Rightarrow> string \<Rightarrow> string run" where
  "fresh E p = bindM (getM (\<lambda>s. p @ e_uuid E (sy_tick s))) (\<lambda>x. thenM tick (retM x))"

definition utc_now :: "env \<Rightarrow> string run" where
  "utc_now E = bindM (getM (\<lambda>s. e_now E (sy_tick s))) (\<lambda>x. thenM tick (retM x))"

definition git_run :: "env \<Rightarrow> git_call \<Rightarrow> proc_out run" where
  "git_run E c =
     (\<lambda>s. case e_git E (sy_tick s) c (sy_fs s) of
            (out, f) \<Rightarrow> (Inr out, s\<lparr>sy_fs := f, sy_tick := Suc (sy_tick s)\<rparr>))"

definition exec_run ::
  "env \<Rightarrow> string list \<Rightarrow> string \<Rightarrow> string option \<Rightarrow> (proc_out \<times> bool) run" where
  "exec_run E argv cwd input =
     (\<lambda>s. case e_exec E (sy_tick s) argv cwd input (sy_fs s) of
            (r, f) \<Rightarrow>
              ((case r of Finished out \<Rightarrow> Inr (out, False) | Timed_out out \<Rightarrow> Inr (out, True)
                        | Not_started m \<Rightarrow> Inl (Exc OSError m)),
               s\<lparr>sy_fs := f, sy_tick := Suc (sy_tick s)\<rparr>))"

definition git_at :: "string \<Rightarrow> string list \<Rightarrow> git_call" where
  "git_at cwd args = \<lparr>gc_cwd = cwd, gc_args = args, gc_stdin = None, gc_index = None\<rparr>"

text \<open>\<open>path.write_text(v)\<close> of captured output. \<open>TimeoutExpired.stdout\<close> and \<open>.stderr\<close> are
  bytes whenever any output was captured, whatever \<open>text=True\<close> says, and \<open>write_text\<close> raises
  on bytes before it opens the file.\<close>

definition write_captured :: "bool \<Rightarrow> string \<Rightarrow> string \<Rightarrow> unit run" where
  "write_captured timed_out path text =
     thenM (require (\<not> (timed_out \<and> text \<noteq> [])) TypeError ''data must be str, not bytes'')
       (updM (\<lambda>s. s\<lparr>sy_fs := write_file path text (sy_fs s)\<rparr>))"

definition on_fs :: "(fsys \<Rightarrow> fsys) \<Rightarrow> unit run" where
  "on_fs g = updM (\<lambda>s. s\<lparr>sy_fs := g (sy_fs s)\<rparr>)"

definition from_fs :: "(fsys \<Rightarrow> 'a) \<Rightarrow> 'a run" where
  "from_fs g = getM (\<lambda>s. g (sy_fs s))"

definition on_store :: "(mem_store \<Rightarrow> mem_store) \<Rightarrow> unit run" where
  "on_store g = updM (\<lambda>s. s\<lparr>sy_store := g (sy_store s)\<rparr>)"

definition from_store :: "(mem_store \<Rightarrow> 'a) \<Rightarrow> 'a run" where
  "from_store g = getM (\<lambda>s. g (sy_store s))"

text \<open>A store operation that also answers\<close>

definition ask_store :: "(mem_store \<Rightarrow> 'a \<times> mem_store) \<Rightarrow> 'a run" where
  "ask_store g = (\<lambda>s. case g (sy_store s) of (a, t) \<Rightarrow> (Inr a, s\<lparr>sy_store := t\<rparr>))"

subsection \<open>Weakest preconditions\<close>

lemma wp_raise_exc [wp_eqs]: "wp (raise c m) Q X s = X (Exc c m) s"
  by (simp add: raise_def wp_eqs)

lemma wp_require [wp_eqs]: "wp (require b c m) Q X s = (if b then Q () s else X (Exc c m) s)"
  by (simp add: require_def wp_eqs)

lemma wp_tick [wp_eqs]: "wp tick Q X s = Q () (s\<lparr>sy_tick := Suc (sy_tick s)\<rparr>)"
  by (simp add: tick_def wp_eqs)

lemma wp_fresh [wp_eqs]:
  "wp (fresh E p) Q X s = Q (p @ e_uuid E (sy_tick s)) (s\<lparr>sy_tick := Suc (sy_tick s)\<rparr>)"
  by (simp add: fresh_def wp_eqs)

lemma wp_utc_now [wp_eqs]:
  "wp (utc_now E) Q X s = Q (e_now E (sy_tick s)) (s\<lparr>sy_tick := Suc (sy_tick s)\<rparr>)"
  by (simp add: utc_now_def wp_eqs)

lemma wp_git_run [wp_eqs]:
  "wp (git_run E c) Q X s =
     (case e_git E (sy_tick s) c (sy_fs s) of
        (out, f) \<Rightarrow> Q out (s\<lparr>sy_fs := f, sy_tick := Suc (sy_tick s)\<rparr>))"
  by (simp add: wp_def git_run_def split: prod.split)

lemma wp_exec_run [wp_eqs]:
  "wp (exec_run E argv cwd input) Q X s =
     (case e_exec E (sy_tick s) argv cwd input (sy_fs s) of
        (r, f) \<Rightarrow>
          let t = s\<lparr>sy_fs := f, sy_tick := Suc (sy_tick s)\<rparr> in
          (case r of Finished out \<Rightarrow> Q (out, False) t | Timed_out out \<Rightarrow> Q (out, True) t
                   | Not_started m \<Rightarrow> X (Exc OSError m) t))"
  by (simp add: wp_def exec_run_def split: prod.split exec_result.split)

lemma wp_on_fs [wp_eqs]: "wp (on_fs g) Q X s = Q () (s\<lparr>sy_fs := g (sy_fs s)\<rparr>)"
  by (simp add: on_fs_def wp_eqs)

lemma wp_from_fs [wp_eqs]: "wp (from_fs g) Q X s = Q (g (sy_fs s)) s"
  by (simp add: from_fs_def wp_eqs)

lemma wp_on_store [wp_eqs]: "wp (on_store g) Q X s = Q () (s\<lparr>sy_store := g (sy_store s)\<rparr>)"
  by (simp add: on_store_def wp_eqs)

lemma wp_from_store [wp_eqs]: "wp (from_store g) Q X s = Q (g (sy_store s)) s"
  by (simp add: from_store_def wp_eqs)

lemma wp_ask_store [wp_eqs]:
  "wp (ask_store g) Q X s = (case g (sy_store s) of (a, t) \<Rightarrow> Q a (s\<lparr>sy_store := t\<rparr>))"
  by (simp add: wp_def ask_store_def split: prod.split)

subsection \<open>Running\<close>

lemmas world_defs = raise_def require_def tick_def fresh_def utc_now_def git_run_def exec_run_def
  on_fs_def from_fs_def on_store_def from_store_def ask_store_def

lemma require_Inr [simp]: "require b c m s = (Inr x, t) \<longleftrightarrow> b \<and> t = s"
  by (simp add: require_def)

lemma raise_Inr [simp]: "raise c m s = (Inr x, t) \<longleftrightarrow> False"
  by (simp add: raise_def)

lemma from_store_Inr [simp]: "from_store g s = (Inr a, t) \<longleftrightarrow> a = g (sy_store s) \<and> t = s"
  by (simp add: from_store_def)

lemma from_fs_Inr [simp]: "from_fs g s = (Inr a, t) \<longleftrightarrow> a = g (sy_fs s) \<and> t = s"
  by (simp add: from_fs_def)

text \<open>
  An operation leaves the store alone when it only talks to the outside world; the services'
  invariants are about the store, so these operations keep them.
\<close>

definition keeps :: "(mem_store \<Rightarrow> bool) \<Rightarrow> 'a run \<Rightarrow> bool" where
  "keeps I m \<longleftrightarrow> (\<forall>s. I (sy_store s) \<longrightarrow> I (sy_store (snd (m s))))"

named_theorems keeps_intros "operations that keep an invariant of the store"

lemma keepsD: "keeps I m \<Longrightarrow> I (sy_store s) \<Longrightarrow> I (sy_store (snd (m s)))"
  by (simp add: keeps_def)

lemma keeps_ret [keeps_intros]: "keeps I (retM a)"
  by (simp add: keeps_def retM_def)

lemma keeps_raiseM [keeps_intros]: "keeps I (raiseM e)"
  by (simp add: keeps_def raiseM_def)

lemma keeps_get [keeps_intros]: "keeps I (getM f)"
  by (simp add: keeps_def getM_def)

lemma keeps_guard [keeps_intros]: "keeps I (guardM b e)"
  by (simp add: keeps_def guardM_def retM_def raiseM_def)

lemma keeps_opt [keeps_intros]: "keeps I (optM b e)"
  by (simp add: keeps_def optM_run)

lemma keeps_lift [keeps_intros]: "keeps I (liftM r)"
  by (simp add: keeps_def liftM_run)

lemma keeps_bind [keeps_intros]: "keeps I m \<Longrightarrow> (\<And>a. keeps I (f a)) \<Longrightarrow> keeps I (bindM m f)"
  unfolding keeps_def bindM_def
  by (auto split: prod.split sum.split)

lemma keeps_then [keeps_intros]: "keeps I m \<Longrightarrow> keeps I n \<Longrightarrow> keeps I (thenM m n)"
  by (simp add: thenM_def keeps_bind)

lemma keeps_try [keeps_intros]: "keeps I m \<Longrightarrow> (\<And>e. keeps I (h e)) \<Longrightarrow> keeps I (tryM m h)"
  unfolding keeps_def tryM_def
  by (auto split: prod.split sum.split)

lemma keeps_if [keeps_intros]: "keeps I m \<Longrightarrow> keeps I n \<Longrightarrow> keeps I (if b then m else n)"
  by simp

lemma keeps_option [keeps_intros]:
  "keeps I m \<Longrightarrow> (\<And>a. keeps I (f a)) \<Longrightarrow> keeps I (case v of None \<Rightarrow> m | Some a \<Rightarrow> f a)"
  by (simp split: option.split)

lemma keeps_list [keeps_intros]:
  "keeps I m \<Longrightarrow> (\<And>a b. keeps I (f a b)) \<Longrightarrow> keeps I (case v of [] \<Rightarrow> m | a # b \<Rightarrow> f a b)"
  by (simp split: list.split)

lemma keeps_prod [keeps_intros]:
  "(\<And>a b. keeps I (f a b)) \<Longrightarrow> keeps I (case v of (a, b) \<Rightarrow> f a b)"
  by (simp split: prod.split)

lemma keeps_forM [keeps_intros]: "(\<And>x. keeps I (f x)) \<Longrightarrow> keeps I (forM f xs)"
  by (induction xs) (simp_all add: keeps_ret keeps_then)

lemma keeps_mapM [keeps_intros]: "(\<And>x. keeps I (f x)) \<Longrightarrow> keeps I (mapM f xs)"
  by (induction xs) (simp_all add: keeps_ret keeps_bind)

lemma keeps_world [keeps_intros]:
  "keeps I (raise c m)" "keeps I (require b c m)" "keeps I tick" "keeps I (fresh E p)"
  "keeps I (utc_now E)" "keeps I (git_run E g)" "keeps I (exec_run E argv cwd input)"
  "keeps I (on_fs h)" "keeps I (from_fs k)" "keeps I (from_store l)"
  by (simp_all add: keeps_def world_defs sm_defs split: prod.split)

lemma keeps_write_captured [keeps_intros]: "keeps I (write_captured b p t)"
proof -
  have "keeps I (updM (\<lambda>s. s\<lparr>sy_fs := g (sy_fs s)\<rparr>) :: unit run)" for g
    by (simp add: keeps_def updM_def)
  then show ?thesis unfolding write_captured_def by (intro keeps_then keeps_world)
qed

lemma keeps_on_store: "(\<And>s. I s \<Longrightarrow> I (g s)) \<Longrightarrow> keeps I (on_store g)"
  by (simp add: keeps_def on_store_def updM_def)

lemma keeps_ask_store: "(\<And>s. I s \<Longrightarrow> I (snd (g s))) \<Longrightarrow> keeps I (ask_store g)"
  by (simp add: keeps_def ask_store_def split: prod.split) (metis snd_conv)

end
