(* ===== verification/Delegation.thy ===== *)
theory Delegation
  imports System
begin

text \<open>
  \<open>canto/core/delegation.py\<close>: the transition table of a delegation task and
  \<open>DelegationService\<close>, which creates tasks, moves them with a compare-and-set on their
  status, appends the records of a task and writes an event for every move; and the task
  commands of \<open>canto/cli.py\<close> (create, assign, start, message, block, resume, done) that
  drive it.
\<close>

section \<open>The transition table\<close>

primrec transitions :: "dstatus \<Rightarrow> dstatus list" where
  "transitions D_draft = [D_assigned]"
| "transitions D_assigned = [D_workspace_ready]"
| "transitions D_workspace_ready = [D_executor_working]"
| "transitions D_executor_working = [D_executor_blocked, D_executor_done, D_failed, D_cancelled]"
| "transitions D_executor_blocked = [D_executor_working, D_failed, D_cancelled]"
| "transitions D_executor_done = [D_reviewing, D_revision_requested]"
| "transitions D_reviewing = [D_revision_requested, D_accepted, D_rejected]"
| "transitions D_revision_requested = [D_executor_working]"
| "transitions D_accepted = [D_promoting, D_cancelled]"
| "transitions D_promoting = [D_promoted, D_promotion_failed]"
| "transitions D_promotion_failed = [D_promoting, D_revision_requested, D_rejected, D_cancelled]"
| "transitions D_promoted = []"
| "transitions D_rejected = []"
| "transitions D_cancelled = []"
| "transitions D_failed = []"

definition terminal_statuses :: "dstatus list" where
  "terminal_statuses = [D_promoted, D_rejected, D_cancelled, D_failed]"

definition legal :: "dstatus \<Rightarrow> dstatus \<Rightarrow> bool" where
  "legal a b \<longleftrightarrow> b \<in> set (transitions a)"

section \<open>The service\<close>

text \<open>The keys that callers pass in \<open>updates\<close>\<close>

datatype task_update =
    U_executor_id string
  | U_workspace_id string
  | U_latest_result_revision int
  | U_accepted_result_revision "int option"
  | U_selection_decision_id "string option"
  | U_selected_model_key "string option"
  | U_worker_policy "selection_policy option"

primrec apply_update :: "task_update \<Rightarrow> dtask \<Rightarrow> dtask" where
  "apply_update (U_executor_id x) t = t\<lparr>dt_executor_id := Some x\<rparr>"
| "apply_update (U_workspace_id x) t = t\<lparr>dt_workspace_id := Some x\<rparr>"
| "apply_update (U_latest_result_revision n) t = t\<lparr>dt_latest_result_revision := n\<rparr>"
| "apply_update (U_accepted_result_revision n) t = t\<lparr>dt_accepted_result_revision := n\<rparr>"
| "apply_update (U_selection_decision_id x) t = t\<lparr>dt_selection_decision_id := x\<rparr>"
| "apply_update (U_selected_model_key x) t = t\<lparr>dt_selected_model_key := x\<rparr>"
| "apply_update (U_worker_policy x) t = t\<lparr>dt_worker_policy := x\<rparr>"

definition apply_updates :: "task_update list \<Rightarrow> dtask \<Rightarrow> dtask" where
  "apply_updates us t = foldl (\<lambda>u x. apply_update x u) t us"

definition delegation_event :: "env \<Rightarrow> dtask \<Rightarrow> string \<Rightarrow> jobj \<Rightarrow> unit run" where
  "delegation_event E t ty details =
     bindM (fresh E ''event_'') (\<lambda>i.
     bindM (utc_now E) (\<lambda>now.
     on_store (append_delegation_event (dt_task_id t)
       \<lparr>de_event_id = i, de_task_id = dt_task_id t, de_event_type = ty, de_status = dt_status t,
        de_details = details, de_created_at = now\<rparr>)))"

definition create_task :: "env \<Rightarrow> dtask \<Rightarrow> dtask run" where
  "create_task E t =
     bindM (from_store (get_delegation_task (dt_task_id t))) (\<lambda>old.
     thenM (require (old = None) DelegationError
              (''Delegation task already exists: '' @ dt_task_id t))
     (thenM (require (dt_status t = D_draft) DelegationError
              ''New delegation tasks must start in draft status'')
     (thenM (on_store (set_delegation_task (dt_task_id t) t))
     (thenM (delegation_event E t ''task.created'' [])
     (retM t)))))"

definition get_task :: "string \<Rightarrow> dtask run" where
  "get_task k =
     bindM (from_store (get_delegation_task k)) (\<lambda>v.
       optM v (Exc DelegationError (''Delegation task not found: '' @ k)))"

definition list_tasks :: "dtask list run" where
  "list_tasks = from_store list_delegation_tasks"

definition transition ::
  "env \<Rightarrow> string \<Rightarrow> dstatus \<Rightarrow> task_update list \<Rightarrow> jobj \<Rightarrow> dtask run" where
  "transition E k st updates details =
     bindM (get_task k) (\<lambda>current.
     thenM (require (st \<in> set (transitions (dt_status current))) DelegationError
              (''Invalid delegation transition: '' @ dstatus_str (dt_status current) @ '' -> '' @
               dstatus_str st))
     (bindM (utc_now E) (\<lambda>now.
      let updated = (apply_updates updates current)\<lparr>dt_status := st, dt_updated_at := now\<rparr> in
      bindM (ask_store (transition_delegation_task k [dt_status current] updated)) (\<lambda>ok.
      thenM (require ok DelegationError (''Delegation task changed concurrently: '' @ k))
      (thenM (delegation_event E updated (''task.'' @ dstatus_str st) details)
      (retM updated))))))"

definition register_profile :: "profile \<Rightarrow> profile run" where
  "register_profile p = thenM (on_store (set_executor_profile (xp_executor_id p) p)) (retM p)"

definition get_profile :: "string \<Rightarrow> profile run" where
  "get_profile k =
     bindM (from_store (get_executor_profile k)) (\<lambda>v.
       optM v (Exc DelegationError (''Executor profile not found: '' @ k)))"

definition list_profiles :: "profile list run" where
  "list_profiles = from_store list_executor_profiles"

text \<open>The store raises when the task already has a record of this type and identifier\<close>

definition store_record :: "string \<Rightarrow> rtype \<Rightarrow> string \<Rightarrow> drec \<Rightarrow> unit run" where
  "store_record k ty rid v =
     (\<lambda>s. case append_delegation_record k ty rid v (sy_store s) of
            Inl (Record_exists i) \<Rightarrow>
              (Inl (Exc ValueError (''Delegation record already exists: '' @ i)), s)
          | Inr t \<Rightarrow> (Inr (), s\<lparr>sy_store := t\<rparr>))"

definition append_record :: "string \<Rightarrow> rtype \<Rightarrow> drec \<Rightarrow> unit run" where
  "append_record k ty r =
     thenM (get_task k)
     (thenM (require (record_id_of r \<noteq> []) DelegationError
               ''Delegation record requires a record identifier'')
     (store_record k ty (record_id_of r) r))"

definition get_records :: "string \<Rightarrow> rtype \<Rightarrow> drec list run" where
  "get_records k ty = thenM (get_task k) (from_store (get_delegation_records k ty))"

definition get_task_events :: "string \<Rightarrow> devent list run" where
  "get_task_events k = thenM (get_task k) (from_store (get_delegation_events k))"

lemmas delegation_defs = delegation_event_def create_task_def get_task_def list_tasks_def
  transition_def register_profile_def get_profile_def list_profiles_def append_record_def
  get_records_def get_task_events_def

section \<open>The task commands\<close>

definition new_message ::
  "env \<Rightarrow> string \<Rightarrow> sender \<Rightarrow> message_kind \<Rightarrow> string \<Rightarrow> message run" where
  "new_message E k who kind body =
     bindM (fresh E ''message_'') (\<lambda>i.
     bindM (utc_now E) (\<lambda>now.
     retM \<lparr>ms_message_id = i, ms_task_id = k, ms_sender = who, ms_kind = kind, ms_body = body,
           ms_created_at = now\<rparr>))"

text \<open>\<open>canto delegate assign\<close>: an unknown executor becomes a manual profile\<close>

definition delegate_assign :: "env \<Rightarrow> string \<Rightarrow> string \<Rightarrow> dtask run" where
  "delegate_assign E k executor =
     thenM (tryM (get_profile executor) (\<lambda>e.
        if is_delegation_error e then
          bindM (utc_now E) (\<lambda>created. bindM (utc_now E) (\<lambda>updated.
          register_profile \<lparr>xp_executor_id = executor, xp_name = executor, xp_harness = H_manual,
            xp_executable = None, xp_configuration = [], xp_model_provider = None,
            xp_model = None, xp_launch_mode = LM_manual,
            xp_permissions = \<lparr>pm_allow_network = False, pm_allow_secrets = False,
              pm_command_enforcement = E_manual_unverified\<rparr>,
            xp_created_at = created, xp_updated_at = updated\<rparr>))
        else raiseM e))
     (bindM (transition E k D_assigned [U_executor_id executor] []) (\<lambda>t.
      bindM (new_message E k Sender_orchestrator Mk_assignment
               (if dt_instructions t \<noteq> [] then dt_instructions t else dt_title t)) (\<lambda>m.
      thenM (append_record k T_messages (RMessage m)) (retM t))))"

text \<open>\<open>canto delegate start\<close>; an empty executor id is refused like a missing one\<close>

definition delegate_start :: "env \<Rightarrow> string \<Rightarrow> dtask run" where
  "delegate_start E k =
     bindM (get_task k) (\<lambda>t.
     (case dt_executor_id t of
        None \<Rightarrow> raise DelegationError ''Delegation task has no assigned executor''
      | Some x \<Rightarrow>
          thenM (require (x \<noteq> []) DelegationError ''Delegation task has no assigned executor'')
          (bindM (fresh E ''session_'') (\<lambda>i.
           thenM (append_record k T_sessions
             (RSession \<lparr>se_session_id = i, se_task_id = k, se_executor_id = x,
                        se_status = SS_running, se_enforcement = E_manual_unverified,
                        se_started_at = Some (dt_updated_at t), se_ended_at = None\<rparr>))
           (transition E k D_executor_working []
             [(''session_id'', JStr i), (''enforcement'', JStr ''manual_unverified'')])))))"

definition executor_message :: "env \<Rightarrow> string \<Rightarrow> message_kind \<Rightarrow> string \<Rightarrow> unit run" where
  "executor_message E k kind body =
     bindM (new_message E k Sender_executor kind body) (\<lambda>m.
     append_record k T_messages (RMessage m))"

definition delegate_message :: "env \<Rightarrow> string \<Rightarrow> string \<Rightarrow> unit run" where
  "delegate_message E k body = executor_message E k Mk_progress body"

definition delegate_block :: "env \<Rightarrow> string \<Rightarrow> string \<Rightarrow> dtask run" where
  "delegate_block E k reason =
     thenM (executor_message E k Mk_blocker reason) (transition E k D_executor_blocked [] [])"

definition delegate_resume :: "env \<Rightarrow> string \<Rightarrow> dtask run" where
  "delegate_resume E k = transition E k D_executor_working [] []"

definition delegate_done :: "env \<Rightarrow> string \<Rightarrow> string \<Rightarrow> dtask run" where
  "delegate_done E k summary =
     thenM (executor_message E k Mk_done summary) (transition E k D_executor_done [] [])"

lemmas command_defs = delegate_assign_def delegate_start_def executor_message_def
  delegate_message_def delegate_block_def delegate_resume_def delegate_done_def new_message_def

end
