(* ===== verification/Delegation_Proofs.thy ===== *)
theory Delegation_Proofs
  imports Delegation
begin

text \<open>
  What \<open>DelegationService\<close> guarantees: the effect of each operation on every branch, and
  the history invariant, that the events of a task are a legal path of the transition table
  from \<open>draft\<close> to the task's current status. Every service that changes tasks only through
  this one keeps the invariant, which the \<open>keeps\<close> lemmas collect.
\<close>

section \<open>The table\<close>

lemma legal_terminal: "st \<in> set terminal_statuses \<longleftrightarrow> transitions st = []"
  by (cases st) (simp_all add: terminal_statuses_def)

lemma legal_irrefl [simp]: "\<not> legal a a"
  by (cases a) (simp_all add: legal_def)

lemma legal_not_draft: "legal a b \<Longrightarrow> b \<noteq> D_draft"
  by (cases a) (auto simp: legal_def)

section \<open>The effect of the operations\<close>

lemma get_task_run: "get_task k s =
    (case get_delegation_task k (sy_store s) of
       None \<Rightarrow> (Inl (Exc DelegationError (''Delegation task not found: '' @ k)), s)
     | Some t \<Rightarrow> (Inr t, s))"
  by (simp add: get_task_def from_store_def run_eqs split: option.split)

lemma get_task_Inr [simp]:
  "get_task k s = (Inr t, u) \<longleftrightarrow> get_delegation_task k (sy_store s) = Some t \<and> u = s"
  by (auto simp: get_task_run split: option.split)

lemma wp_get_task [wp_eqs]:
  "wp (get_task k) Q X s =
     (case get_delegation_task k (sy_store s) of
        None \<Rightarrow> X (Exc DelegationError (''Delegation task not found: '' @ k)) s
      | Some t \<Rightarrow> Q t s)"
  by (simp add: wp_def get_task_run split: option.split)

lemma wp_store_record [wp_eqs]:
  "wp (store_record k ty rid v) Q X s =
     (case append_delegation_record k ty rid v (sy_store s) of
        Inl (Record_exists i) \<Rightarrow>
          X (Exc ValueError (''Delegation record already exists: '' @ i)) s
      | Inr t \<Rightarrow> Q () (s\<lparr>sy_store := t\<rparr>))"
  by (auto simp: wp_def store_record_def split: sum.split store_error.split)

definition event_of :: "env \<Rightarrow> nat \<Rightarrow> dtask \<Rightarrow> string \<Rightarrow> jobj \<Rightarrow> devent" where
  "event_of E n t ty details =
     \<lparr>de_event_id = ''event_'' @ e_uuid E n, de_task_id = dt_task_id t, de_event_type = ty,
      de_status = dt_status t, de_details = details, de_created_at = e_now E (Suc n)\<rparr>"

lemma delegation_event_run:
  "delegation_event E t ty details s =
     (Inr (), s\<lparr>sy_store := append_delegation_event (dt_task_id t)
                  (event_of E (sy_tick s) t ty details) (sy_store s),
               sy_tick := Suc (Suc (sy_tick s))\<rparr>)"
  by (simp add: delegation_event_def fresh_def utc_now_def tick_def on_store_def run_eqs event_of_def)

definition moved :: "env \<Rightarrow> nat \<Rightarrow> dtask \<Rightarrow> dstatus \<Rightarrow> task_update list \<Rightarrow> dtask" where
  "moved E n c st us = (apply_updates us c)\<lparr>dt_status := st, dt_updated_at := e_now E n\<rparr>"

lemma apply_update_task_id [simp]: "dt_task_id (apply_update u t) = dt_task_id t"
  by (cases u) simp_all

lemma apply_updates_task_id [simp]: "dt_task_id (apply_updates us t) = dt_task_id t"
  unfolding apply_updates_def by (induction us arbitrary: t) simp_all

lemma moved_simps [simp]:
  "dt_task_id (moved E n c st us) = dt_task_id c" "dt_status (moved E n c st us) = st"
  by (simp_all add: moved_def)

text \<open>A legal move: the task is replaced and one event with the new status is appended\<close>

lemma transition_legal:
  assumes "get_delegation_task k (sy_store s) = Some c" and "legal (dt_status c) st"
  shows "transition E k st us details s =
    (let u = moved E (sy_tick s) c st us in
     (Inr u, s\<lparr>sy_store := append_delegation_event (dt_task_id c)
                  (event_of E (Suc (sy_tick s)) u (''task.'' @ dstatus_str st) details)
                  (set_delegation_task k u (sy_store s)),
               sy_tick := Suc (Suc (Suc (sy_tick s)))\<rparr>))"
proof -
  have "transition_delegation_task k [dt_status c] v (sy_store s) =
      (True, set_delegation_task k v (sy_store s))" for v
    using assms(1)
    by (simp add: transition_delegation_task_def set_delegation_task_def get_delegation_task_def)
  then show ?thesis using assms
    by (simp add: transition_def get_task_run require_def utc_now_def tick_def ask_store_def
        run_eqs delegation_event_run Let_def moved_def legal_def)
qed

lemma transition_illegal:
  assumes "get_delegation_task k (sy_store s) = Some c" and "\<not> legal (dt_status c) st"
  shows "transition E k st us details s =
    (Inl (Exc DelegationError (''Invalid delegation transition: '' @ dstatus_str (dt_status c) @
       '' -> '' @ dstatus_str st)), s)"
  using assms by (simp add: transition_def get_task_run require_def run_eqs legal_def)

lemma transition_missing:
  assumes "get_delegation_task k (sy_store s) = None"
  shows "transition E k st us details s =
    (Inl (Exc DelegationError (''Delegation task not found: '' @ k)), s)"
  using assms by (simp add: transition_def get_task_run run_eqs)

lemma transition_cases:
  fixes s :: sys and st :: dstatus
  obtains (missing) "get_delegation_task k (sy_store s) = None" |
    (illegal) c where "get_delegation_task k (sy_store s) = Some c" "\<not> legal (dt_status c) st" |
    (legal) c where "get_delegation_task k (sy_store s) = Some c" "legal (dt_status c) st"
  by blast

lemma wp_transition:
  "wp (transition E k st us details) Q X s =
     (case get_delegation_task k (sy_store s) of
        None \<Rightarrow> X (Exc DelegationError (''Delegation task not found: '' @ k)) s
      | Some c \<Rightarrow>
          if legal (dt_status c) st then
            (let u = moved E (sy_tick s) c st us in
             Q u (s\<lparr>sy_store := append_delegation_event (dt_task_id c)
                  (event_of E (Suc (sy_tick s)) u (''task.'' @ dstatus_str st) details)
                  (set_delegation_task k u (sy_store s)),
               sy_tick := Suc (Suc (Suc (sy_tick s)))\<rparr>))
          else X (Exc DelegationError (''Invalid delegation transition: '' @
                    dstatus_str (dt_status c) @ '' -> '' @ dstatus_str st)) s)"
  by (cases rule: transition_cases [where k = k and s = s and st = st])
    (simp_all add: wp_def transition_legal transition_illegal transition_missing Let_def)

lemma transition_Inr:
  "transition E k st us details s = (Inr u, t) \<longleftrightarrow>
     (\<exists>c. get_delegation_task k (sy_store s) = Some c \<and> legal (dt_status c) st \<and>
          u = moved E (sy_tick s) c st us \<and>
          t = s\<lparr>sy_store := append_delegation_event (dt_task_id c)
                  (event_of E (Suc (sy_tick s)) u (''task.'' @ dstatus_str st) details)
                  (set_delegation_task k u (sy_store s)),
               sy_tick := Suc (Suc (Suc (sy_tick s)))\<rparr>)"
  by (cases rule: transition_cases [where k = k and s = s and st = st])
    (auto simp: transition_legal transition_illegal transition_missing Let_def)

lemma create_task_run:
  "create_task E t s =
     (if get_delegation_task (dt_task_id t) (sy_store s) \<noteq> None then
        (Inl (Exc DelegationError (''Delegation task already exists: '' @ dt_task_id t)), s)
      else if dt_status t \<noteq> D_draft then
        (Inl (Exc DelegationError ''New delegation tasks must start in draft status''), s)
      else (Inr t, s\<lparr>sy_store := append_delegation_event (dt_task_id t)
                       (event_of E (sy_tick s) t ''task.created'' [])
                       (set_delegation_task (dt_task_id t) t (sy_store s)),
                     sy_tick := Suc (Suc (sy_tick s))\<rparr>))"
  by (simp add: create_task_def from_store_def require_def on_store_def run_eqs delegation_event_run)

text \<open>Reading after a move\<close>

lemma get_task_append_event [simp]:
  "get_delegation_task k (append_delegation_event j e s) = get_delegation_task k s"
  by (simp add: get_delegation_task_def append_delegation_event_def)

lemma get_task_set_task [simp]:
  "get_delegation_task k (set_delegation_task j t s) =
     (if k = j then Some t else get_delegation_task k s)"
  by (simp add: get_delegation_task_def set_delegation_task_def)

lemma get_events_set_task [simp]:
  "get_delegation_events k (set_delegation_task j t s) = get_delegation_events k s"
  by (simp add: get_delegation_events_def set_delegation_task_def)

lemma get_events_append [simp]:
  "get_delegation_events k (append_delegation_event j e s) =
     (if k = j then get_delegation_events k s @ [e] else get_delegation_events k s)"
  by (simp add: get_delegation_events_def append_delegation_event_def)

lemma get_records_set_task [simp]:
  "get_delegation_records k ty (set_delegation_task j t s) = get_delegation_records k ty s"
  by (simp add: get_delegation_records_def set_delegation_task_def)

lemma get_records_append_event [simp]:
  "get_delegation_records k ty (append_delegation_event j e s) = get_delegation_records k ty s"
  by (simp add: get_delegation_records_def append_delegation_event_def)

lemma append_record_Inr:
  "append_delegation_record k ty rid v s = Inr t \<Longrightarrow>
     get_delegation_task k' t = get_delegation_task k' s \<and>
     get_delegation_events k' t = get_delegation_events k' s \<and>
     get_delegation_records k' ty' t =
       (if k' = k \<and> ty' = ty then get_delegation_records k ty s @ [v]
        else get_delegation_records k' ty' s)"
  by (auto simp: append_delegation_record_def get_delegation_task_def get_delegation_events_def
      get_delegation_records_def split: if_splits)

lemma store_record_Inr:
  "store_record k ty rid v s = (Inr x, t) \<longleftrightarrow>
     (\<exists>st. append_delegation_record k ty rid v (sy_store s) = Inr st \<and> t = s\<lparr>sy_store := st\<rparr>)"
  by (auto simp: store_record_def split: sum.splits store_error.splits)

text \<open>What a successful \<open>append_record\<close> does\<close>

lemma append_record_run_Inr:
  "append_record k ty r s = (Inr x, t) \<Longrightarrow>
     (\<exists>c st. get_delegation_task k (sy_store s) = Some c \<and>
        append_delegation_record k ty (record_id_of r) r (sy_store s) = Inr st \<and>
        t = s\<lparr>sy_store := st\<rparr>)"
  by (auto simp: append_record_def inr_eqs store_record_Inr)

section \<open>The history invariant\<close>

fun legal_chain :: "dstatus list \<Rightarrow> bool" where
  "legal_chain [] = True"
| "legal_chain [a] = True"
| "legal_chain (a # b # xs) = (legal a b \<and> legal_chain (b # xs))"

lemma legal_chain_snoc:
  "legal_chain (xs @ [a]) \<longleftrightarrow> legal_chain xs \<and> (xs = [] \<or> legal (last xs) a)"
  by (induction xs rule: legal_chain.induct) auto

text \<open>A terminal status can only be the last of a chain\<close>

lemma legal_chain_terminal:
  "legal_chain xs \<Longrightarrow> st \<in> set (butlast xs) \<Longrightarrow> st \<notin> set terminal_statuses"
  by (induction xs rule: legal_chain.induct) (auto simp: legal_def legal_terminal)

definition statuses :: "string \<Rightarrow> mem_store \<Rightarrow> dstatus list" where
  "statuses k s = map de_status (get_delegation_events k s)"

definition history_of :: "string \<Rightarrow> dtask option \<Rightarrow> devent list \<Rightarrow> bool" where
  "history_of k v es =
     (case v of
        None \<Rightarrow> es = []
      | Some t \<Rightarrow>
          dt_task_id t = k \<and> es \<noteq> [] \<and> de_status (hd es) = D_draft \<and>
          legal_chain (map de_status es) \<and> de_status (last es) = dt_status t)"

definition history_ok :: "mem_store \<Rightarrow> bool" where
  "history_ok s \<longleftrightarrow> (\<forall>k. history_of k (get_delegation_task k s) (get_delegation_events k s))"

lemma history_ok_empty: "history_ok empty_store"
  by (simp add: history_ok_def history_of_def get_delegation_task_def get_delegation_events_def
      empty_store_def)

lemma history_okD:
  assumes "history_ok s" and "get_delegation_task k s = Some t"
  shows "dt_task_id t = k" and "get_delegation_events k s \<noteq> []"
    and "de_status (hd (get_delegation_events k s)) = D_draft"
    and "legal_chain (statuses k s)"
    and "de_status (last (get_delegation_events k s)) = dt_status t"
  using assms(1) [unfolded history_ok_def, rule_format, of k] assms(2)
  by (simp_all add: history_of_def statuses_def)

lemma history_of_snoc:
  assumes "history_of k (Some c) es" and "legal (dt_status c) (dt_status u)"
    and "dt_task_id u = k" and "de_status e = dt_status u"
  shows "history_of k (Some u) (es @ [e])"
  using assms by (simp add: history_of_def legal_chain_snoc last_map)

lemma history_ok_move:
  assumes h: "history_ok s" and c: "get_delegation_task k s = Some c"
    and l: "legal (dt_status c) (dt_status u)" and u: "dt_task_id u = k" "de_status e = dt_status u"
  shows "history_ok (append_delegation_event (dt_task_id c) e (set_delegation_task k u s))"
  unfolding history_ok_def
proof (intro allI)
  fix j
  have k: "dt_task_id c = k" by (rule history_okD(1) [OF h c])
  have old: "history_of j (get_delegation_task j s) (get_delegation_events j s)"
    using h by (simp add: history_ok_def)
  show "history_of j (get_delegation_task j (append_delegation_event (dt_task_id c) e
        (set_delegation_task k u s))) (get_delegation_events j (append_delegation_event
        (dt_task_id c) e (set_delegation_task k u s)))"
    using old history_of_snoc [OF _ l u, of "get_delegation_events k s"] c
    by (cases "j = k") (simp_all add: k)
qed

lemma history_ok_create:
  assumes h: "history_ok s" and n: "get_delegation_task (dt_task_id t) s = None"
    and d: "dt_status t = D_draft" "de_status e = D_draft"
  shows "history_ok (append_delegation_event (dt_task_id t) e (set_delegation_task (dt_task_id t) t s))"
  unfolding history_ok_def
proof (intro allI)
  fix j
  have old: "history_of i (get_delegation_task i s) (get_delegation_events i s)" for i
    using h by (simp add: history_ok_def)
  from old [of "dt_task_id t"] n have none: "get_delegation_events (dt_task_id t) s = []"
    by (simp add: history_of_def)
  show "history_of j (get_delegation_task j (append_delegation_event (dt_task_id t) e
        (set_delegation_task (dt_task_id t) t s))) (get_delegation_events j
        (append_delegation_event (dt_task_id t) e (set_delegation_task (dt_task_id t) t s)))"
  proof (cases "j = dt_task_id t")
    case True
    then show ?thesis using none d by (simp add: history_of_def)
  next
    case False
    then show ?thesis using old [of j] by simp
  qed
qed

lemma history_ok_cong:
  assumes "\<And>k. get_delegation_task k t = get_delegation_task k s"
    and "\<And>k. get_delegation_events k t = get_delegation_events k s"
  shows "history_ok t = history_ok s"
  by (simp add: history_ok_def assms)

lemma history_ok_record:
  assumes "append_delegation_record k ty rid v s = Inr t" and "history_ok s"
  shows "history_ok t"
  using assms(2) history_ok_cong [of t s] append_record_Inr [OF assms(1)] by simp

lemma history_ok_profile: "history_ok s \<Longrightarrow> history_ok (set_executor_profile k p s)"
  by (subst history_ok_cong [of _ s])
    (simp_all add: get_delegation_task_def get_delegation_events_def set_executor_profile_def)

lemma keeps_transition [keeps_intros]: "keeps history_ok (transition E k st us d)"
proof (unfold keeps_def, intro allI impI)
  fix s :: sys assume h: "history_ok (sy_store s)"
  show "history_ok (sy_store (snd (transition E k st us d s)))"
  proof (cases rule: transition_cases [where k = k and s = s and st = st])
    case (legal c)
    have "dt_task_id (moved E (sy_tick s) c st us) = k" using history_okD(1) [OF h legal(1)] by simp
    then show ?thesis
      using history_ok_move [OF h legal(1), of "moved E (sy_tick s) c st us"] legal(2) by (simp add: transition_legal [OF legal] Let_def event_of_def)
  qed (simp_all add: h transition_illegal transition_missing)
qed

lemma keeps_create [keeps_intros]: "keeps history_ok (create_task E t)"
  by (auto simp: keeps_def create_task_run event_of_def intro!: history_ok_create)

lemma keeps_get_task [keeps_intros]: "keeps I (get_task k)"
  by (simp add: get_task_def keeps_intros)

lemma keeps_store_record [keeps_intros]: "keeps history_ok (store_record k ty rid v)"
  by (auto simp: keeps_def store_record_def history_ok_record split: sum.split store_error.split)

lemma keeps_append_record [keeps_intros]: "keeps history_ok (append_record k ty r)"
  by (simp add: append_record_def keeps_intros)

lemma keeps_get_records [keeps_intros]: "keeps I (get_records k ty)"
  by (simp add: get_records_def keeps_intros)

lemma keeps_profile [keeps_intros]: "keeps history_ok (register_profile p)"
  by (simp add: register_profile_def keeps_intros keeps_on_store history_ok_profile)

lemma keeps_get_profile [keeps_intros]: "keeps I (get_profile k)"
  by (simp add: get_profile_def keeps_intros)

lemma keeps_new_message [keeps_intros]: "keeps I (new_message E k who kind body)"
  by (simp add: new_message_def keeps_intros)

lemma keeps_commands [keeps_intros]:
  "keeps history_ok (delegate_assign E k x)" "keeps history_ok (delegate_start E k)"
  "keeps history_ok (delegate_message E k b)" "keeps history_ok (delegate_block E k b)"
  "keeps history_ok (delegate_resume E k)" "keeps history_ok (delegate_done E k b)"
  by (simp_all add: command_defs keeps_intros split del: if_split)

section \<open>Properties\<close>

text \<open>\<open>transition\<close> on every branch. An unknown task and a move that the table does not
  allow raise and change nothing. A legal move replaces the stored task by one with the updates,
  the new status and the new timestamp, appends exactly one event carrying that status, and
  returns the stored task.\<close>

theorem transition_outcome:
  "transition E k st us details s =
     (case get_delegation_task k (sy_store s) of
        None \<Rightarrow> (Inl (Exc DelegationError (''Delegation task not found: '' @ k)), s)
      | Some c \<Rightarrow>
          if st \<in> set (transitions (dt_status c)) then
            (let u = (apply_updates us c)\<lparr>dt_status := st, dt_updated_at := e_now E (sy_tick s)\<rparr> in
             (Inr u, s\<lparr>sy_store := append_delegation_event (dt_task_id c)
                  \<lparr>de_event_id = ''event_'' @ e_uuid E (Suc (sy_tick s)), de_task_id = dt_task_id c,
                   de_event_type = ''task.'' @ dstatus_str st, de_status = st,
                   de_details = details, de_created_at = e_now E (Suc (Suc (sy_tick s)))\<rparr>
                  (set_delegation_task k u (sy_store s)),
               sy_tick := Suc (Suc (Suc (sy_tick s)))\<rparr>))
          else (Inl (Exc DelegationError (''Invalid delegation transition: '' @
                  dstatus_str (dt_status c) @ '' -> '' @ dstatus_str st)), s))"
proof (cases rule: transition_cases [where k = k and s = s and st = st])
  case (legal c)
  then show ?thesis
    by (simp add: transition_legal [OF legal] Let_def moved_def event_of_def)
      (simp add: legal_def)
next
  case (illegal c)
  then show ?thesis by (simp add: transition_illegal) (simp add: legal_def)
next
  case missing
  then show ?thesis by (simp add: transition_missing)
qed

text \<open>the terminal statuses are exactly those without a successor, and every status of a
  task can be reached from \<open>draft\<close> by legal moves and has a terminal status ahead of it.\<close>

theorem no_stuck_status:
  "(st \<in> set terminal_statuses \<longleftrightarrow> transitions st = []) \<and>
   legal\<^sup>*\<^sup>* D_draft st \<and> (\<exists>t\<in>set terminal_statuses. legal\<^sup>*\<^sup>* st t)"
proof -
  have step: "legal a b \<Longrightarrow> legal\<^sup>*\<^sup>* b c \<Longrightarrow> legal\<^sup>*\<^sup>* a c" for a b c
    by (rule converse_rtranclp_into_rtranclp)
  have snoc: "legal\<^sup>*\<^sup>* D_draft a \<Longrightarrow> legal a b \<Longrightarrow> legal\<^sup>*\<^sup>* D_draft b" for a b
    by (rule rtranclp.rtrancl_into_rtrancl)
  note table = legal_def transitions.simps
  have r1: "legal\<^sup>*\<^sup>* D_draft D_assigned" by (rule snoc [OF rtranclp.rtrancl_refl]) (simp add: table)
  have r2: "legal\<^sup>*\<^sup>* D_draft D_workspace_ready" by (rule snoc [OF r1]) (simp add: table)
  have r3: "legal\<^sup>*\<^sup>* D_draft D_executor_working" by (rule snoc [OF r2]) (simp add: table)
  have r4: "legal\<^sup>*\<^sup>* D_draft D_executor_done" by (rule snoc [OF r3]) (simp add: table)
  have r5: "legal\<^sup>*\<^sup>* D_draft D_reviewing" by (rule snoc [OF r4]) (simp add: table)
  have r6: "legal\<^sup>*\<^sup>* D_draft D_accepted" by (rule snoc [OF r5]) (simp add: table)
  have r7: "legal\<^sup>*\<^sup>* D_draft D_promoting" by (rule snoc [OF r6]) (simp add: table)
  have r8: "legal\<^sup>*\<^sup>* D_draft D_promotion_failed" by (rule snoc [OF r7]) (simp add: table)
  have fwd: "legal\<^sup>*\<^sup>* D_draft st"
    using r1 r2 r3 r4 r5 r6 r7 r8 snoc [OF r3, of D_executor_blocked] snoc [OF r3, of D_failed]
      snoc [OF r3, of D_cancelled] snoc [OF r5, of D_revision_requested]
      snoc [OF r5, of D_rejected] snoc [OF r7, of D_promoted]
    by (cases st) (simp_all add: table)
  have t1: "legal\<^sup>*\<^sup>* D_executor_working D_failed" by (rule r_into_rtranclp) (simp add: table)
  have t2: "legal\<^sup>*\<^sup>* D_workspace_ready D_failed" by (rule step [OF _ t1]) (simp add: table)
  have t3: "legal\<^sup>*\<^sup>* D_assigned D_failed" by (rule step [OF _ t2]) (simp add: table)
  have t4: "legal\<^sup>*\<^sup>* D_revision_requested D_failed" by (rule step [OF _ t1]) (simp add: table)
  have t5: "legal\<^sup>*\<^sup>* D_promotion_failed D_rejected" by (rule r_into_rtranclp) (simp add: table)
  have "\<exists>t\<in>set terminal_statuses. legal\<^sup>*\<^sup>* st t"
    using t1 t2 t3 t4 t5 step [OF _ t3, of D_draft] step [OF _ t4, of D_executor_done]
      step [OF _ t1, of D_executor_blocked] step [OF _ t5, of D_promoting]
      r_into_rtranclp [of legal D_reviewing D_rejected]
      r_into_rtranclp [of legal D_accepted D_cancelled]
    by (cases st) (auto simp: table terminal_statuses_def)
  with fwd show ?thesis by (simp add: legal_terminal)
qed

end
