(* ===== verification/Repository.thy ===== *)
theory Repository
  imports Delegation_Proofs
begin

text \<open>
  The part of \<open>canto/core/repository.py\<close> that reads a repository's configuration: finding
  the Git top level, the Git metadata of a checkout, and loading and checking
  \<open>.canto/repo.toml\<close>, \<open>.canto/policy.toml\<close> and \<open>.canto/workers.toml\<close>; and the check of
  task paths against the repository policy in \<open>canto delegate create\<close>.
\<close>

section \<open>Text and directories\<close>

definition newline :: char where
  "newline = CHR 0x0A"

text \<open>\<open>s.splitlines()\<close> of Git output, whose lines end in a newline\<close>

definition splitlines :: "string \<Rightarrow> string list" where
  "splitlines s =
     (let ps = split_on newline s in if last ps = [] then butlast ps else ps)"

fun ancestors_upto :: "nat \<Rightarrow> string \<Rightarrow> string list" where
  "ancestors_upto 0 p = []"
| "ancestors_upto (Suc n) p = path_parent p # ancestors_upto n (path_parent p)"

text \<open>\<open>p.mkdir(parents=True)\<close>\<close>

definition make_dirs :: "string \<Rightarrow> fsys \<Rightarrow> fsys" where
  "make_dirs p f = f\<lparr>fs_dirs := p # ancestors_upto (length (segments p)) p @ fs_dirs f\<rparr>"

section \<open>Git\<close>

text \<open>\<open>_git\<close>: the stripped output, or an error with the message of the failed command\<close>

definition git_message :: "proc_out \<Rightarrow> string" where
  "git_message out =
     (if strip (px_stderr out) \<noteq> [] then strip (px_stderr out) else strip (px_stdout out))"

definition repo_git :: "env \<Rightarrow> string \<Rightarrow> string list \<Rightarrow> string run" where
  "repo_git E cwd args =
     bindM (git_run E (git_at cwd args)) (\<lambda>out.
     thenM (require (px_code out = 0) RepositoryConfigError
              (''Git command failed ('' @ join '' '' args @ ''): '' @ git_message out))
     (retM (strip (px_stdout out))))"

definition git_root :: "env \<Rightarrow> string \<Rightarrow> string run" where
  "git_root E path =
     bindM (from_fs (\<lambda>f. e_resolve E f path)) (\<lambda>candidate.
     bindM (from_fs (\<lambda>f. path_exists f candidate)) (\<lambda>ex.
     thenM (require ex RepositoryConfigError (''Repository path does not exist: '' @ candidate))
     (bindM (repo_git E candidate [''rev-parse'', ''--show-toplevel'']) (\<lambda>top.
      from_fs (\<lambda>f. e_resolve E f top)))))"

definition git_metadata ::
  "env \<Rightarrow> string \<Rightarrow> (string \<times> string \<times> (string, string) dict) run" where
  "git_metadata E repository =
     bindM (repo_git E repository [''rev-parse'', ''--git-common-dir'']) (\<lambda>common_value.
     bindM (repo_git E repository [''rev-parse'', ''HEAD'']) (\<lambda>head.
     bindM (repo_git E repository [''remote'']) (\<lambda>names.
     bindM (mapM (\<lambda>name. bindM (repo_git E repository [''remote'', ''get-url'', name])
                           (\<lambda>url. retM (name, url)))
             (filter (\<lambda>n. n \<noteq> []) (splitlines names))) (\<lambda>remotes.
     bindM (from_fs (\<lambda>f. e_resolve E f
              (if is_absolute common_value then common_value
               else path_join repository common_value))) (\<lambda>common.
     retM (common, head, foldl (\<lambda>d (n, u). dset n u d) [] remotes))))))"

section \<open>Loading the configuration\<close>

definition find_repository :: "env \<Rightarrow> string \<Rightarrow> string run" where
  "find_repository E path =
     bindM (git_root E path) (\<lambda>repository.
     bindM (from_fs (\<lambda>f. is_file f (path_join repository ''.canto/repo.toml''))) (\<lambda>ok.
     thenM (require ok RepositoryConfigError
              ''This Git repository is not initialized for Canto. Run: canto repo init'')
     (retM repository)))"

definition parsed :: "string \<Rightarrow> string + 'a \<Rightarrow> 'a run" where
  "parsed what r =
     (case r of Inl m \<Rightarrow> raise RepositoryConfigError (what @ m) | Inr a \<Rightarrow> retM a)"

definition load_repository :: "env \<Rightarrow> string \<Rightarrow> repo_config run" where
  "load_repository E path =
     bindM (find_repository E path) (\<lambda>repository.
     bindM (from_fs (\<lambda>f. is_file f (path_join repository ''.canto/policy.toml''))) (\<lambda>has_policy.
     thenM (require has_policy RepositoryConfigError
              (''Canto repository policy is missing: '' @
               path_join repository ''.canto/policy.toml''))
     (bindM (from_fs (\<lambda>f. read_file f (path_join repository ''.canto/repo.toml''))) (\<lambda>repo_text.
      bindM (parsed ''Invalid Canto repository configuration: '' (e_toml_repo E repo_text)) (\<lambda>config.
      bindM (from_fs (\<lambda>f. read_file f (path_join repository ''.canto/policy.toml''))) (\<lambda>policy_text.
      thenM (parsed ''Invalid Canto repository configuration: '' (e_toml_policy E policy_text))
      (bindM (git_metadata E repository) (\<lambda>(common_dir, head, remotes).
       bindM (from_fs (\<lambda>f. (e_resolve E f (cf_canonical_path config) = repository,
                e_resolve E f (cf_git_common_dir config) = e_resolve E f common_dir)))
         (\<lambda>(same_path, same_common).
       thenM (require same_path RepositoryConfigError
         ''Canto repository path changed; run an explicit repository relink before use'')
       (thenM (require same_common RepositoryConfigError
         ''Canto repository Git common-dir identity changed'')
       (thenM (require (cf_remotes config = [] \<or> same_dict (cf_remotes config) remotes)
         RepositoryConfigError ''Canto repository remote metadata changed'')
       (retM config))))))))))))"

definition load_repository_policy :: "env \<Rightarrow> string \<Rightarrow> repo_policy run" where
  "load_repository_policy E path =
     bindM (find_repository E path) (\<lambda>repository.
     bindM (from_fs (\<lambda>f. (is_file f (path_join repository ''.canto/policy.toml''),
                          read_file f (path_join repository ''.canto/policy.toml'')))) (\<lambda>(ok, text).
     thenM (require ok RepositoryConfigError ''Invalid Canto repository policy: '')
     (parsed ''Invalid Canto repository policy: '' (e_toml_policy E text))))"

definition load_repository_worker_policy :: "env \<Rightarrow> string \<Rightarrow> selection_policy run" where
  "load_repository_worker_policy E path =
     bindM (find_repository E path) (\<lambda>repository.
     bindM (from_fs (\<lambda>f. (is_file f (path_join repository ''.canto/workers.toml''),
                          read_file f (path_join repository ''.canto/workers.toml'')))) (\<lambda>(ok, text).
     thenM (require ok RepositoryConfigError ''Invalid Canto repository Worker policy: '')
     (parsed ''Invalid Canto repository Worker policy: '' (e_toml_workers E text))))"

lemmas repository_defs = repo_git_def git_root_def git_metadata_def find_repository_def
  parsed_def load_repository_def load_repository_policy_def load_repository_worker_policy_def

lemma keeps_parsed [keeps_intros]: "keeps I (parsed w r)"
  by (simp add: parsed_def keeps_intros split: sum.split)

lemma keeps_repository [keeps_intros]:
  "keeps I (repo_git E c a)" "keeps I (git_root E p)" "keeps I (git_metadata E p)"
  by (simp_all add: repo_git_def git_root_def git_metadata_def keeps_intros)

lemma keeps_find_repository [keeps_intros]: "keeps I (find_repository E p)"
  by (simp add: find_repository_def keeps_intros)

lemma keeps_load [keeps_intros]:
  "keeps I (load_repository E p)" "keeps I (load_repository_policy E p)"
  "keeps I (load_repository_worker_policy E p)"
  by (simp_all add: load_repository_def load_repository_policy_def
      load_repository_worker_policy_def keeps_intros split: prod.split)

end
