(* ===== verification/Workspace.thy ===== *)
theory Workspace
  imports Repository
begin

text \<open>
  \<open>canto/core/delegation_workspace.py\<close>: inspecting a repository and checking that its
  identity is the recorded one, normalising the paths of a task's scope, and
  \<open>DelegationWorkspaceService\<close>, which prepares a sparse Git worktree for an assigned task,
  reads it back and removes it.
\<close>

section \<open>Repository identity\<close>

definition ws_git :: "env \<Rightarrow> string \<Rightarrow> string list \<Rightarrow> string option \<Rightarrow> string run" where
  "ws_git E cwd args input =
     bindM (git_run E ((git_at cwd args)\<lparr>gc_stdin := input\<rparr>)) (\<lambda>out.
     thenM (require (px_code out = 0) WorkspaceError
              (''Git command failed ('' @ join '' '' args @ ''): '' @ git_message out))
     (retM (strip (px_stdout out))))"

definition inspect_repository :: "env \<Rightarrow> string \<Rightarrow> repo_identity run" where
  "inspect_repository E repository =
     bindM (from_fs (\<lambda>f. e_resolve E f repository)) (\<lambda>root.
     bindM (from_fs (\<lambda>f. is_dir f root)) (\<lambda>ok.
     thenM (require ok WorkspaceError (''Repository does not exist: '' @ root))
     (bindM (ws_git E root [''rev-parse'', ''--show-toplevel''] None) (\<lambda>top.
      bindM (from_fs (\<lambda>f. e_resolve E f top)) (\<lambda>top_level.
      thenM (require (top_level = root) WorkspaceError
               (''Repository path must be the Git top level: '' @ root))
      (bindM (ws_git E root [''rev-parse'', ''--git-common-dir''] None) (\<lambda>common_value.
       bindM (ws_git E root [''remote''] None) (\<lambda>names.
       bindM (mapM (\<lambda>name. bindM (ws_git E root [''remote'', ''get-url'', name] None)
                            (\<lambda>url. retM (name, url)))
               (filter (\<lambda>n. n \<noteq> []) (splitlines names))) (\<lambda>remotes.
       bindM (from_fs (\<lambda>f. is_file f (path_join root ''.canto/repo.toml''))) (\<lambda>canto.
       bindM (if canto then
                tryM (bindM (load_repository E root) (\<lambda>c. retM (Some (cf_repo_id c))))
                  (\<lambda>e. if exc_cls e = RepositoryConfigError
                       then raise WorkspaceError (exc_str e) else raiseM e)
              else retM None) (\<lambda>repo_id.
       bindM (from_fs (\<lambda>f. e_resolve E f
                (if is_absolute common_value then common_value
                 else path_join root common_value))) (\<lambda>common_dir.
       bindM (ws_git E root [''rev-parse'', ''HEAD''] None) (\<lambda>head.
       retM \<lparr>ri_repo_id = repo_id, ri_canonical_path = root, ri_git_common_dir = Some common_dir,
             ri_initial_head = Some head,
             ri_remotes = foldl (\<lambda>d (n, u). dset n u d) [] remotes\<rparr>)))))))))))))"

text \<open>A field of the expected identity that is empty or missing is not compared\<close>

definition verify_repository_identity :: "env \<Rightarrow> repo_identity \<Rightarrow> repo_identity run" where
  "verify_repository_identity E expected =
     bindM (inspect_repository E (ri_canonical_path expected)) (\<lambda>current.
     thenM (require (\<not> (given (ri_repo_id expected) \<and> ri_repo_id current \<noteq> ri_repo_id expected))
              WorkspaceError ''Canto repository identity changed'')
     (thenM (require (\<not> (given (ri_git_common_dir expected) \<and>
                         ri_git_common_dir current \<noteq> ri_git_common_dir expected))
              WorkspaceError ''Repository Git common-dir identity changed'')
     (thenM (require (\<not> (given (ri_initial_head expected) \<and>
                         ri_initial_head current \<noteq> ri_initial_head expected))
              WorkspaceError ''Repository HEAD changed from the recorded initial commit'')
     (thenM (require (\<not> (ri_remotes expected \<noteq> [] \<and>
                         \<not> same_dict (ri_remotes current) (ri_remotes expected)))
              WorkspaceError ''Repository remote metadata changed'')
     (retM current)))))"

section \<open>Scope paths\<close>

text \<open>The symbolic-link check walks down from the repository one part at a time\<close>

fun first_symlink :: "fsys \<Rightarrow> string \<Rightarrow> string list \<Rightarrow> bool \<times> string" where
  "first_symlink f current [] = (False, current)"
| "first_symlink f current (p # ps) =
     (let next_path = path_join current p in
      if is_symlink f next_path then (True, next_path) else first_symlink f next_path ps)"

definition normalize_scope_path :: "env \<Rightarrow> fsys \<Rightarrow> string \<Rightarrow> string \<Rightarrow> exc + string" where
  "normalize_scope_path E f repository value =
     (if value = [] \<or> is_absolute value \<or> ''..'' \<in> set (path_parts value)
      then Inl (Exc WorkspaceError (''Invalid repository scope path: '' @ value))
      else
        (let normalized = lstrip_chars ''./'' (as_posix value) in
         if normalized = [] \<or> normalized = ''.git'' \<or> startswith normalized ''.git/''
         then Inl (Exc WorkspaceError (''Invalid repository scope path: '' @ value))
         else
           (case first_symlink f repository (path_parts normalized) of
              (True, _) \<Rightarrow>
                Inl (Exc WorkspaceError
                       (''Symlinks are not allowed in repository scope: '' @ value))
            | (False, current) \<Rightarrow>
                if is_relative_to (e_resolve E f current) repository then Inr normalized
                else Inl (Exc WorkspaceError
                            (''Repository scope escapes the repository: '' @ value)))))"

definition overlaps :: "string \<Rightarrow> string \<Rightarrow> bool" where
  "overlaps path denied \<longleftrightarrow>
     path = denied \<or> startswith path (denied @ ''/'') \<or> startswith denied (path @ ''/'')"

section \<open>The service\<close>

text \<open>\<open>task_root.rmdir()\<close> fails on a directory that is not empty\<close>

definition dir_empty :: "fsys \<Rightarrow> string \<Rightarrow> bool" where
  "dir_empty f p \<longleftrightarrow>
     \<not> (\<exists>q\<in>set (fs_dirs f) \<union> set (fs_links f). in_parents p q) \<and>
     \<not> (\<exists>q\<in>set (map fst (fs_files f)). in_parents p q)"

definition remove_tree_or_fail :: "string \<Rightarrow> unit run" where
  "remove_tree_or_fail p =
     bindM (from_fs (\<lambda>f. (path_exists f p, dir_empty f p))) (\<lambda>(ex, empty).
     if \<not> ex then retM ()
     else thenM (require empty OSError (''Directory not empty: '' @ p)) (on_fs (remove_dir p)))"

definition sparse_patterns :: "string list \<Rightarrow> string list \<Rightarrow> string list" where
  "sparse_patterns allowed denied =
     concat (map (\<lambda>p. [''/'' @ p, ''/'' @ p @ ''/**'']) allowed) @
     concat (map (\<lambda>p. [''!/'' @ p, ''!/'' @ p @ ''/**'']) denied) @
     [''/AGENTS.md'', ''/.canto/delegate.toml'', ''/.canto/agents'', ''/.canto/agents/**'']"

definition last_chars :: "nat \<Rightarrow> string \<Rightarrow> string" where
  "last_chars n s = drop (length s - n) s"

text \<open>Everything up to the record: the guards, the scope, the worktree and its cleanup\<close>

definition build_workspace :: "env \<Rightarrow> string \<Rightarrow> string \<Rightarrow> dworkspace run" where
  "build_workspace E home k =
     bindM (get_task k) (\<lambda>task.
     thenM (require (dt_status task = D_assigned) WorkspaceError
              ''A workspace can only be prepared for an assigned task'')
     (bindM (from_fs (\<lambda>f. e_resolve E f (ri_canonical_path (dt_repository task)))) (\<lambda>repository.
      bindM (verify_repository_identity E (dt_repository task)) (\<lambda>identity.
      bindM (mapM (\<lambda>v. bindM (from_fs (\<lambda>f. normalize_scope_path E f repository v)) liftM)
              (sc_allowed_paths (dt_scope task))) (\<lambda>allowed_list.
      bindM (mapM (\<lambda>v. bindM (from_fs (\<lambda>f. normalize_scope_path E f repository v)) liftM)
              (sc_denied_paths (dt_scope task))) (\<lambda>denied_list.
      let allowed = sorted_set allowed_list; denied = sorted_set denied_list;
          clashes = [(a, d). a \<leftarrow> allowed, d \<leftarrow> denied, overlaps a d] in
      thenM (require (allowed \<noteq> []) WorkspaceError
               ''Delegation scope requires at least one allowed path'')
      (thenM (require (clashes = []) WorkspaceError
               (''Allowed and denied repository paths overlap: '' @
                join '', '' (map (\<lambda>(a, d). a @ '' <-> '' @ d) clashes)))
      (bindM (fresh E ''workspace_'') (\<lambda>workspace_id.
       let branch = ''canto/delegation/'' @ k @ ''-'' @ last_chars 8 workspace_id in
       bindM (from_fs (\<lambda>f. e_resolve E f (path_join home k))) (\<lambda>task_root.
       bindM (from_fs (\<lambda>f. e_resolve E f (path_join task_root ''workspace''))) (\<lambda>workspace_path.
       thenM (require (in_parents home workspace_path) WorkspaceError
                ''Managed workspace path escaped the delegation root'')
       (bindM (from_fs (\<lambda>f. path_exists f task_root)) (\<lambda>taken.
        thenM (require (\<not> taken) FileExistsError task_root)
        (thenM (on_fs (make_dirs task_root))
        (thenM (tryM
           (thenM (ws_git E repository
                     [''worktree'', ''add'', ''-b'', branch, workspace_path,
                      (if given (ri_initial_head identity) then the (ri_initial_head identity)
                       else ''HEAD'')] None)
            (thenM (ws_git E workspace_path
                     [''sparse-checkout'', ''set'', ''--no-cone'', ''--stdin'']
                     (Some (join [newline] (sparse_patterns allowed denied) @ [newline])))
             (retM ())))
           (\<lambda>e. bindM (from_fs (\<lambda>f. path_exists f workspace_path)) (\<lambda>made.
              thenM (if made then
                       thenM (git_run E (git_at repository
                                [''worktree'', ''remove'', ''--force'', workspace_path])) (retM ())
                     else retM ())
              (thenM (remove_tree_or_fail task_root) (raiseM e)))))
        (bindM (utc_now E) (\<lambda>now.
         retM \<lparr>ws_workspace_id = workspace_id, ws_task_id = k, ws_path = workspace_path,
               ws_branch = branch,
               ws_base_commit = (case ri_initial_head identity of None \<Rightarrow> [] | Some h \<Rightarrow> h),
               ws_repository = identity, ws_allowed_paths = allowed, ws_denied_paths = denied,
               ws_status = WS_ready, ws_created_at = now, ws_removed_at = None\<rparr>)))))))))))))))))"

definition prepare :: "env \<Rightarrow> string \<Rightarrow> string \<Rightarrow> dworkspace run" where
  "prepare E home k =
     bindM (build_workspace E home k) (\<lambda>workspace.
     thenM (append_record k T_workspaces (RWorkspace workspace))
     (thenM (transition E k D_workspace_ready [U_workspace_id (ws_workspace_id workspace)]
               [(''workspace_id'', JStr (ws_workspace_id workspace))])
     (retM workspace)))"

definition get_workspace :: "string \<Rightarrow> dworkspace run" where
  "get_workspace k =
     bindM (get_records k T_workspaces) (\<lambda>records.
     thenM (require (workspaces_of records \<noteq> []) WorkspaceError
              (''Workspace not found for delegation task: '' @ k))
     (retM (last (workspaces_of records))))"

record workspace_view =
  wv_workspace :: dworkspace
  wv_exists :: bool
  wv_head :: "string option"
  wv_changes :: "string list"

definition inspect_workspace :: "env \<Rightarrow> string \<Rightarrow> workspace_view run" where
  "inspect_workspace E k =
     bindM (get_workspace k) (\<lambda>w.
     bindM (from_fs (\<lambda>f. is_dir f (ws_path w))) (\<lambda>ex.
     if ex then
       bindM (ws_git E (ws_path w) [''rev-parse'', ''HEAD''] None) (\<lambda>head.
       bindM (ws_git E (ws_path w) [''status'', ''--short''] None) (\<lambda>changes.
       retM \<lparr>wv_workspace = w, wv_exists = True, wv_head = Some head,
             wv_changes = splitlines changes\<rparr>))
     else retM \<lparr>wv_workspace = w, wv_exists = False, wv_head = None, wv_changes = []\<rparr>))"

definition remove_workspace :: "env \<Rightarrow> string \<Rightarrow> string \<Rightarrow> dworkspace run" where
  "remove_workspace E home k =
     bindM (get_workspace k) (\<lambda>w.
     if ws_status w = WS_removed then retM w
     else
       bindM (from_fs (\<lambda>f. e_resolve E f (ws_path w))) (\<lambda>path.
       thenM (require (in_parents home path) WorkspaceError
                ''Refusing to remove a workspace outside the managed root'')
       (bindM (from_fs (\<lambda>f. path_exists f path)) (\<lambda>ex.
        thenM (if ex then
                 thenM (ws_git E (ri_canonical_path (ws_repository w))
                   [''worktree'', ''remove'', ''--force'', path] None) (retM ())
               else retM ())
        (thenM (ws_git E (ri_canonical_path (ws_repository w))
                 [''branch'', ''-D'', ws_branch w] None)
        (bindM (utc_now E) (\<lambda>now.
         let updated = w\<lparr>ws_status := WS_removed, ws_removed_at := Some now\<rparr> in
         thenM (append_record k T_workspace_lifecycle (RWorkspace updated))
         (retM updated))))))))"

end
