(* ===== verification/Workspace_Proofs.thy ===== *)
theory Workspace_Proofs
  imports Workspace
begin

text \<open>
  Properties of the workspace service: what a normalised scope path looks like, that a
  prepared workspace separates its allowed paths from its denied ones, and what preparing and
  removing a workspace record.
\<close>

section \<open>Matching a path against scope roots\<close>

text \<open>\<open>any(path == root or path.startswith(f"{root}/") for root in roots)\<close>, the test that the
  capture and the promotion services share\<close>

definition matches :: "string \<Rightarrow> string list \<Rightarrow> bool" where
  "matches path roots \<longleftrightarrow> (\<exists>r\<in>set roots. path = r \<or> startswith path (r @ ''/''))"

lemma matches_under: "matches p roots \<longleftrightarrow> (\<exists>r\<in>set roots. under p r)"
  by (simp add: matches_def under_def)

lemma overlaps_under: "overlaps a b \<longleftrightarrow> under a b \<or> under b a"
  by (auto simp: overlaps_def under_def)

lemma overlaps_sym: "overlaps a b = overlaps b a"
  by (auto simp: overlaps_under)

lemma matches_exclusive:
  assumes "\<And>a d. a \<in> set allowed \<Longrightarrow> d \<in> set denied \<Longrightarrow> \<not> overlaps a d"
  shows "\<not> (matches p allowed \<and> matches p denied)"
  using assms under_common unfolding matches_under overlaps_under by blast

section \<open>Normalised paths\<close>

lemma lstrip_suffix: "\<exists>u. s = u @ lstrip_chars cs s"
  unfolding lstrip_chars_def by (metis takeWhile_dropWhile_id)

lemma lstrip_hd: "lstrip_chars cs s = [] \<or> hd (lstrip_chars cs s) \<notin> set cs"
  unfolding lstrip_chars_def by (metis hd_dropWhile)

lemma normalize_Inr:
  assumes "normalize_scope_path E f repository v = Inr p"
  shows "v \<noteq> []" and "\<not> is_absolute v" and "''..'' \<notin> set (path_parts v)"
    and "p = lstrip_chars ''./'' (as_posix v)" and "p \<noteq> []"
    and "fst (first_symlink f repository (path_parts p)) = False"
    and "is_relative_to (e_resolve E f (snd (first_symlink f repository (path_parts p)))) repository"
  using assms
  by (auto simp: normalize_scope_path_def Let_def split: if_splits prod.splits bool.splits)

lemma normalize_first:
  assumes "normalize_scope_path E f repository v = Inr p"
  shows "hd p \<noteq> CHR ''.''" and "hd p \<noteq> CHR ''/''"
  using normalize_Inr(4,5) [OF assms] lstrip_hd [of "''./''" "as_posix v"] by auto

lemma under_hd: "under p r \<Longrightarrow> r \<noteq> [] \<Longrightarrow> hd p = hd r"
  by (auto simp: under_root)

text \<open>The paths visited on the way down\<close>

fun walk :: "string \<Rightarrow> string list \<Rightarrow> string list" where
  "walk c [] = []"
| "walk c (p # ps) = path_join c p # walk (path_join c p) ps"

lemma first_symlink_none:
  "fst (first_symlink f c ps) = False \<longleftrightarrow> (\<forall>q\<in>set (walk c ps). \<not> is_symlink f q)"
  by (induction f c ps rule: first_symlink.induct) (auto simp: Let_def)

lemma first_symlink_end:
  "fst (first_symlink f c ps) = False \<Longrightarrow> snd (first_symlink f c ps) = foldl path_join c ps"
  by (induction f c ps rule: first_symlink.induct) (auto simp: Let_def split: if_splits)

text \<open>Stripping leading characters can only shorten the first part\<close>

lemma split_on_tl: "set (tl (split_on c p)) \<subseteq> set (tl (split_on c (u @ p)))"
proof (induction u)
  case (Cons x u)
  obtain q qs where "split_on c (u @ p) = q # qs" by (cases "split_on c (u @ p)") auto
  with Cons show ?case by auto
qed simp

lemma split_on_hd: "p \<noteq> [] \<Longrightarrow> hd p \<noteq> c \<Longrightarrow> hd (hd (split_on c p)) = hd p"
  by (cases p) (auto split: list.split)

lemma segments_suffix:
  assumes "x \<in> set (segments p)" and "hd p \<noteq> slash"
  shows "hd x = hd p \<or> x \<in> set (segments (u @ p))"
proof (cases "p = []")
  case False
  obtain q qs where p: "split_on slash p = q # qs" by (cases "split_on slash p") auto
  have "hd q = hd p" using split_on_hd [OF False assms(2)] p by simp
  moreover have "set qs \<subseteq> set (split_on slash (u @ p))"
    using split_on_tl [of slash p u] p
    by (cases "split_on slash (u @ p)") auto
  ultimately show ?thesis using assms(1) p by (auto simp: segments_def split: if_splits)
qed (use assms in \<open>simp add: segments_def\<close>)

lemma segments_as_posix: "\<not> is_absolute v \<Longrightarrow> segments (as_posix v) = segments v"
proof (cases "segments v = []")
  case False
  assume "\<not> is_absolute v"
  with False show ?thesis
    by (simp add: as_posix_def segments_join segments_no_slash)
qed (simp add: as_posix_def, simp add: segments_def slash_def)

lemma normalize_no_dotdot:
  assumes n: "normalize_scope_path E f repository v = Inr p"
  shows "''..'' \<notin> set (path_parts p)"
proof -
  note N = normalize_Inr [OF n] and F = normalize_first [OF n]
  obtain u where u: "as_posix v = u @ p" using N(4) lstrip_suffix by metis
  have "\<not> is_absolute p"
    using F by (cases p) (auto simp: is_absolute_def startswith_iff slash_def)
  moreover have "''..'' \<notin> set (segments p)"
  proof
    assume dd: "''..'' \<in> set (segments p)"
    from segments_suffix [OF this, of u] F(2)
    have "hd p = CHR ''.'' \<or> ''..'' \<in> set (segments (as_posix v))"
      by (auto simp: slash_def u)
    with F(1) N(2,3) show False by (simp add: segments_as_posix path_parts_def)
  qed
  ultimately show ?thesis by (simp add: path_parts_def)
qed

section \<open>Collecting normalised paths\<close>

lemma mapM_normalize_Inr:
  "mapM (\<lambda>v. bindM (from_fs (\<lambda>f. g f v)) liftM) vs s = (Inr ps, t) \<Longrightarrow>
   t = s \<and> list_all2 (\<lambda>v p. g (sy_fs s) v = Inr p) vs ps"
proof (induction vs arbitrary: ps t)
  case (Cons v vs)
  then show ?case by (fastforce simp: inr_eqs)
qed simp

lemma collected:
  assumes "list_all2 (\<lambda>v p. g v = Inr p) vs ps"
  shows "p \<in> set ps \<longleftrightarrow> (\<exists>v\<in>set vs. g v = Inr p)"
  using assms by (induction rule: list_all2_induct) auto

section \<open>Properties\<close>

text \<open>C26: a scope path that passes normalisation is a non-empty relative path without a
  \<open>..\<close> part, no directory on the way to it in the repository is a symbolic link, and the
  place it resolves to lies in the repository.\<close>

theorem normalized_path_inside:
  assumes "normalize_scope_path E f repository v = Inr p"
  shows "p \<noteq> [] \<and> \<not> is_absolute p \<and> ''..'' \<notin> set (path_parts p) \<and>
    (\<forall>q\<in>set (walk repository (path_parts p)). \<not> is_symlink f q) \<and>
    is_relative_to (e_resolve E f (foldl path_join repository (path_parts p))) repository"
  using normalize_Inr [OF assms] normalize_first [OF assms] normalize_no_dotdot [OF assms]
    first_symlink_none [of f repository "path_parts p"]
    first_symlink_end [of f repository "path_parts p"]
  by (auto simp: is_absolute_def startswith_iff slash_def)

definition example_env :: env where
  "example_env = \<lparr>e_uuid = (\<lambda>n. ''id'' @ show_nat n), e_now = (\<lambda>n. show_nat n),
     e_git = (\<lambda>n c f. (\<lparr>px_code = 0, px_stdout = [], px_stderr = []\<rparr>, f)),
     e_exec = (\<lambda>n argv cwd i f. (Finished \<lparr>px_code = 0, px_stdout = [], px_stderr = []\<rparr>, f)),
     e_which = (\<lambda>f x. None), e_state_root = ''/home/.canto'',
     e_sha = (\<lambda>s. ''sha:'' @ s), e_resolve = (\<lambda>f p. p),
     e_dumps = (\<lambda>n j. []), e_float = (\<lambda>r. []), e_loads = (\<lambda>s. None), e_shlex = (\<lambda>s. Some (split_on CHR '' '' s)),
     e_toml_repo = (\<lambda>s. Inl []), e_toml_policy = (\<lambda>s. Inl []), e_toml_workers = (\<lambda>s. Inl [])\<rparr>"

definition empty_fs :: fsys where
  "empty_fs = \<lparr>fs_files = [], fs_dirs = [], fs_links = [], fs_readonly = []\<rparr>"

lemma normalize_src: "normalize_scope_path example_env empty_fs ''/r'' ''src/a'' = Inr ''src/a''"
  by (simp add: normalize_scope_path_def example_env_def empty_fs_def)
     code_simp

theorem normalized_path_inside_witness:
  "normalize_scope_path example_env empty_fs ''/r'' ''src/a'' = Inr ''src/a'' \<and>
   ''..'' \<notin> set (path_parts ''src/a'')"
  using normalized_path_inside [OF normalize_src] normalize_src by blast

text \<open>normalisation strips leading dots from the path itself, not only a leading
  \<open>./\<close>: a normalised scope root never begins with a dot, so that no file whose path begins
  with a dot, such as \<open>.env\<close> or \<open>.github/workflows\<close>, is ever covered by the allowed or the
  denied paths of a workspace. Denying such a file has no effect on it.\<close>

theorem dotfiles_never_covered:
  assumes "list_all2 (\<lambda>v p. normalize_scope_path E f repository v = Inr p) vs ps"
  shows "\<not> matches (CHR ''.'' # path) (sorted_set ps)"
proof
  assume "matches (CHR ''.'' # path) (sorted_set ps)"
  then obtain r where r: "r \<in> set ps" and u: "under (CHR ''.'' # path) r"
    by (auto simp: matches_under)
  from collected [OF assms] r obtain v where n: "normalize_scope_path E f repository v = Inr r"
    by blast
  have "hd (CHR ''.'' # path) = hd r" by (rule under_hd [OF u normalize_Inr(5) [OF n]])
  with normalize_first(1) [OF n] show False by simp
qed

lemma normalize_env_file: "normalize_scope_path example_env empty_fs ''/r'' ''.env'' = Inr ''env''"
  by code_simp

theorem dotfiles_never_covered_witness:
  "normalize_scope_path example_env empty_fs ''/r'' ''.env'' = Inr ''env'' \<and>
   \<not> matches ''.env'' (sorted_set [''env''])"
  using dotfiles_never_covered [where vs = "[''.env'']" and ps = "[''env'']" and path = "''env''"
      and E = example_env and f = empty_fs and repository = "''/r''"] normalize_env_file
  by simp

end
