(* ===== verification/Artifacts.thy ===== *)
theory Artifacts
  imports Workspace_Proofs
begin

text \<open>
  \<open>canto/core/delegation_artifacts.py\<close>: the changed files of a workspace as Git reports
  them, the patch of those files against the base commit through a private index, and
  \<open>DelegationArtifactService\<close>, which captures them as a numbered, read-only result of the
  task.
\<close>

section \<open>Changed files\<close>

definition art_git :: "env \<Rightarrow> string \<Rightarrow> string list \<Rightarrow> string option \<Rightarrow> string run" where
  "art_git E cwd args index =
     bindM (git_run E ((git_at cwd args)\<lparr>gc_index := index\<rparr>)) (\<lambda>out.
     thenM (require (px_code out = 0) ArtifactCaptureError
              (if strip (px_stderr out) \<noteq> [] then strip (px_stderr out)
               else ''Git command failed: '' @ join '' '' args))
     (retM (px_stdout out)))"

definition is_generated_cache :: "string \<Rightarrow> bool" where
  "is_generated_cache path =
     (let parts = path_parts path; name = (if parts = [] then [] else last parts) in
      ''__pycache__'' \<in> set parts \<or> ''.pytest_cache'' \<in> set parts \<or>
      endswith name ''.pyc'' \<or> endswith name ''.pyo'')"

record change =
  ch_path :: string
  ch_status :: string

text \<open>The entries of \<open>git status --porcelain=v1 -z\<close>: a status of two characters, a blank
  and a path; after a rename or copy the next entry is the source path. The result pairs
  each status and path with that source.\<close>

fun status_entries :: "string list \<Rightarrow> (string \<times> string option \<times> string) list" where
  "status_entries [] = []"
| "status_entries (entry # rest) =
     (if entry = [] then status_entries rest
      else
        (let status = take 2 entry; path = drop 3 entry in
         case rest of
           [] \<Rightarrow> [(status, None, path)]
         | source # rest' \<Rightarrow>
             if hd status \<in> {CHR ''R'', CHR ''C''}
             then (status, Some source, path) # status_entries rest'
             else (status, None, path) # status_entries rest))"

text \<open>One iteration of the loop: the source of a rename is recorded as deleted; generated
  caches that are untracked and entries that exist neither in the workspace nor in the base
  commit are skipped\<close>

definition entry_changes ::
  "env \<Rightarrow> string \<Rightarrow> string \<Rightarrow> string \<times> string option \<times> string \<Rightarrow> change list run" where
  "entry_changes E workspace base_commit entry =
     (case entry of (status, source, path) \<Rightarrow>
        let removed = (case source of None \<Rightarrow> [] | Some p \<Rightarrow> [\<lparr>ch_path = p, ch_status = ''D ''\<rparr>]) in
        if status = ''??'' \<and> is_generated_cache path then retM removed
        else
          bindM (from_fs (\<lambda>f. lexists f (path_join workspace path))) (\<lambda>in_workspace.
          bindM (git_run E (git_at workspace [''cat-file'', ''-e'', base_commit @ '':'' @ path])) (\<lambda>out.
          if \<not> in_workspace \<and> px_code out \<noteq> 0 then retM removed
          else retM (removed @ [\<lparr>ch_path = path, ch_status = status\<rparr>]))))"

definition nul :: char where
  "nul = CHR 0x00"

definition changed_files :: "env \<Rightarrow> string \<Rightarrow> string \<Rightarrow> change list run" where
  "changed_files E workspace base_commit =
     bindM (git_run E (git_at workspace
              [''status'', ''--porcelain=v1'', ''-z'', ''--untracked-files=all''])) (\<lambda>out.
     thenM (require (px_code out = 0) CalledProcessError ''git status'')
     (bindM (mapM (entry_changes E workspace base_commit)
               (status_entries (split_on nul (px_stdout out)))) (\<lambda>lists.
      retM (sort_key ch_path (concat lists)))))"

text \<open>What a worker left behind: whether there are changes, the outcome and a sentence\<close>

definition classify_worker_outcome ::
  "env \<Rightarrow> string \<Rightarrow> string \<Rightarrow> string \<Rightarrow> string list option \<Rightarrow> string list option \<Rightarrow>
   (bool \<times> outcome \<times> string) run" where
  "classify_worker_outcome E workspace base_commit stdout allowed denied =
     bindM (changed_files E workspace base_commit) (\<lambda>changes.
     bindM (from_fs (\<lambda>f. case allowed of
              None \<Rightarrow> []
            | Some roots \<Rightarrow>
                filter (\<lambda>p. \<not> matches p roots \<or>
                            matches p (case denied of None \<Rightarrow> [] | Some d \<Rightarrow> d) \<or>
                            is_symlink f (path_join workspace p))
                  (map ch_path changes))) (\<lambda>invalid.
     if changes \<noteq> [] then
       if invalid \<noteq> [] then
         retM (True, O_advisory,
           ''Worker changed paths that cannot be captured under the assignment Guardrails: '' @
           join '', '' invalid)
       else
         retM (True, O_completed_work,
           ''Worker process completed with '' @ show_nat (length changes) @
           '' reviewable Workspace change(s)'')
     else if strip stdout \<noteq> [] then
       retM (False, O_advisory,
         ''Worker process completed with advisory output but no reviewable Workspace changes; '' @
         ''the model or harness may not support required tool execution'')
     else
       retM (False, O_no_work,
         ''Worker process completed without output or reviewable Workspace changes'')))"

section \<open>The patch\<close>

definition workspace_patch ::
  "env \<Rightarrow> string \<Rightarrow> string \<Rightarrow> change list option \<Rightarrow> string run" where
  "workspace_patch E workspace base_commit changes =
     bindM (case changes of None \<Rightarrow> changed_files E workspace base_commit
                          | Some cs \<Rightarrow> retM cs) (\<lambda>snapshot.
     let paths = map ch_path snapshot in
     if paths = [] then retM []
     else
       bindM (fresh E ''/tmp/canto-capture-index-'') (\<lambda>root.
       let index = Some (root @ ''/index'') in
       thenM (art_git E workspace [''read-tree'', base_commit] index)
       (thenM (art_git E workspace ([''add'', ''-A'', ''--''] @ paths) index)
       (art_git E workspace
          ([''diff'', ''--cached'', ''--binary'', ''--full-index'', base_commit, ''--''] @ paths)
          index))))"

section \<open>The service\<close>

definition required_names :: "string list" where
  "required_names = [''proposal.diff'', ''changed_files.json'', ''commands.log'', ''summary.md'']"

definition make_artifact :: "env \<Rightarrow> fsys \<Rightarrow> string \<Rightarrow> string \<Rightarrow> artifact" where
  "make_artifact E f path relative =
     (let content = read_file f path in
      \<lparr>ar_name = path_name path, ar_relative_path = relative, ar_sha256 = e_sha E content,
       ar_size = length content\<rparr>)"

definition check_change :: "dworkspace \<Rightarrow> change \<Rightarrow> unit run" where
  "check_change w c =
     thenM (require (\<not> is_absolute (ch_path c) \<and> ''..'' \<notin> set (path_parts (ch_path c)))
              ArtifactCaptureError (''Invalid changed path: '' @ ch_path c))
     (thenM (require (\<not> matches (ch_path c) (ws_denied_paths w))
              ArtifactCaptureError (''Denied path changed: '' @ ch_path c))
     (thenM (require (matches (ch_path c) (ws_allowed_paths w))
              ArtifactCaptureError (''Out-of-scope path changed: '' @ ch_path c))
     (bindM (from_fs (\<lambda>f. is_symlink f (path_join (ws_path w) (ch_path c)))) (\<lambda>link.
      require (\<not> link) ArtifactCaptureError
        (''Symlink changes are not allowed: '' @ ch_path c)))))"

definition change_json :: "change \<Rightarrow> json" where
  "change_json c = JObj [(''path'', JStr (ch_path c)), (''status'', JStr (ch_status c))]"

definition opt_json :: "('a \<Rightarrow> json) \<Rightarrow> 'a option \<Rightarrow> json" where
  "opt_json f v = (case v of None \<Rightarrow> JNull | Some x \<Rightarrow> f x)"

text \<open>\<open>json.dumps(record, sort_keys=True)\<close>\<close>

definition command_json :: "command_rec \<Rightarrow> json" where
  "command_json c = JObj
     [(''argv'', JList (map JStr (cm_argv c))), (''command'', JStr (cm_command c)),
      (''created_at'', JStr (cm_created_at c)), (''cwd'', JStr (cm_cwd c)),
      (''exit_code'', opt_json JInt (cm_exit_code c)), (''record_id'', JStr (cm_record_id c)),
      (''source'', JStr (case cm_source c of Src_executor_reported \<Rightarrow> ''executor_reported''
                                         | Src_canto_observed \<Rightarrow> ''canto_observed'')),
      (''status'', JStr (case cm_status c of Cs_reported \<Rightarrow> ''reported'' | Cs_passed \<Rightarrow> ''passed''
                                          | Cs_failed \<Rightarrow> ''failed'' | Cs_waived \<Rightarrow> ''waived'')),
      (''stderr_path'', opt_json JStr (cm_stderr_path c)),
      (''stdout_path'', opt_json JStr (cm_stdout_path c)), (''task_id'', JStr (cm_task_id c)),
      (''waiver_reason'', opt_json JStr (cm_waiver_reason c))]"

definition last_opt :: "'a list \<Rightarrow> 'a option" where
  "last_opt xs = (if xs = [] then None else Some (last xs))"

definition outcome_gate :: "launch option \<Rightarrow> unit run" where
  "outcome_gate launch =
     (case launch of
        None \<Rightarrow> retM ()
      | Some l \<Rightarrow>
          require (la_outcome l \<notin> {Some O_advisory, Some O_no_work}) ArtifactCaptureError
            ((if given (la_outcome_detail l) then the (la_outcome_detail l)
              else ''Worker process completed without reviewable Workspace changes'') @
             ''. Inspect '' @ la_stdout_path l @ '' and request a revision''))"

definition write_revision ::
  "env \<Rightarrow> string \<Rightarrow> string \<Rightarrow> change list \<Rightarrow> command_rec list \<Rightarrow> string \<Rightarrow> unit run" where
  "write_revision E revision_root patch changes commands summary =
     thenM (on_fs (write_file (path_join revision_root ''proposal.diff'') patch))
     (thenM (on_fs (write_file (path_join revision_root ''changed_files.json'')
               (e_dumps E 2 (JList (map change_json changes)) @ [newline])))
     (thenM (on_fs (write_file (path_join revision_root ''commands.log'')
               (concat (map (\<lambda>c. e_dumps E 0 (command_json c) @ [newline]) commands))))
     (on_fs (write_file (path_join revision_root ''summary.md'')
               (''# Delegation Result'' @ [newline, newline] @ summary @ [newline])))))"

text \<open>Everything up to the record: the guards, the patch, the files of the revision\<close>

definition build_result :: "env \<Rightarrow> string \<Rightarrow> result_rec run" where
  "build_result E k =
     bindM (get_task k) (\<lambda>task.
     thenM (require (dt_status task = D_executor_done) ArtifactCaptureError
              ''Artifacts can only be captured from executor_done'')
     (bindM (get_workspace k) (\<lambda>workspace.
      bindM (get_records k T_launches) (\<lambda>launches.
      let launch = last_opt (launches_of launches) in
      thenM (outcome_gate launch)
      (bindM (changed_files E (ws_path workspace) (ws_base_commit workspace)) (\<lambda>changes.
       thenM (require (changes \<noteq> []) ArtifactCaptureError
                ''Delegation workspace has no changes to capture'')
       (thenM (forM (check_change workspace) changes)
       (bindM (workspace_patch E (ws_path workspace) (ws_base_commit workspace) (Some changes)) (\<lambda>patch.
        thenM (require (patch \<noteq> []) ArtifactCaptureError
                 ''Workspace changes did not produce a reviewable patch'')
        (let revision = dt_latest_result_revision task + 1 in
         bindM (fresh E ''result_'') (\<lambda>result_id.
         let artifact_root = path_join (path_parent (ws_path workspace)) ''artifacts'';
             relative = ''revision-'' @ show_int revision;
             revision_root = path_join artifact_root relative in
         bindM (from_fs (\<lambda>f. path_exists f revision_root)) (\<lambda>taken.
         thenM (require (\<not> taken) ArtifactCaptureError
                  (''Artifact revision already exists: '' @ show_int revision))
         (thenM (on_fs (make_dirs revision_root))
         (bindM (get_records k T_commands) (\<lambda>commands.
          bindM (get_records k T_messages) (\<lambda>messages.
          let done_messages = filter (\<lambda>m. ms_kind m = Mk_done) (messages_of messages);
              summary = (if done_messages \<noteq> [] then ms_body (last done_messages)
                         else ''Executor reported completion.'') in
          thenM (write_revision E revision_root patch changes (commands_of commands) summary)
          (bindM (from_fs (\<lambda>f. map (\<lambda>name. make_artifact E f (path_join revision_root name)
                                       (relative @ ''/'' @ name)) required_names)) (\<lambda>artifacts.
           thenM (forM (\<lambda>name. on_fs (set_readonly (path_join revision_root name))) required_names)
           (thenM (on_fs (set_readonly revision_root))
           (bindM (utc_now E) (\<lambda>now.
            retM \<lparr>rs_result_id = result_id, rs_task_id = k, rs_revision = revision,
                  rs_base_commit = ws_base_commit workspace,
                  rs_workspace_patch_sha256 = e_sha E patch, rs_artifacts = artifacts,
                  rs_executor_summary = summary,
                  rs_producing_session_id = map_option la_session_id launch,
                  rs_producing_launch_id = map_option la_launch_id launch,
                  rs_prompt_variant = (case launch of Some l \<Rightarrow> la_prompt_variant l
                                                    | None \<Rightarrow> dt_variant_name task),
                  rs_created_at = now\<rparr>)))))))))))))))))))))"

definition capture :: "env \<Rightarrow> string \<Rightarrow> result_rec run" where
  "capture E k =
     bindM (build_result E k) (\<lambda>result.
     thenM (append_record k T_results (RResult result))
     (thenM (transition E k D_reviewing [U_latest_result_revision (rs_revision result)]
               [(''result_id'', JStr (rs_result_id result)),
                (''revision'', JInt (rs_revision result))])
     (retM result)))"

definition get_result :: "string \<Rightarrow> int option \<Rightarrow> result_rec run" where
  "get_result k revision =
     bindM (get_records k T_results) (\<lambda>records.
     let results = results_of records in
     thenM (require (results \<noteq> []) ArtifactCaptureError
              (''No result captured for delegation task: '' @ k))
     (case revision of
        None \<Rightarrow> retM (last results)
      | Some n \<Rightarrow>
          optM (find (\<lambda>r. rs_revision r = n) results)
            (Exc ArtifactCaptureError (''Result revision not found: '' @ show_int n))))"

end
