(* ===== verification/Commands.thy ===== *)
theory Commands
  imports Artifacts
begin

text \<open>
  \<open>canto/core/delegation_commands.py\<close>: parsing a command line without shell operators, and
  \<open>DelegationCommandService\<close>, which runs commands inside the workspace, records reported
  and waived commands, and lists the required commands that have not been satisfied.
\<close>

definition shell_operators :: "string list" where
  "shell_operators = [''|'', ''||'', ''&'', ''&&'', '';'', ''>'', ''>>'', ''<'', ''<<'']"

definition parse_command :: "env \<Rightarrow> string \<Rightarrow> exc + string list" where
  "parse_command E command =
     (case e_shlex E command of
        None \<Rightarrow> Inl (Exc CommandError ''Invalid command'')
      | Some argv \<Rightarrow>
          if argv = [] then Inl (Exc CommandError ''Command cannot be empty'')
          else if \<exists>t\<in>set argv. t \<in> set shell_operators
          then Inl (Exc CommandError ''Shell control operators and redirection are not allowed'')
          else if \<exists>t\<in>set argv. contains ''$('' t \<or> contains [CHR 0x60] t
          then Inl (Exc CommandError ''Shell substitutions are not allowed'')
          else Inr argv)"

definition run_command :: "env \<Rightarrow> string \<Rightarrow> string \<Rightarrow> string \<Rightarrow> command_rec run" where
  "run_command E k command cwd =
     bindM (get_task k) (\<lambda>task.
     thenM (require (dt_status task \<in> {D_executor_working, D_executor_done}) CommandError
              ''Commands can only run while executor work is active or done'')
     (bindM (liftM (parse_command E command)) (\<lambda>argv.
      let allowed = set (sc_allowed_commands (dt_scope task)) \<union>
                    set (sc_required_commands (dt_scope task)) in
      thenM (require (\<not> (allowed \<noteq> {} \<and> command \<notin> allowed)) CommandError
               (''Command is not allowed by task scope: '' @ command))
      (bindM (get_workspace k) (\<lambda>workspace.
       bindM (from_fs (\<lambda>f. e_resolve E f (ws_path workspace))) (\<lambda>workspace_root.
       thenM (require (\<not> is_absolute cwd \<and> ''..'' \<notin> set (path_parts cwd)) CommandError
                (''Command working directory escapes workspace: '' @ cwd))
       (bindM (from_fs (\<lambda>f. e_resolve E f (path_join workspace_root (as_posix cwd)))) (\<lambda>run_cwd.
        bindM (from_fs (\<lambda>f. is_dir f run_cwd)) (\<lambda>dir.
        thenM (require (is_relative_to run_cwd workspace_root \<and> dir) CommandError
                 (''Invalid command working directory: '' @ cwd))
        (thenM (require (\<not> is_absolute (hd argv)) CommandError
                  ''Absolute executable paths are not allowed'')
        (bindM (from_fs (\<lambda>f. e_resolve E f (path_join run_cwd (hd argv)))) (\<lambda>candidate.
         thenM (require (\<not> (slash \<in> set (hd argv) \<and> \<not> is_relative_to candidate workspace_root))
                  CommandError ''Command executable escapes workspace'')
         (bindM (fresh E ''command_'') (\<lambda>record_id.
          let output_root = path_join (path_parent workspace_root) ''artifacts/commands'';
              stdout_path = path_join output_root (record_id @ ''.stdout.log'');
              stderr_path = path_join output_root (record_id @ ''.stderr.log'') in
          thenM (on_fs (make_dirs output_root))
          (bindM (exec_run E argv run_cwd None) (\<lambda>(out, timed_out).
           thenM (write_captured timed_out stdout_path (px_stdout out))
           (thenM (write_captured timed_out stderr_path (px_stderr out))
           (bindM (utc_now E) (\<lambda>now.
            let record = \<lparr>cm_record_id = record_id, cm_task_id = k, cm_command = command,
                  cm_argv = argv, cm_cwd = cwd, cm_source = Src_canto_observed,
                  cm_status = (if \<not> timed_out \<and> px_code out = 0 then Cs_passed else Cs_failed),
                  cm_exit_code = (if timed_out then None else Some (px_code out)),
                  cm_stdout_path = Some stdout_path, cm_stderr_path = Some stderr_path,
                  cm_waiver_reason = None, cm_created_at = now\<rparr> in
            thenM (append_record k T_commands (RCommand record)) (retM record))))))))))))))))))))"

definition report_command :: "env \<Rightarrow> string \<Rightarrow> string \<Rightarrow> bool option \<Rightarrow> command_rec run" where
  "report_command E k command passed =
     thenM (get_task k)
     (bindM (fresh E ''command_'') (\<lambda>record_id.
      bindM (liftM (parse_command E command)) (\<lambda>argv.
      bindM (utc_now E) (\<lambda>now.
      let record = \<lparr>cm_record_id = record_id, cm_task_id = k, cm_command = command,
            cm_argv = argv, cm_cwd = ''.'', cm_source = Src_executor_reported,
            cm_status = Cs_reported,
            cm_exit_code = (if passed = Some True then Some 0 else None),
            cm_stdout_path = None, cm_stderr_path = None, cm_waiver_reason = None,
            cm_created_at = now\<rparr> in
      thenM (append_record k T_commands (RCommand record)) (retM record)))))"

definition waive_command :: "env \<Rightarrow> string \<Rightarrow> string \<Rightarrow> string \<Rightarrow> command_rec run" where
  "waive_command E k command reason =
     bindM (get_task k) (\<lambda>task.
     thenM (require (command \<in> set (sc_required_commands (dt_scope task))) CommandError
              (''Command is not required by task scope: '' @ command))
     (thenM (require (strip reason \<noteq> []) CommandError ''Command waiver requires a rationale'')
     (bindM (fresh E ''command_'') (\<lambda>record_id.
      bindM (liftM (parse_command E command)) (\<lambda>argv.
      bindM (utc_now E) (\<lambda>now.
      let record = \<lparr>cm_record_id = record_id, cm_task_id = k, cm_command = command,
            cm_argv = argv, cm_cwd = ''.'', cm_source = Src_canto_observed,
            cm_status = Cs_waived, cm_exit_code = None, cm_stdout_path = None,
            cm_stderr_path = None, cm_waiver_reason = Some (strip reason),
            cm_created_at = now\<rparr> in
      thenM (append_record k T_commands (RCommand record)) (retM record)))))))"

text \<open>A command counts only when Canto observed it, and a waiver only with a rationale\<close>

definition satisfies :: "command_rec \<Rightarrow> bool" where
  "satisfies r \<longleftrightarrow>
     cm_source r = Src_canto_observed \<and> cm_status r \<in> {Cs_passed, Cs_waived} \<and>
     (cm_status r \<noteq> Cs_waived \<or>
      strip (case cm_waiver_reason r of None \<Rightarrow> [] | Some x \<Rightarrow> x) \<noteq> [])"

definition unmet_required :: "string \<Rightarrow> string list run" where
  "unmet_required k =
     bindM (get_task k) (\<lambda>task.
     bindM (get_records k T_commands) (\<lambda>records.
     let satisfied = map cm_command (filter satisfies (commands_of records)) in
     retM (filter (\<lambda>c. c \<notin> set satisfied) (sc_required_commands (dt_scope task)))))"

end
