(* ===== verification/Executor.thy ===== *)
theory Executor
  imports Commands
begin

text \<open>
  \<open>canto/core/cli_executor.py\<close> and \<open>canto/core/delegation_executor.py\<close>: the command lines of
  the three command-line harnesses, one run of a worker process, the prompt of a task, and
  \<open>DelegationCliExecutor.launch\<close>, which opens a session, moves the task to
  \<open>executor_working\<close>, runs the worker and records the launch and its outcome.
\<close>

section \<open>Command lines\<close>

primrec harness_str :: "harness \<Rightarrow> string" where
  "harness_str H_manual = ''manual''"
| "harness_str H_codex_cli = ''codex_cli''"
| "harness_str H_claude_cli = ''claude_cli''"
| "harness_str H_gemini_cli = ''gemini_cli''"
| "harness_str H_api_worker = ''api_worker''"

definition cli_harnesses :: "harness list" where
  "cli_harnesses = [H_codex_cli, H_claude_cli, H_gemini_cli]"

text \<open>\<open>default_executable\<close> and \<open>unavailable_label\<close> of the adapter classes\<close>

primrec default_executable :: "harness \<Rightarrow> string" where
  "default_executable H_manual = []"
| "default_executable H_codex_cli = ''codex''"
| "default_executable H_claude_cli = ''claude''"
| "default_executable H_gemini_cli = ''gemini''"
| "default_executable H_api_worker = []"

definition unavailable_label :: "harness \<Rightarrow> string" where
  "unavailable_label h =
     (if h = H_codex_cli then ''Codex CLI executable'' else ''CLI executable'')"

text \<open>\<open>a or b\<close> on optional strings: an empty string counts as missing\<close>

definition or_else :: "string option \<Rightarrow> string option \<Rightarrow> string option" where
  "or_else a b = (if given a then a else b)"

definition adapter_for_profile :: "profile \<Rightarrow> harness run" where
  "adapter_for_profile p =
     thenM (require (xp_harness p \<in> set cli_harnesses) CliExecutorError
              (''Unsupported Canto CLI harness: '' @ harness_str (xp_harness p)))
     (retM (xp_harness p))"

definition cli_available :: "env \<Rightarrow> harness \<Rightarrow> profile \<Rightarrow> string run" where
  "cli_available E h p =
     (let executable = the (or_else (xp_executable p) (Some (default_executable h))) in
      bindM (from_fs (\<lambda>f. e_which E f executable)) (\<lambda>found.
      bindM (optM (if given found then found else None) (Exc CliExecutorError
               (unavailable_label h @ '' is unavailable: '' @ executable))) (\<lambda>resolved.
      from_fs (\<lambda>f. e_resolve E f resolved))))"

definition available_for_profile :: "env \<Rightarrow> profile \<Rightarrow> string run" where
  "available_for_profile E p = bindM (adapter_for_profile p) (\<lambda>h. cli_available E h p)"

text \<open>\<open>profile.configuration.get("extra_args", [])\<close> as an iterable and under \<open>in\<close>\<close>

definition extra_args :: "profile \<Rightarrow> exc + json list" where
  "extra_args p =
     (case dget (xp_configuration p) ''extra_args'' of
        None \<Rightarrow> Inr []
      | Some (JList xs) \<Rightarrow> Inr xs
      | Some (JStr s) \<Rightarrow> Inr (map (\<lambda>c. JStr [c]) s)
      | Some (JObj kvs) \<Rightarrow> Inr (map (\<lambda>kv. JStr (fst kv)) kvs)
      | Some _ \<Rightarrow> Inl (Exc TypeError ''object is not iterable''))"

definition in_extra_args :: "string \<Rightarrow> profile \<Rightarrow> exc + bool" where
  "in_extra_args x p =
     (case dget (xp_configuration p) ''extra_args'' of
        None \<Rightarrow> Inr False
      | Some (JList xs) \<Rightarrow> Inr (JStr x \<in> set xs)
      | Some (JStr s) \<Rightarrow> Inr (contains x s)
      | Some (JObj kvs) \<Rightarrow> Inr (x \<in> fst ` set kvs)
      | Some _ \<Rightarrow> Inl (Exc TypeError ''argument is not iterable''))"

definition codex_needs_network :: "profile \<Rightarrow> exc + bool" where
  "codex_needs_network p =
     (if pm_allow_network (xp_permissions p) then Inr True
      else if xp_model_provider p = Some ''ollama'' then Inr True
      else
        (case in_extra_args ''--local-provider'' p of
           Inl e \<Rightarrow> Inl e
         | Inr local \<Rightarrow>
             (case (if local then in_extra_args ''ollama'' p else Inr False) of
                Inl e \<Rightarrow> Inl e
              | Inr ollama \<Rightarrow> Inr (ollama \<or> given (xp_model_provider p)))))"

definition model_args :: "profile \<Rightarrow> string list" where
  "model_args p =
     (case xp_model p of None \<Rightarrow> []
      | Some m \<Rightarrow> if m = [] then [] else [''--model'', m])"

definition codex_argv :: "env \<Rightarrow> profile \<Rightarrow> string \<Rightarrow> json list run" where
  "codex_argv E p workspace =
     bindM (cli_available E H_codex_cli p) (\<lambda>executable.
     bindM (from_fs (\<lambda>f. (e_resolve E f (e_state_root E), e_resolve E f workspace)))
       (\<lambda>(root_path, cd).
     bindM (liftM (codex_needs_network p)) (\<lambda>network.
     bindM (liftM (extra_args p)) (\<lambda>extra.
     retM (map JStr ([executable, ''exec'', ''--sandbox'', ''workspace-write'', ''--add-dir'',
              root_path] @
             (if network then [''-c'', ''sandbox_workspace_write.network_access=true''] else []) @
             [''--cd'', cd] @ model_args p) @ extra @ [JStr ''-''])))))"

definition claude_argv :: "env \<Rightarrow> profile \<Rightarrow> string \<Rightarrow> json list run" where
  "claude_argv E p workspace =
     bindM (cli_available E H_claude_cli p) (\<lambda>executable.
     bindM (from_fs (\<lambda>f. e_resolve E f workspace)) (\<lambda>cd.
     bindM (liftM (extra_args p)) (\<lambda>extra.
     retM (map JStr ([executable, ''--print'', ''--input-format'', ''text'', ''--output-format'',
              ''text'', ''--permission-mode'', ''acceptEdits'', ''--add-dir'', cd,
              ''--no-session-persistence''] @ model_args p) @ extra))))"

definition gemini_argv :: "env \<Rightarrow> profile \<Rightarrow> json list run" where
  "gemini_argv E p =
     bindM (cli_available E H_gemini_cli p) (\<lambda>executable.
     bindM (liftM (extra_args p)) (\<lambda>extra.
     retM (map JStr ([executable, ''--prompt'', [], ''--skip-trust'', ''--sandbox'',
              ''--approval-mode'', ''auto_edit'', ''--output-format'', ''text''] @
              model_args p) @ extra)))"

definition build_argv :: "env \<Rightarrow> harness \<Rightarrow> profile \<Rightarrow> string \<Rightarrow> json list run" where
  "build_argv E h p workspace =
     (if h = H_codex_cli then codex_argv E p workspace
      else if h = H_claude_cli then claude_argv E p workspace
      else gemini_argv E p)"

text \<open>An argument list of strings; \<open>None\<close> when an element is not a string\<close>

fun as_strings :: "json list \<Rightarrow> string list option" where
  "as_strings [] = Some []"
| "as_strings (JStr s # xs) = map_option ((#) s) (as_strings xs)"
| "as_strings (_ # xs) = None"

section \<open>One run of a worker\<close>

primrec outcome_str :: "outcome \<Rightarrow> string" where
  "outcome_str O_completed_work = ''completed_work''"
| "outcome_str O_advisory = ''advisory''"
| "outcome_str O_no_work = ''no_work''"
| "outcome_str O_failed = ''failed''"


record cli_result =
  cr_stdout :: string
  cr_stderr :: string
  cr_exit_code :: "int option"
  cr_timed_out :: bool
  cr_workspace_changed :: "bool option"
  cr_outcome :: "outcome option"
  cr_outcome_detail :: "string option"

definition parse_completed ::
  "env \<Rightarrow> proc_out \<Rightarrow> string \<Rightarrow> string \<Rightarrow> string list \<Rightarrow> string list \<Rightarrow> cli_result run" where
  "parse_completed E out workspace base_commit allowed denied =
     (if px_code out \<noteq> 0 then
        retM \<lparr>cr_stdout = px_stdout out, cr_stderr = px_stderr out,
              cr_exit_code = Some (px_code out), cr_timed_out = False,
              cr_workspace_changed = None, cr_outcome = Some O_failed,
              cr_outcome_detail =
                Some (''Worker process exited with code '' @ show_int (px_code out))\<rparr>
      else
        bindM (classify_worker_outcome E workspace base_commit (px_stdout out) (Some allowed)
                 (Some denied)) (\<lambda>(changed, outcome, detail).
        retM \<lparr>cr_stdout = px_stdout out, cr_stderr = px_stderr out,
              cr_exit_code = Some (px_code out), cr_timed_out = False,
              cr_workspace_changed = Some changed, cr_outcome = Some outcome,
              cr_outcome_detail = Some detail\<rparr>))"

definition cli_run ::
  "env \<Rightarrow> profile \<Rightarrow> string \<Rightarrow> string \<Rightarrow> string \<Rightarrow> string list \<Rightarrow> string list \<Rightarrow> cli_result run" where
  "cli_run E p workspace prompt base_commit allowed denied =
     bindM (adapter_for_profile p) (\<lambda>h.
     bindM (build_argv E h p workspace) (\<lambda>args.
     bindM (optM (as_strings args) (Exc TypeError ''expected str'')) (\<lambda>argv.
     bindM (exec_run E argv workspace (Some prompt)) (\<lambda>(out, timed_out).
     if timed_out then
       retM \<lparr>cr_stdout = px_stdout out, cr_stderr = px_stderr out, cr_exit_code = None,
             cr_timed_out = True, cr_workspace_changed = None, cr_outcome = None,
             cr_outcome_detail = None\<rparr>
     else parse_completed E out workspace base_commit allowed denied))))"

section \<open>The prompt\<close>

definition truthy :: "string option \<Rightarrow> string list \<Rightarrow> string list" where
  "truthy v lines = (if given v then lines else [])"

definition prompt_text ::
  "dtask \<Rightarrow> review list \<Rightarrow> message list \<Rightarrow> string option \<Rightarrow> string option \<Rightarrow> string" where
  "prompt_text task reviews messages variant supplement =
     (let effective_variant = or_else variant (dt_variant_name task);
          effective_supplement = or_else supplement (dt_prompt_supplement task);
          revision_reviews = filter (\<lambda>r. rw_decision r = Rv_revision_requested) reviews;
          revision_messages = filter (\<lambda>m. ms_kind m = Mk_revision) messages;
          revision_note =
            (if revision_reviews \<noteq> [] then Some (rw_note (last revision_reviews))
             else if revision_messages \<noteq> [] then Some (ms_body (last revision_messages))
             else None) in
      strip (join [newline]
        ([''You are a Canto delegated Worker.'',
          ''Read .canto/agents/shared.md and .canto/agents/executor.md before working.'',
          ''The executor.md filename is retained for compatibility; its public role is Worker.'',
          ''Work only in this delegated Workspace and follow the Canto assignment instructions below.'',
          ''Do not modify the canonical repository.'',
          ''Do not self-assign, broaden scope, commit, push, accept, reject, queue, or Apply a Result.'',
          ''When complete, leave the Workspace ready for `canto delegate capture` so Canto can record an immutable Result for Developer review.'',
          [],
          ''Delegated assignment: '' @ dt_title task,
          [],
          dt_instructions task] @
         truthy effective_variant [[], ''Prompt variant: '' @ the effective_variant] @
         truthy effective_supplement [[], ''Supplemental instruction:'', the effective_supplement] @
         (if dt_status task = D_revision_requested
          then truthy revision_note [[], ''Revision feedback:'', the revision_note] else []) @
         [[], ''Allowed repository paths:''] @
         map (\<lambda>p. ''- '' @ p) (sc_allowed_paths (dt_scope task)) @
         [[], ''Denied repository paths:''] @
         map (\<lambda>p. ''- '' @ p) (sc_denied_paths (dt_scope task)) @
         [[],
          ''Do not access credentials, publish changes, commit, push, or modify denied paths.'',
          ''Complete the assigned work in this worktree and report a concise Result summary.''])) @
      [newline])"

definition executor_prompt ::
  "string \<Rightarrow> string option \<Rightarrow> string option \<Rightarrow> string run" where
  "executor_prompt k variant supplement =
     bindM (get_task k) (\<lambda>task.
     bindM (get_records k T_reviews) (\<lambda>reviews.
     bindM (get_records k T_messages) (\<lambda>messages.
     retM (prompt_text task (reviews_of reviews) (messages_of messages) variant supplement))))"

section \<open>Sessions\<close>

text \<open>A later launch of the same session replaces an earlier one\<close>

definition launches_by_session :: "launch list \<Rightarrow> (string, launch) dict" where
  "launches_by_session ls = foldl (\<lambda>d l. dset (la_session_id l) l d) [] ls"

definition project_session :: "(string, launch) dict \<Rightarrow> session \<Rightarrow> session" where
  "project_session by_session z =
     (case dget by_session (se_session_id z) of
        None \<Rightarrow> z
      | Some l \<Rightarrow>
          if given (la_ended_at l) then
            z\<lparr>se_ended_at := la_ended_at l,
              se_status := (if la_exit_code l = Some 0 \<and> \<not> la_timed_out l
                            then SS_completed else SS_failed)\<rparr>
          else z)"

definition projected_sessions :: "string \<Rightarrow> session list run" where
  "projected_sessions k =
     bindM (get_records k T_sessions) (\<lambda>sessions.
     bindM (get_records k T_launches) (\<lambda>launches.
     retM (map (project_session (launches_by_session (launches_of launches)))
               (sessions_of sessions))))"

section \<open>Launching a worker\<close>

text \<open>\<open>DelegationCliExecutor.command\<close>: errors of the adapter become \<open>ExecutorError\<close>\<close>

definition executor_command :: "env \<Rightarrow> profile \<Rightarrow> string \<Rightarrow> json list run" where
  "executor_command E p workspace =
     tryM (bindM (adapter_for_profile p) (\<lambda>h. build_argv E h p workspace))
       (\<lambda>e. if is_cli_error e then raise ExecutorError (exc_str e) else raiseM e)"

text \<open>What happens to the launch once the process has ended: the files, the record and the move\<close>

definition record_launch :: "env \<Rightarrow> string \<Rightarrow> launch \<Rightarrow> cli_result \<Rightarrow> launch run" where
  "record_launch E k l result =
     thenM (write_captured (cr_timed_out result) (la_stdout_path l) (cr_stdout result))
     (thenM (write_captured (cr_timed_out result) (la_stderr_path l) (cr_stderr result))
     (bindM (utc_now E) (\<lambda>ended.
      if cr_timed_out result then
        (let l' = l\<lparr>la_timed_out := True, la_ended_at := Some ended\<rparr> in
         thenM (append_record k T_launches (RLaunch l'))
         (thenM (transition E k D_failed []
                   [(''launch_id'', JStr (la_launch_id l)), (''timed_out'', JBool True)])
         (retM l')))
      else if cr_exit_code result \<noteq> Some 0 then
        (let l' = l\<lparr>la_exit_code := cr_exit_code result, la_ended_at := Some ended,
                     la_outcome := Some O_failed,
                     la_outcome_detail := cr_outcome_detail result\<rparr> in
         thenM (append_record k T_launches (RLaunch l'))
         (thenM (transition E k D_failed []
                   [(''launch_id'', JStr (la_launch_id l)),
                    (''exit_code'', opt_json JInt (cr_exit_code result))])
         (retM l')))
      else
        (let l' = l\<lparr>la_exit_code := cr_exit_code result, la_ended_at := Some ended,
                     la_workspace_changed := cr_workspace_changed result,
                     la_outcome := cr_outcome result,
                     la_outcome_detail := cr_outcome_detail result\<rparr> in
         thenM (append_record k T_launches (RLaunch l'))
         (thenM (transition E k D_executor_done []
                   [(''launch_id'', JStr (la_launch_id l)), (''exit_code'', JInt 0),
                    (''worker_outcome'', opt_json (\<lambda>x. JStr (outcome_str x)) (cr_outcome result)),
                    (''workspace_changed'', opt_json JBool (cr_workspace_changed result))])
         (retM l'))))))"

text \<open>The guards and the files: the profile, the workspace, the identifiers and the prompt\<close>

definition launchable :: "string \<Rightarrow> (dtask \<times> profile \<times> dworkspace) run" where
  "launchable k =
     bindM (get_task k) (\<lambda>task.
     thenM (require (dt_status task \<in> {D_workspace_ready, D_revision_requested}) ExecutorError
              ''CLI Worker launch requires a workspace_ready or revision_requested task'')
     (thenM (require (given (dt_executor_id task)) ExecutorError
               ''Delegation task has no assigned executor'')
     (bindM (get_profile (the (dt_executor_id task))) (\<lambda>p.
      thenM (require (xp_harness p \<in> set cli_harnesses \<and> xp_launch_mode p = LM_canto)
               ExecutorError ''Assigned executor is not a Canto-launched CLI profile'')
      (bindM (get_workspace k) (\<lambda>w. retM (task, p, w)))))))"

definition launch_worker ::
  "env \<Rightarrow> string \<Rightarrow> string option \<Rightarrow> string option \<Rightarrow> launch run" where
  "launch_worker E k variant_name supplement =
     bindM (launchable k) (\<lambda>(task, p, w).
     let artifact_dir = path_join (path_parent (ws_path w)) ''artifacts'' in
     thenM (on_fs (make_dirs artifact_dir))
     (bindM (fresh E ''launch_'') (\<lambda>launch_id.
      let prompt_path = path_join artifact_dir (launch_id @ ''.prompt.md'');
          variant = or_else variant_name (dt_variant_name task);
          extra = or_else supplement (dt_prompt_supplement task) in
      bindM (executor_prompt k variant extra) (\<lambda>prompt.
      thenM (on_fs (write_file prompt_path prompt))
      (bindM (fresh E ''session_'') (\<lambda>session_id.
       bindM (utc_now E) (\<lambda>started.
       thenM (append_record k T_sessions
         (RSession \<lparr>se_session_id = session_id, se_task_id = k,
            se_executor_id = xp_executor_id p, se_status = SS_running,
            se_enforcement = E_canto_observed, se_started_at = Some started,
            se_ended_at = None\<rparr>))
       (thenM (transition E k D_executor_working []
                 [(''session_id'', JStr session_id),
                  (''harness'', JStr (harness_str (xp_harness p)))])
       (bindM (executor_command E p (ws_path w)) (\<lambda>args.
        bindM (optM (as_strings args) (Exc ValidationError ''argv'')) (\<lambda>argv.
        bindM (utc_now E) (\<lambda>launched.
        let l = \<lparr>la_launch_id = launch_id, la_task_id = k, la_session_id = session_id,
              la_executor_id = xp_executor_id p, la_argv = argv, la_cwd = ws_path w,
              la_prompt_path = prompt_path,
              la_stdout_path = path_join artifact_dir (launch_id @ ''.stdout.log''),
              la_stderr_path = path_join artifact_dir (launch_id @ ''.stderr.log''),
              la_prompt_variant = variant, la_prompt_supplement = extra,
              la_token_usage = None, la_workspace_changed = None, la_outcome = None,
              la_outcome_detail = None, la_exit_code = None, la_timed_out = False,
              la_started_at = launched, la_ended_at = None\<rparr> in
        bindM (cli_run E p (ws_path w) prompt (ws_base_commit w) (ws_allowed_paths w)
                 (ws_denied_paths w)) (\<lambda>result.
        record_launch E k l result)))))))))))))"

lemmas executor_defs = adapter_for_profile_def cli_available_def codex_argv_def
  claude_argv_def gemini_argv_def build_argv_def
  executor_command_def parse_completed_def cli_run_def executor_prompt_def

end
