(* ===== verification/Review.thy ===== *)
theory Review
  imports Commands
begin

text \<open>
  \<open>canto/core/delegation_review.py\<close>: \<open>DelegationReviewService\<close>. A task is reviewable in
  status \<open>reviewing\<close>, on its latest result only; a result is accepted when the workspace
  still produces the captured patch and every captured artifact still has its checksum.
\<close>

definition reviewable :: "string \<Rightarrow> (dtask \<times> result_rec) run" where
  "reviewable k =
     bindM (get_task k) (\<lambda>task.
     thenM (require (dt_status task = D_reviewing) ReviewError
              ''Delegation task is not awaiting review'')
     (bindM (get_result k None) (\<lambda>result.
      thenM (require (rs_revision result = dt_latest_result_revision task) ReviewError
               ''Only the latest result revision can be reviewed'')
      (retM (task, result)))))"

definition record_review ::
  "env \<Rightarrow> string \<Rightarrow> result_rec \<Rightarrow> review_decision \<Rightarrow> string \<Rightarrow> string \<Rightarrow> review run" where
  "record_review E k result dec reviewer note =
     bindM (fresh E ''review_'') (\<lambda>i.
     bindM (utc_now E) (\<lambda>now.
     let review = \<lparr>rw_review_id = i, rw_task_id = k, rw_result_revision = rs_revision result,
           rw_decision = dec, rw_reviewer = reviewer, rw_note = note, rw_created_at = now\<rparr> in
     thenM (append_record k T_reviews (RReview review)) (retM review)))"

definition verify_artifacts :: "env \<Rightarrow> string \<Rightarrow> result_rec \<Rightarrow> unit run" where
  "verify_artifacts E k result =
     bindM (get_workspace k) (\<lambda>workspace.
     let artifact_root = path_join (path_parent (ws_path workspace)) ''artifacts'' in
     forM (\<lambda>a.
       let path = path_join artifact_root (ar_relative_path a) in
       bindM (from_fs (\<lambda>f. (is_file f path, read_file f path))) (\<lambda>(ex, content).
       thenM (require ex ReviewError (''Captured artifact is missing: '' @ ar_name a))
       (require (e_sha E content = ar_sha256 a) ReviewError
          (''Captured artifact checksum changed: '' @ ar_name a))))
     (rs_artifacts result))"

definition request_revision :: "env \<Rightarrow> string \<Rightarrow> string \<Rightarrow> string \<Rightarrow> review option run" where
  "request_revision E k reviewer note =
     bindM (get_task k) (\<lambda>task.
     if dt_status task = D_executor_done \<and> dt_latest_result_revision task = 0 then
       bindM (new_message E k Sender_orchestrator Mk_revision note) (\<lambda>m.
       thenM (append_record k T_messages (RMessage m))
       (thenM (transition E k D_revision_requested []
                 [(''message_id'', JStr (ms_message_id m)), (''reason'', JStr ''no_result'')])
       (retM None)))
     else if dt_status task = D_promotion_failed then
       bindM (get_result k (Some (dt_latest_result_revision task))) (\<lambda>result.
       bindM (record_review E k result Rv_revision_requested reviewer note) (\<lambda>review.
       thenM (transition E k D_revision_requested [U_accepted_result_revision None]
                [(''review_id'', JStr (rw_review_id review)),
                 (''revision'', JInt (rs_revision result)), (''reason'', JStr ''promotion_failed'')])
       (retM (Some review))))
     else
       bindM (reviewable k) (\<lambda>(_, result).
       bindM (record_review E k result Rv_revision_requested reviewer note) (\<lambda>review.
       thenM (transition E k D_revision_requested [U_accepted_result_revision None]
                [(''review_id'', JStr (rw_review_id review)),
                 (''revision'', JInt (rs_revision result))])
       (retM (Some review)))))"

definition accept :: "env \<Rightarrow> string \<Rightarrow> string \<Rightarrow> string \<Rightarrow> review run" where
  "accept E k reviewer note =
     bindM (reviewable k) (\<lambda>(_, result).
     bindM (get_workspace k) (\<lambda>workspace.
     bindM (workspace_patch E (ws_path workspace) (rs_base_commit result) None) (\<lambda>current_patch.
     thenM (require (e_sha E current_patch = rs_workspace_patch_sha256 result) ReviewError
              ''Workspace changed after result capture; request a revision and recapture'')
     (thenM (verify_artifacts E k result)
     (bindM (record_review E k result Rv_accepted reviewer note) (\<lambda>review.
      thenM (transition E k D_accepted [U_accepted_result_revision (Some (rs_revision result))]
               [(''review_id'', JStr (rw_review_id review)),
                (''revision'', JInt (rs_revision result))])
      (retM review)))))))"

definition reject :: "env \<Rightarrow> string \<Rightarrow> string \<Rightarrow> string \<Rightarrow> review run" where
  "reject E k reviewer note =
     bindM (reviewable k) (\<lambda>(_, result).
     bindM (record_review E k result Rv_rejected reviewer note) (\<lambda>review.
     thenM (transition E k D_rejected [U_accepted_result_revision None]
              [(''review_id'', JStr (rw_review_id review)),
               (''revision'', JInt (rs_revision result))])
     (retM review)))"

definition list_reviews :: "string \<Rightarrow> review list run" where
  "list_reviews k = bindM (get_records k T_reviews) (\<lambda>rs. retM (reviews_of rs))"

end
