(* ===== verification/Promotion.thy ===== *)
theory Promotion
  imports Review
begin

text \<open>
  \<open>canto/core/delegation_promotion.py\<close> and \<open>canto/core/delegation_queue.py\<close>: applying the
  exact accepted result to the canonical repository with verification and rollback, and the
  queue that holds accepted results back while they overlap with other queued ones.
\<close>

section \<open>Git and artifacts\<close>

definition promo_git ::
  "env \<Rightarrow> string \<Rightarrow> string list \<Rightarrow> string option \<Rightarrow> string option \<Rightarrow> string run" where
  "promo_git E repository args stdin index =
     bindM (git_run E ((git_at repository args)\<lparr>gc_stdin := stdin, gc_index := index\<rparr>)) (\<lambda>out.
     thenM (require (px_code out = 0) PromotionError
              (if strip (px_stderr out) \<noteq> [] then strip (px_stderr out)
               else ''Git command failed: '' @ join '' '' args))
     (retM (px_stdout out)))"

text \<open>\<open>[item["path"] for item in json.loads(text)]\<close>\<close>

definition item_path :: "json \<Rightarrow> exc + string" where
  "item_path j =
     (case j of
        JObj kvs \<Rightarrow>
          (case map_of kvs ''path'' of
             Some (JStr p) \<Rightarrow> Inr p
           | _ \<Rightarrow> Inl (Exc ValueError ''path''))
      | _ \<Rightarrow> Inl (Exc ValueError ''item''))"

primrec collect :: "('e + 'a) list \<Rightarrow> 'e + 'a list" where
  "collect [] = Inr []"
| "collect (x # xs) =
     (case x of
        Inl e \<Rightarrow> Inl e
      | Inr a \<Rightarrow> (case collect xs of Inl e \<Rightarrow> Inl e | Inr as \<Rightarrow> Inr (a # as)))"

definition changed_paths :: "env \<Rightarrow> string \<Rightarrow> exc + string list" where
  "changed_paths E text =
     (case e_loads E text of
        Some (JList items) \<Rightarrow>
          (case collect (map item_path items) of
             Inl e \<Rightarrow> Inl e
           | Inr paths \<Rightarrow> Inr (sorted_set paths))
      | _ \<Rightarrow> Inl (Exc ValueError ''Invalid JSON''))"

definition verified_content :: "env \<Rightarrow> string \<Rightarrow> string \<Rightarrow> string run" where
  "verified_content E path expected =
     bindM (from_fs (\<lambda>f. (is_file f path, read_file f path))) (\<lambda>(ex, content).
     thenM (require ex PromotionError (''Promotion artifact is missing: '' @ path_name path))
     (thenM (require (e_sha E content = expected) PromotionError
               (''Promotion artifact checksum changed: '' @ path_name path))
     (retM content)))"

definition find_artifact :: "string \<Rightarrow> result_rec \<Rightarrow> artifact option" where
  "find_artifact name result = find (\<lambda>a. ar_name a = name) (rs_artifacts result)"

section \<open>Applying, verifying and rolling back\<close>

definition apply_patch :: "env \<Rightarrow> string \<Rightarrow> string \<Rightarrow> unit run" where
  "apply_patch E repository patch =
     thenM (promo_git E repository [''apply'', ''--binary'', ''-''] (Some patch) None) (retM ())"

definition index_entries ::
  "env \<Rightarrow> string \<Rightarrow> string list \<Rightarrow> string option \<Rightarrow> string run" where
  "index_entries E repository files index =
     promo_git E repository ([''ls-files'', ''-s'', ''--''] @ files) None index"

definition verify_applied ::
  "env \<Rightarrow> string \<Rightarrow> string \<Rightarrow> string \<Rightarrow> string list \<Rightarrow> unit run" where
  "verify_applied E repository base_commit patch files =
     bindM (fresh E ''/tmp/canto-promotion-index-'') (\<lambda>root.
     let expected_index = Some (root @ ''/expected-index'');
         actual_index = Some (root @ ''/actual-index'') in
     thenM (promo_git E repository [''read-tree'', base_commit] None expected_index)
     (thenM (promo_git E repository [''apply'', ''--cached'', ''--binary'', ''-'']
               (Some patch) expected_index)
     (thenM (promo_git E repository [''read-tree'', base_commit] None actual_index)
     (thenM (promo_git E repository ([''add'', ''-A'', ''--''] @ files) None actual_index)
     (bindM (index_entries E repository files expected_index) (\<lambda>expected.
      bindM (index_entries E repository files actual_index) (\<lambda>actual.
      require (expected = actual) PromotionError
        ''Applied canonical content does not match accepted patch'')))))))"

definition rollback :: "env \<Rightarrow> string \<Rightarrow> string \<Rightarrow> bool run" where
  "rollback E repository patch =
     tryM (thenM (promo_git E repository [''apply'', ''--reverse'', ''--binary'', ''-'']
                    (Some patch) None) (retM True))
       (\<lambda>e. if exc_cls e = PromotionError then retM False else raiseM e)"

definition show_bool :: "bool \<Rightarrow> string" where
  "show_bool b = (if b then ''True'' else ''False'')"

section \<open>Promotion\<close>

text \<open>The guards, up to the point where the task moves to \<open>promoting\<close>: they return the
  result, the repository, its head, the verified patch and the changed paths\<close>

definition promotable ::
  "env \<Rightarrow> string \<Rightarrow> (result_rec \<times> string \<times> string \<times> string \<times> string list) run" where
  "promotable E k =
     bindM (get_task k) (\<lambda>task.
     thenM (require (dt_status task \<in> {D_accepted, D_promotion_failed}) PromotionError
              ''Only an accepted or safely rolled-back delegation task can be promoted'')
     (thenM (if dt_status task = D_promotion_failed then
               bindM (get_records k T_promotions) (\<lambda>promotions.
               require (map_option po_rollback_succeeded (last_opt (promotions_of promotions)) =
                        Some (Some True)) PromotionError
                 ''Failed promotion cannot be retried because rollback was not confirmed'')
             else retM ())
     (thenM (require (dt_accepted_result_revision task = Some (dt_latest_result_revision task))
               PromotionError ''Accepted revision is not the latest result revision'')
     (bindM (get_result k (dt_accepted_result_revision task)) (\<lambda>result.
      bindM (get_workspace k) (\<lambda>workspace.
      bindM (unmet_required k) (\<lambda>unmet.
      thenM (require (unmet = []) PromotionError
               (''Required commands are not satisfied: '' @ join '', '' unmet))
      (thenM (verify_repository_identity E (ws_repository workspace))
      (let repository = ri_canonical_path (ws_repository workspace);
           artifact_root = path_join (path_parent (ws_path workspace)) ''artifacts'' in
       bindM (promo_git E repository [''rev-parse'', ''HEAD''] None None) (\<lambda>head_out.
       let head = strip head_out in
       thenM (require (head = rs_base_commit result) PromotionError
                ''Canonical repository HEAD no longer matches result base'')
       (bindM (optM (find_artifact ''proposal.diff'' result)
                 (Exc PromotionError ''Accepted result is missing required promotion artifacts''))
         (\<lambda>proposal.
        bindM (optM (find_artifact ''changed_files.json'' result)
                 (Exc PromotionError ''Accepted result is missing required promotion artifacts''))
         (\<lambda>changed_artifact.
        bindM (verified_content E (path_join artifact_root (ar_relative_path proposal))
                 (ar_sha256 proposal)) (\<lambda>patch.
        bindM (verified_content E (path_join artifact_root (ar_relative_path changed_artifact))
                 (ar_sha256 changed_artifact)) (\<lambda>changed_content.
        bindM (liftM (changed_paths E changed_content)) (\<lambda>files.
        thenM (forM (\<lambda>p.
            thenM (require (\<not> matches p (ws_denied_paths workspace)) PromotionError
                     (''Accepted patch contains denied path: '' @ p))
            (require (matches p (ws_allowed_paths workspace)) PromotionError
               (''Accepted patch contains out-of-scope path: '' @ p))) files)
        (thenM (require (files \<noteq> []) PromotionError ''Accepted patch has no changed files'')
        (bindM (promo_git E repository ([''status'', ''--porcelain'', ''--''] @ files) None None) (\<lambda>dirty.
         thenM (require (strip dirty = []) PromotionError
                  ''Canonical repository has uncommitted changes in affected paths'')
         (thenM (promo_git E repository [''apply'', ''--check'', ''--binary'', ''-''] (Some patch) None)
         (retM (result, repository, head, patch, files))))))))))))))))))))))"

text \<open>The handler of a failed application: roll back, record the failure, move the task and
  raise again\<close>

definition fail_promotion ::
  "env \<Rightarrow> string \<Rightarrow> result_rec \<Rightarrow> string \<Rightarrow> string \<Rightarrow> string \<Rightarrow> string list \<Rightarrow> string \<Rightarrow> exc \<Rightarrow>
   unit run" where
  "fail_promotion E k result repository head patch files promotion_id e =
     bindM (rollback E repository patch) (\<lambda>rolled_back.
     bindM (utc_now E) (\<lambda>failed_at.
     thenM (append_record k T_promotions
       (RPromotion \<lparr>po_promotion_id = promotion_id, po_task_id = k,
          po_result_revision = rs_revision result, po_status = Ps_promotion_failed,
          po_changed_files = files, po_repository_head = head,
          po_rollback_attempted = True, po_rollback_succeeded = Some rolled_back,
          po_error = Some (exc_str e), po_created_at = failed_at\<rparr>))
     (thenM (transition E k D_promotion_failed []
               [(''promotion_id'', JStr promotion_id),
                (''rollback_succeeded'', JBool rolled_back), (''error'', JStr (exc_str e))])
     (raise PromotionError (''Promotion failed; rollback_succeeded='' @
        show_bool rolled_back @ '': '' @ exc_str e)))))"

definition finish_promotion ::
  "env \<Rightarrow> string \<Rightarrow> result_rec \<Rightarrow> string \<Rightarrow> string list \<Rightarrow> string \<Rightarrow> promotion run" where
  "finish_promotion E k result head files promotion_id =
     bindM (utc_now E) (\<lambda>promoted_at.
     let promotion = \<lparr>po_promotion_id = promotion_id, po_task_id = k,
           po_result_revision = rs_revision result, po_status = Ps_promoted,
           po_changed_files = files, po_repository_head = head, po_rollback_attempted = False,
           po_rollback_succeeded = None, po_error = None, po_created_at = promoted_at\<rparr> in
     thenM (append_record k T_promotions (RPromotion promotion))
     (thenM (transition E k D_promoted []
               [(''promotion_id'', JStr promotion_id),
                (''changed_files'', JList (map JStr files))])
     (retM promotion)))"

definition promote :: "env \<Rightarrow> string \<Rightarrow> string \<Rightarrow> string \<Rightarrow> promotion run" where
  "promote E k decided_by note =
     bindM (promotable E k) (\<lambda>(result, repository, head, patch, files).
     bindM (fresh E ''decision_'') (\<lambda>decision_id.
     bindM (utc_now E) (\<lambda>decided_at.
     thenM (append_record k T_promotion_decisions
       (RDecision \<lparr>dc_decision_id = decision_id, dc_task_id = k,
          dc_result_revision = rs_revision result, dc_decision = Pd_promote,
          dc_decided_by = decided_by, dc_note = note, dc_created_at = decided_at\<rparr>))
     (thenM (transition E k D_promoting []
               [(''decision_id'', JStr decision_id), (''revision'', JInt (rs_revision result))])
     (bindM (fresh E ''promotion_'') (\<lambda>promotion_id.
      thenM (tryM
        (thenM (apply_patch E repository patch)
           (verify_applied E repository (rs_base_commit result) patch files))
        (fail_promotion E k result repository head patch files promotion_id))
      (finish_promotion E k result head files promotion_id)))))))"

section \<open>The queue\<close>

definition queue_overlap :: "string \<Rightarrow> string \<Rightarrow> bool" where
  "queue_overlap l r \<longleftrightarrow> l = r \<or> startswith l (r @ ''/'') \<or> startswith r (l @ ''/'')"

definition queue_entry_of :: "string \<Rightarrow> queue_entry option run" where
  "queue_entry_of k = bindM (get_records k T_promotion_queue) (\<lambda>rs. retM (last_opt (queue_of rs)))"

text \<open>Entries in the order of their creation time and identifier\<close>

definition queue_list :: "queue_entry list run" where
  "queue_list =
     bindM list_tasks (\<lambda>tasks.
     bindM (mapM (\<lambda>t. queue_entry_of (dt_task_id t)) tasks) (\<lambda>entries.
     retM (sort_key (\<lambda>e. (qe_created_at e, qe_queue_id e)) (List.map_filter id entries))))"

definition queue_blockers ::
  "env \<Rightarrow> string \<Rightarrow> string \<Rightarrow> string list \<Rightarrow> string list run" where
  "queue_blockers E k base_commit files =
     bindM (get_workspace k) (\<lambda>workspace.
     let repository = ri_canonical_path (ws_repository workspace) in
     bindM (git_run E (git_at repository [''rev-parse'', ''HEAD''])) (\<lambda>out.
     thenM (require (px_code out = 0) CalledProcessError ''git rev-parse'')
     (let current_head = strip (px_stdout out);
          stale = (if current_head \<noteq> base_commit
                   then [''canonical HEAD diverged: expected '' @ base_commit @ '', found '' @
                         current_head] else []) in
      bindM queue_list (\<lambda>entries.
      bindM (mapM (\<lambda>other.
          if qe_task_id other = k \<or> qe_status other \<notin> {Q_pending, Q_blocked} then retM []
          else
            bindM (get_workspace (qe_task_id other)) (\<lambda>other_workspace.
            if ri_canonical_path (ws_repository other_workspace) \<noteq> repository then retM []
            else
              (let overlapping = sorted_set (filter (\<lambda>l. \<exists>r\<in>set (qe_changed_files other).
                      queue_overlap l r) files) in
               retM (if overlapping \<noteq> []
                     then [''overlaps queued task '' @ qe_task_id other @ '': '' @
                           join '', '' overlapping] else [])))) entries) (\<lambda>lists.
      retM (stale @ concat lists))))))"

definition queue_changed_files :: "env \<Rightarrow> string \<Rightarrow> int \<Rightarrow> string list run" where
  "queue_changed_files E k revision =
     bindM (get_result k (Some revision)) (\<lambda>result.
     bindM (optM (find_artifact ''changed_files.json'' result)
              (Exc QueueError ''Accepted result is missing changed_files.json'')) (\<lambda>a.
     bindM (get_workspace k) (\<lambda>workspace.
     let path = path_join (path_join (path_parent (ws_path workspace)) ''artifacts'')
                  (ar_relative_path a) in
     bindM (from_fs (\<lambda>f. (is_file f path, read_file f path))) (\<lambda>(ex, content).
     thenM (require ex OSError path)
     (liftM (changed_paths E content))))))"

definition enqueue :: "env \<Rightarrow> string \<Rightarrow> string \<Rightarrow> queue_entry run" where
  "enqueue E k enqueued_by =
     bindM (get_task k) (\<lambda>task.
     thenM (require (dt_status task = D_accepted \<and> dt_accepted_result_revision task \<noteq> None)
              QueueError ''Only an accepted result can enter the promotion queue'')
     (bindM (queue_entry_of k) (\<lambda>old.
      thenM (require (old = None) QueueError (''Delegation task is already queued: '' @ k))
      (bindM (get_result k (dt_accepted_result_revision task)) (\<lambda>result.
       bindM (queue_changed_files E k (rs_revision result)) (\<lambda>files.
       bindM (queue_blockers E k (rs_base_commit result) files) (\<lambda>blockers.
       bindM (fresh E ''queue_'') (\<lambda>queue_id.
       bindM (utc_now E) (\<lambda>now.
       let entry = \<lparr>qe_queue_id = queue_id, qe_task_id = k,
             qe_result_revision = rs_revision result, qe_base_commit = rs_base_commit result,
             qe_changed_files = files,
             qe_status = (if blockers \<noteq> [] then Q_blocked else Q_pending),
             qe_blockers = blockers, qe_enqueued_by = enqueued_by, qe_created_at = now\<rparr> in
       thenM (append_record k T_promotion_queue (RQueue entry)) (retM entry))))))))))"

definition queue_promote :: "env \<Rightarrow> string \<Rightarrow> string \<Rightarrow> promotion run" where
  "queue_promote E k decided_by =
     bindM (queue_entry_of k) (\<lambda>entry.
     bindM (optM entry (Exc QueueError (''Delegation task is not queued: '' @ k))) (\<lambda>e.
     bindM (queue_blockers E k (qe_base_commit e) (qe_changed_files e)) (\<lambda>blockers.
     thenM (require (blockers = []) QueueError
              (''Promotion queue blockers: '' @ join ''; '' blockers))
     (promote E k decided_by ''Promoted from delegation queue''))))"

end
