(* ===== verification/Delegation_Invariant.thy ===== *)
theory Delegation_Invariant
  imports Promotion
begin

text \<open>
  The invariant of the delegation workflow over all its services: event histories are legal
  paths, every record is of the kind its type name announces, results are numbered from one,
  an accepted revision is the latest one and has an accepting review, and what was promoted
  lies inside the allowed paths of the task's workspace. The first section is a small logic
  for operations that read the store, talk to the outside world and then write.
\<close>

section \<open>Operations that leave the store alone\<close>

definition still :: "'a run \<Rightarrow> bool" where
  "still m \<longleftrightarrow> (\<forall>S. keeps ((=) S) m)"

lemma still_store: "still m \<Longrightarrow> m s = (r, t) \<Longrightarrow> sy_store t = sy_store s"
  unfolding still_def keeps_def by (metis snd_conv)

lemma still_snd: "still m \<Longrightarrow> sy_store (snd (m s)) = sy_store s"
  by (metis still_store surjective_pairing)

lemma keeps_ws_git [keeps_intros]: "keeps I (ws_git E c a i)"
  by (simp add: ws_git_def keeps_intros)

lemma keeps_inspect_repository [keeps_intros]: "keeps I (inspect_repository E p)"
  by (simp add: inspect_repository_def keeps_intros)

lemma keeps_verify_identity [keeps_intros]: "keeps I (verify_repository_identity E i)"
  by (simp add: verify_repository_identity_def keeps_intros)

lemma keeps_remove_tree [keeps_intros]: "keeps I (remove_tree_or_fail p)"
  by (simp add: remove_tree_or_fail_def keeps_intros split: prod.split)

lemma keeps_get_workspace [keeps_intros]: "keeps I (get_workspace k)"
  by (simp add: get_workspace_def keeps_intros)

lemma keeps_art_git [keeps_intros]: "keeps I (art_git E c a i)"
  by (simp add: art_git_def keeps_intros)

lemma keeps_entry_changes [keeps_intros]: "keeps I (entry_changes E w b e)"
  by (simp add: entry_changes_def keeps_intros Let_def split: prod.split)

lemma keeps_changed_files [keeps_intros]: "keeps I (changed_files E w b)"
  by (simp add: changed_files_def keeps_intros)

lemma keeps_workspace_patch [keeps_intros]: "keeps I (workspace_patch E w b c)"
  by (simp add: workspace_patch_def keeps_intros Let_def)

lemma keeps_check_change [keeps_intros]: "keeps I (check_change w c)"
  by (simp add: check_change_def keeps_intros)

lemma keeps_outcome_gate [keeps_intros]: "keeps I (outcome_gate l)"
  by (simp add: outcome_gate_def keeps_intros)

lemma keeps_write_revision [keeps_intros]: "keeps I (write_revision E r p c m s)"
  by (simp add: write_revision_def keeps_intros)

lemma keeps_get_result [keeps_intros]: "keeps I (get_result k n)"
  by (simp add: get_result_def keeps_intros Let_def)

lemma keeps_reviewable [keeps_intros]: "keeps I (reviewable k)"
  by (simp add: reviewable_def keeps_intros)

lemma keeps_verify_artifacts [keeps_intros]: "keeps I (verify_artifacts E k r)"
  by (simp add: verify_artifacts_def keeps_intros Let_def split: prod.split)

lemma keeps_promo_git [keeps_intros]: "keeps I (promo_git E r a i x)"
  by (simp add: promo_git_def keeps_intros)

lemma keeps_verified_content [keeps_intros]: "keeps I (verified_content E p c)"
  by (simp add: verified_content_def keeps_intros split: prod.split)

lemma keeps_apply_patch [keeps_intros]: "keeps I (apply_patch E r p)"
  by (simp add: apply_patch_def keeps_intros)

lemma keeps_verify_applied [keeps_intros]: "keeps I (verify_applied E r b p f)"
  by (simp add: verify_applied_def index_entries_def keeps_intros Let_def)

lemma keeps_rollback [keeps_intros]: "keeps I (rollback E r p)"
  by (simp add: rollback_def keeps_intros)

lemma keeps_unmet [keeps_intros]: "keeps I (unmet_required k)"
  by (simp add: unmet_required_def keeps_intros Let_def)

lemma keeps_promotable [keeps_intros]: "keeps I (promotable E k)"
  by (simp add: promotable_def keeps_intros Let_def split del: if_split)

lemma keeps_list_tasks [keeps_intros]: "keeps I list_tasks"
  by (simp add: list_tasks_def keeps_intros)

lemma keeps_queue_reads [keeps_intros]:
  "keeps I (queue_entry_of k)" "keeps I queue_list"
  by (simp_all add: queue_entry_of_def queue_list_def keeps_intros)

lemma keeps_queue_blockers [keeps_intros]: "keeps I (queue_blockers E k b f)"
  by (simp add: queue_blockers_def keeps_intros Let_def split del: if_split)

lemma keeps_queue_changed_files [keeps_intros]: "keeps I (queue_changed_files E k n)"
  by (simp add: queue_changed_files_def keeps_intros Let_def split: prod.split)

lemma stillI: "(\<And>S. keeps ((=) S) m) \<Longrightarrow> still m"
  by (simp add: still_def)

section \<open>From one store\<close>

text \<open>\<open>from_store_ok S m I\<close>: started with the store \<open>S\<close>, \<open>m\<close> ends with a store that
  satisfies \<open>I\<close>, whether it returns or raises\<close>

definition starts :: "mem_store \<Rightarrow> 'a run \<Rightarrow> (mem_store \<Rightarrow> bool) \<Rightarrow> bool" where
  "starts S m I \<longleftrightarrow> (\<forall>s. sy_store s = S \<longrightarrow> I (sy_store (snd (m s))))"

lemma keeps_starts: "(\<And>S. I S \<Longrightarrow> starts S m I) \<Longrightarrow> keeps I m"
  by (simp add: keeps_def starts_def)

lemma starts_still: "still m \<Longrightarrow> I S \<Longrightarrow> starts S m I"
  by (simp add: starts_def still_snd)

lemma starts_bind:
  assumes "still m" and "I S"
    and "\<And>a s t. sy_store s = S \<Longrightarrow> sy_store t = S \<Longrightarrow> m s = (Inr a, t) \<Longrightarrow> starts S (f a) I"
  shows "starts S (bindM m f) I"
  unfolding starts_def
proof (intro allI impI)
  fix s :: sys assume s: "sy_store s = S"
  obtain r t where m: "m s = (r, t)" by fastforce
  with s have t: "sy_store t = S" using still_store [OF assms(1)] by auto
  show "I (sy_store (snd (bindM m f s)))"
  proof (cases r)
    case (Inl e)
    with m t assms(2) show ?thesis by (simp add: bindM_run)
  next
    case (Inr a)
    with m assms(3) [OF s t] t show ?thesis by (simp add: bindM_run starts_def)
  qed
qed

lemma starts_then:
  assumes "still m" and "I S"
    and "\<And>a s t. sy_store s = S \<Longrightarrow> sy_store t = S \<Longrightarrow> m s = (Inr a, t) \<Longrightarrow> starts S n I"
  shows "starts S (thenM m n) I"
  unfolding thenM_def using assms by (rule starts_bind)

lemma starts_try:
  assumes "still m" and "I S" and "\<And>e. starts S (h e) I"
  shows "starts S (tryM m h) I"
  unfolding starts_def
proof (intro allI impI)
  fix s :: sys assume s: "sy_store s = S"
  obtain r t where m: "m s = (r, t)" by fastforce
  with s have t: "sy_store t = S" using still_store [OF assms(1)] by auto
  show "I (sy_store (snd (tryM m h s)))"
    using m t assms by (cases r) (auto simp: tryM_run starts_def)
qed

lemma starts_append:
  assumes "I S"
    and "\<And>c S'. get_delegation_task k S = Some c \<Longrightarrow>
      append_delegation_record k ty (record_id_of r) r S = Inr S' \<Longrightarrow> starts S' n I"
  shows "starts S (thenM (append_record k ty r) n) I"
  unfolding starts_def
proof (intro allI impI)
  fix s :: sys assume s: "sy_store s = S"
  show "I (sy_store (snd (thenM (append_record k ty r) n s)))"
  proof (cases "append_record k ty r s")
    case (Pair x t)
    show ?thesis
    proof (cases x)
      case (Inl e)
      with Pair have "sy_store t = S" using s
        by (auto simp: append_record_def get_task_run run_eqs require_def store_record_def
            split: option.splits if_splits sum.splits store_error.splits)
      with Pair Inl assms(1) show ?thesis by (simp add: thenM_run)
    next
      case (Inr u)
      with append_record_run_Inr Pair obtain c st where
        "get_delegation_task k (sy_store s) = Some c"
        "append_delegation_record k ty (record_id_of r) r (sy_store s) = Inr st"
        "t = s\<lparr>sy_store := st\<rparr>" by blast
      with assms(2) s Inr Pair show ?thesis by (simp add: thenM_run starts_def)
    qed
  qed
qed

lemma starts_transition:
  assumes "I S"
    and "\<And>c n e. get_delegation_task k S = Some c \<Longrightarrow> legal (dt_status c) st \<Longrightarrow>
      de_status e = st \<Longrightarrow>
      starts (append_delegation_event (dt_task_id c) e
        (set_delegation_task k (moved E n c st us) S)) (f (moved E n c st us)) I"
  shows "starts S (bindM (transition E k st us d) f) I"
  unfolding starts_def
proof (intro allI impI)
  fix s :: sys assume s: "sy_store s = S"
  show "I (sy_store (snd (bindM (transition E k st us d) f s)))"
  proof (cases rule: transition_cases [where k = k and s = s and st = st])
    case (legal c)
    have "de_status (event_of E (Suc (sy_tick s)) (moved E (sy_tick s) c st us)
        (''task.'' @ dstatus_str st) d) = st" by (simp add: event_of_def)
    from assms(2) [OF legal [unfolded s] this] show ?thesis
      by (simp add: bindM_run transition_legal [OF legal] Let_def starts_def s)
  qed (use assms(1) s in \<open>simp_all add: bindM_run transition_illegal transition_missing\<close>)
qed

lemma starts_transition_then:
  assumes "I S"
    and "\<And>c n e. get_delegation_task k S = Some c \<Longrightarrow> legal (dt_status c) st \<Longrightarrow>
      de_status e = st \<Longrightarrow>
      starts (append_delegation_event (dt_task_id c) e
        (set_delegation_task k (moved E n c st us) S)) g I"
  shows "starts S (thenM (transition E k st us d) g) I"
  unfolding thenM_def using assms by (rule starts_transition)

lemma starts_ret: "I S \<Longrightarrow> starts S (retM a) I"
  by (simp add: starts_def retM_def)

lemma starts_raise: "I S \<Longrightarrow> starts S (raise c m) I"
  by (simp add: starts_def raise_def raiseM_def)

section \<open>What a returned value tells\<close>

text \<open>\<open>yields S m Q\<close>: whatever \<open>m\<close> returns when the store is \<open>S\<close> satisfies \<open>Q\<close>\<close>

definition yields :: "mem_store \<Rightarrow> 'a run \<Rightarrow> ('a \<Rightarrow> bool) \<Rightarrow> bool" where
  "yields S m Q \<longleftrightarrow> (\<forall>s a t. sy_store s = S \<longrightarrow> m s = (Inr a, t) \<longrightarrow> Q a)"

lemma yieldsD: "yields (sy_store s) m Q \<Longrightarrow> m s = (Inr a, t) \<Longrightarrow> Q a"
  by (simp add: yields_def)

lemma yields_bind:
  assumes "still m" and "yields S m P" and "\<And>a. P a \<Longrightarrow> yields S (f a) Q"
  shows "yields S (bindM m f) Q"
  using assms still_store [OF assms(1)] unfolding yields_def bindM_Inr by metis

lemma yields_any:
  assumes "still m" and "\<And>a. yields S (f a) Q"
  shows "yields S (bindM m f) Q"
  by (rule yields_bind [OF assms(1), where P = "\<lambda>_. True"], simp add: yields_def, rule assms(2))

lemma yields_skip: "still m \<Longrightarrow> yields S n Q \<Longrightarrow> yields S (thenM m n) Q"
  unfolding thenM_def by (rule yields_any)

lemma yields_require: "(b \<Longrightarrow> yields S n Q) \<Longrightarrow> yields S (thenM (require b c m) n) Q"
  by (auto simp: yields_def thenM_Inr)

lemma yields_get_task:
  "(\<And>c. get_delegation_task k S = Some c \<Longrightarrow> yields S (f c) Q) \<Longrightarrow>
   yields S (bindM (get_task k) f) Q"
  by (auto simp: yields_def bindM_Inr)

lemma yields_records:
  "yields S (f (get_delegation_records k ty S)) Q \<Longrightarrow> yields S (bindM (get_records k ty) f) Q"
  by (auto simp: yields_def bindM_Inr get_records_def thenM_Inr)

lemma yields_workspace:
  "(\<And>w. w \<in> set (workspaces_of (get_delegation_records k T_workspaces S)) \<Longrightarrow>
      w = last (workspaces_of (get_delegation_records k T_workspaces S)) \<Longrightarrow>
      yields S (f w) Q) \<Longrightarrow>
   yields S (bindM (get_workspace k) f) Q"
  by (auto simp: yields_def bindM_Inr get_workspace_def get_records_def thenM_Inr)

lemma yields_result:
  "(\<And>r. r \<in> set (results_of (get_delegation_records k T_results S)) \<Longrightarrow>
      (case n of None \<Rightarrow> r = last (results_of (get_delegation_records k T_results S))
       | Some m \<Rightarrow> rs_revision r = m) \<Longrightarrow>
      yields S (f r) Q) \<Longrightarrow>
   yields S (bindM (get_result k n) f) Q"
  by (cases n)
    (auto simp: yields_def bindM_Inr get_result_def get_records_def thenM_Inr Let_def find_Some_iff,
      blast dest: nth_mem)

lemma yields_ret: "Q a \<Longrightarrow> yields S (retM a) Q"
  by (simp add: yields_def)

lemmas yields_rules = yields_get_task yields_records yields_workspace yields_result yields_require
  yields_any yields_skip yields_ret

section \<open>The invariant\<close>

definition scope_ok :: "dworkspace \<Rightarrow> bool" where
  "scope_ok w \<longleftrightarrow> ws_allowed_paths w \<noteq> [] \<and>
     (\<forall>a\<in>set (ws_allowed_paths w). \<forall>d\<in>set (ws_denied_paths w). \<not> overlaps a d)"

definition inside :: "dworkspace \<Rightarrow> string list \<Rightarrow> bool" where
  "inside w files \<longleftrightarrow> files \<noteq> [] \<and>
     (\<forall>p\<in>set files. matches p (ws_allowed_paths w) \<and> \<not> matches p (ws_denied_paths w))"

text \<open>What a stored record promises by itself; \<open>ws\<close> are the workspaces of the task\<close>

definition record_ok :: "dworkspace list \<Rightarrow> rtype \<Rightarrow> drec \<Rightarrow> bool" where
  "record_ok ws ty r \<longleftrightarrow> rtype_ok ty r \<and>
     (case r of
        RWorkspace w \<Rightarrow> scope_ok w \<and> (ty = T_workspaces \<longrightarrow> ws_status w = WS_ready)
      | RQueue q \<Rightarrow> qe_status q \<in> {Q_pending, Q_blocked}
      | RPromotion p \<Rightarrow> (\<exists>w\<in>set ws. inside w (po_changed_files p))
      | _ \<Rightarrow> True)"

definition accepted_statuses :: "dstatus set" where
  "accepted_statuses = {D_accepted, D_promoting, D_promoted, D_promotion_failed}"

definition has_review :: "review_decision \<Rightarrow> int \<Rightarrow> drec list \<Rightarrow> bool" where
  "has_review d n rs \<longleftrightarrow> (\<exists>w\<in>set (reviews_of rs). rw_decision w = d \<and> rw_result_revision w = n)"

definition has_promotion :: "int \<Rightarrow> drec list \<Rightarrow> bool" where
  "has_promotion n rs \<longleftrightarrow>
     (\<exists>p\<in>set (promotions_of rs). po_status p = Ps_promoted \<and> po_result_revision p = n)"

text \<open>How a task and its records fit together\<close>

definition task_ok :: "dtask option \<Rightarrow> (rtype \<Rightarrow> drec list) \<Rightarrow> bool" where
  "task_ok v R =
     (case v of
        None \<Rightarrow> (\<forall>ty. R ty = [])
      | Some t \<Rightarrow>
          (\<forall>ty. \<forall>r\<in>set (R ty). record_ok (workspaces_of (R T_workspaces)) ty r) \<and>
          map rs_revision (results_of (R T_results)) = [1..dt_latest_result_revision t] \<and>
          0 \<le> dt_latest_result_revision t \<and>
          (dt_status t \<in> accepted_statuses \<longrightarrow>
             dt_accepted_result_revision t = Some (dt_latest_result_revision t) \<and>
             has_review Rv_accepted (dt_latest_result_revision t) (R T_reviews)) \<and>
          (dt_status t \<notin> accepted_statuses \<and> dt_status t \<notin> set terminal_statuses \<longrightarrow>
             dt_accepted_result_revision t = None) \<and>
          (dt_status t = D_promoted \<longrightarrow>
             has_promotion (dt_latest_result_revision t) (R T_promotions)))"

definition delegation_ok :: "mem_store \<Rightarrow> bool" where
  "delegation_ok s \<longleftrightarrow> history_ok s \<and>
     (\<forall>k. task_ok (get_delegation_task k s) (\<lambda>ty. get_delegation_records k ty s))"

lemma delegation_ok_empty: "delegation_ok empty_store"
  by (simp add: delegation_ok_def history_ok_empty task_ok_def)
     (simp add: get_delegation_task_def get_delegation_records_def empty_store_def)

lemma delegation_okD:
  assumes "delegation_ok s" and "get_delegation_task k s = Some t"
  shows "history_ok s" and "task_ok (Some t) (\<lambda>ty. get_delegation_records k ty s)"
    and "dt_task_id t = k"
  using assms by (auto simp: delegation_ok_def dest: spec [of _ k] intro: history_okD(1))

lemma delegation_ok_cong:
  assumes "\<And>k. get_delegation_task k t = get_delegation_task k s"
    and "\<And>k. get_delegation_events k t = get_delegation_events k s"
    and "\<And>k ty. get_delegation_records k ty t = get_delegation_records k ty s"
  shows "delegation_ok t = delegation_ok s"
  using history_ok_cong [of t s] assms by (simp add: delegation_ok_def)

text \<open>Appending a record other than a result\<close>

lemma task_ok_append:
  assumes t: "task_ok (Some t) R" and ty: "ty \<noteq> T_results"
    and r: "record_ok (workspaces_of (R T_workspaces)) ty r"
  shows "task_ok (Some t) (R(ty := R ty @ [r]))"
proof -
  let ?R = "R(ty := R ty @ [r])"
  have mono: "record_ok (workspaces_of (R T_workspaces)) ty' x \<Longrightarrow>
      record_ok (workspaces_of (?R T_workspaces)) ty' x" for ty' x
    by (cases x) (auto simp: record_ok_def workspaces_of_def)
  have "has_review d n (R T_reviews) \<Longrightarrow> has_review d n (?R T_reviews)" for d n
    by (auto simp: has_review_def reviews_of_def)
  moreover have "has_promotion n (R T_promotions) \<Longrightarrow> has_promotion n (?R T_promotions)" for n
    by (auto simp: has_promotion_def promotions_of_def)
  moreover have "\<forall>ty'. \<forall>x\<in>set (?R ty'). record_ok (workspaces_of (?R T_workspaces)) ty' x"
    using t r mono unfolding task_ok_def by (auto split: if_splits)
  ultimately show ?thesis using t ty unfolding task_ok_def by auto
qed

lemma append_ok:
  assumes d: "delegation_ok S" and c: "get_delegation_task k S = Some c"
    and a: "append_delegation_record k ty rid r S = Inr S'" and ty: "ty \<noteq> T_results"
    and r: "record_ok (workspaces_of (get_delegation_records k T_workspaces S)) ty r"
  shows "delegation_ok S'"
  unfolding delegation_ok_def
proof (intro conjI allI)
  show "history_ok S'" using history_ok_record [OF a] delegation_okD(1) [OF d c] by simp
  fix j
  have old: "task_ok (get_delegation_task j S) (\<lambda>ty. get_delegation_records j ty S)"
    using d by (simp add: delegation_ok_def)
  note A = append_record_Inr [OF a]
  show "task_ok (get_delegation_task j S') (\<lambda>ty. get_delegation_records j ty S')"
  proof (cases "j = k")
    case True
    have "(\<lambda>ty'. get_delegation_records k ty' S') =
        (\<lambda>ty'. get_delegation_records k ty' S)(ty := get_delegation_records k ty S @ [r])"
      using A by auto
    with task_ok_append [OF old [unfolded True c] ty] r A True c show ?thesis by simp
  next
    case False
    with old A show ?thesis by simp
  qed
qed

text \<open>Moving a task\<close>

lemma move_ok:
  assumes d: "delegation_ok S" and c: "get_delegation_task k S = Some c"
    and l: "legal (dt_status c) (dt_status u)" and u: "dt_task_id u = k" "de_status e = dt_status u"
    and t: "task_ok (Some u) (\<lambda>ty. get_delegation_records k ty S)"
  shows "delegation_ok (append_delegation_event (dt_task_id c) e (set_delegation_task k u S))"
  unfolding delegation_ok_def
proof (intro conjI allI)
  show "history_ok (append_delegation_event (dt_task_id c) e (set_delegation_task k u S))"
    by (rule history_ok_move [OF delegation_okD(1) [OF d c] c l u])
  fix j
  show "task_ok (get_delegation_task j (append_delegation_event (dt_task_id c) e (set_delegation_task k u S)))
      (\<lambda>ty. get_delegation_records j ty (append_delegation_event (dt_task_id c) e (set_delegation_task k u S)))"
    using d t by (cases "j = k") (simp_all add: delegation_ok_def)
qed

section \<open>Every service keeps the invariant\<close>

text \<open>Moves that leave revisions alone, between statuses that are not accepted ones\<close>

definition plain_update :: "task_update \<Rightarrow> bool" where
  "plain_update u \<longleftrightarrow>
     (case u of U_latest_result_revision _ \<Rightarrow> False | U_accepted_result_revision _ \<Rightarrow> False
      | _ \<Rightarrow> True)"

lemma plain_update_keeps:
  assumes "\<forall>u\<in>set us. plain_update u"
  shows "dt_latest_result_revision (apply_updates us c) = dt_latest_result_revision c \<and>
    dt_accepted_result_revision (apply_updates us c) = dt_accepted_result_revision c"
  using assms unfolding apply_updates_def
proof (induction us arbitrary: c)
  case (Cons u us)
  then show ?case by (cases u) (auto simp: plain_update_def)
qed simp

lemma plain_move_ok:
  assumes t: "task_ok (Some c) R" and l: "legal (dt_status c) st"
    and us: "\<forall>u\<in>set us. plain_update u" and st: "st \<notin> accepted_statuses"
    and nt: "st \<notin> set terminal_statuses \<longrightarrow> dt_status c \<notin> accepted_statuses"
  shows "task_ok (Some (moved E n c st us)) R"
proof -
  have "dt_status c \<notin> set terminal_statuses" using l by (auto simp: legal_terminal legal_def)
  then show ?thesis
    using t st nt plain_update_keeps [OF us, of c]
    by (auto simp: task_ok_def moved_def accepted_statuses_def)
qed

lemma keeps_plain_transition:
  assumes us: "\<forall>u\<in>set us. plain_update u" and st: "st \<notin> accepted_statuses"
    and nt: "st \<notin> set terminal_statuses \<Longrightarrow> (\<And>c. legal c st \<Longrightarrow> c \<notin> accepted_statuses)"
  shows "keeps delegation_ok (transition E k st us d)"
proof (unfold keeps_def, intro allI impI)
  fix s :: sys assume h: "delegation_ok (sy_store s)"
  show "delegation_ok (sy_store (snd (transition E k st us d s)))"
  proof (cases rule: transition_cases [where k = k and s = s and st = st])
    case (legal c)
    note D = delegation_okD [OF h legal(1)]
    have "task_ok (Some (moved E (sy_tick s) c st us)) (\<lambda>ty. get_delegation_records k ty (sy_store s))"
      using plain_move_ok [OF D(2) legal(2) us st] nt legal(2) by blast
    then show ?thesis
      using move_ok [OF h legal(1), of "moved E (sy_tick s) c st us"] legal(2) D(3)
      by (simp add: transition_legal [OF legal] Let_def event_of_def)
  qed (simp_all add: h transition_illegal transition_missing)
qed

lemma keeps_append_plain:
  assumes "\<And>ws. record_ok ws ty r" and "ty \<noteq> T_results"
  shows "keeps delegation_ok (append_record k ty r)"
proof (unfold keeps_def, intro allI impI)
  fix s :: sys assume h: "delegation_ok (sy_store s)"
  obtain x t where r: "append_record k ty r s = (x, t)" by fastforce
  show "delegation_ok (sy_store (snd (append_record k ty r s)))"
  proof (cases x)
    case (Inl e)
    with r h show ?thesis
      by (auto simp: append_record_def get_task_run run_eqs require_def store_record_def
          split: option.splits if_splits sum.splits store_error.splits)
  next
    case (Inr u)
    with append_record_run_Inr r obtain c st where
      "get_delegation_task k (sy_store s) = Some c"
      "append_delegation_record k ty (record_id_of r) r (sy_store s) = Inr st"
      "t = s\<lparr>sy_store := st\<rparr>" by blast
    with append_ok [OF h] assms r show ?thesis by simp
  qed
qed

text \<open>A new task has no results\<close>

lemma keeps_create_ok:
  assumes "dt_latest_result_revision t = 0" and "dt_accepted_result_revision t = None"
  shows "keeps delegation_ok (create_task E t)"
proof (unfold keeps_def, intro allI impI)
  fix s :: sys assume h: "delegation_ok (sy_store s)"
  show "delegation_ok (sy_store (snd (create_task E t s)))"
  proof (cases "get_delegation_task (dt_task_id t) (sy_store s) = None \<and> dt_status t = D_draft")
    case True
    let ?S = "append_delegation_event (dt_task_id t) (event_of E (sy_tick s) t ''task.created'' [])
      (set_delegation_task (dt_task_id t) t (sy_store s))"
    have "history_ok ?S"
      using h True by (intro history_ok_create) (auto simp: delegation_ok_def event_of_def)
    moreover have "task_ok (get_delegation_task j ?S) (\<lambda>ty. get_delegation_records j ty ?S)" for j
    proof (cases "j = dt_task_id t")
      case j: True
      have "task_ok (get_delegation_task j (sy_store s)) (\<lambda>ty. get_delegation_records j ty (sy_store s))"
        using h by (simp add: delegation_ok_def)
      then have "get_delegation_records j ty (sy_store s) = []" for ty
        using True j by (simp add: task_ok_def)
      then show ?thesis using j True assms
        by (simp add: task_ok_def results_of_def workspaces_of_def accepted_statuses_def)
    next
      case False
      then show ?thesis using h by (simp add: delegation_ok_def)
    qed
    ultimately show ?thesis using True by (simp add: create_task_run delegation_ok_def)
  next
    case False
    then show ?thesis using h by (auto simp: create_task_run)
  qed
qed

lemma ok_profile: "keeps delegation_ok (register_profile p)"
  unfolding register_profile_def
  by (intro keeps_intros keeps_on_store, subst delegation_ok_cong)
    (simp_all add: get_delegation_task_def get_delegation_events_def get_delegation_records_def
      set_executor_profile_def)

lemmas plain_defs = plain_update_def accepted_statuses_def legal_def transitions.simps

lemma legal_working: "legal c D_executor_working \<Longrightarrow> c \<notin> accepted_statuses"
  by (cases c) (simp_all add: plain_defs)

lemma ok_working: "keeps delegation_ok (transition E k D_executor_working [] d)"
  by (rule keeps_plain_transition) (auto simp: accepted_statuses_def dest: legal_working)

lemma ok_blocked: "keeps delegation_ok (transition E k D_executor_blocked [] d)"
  and ok_done: "keeps delegation_ok (transition E k D_executor_done [] d)"
  and ok_assigned: "keeps delegation_ok (transition E k D_assigned [U_executor_id x] d)"
proof -
  have "legal c D_executor_blocked \<Longrightarrow> c \<notin> accepted_statuses"
    and "legal c D_executor_done \<Longrightarrow> c \<notin> accepted_statuses"
    and "legal c D_assigned \<Longrightarrow> c \<notin> accepted_statuses" for c
    by (cases c; simp add: plain_defs)+
  then show "keeps delegation_ok (transition E k D_executor_blocked [] d)"
    and "keeps delegation_ok (transition E k D_executor_done [] d)"
    and "keeps delegation_ok (transition E k D_assigned [U_executor_id x] d)"
    by (auto intro!: keeps_plain_transition simp: accepted_statuses_def plain_update_def)
qed

lemma ok_message: "keeps delegation_ok (append_record k T_messages (RMessage m))"
  and ok_session: "keeps delegation_ok (append_record k T_sessions (RSession z))"
  and ok_command: "keeps delegation_ok (append_record k T_commands (RCommand c))"
  and ok_queue: "qe_status q \<in> {Q_pending, Q_blocked} \<Longrightarrow>
    keeps delegation_ok (append_record k T_promotion_queue (RQueue q))"
  and ok_launch: "keeps delegation_ok (append_record k T_launches (RLaunch l))"
  by (auto intro!: keeps_append_plain simp: record_ok_def)

lemmas ok_plain = ok_working ok_blocked ok_done ok_assigned ok_message ok_session ok_command
  ok_queue ok_launch ok_profile

lemma ok_commands:
  "keeps delegation_ok (delegate_assign E k x)" "keeps delegation_ok (delegate_start E k)"
  "keeps delegation_ok (delegate_message E k b)" "keeps delegation_ok (delegate_block E k b)"
  "keeps delegation_ok (delegate_resume E k)" "keeps delegation_ok (delegate_done E k b)"
  by (simp_all add: command_defs keeps_intros ok_plain split del: if_split)

lemma ok_command_service:
  "keeps delegation_ok (run_command E k c d)" "keeps delegation_ok (report_command E k c b)"
  "keeps delegation_ok (waive_command E k c r)"
  by (simp_all add: run_command_def report_command_def waive_command_def keeps_intros ok_plain
      Let_def split del: if_split)

lemma ok_enqueue: "keeps delegation_ok (enqueue E k x)"
proof -
  have "qe_status q = (if b then Q_blocked else Q_pending) \<Longrightarrow>
      keeps delegation_ok (append_record k T_promotion_queue (RQueue q))" for q b
    by (rule ok_queue) simp
  then show ?thesis
    by (simp add: enqueue_def keeps_intros Let_def split del: if_split)
qed

lemma keeps_build_workspace [keeps_intros]: "keeps I (build_workspace E home k)"
  by (simp add: build_workspace_def keeps_intros Let_def split del: if_split)

lemma keeps_build_result [keeps_intros]: "keeps I (build_result E k)"
  by (simp add: build_result_def keeps_intros Let_def split del: if_split)

lemma build_workspace_yields:
  "yields S (build_workspace E home k) (\<lambda>w.
     (\<exists>c. get_delegation_task k S = Some c \<and> dt_status c = D_assigned) \<and> scope_ok w \<and>
     in_parents home (ws_path w) \<and> ws_task_id w = k \<and> ws_status w = WS_ready)"
  unfolding build_workspace_def Let_def
  apply ((rule yields_rules | (rule stillI, simp add: keeps_intros split del: if_split; fail))+)
  apply (auto simp: scope_ok_def)
  done

lemma build_result_yields:
  "yields S (build_result E k) (\<lambda>r.
     (\<exists>c. get_delegation_task k S = Some c \<and> dt_status c = D_executor_done \<and>
        rs_revision r = dt_latest_result_revision c + 1) \<and> rs_task_id r = k)"
  unfolding build_result_def Let_def
  by ((rule yields_rules | (rule stillI, simp add: keeps_intros split del: if_split; fail))+) auto

lemma starts_yields:
  assumes "still m" and "I S" and "yields S m P" and "\<And>a. P a \<Longrightarrow> starts S (f a) I"
  shows "starts S (bindM m f) I"
proof (rule starts_bind [where I = I and S = S, OF assms(1,2)])
  fix a s t assume "sy_store s = S" "m s = (Inr a, t)"
  with yieldsD [of s m P a t] assms(3) have "P a" by simp
  then show "starts S (f a) I" by (rule assms(4))
qed

lemma ok_prepare: "keeps delegation_ok (prepare E home k)"
proof (rule keeps_starts)
  fix S assume S: "delegation_ok S"
  show "starts S (prepare E home k) delegation_ok"
    unfolding prepare_def
  proof (rule starts_yields [where I = delegation_ok, OF _ S build_workspace_yields],
      rule stillI, rule keeps_build_workspace, elim conjE exE)
    fix w c assume c: "get_delegation_task k S = Some c" "dt_status c = D_assigned"
      and w: "scope_ok w" "ws_status w = WS_ready"
    show "starts S (thenM (append_record k T_workspaces (RWorkspace w))
        (thenM (transition E k D_workspace_ready [U_workspace_id (ws_workspace_id w)]
          [(''workspace_id'', JStr (ws_workspace_id w))]) (retM w))) delegation_ok"
    proof (rule starts_append [where I = delegation_ok, OF S])
      fix c' S' assume a: "append_delegation_record k T_workspaces (record_id_of (RWorkspace w)) (RWorkspace w) S = Inr S'"
      have S': "delegation_ok S'"
        by (rule append_ok [OF S c(1) a]) (simp_all add: record_ok_def w)
      show "starts S' (thenM (transition E k D_workspace_ready [U_workspace_id (ws_workspace_id w)]
          [(''workspace_id'', JStr (ws_workspace_id w))]) (retM w)) delegation_ok"
      proof (rule starts_transition_then [where I = delegation_ok, OF S'])
        fix c :: dtask and n :: nat and e :: devent
        assume c: "get_delegation_task k S' = Some c" "legal (dt_status c) D_workspace_ready"
          and e: "de_status e = D_workspace_ready"
        note D = delegation_okD [OF S' c(1)]
        have "dt_status c \<notin> accepted_statuses"
          using c(2) by (cases "dt_status c") (simp_all add: plain_defs)
        then have "task_ok (Some (moved E n c D_workspace_ready [U_workspace_id (ws_workspace_id w)]))
            (\<lambda>ty. get_delegation_records k ty S')"
          by (intro plain_move_ok [OF D(2) c(2)]) (auto simp: plain_update_def accepted_statuses_def)
        with move_ok [OF S' c(1)] c(2) D(3) e
        show "starts (append_delegation_event (dt_task_id c) e (set_delegation_task k
            (moved E n c D_workspace_ready [U_workspace_id (ws_workspace_id w)]) S')) (retM w) delegation_ok"
          by (simp add: starts_ret)
      qed
    qed
  qed
qed

lemma task_ok_result:
  assumes t: "task_ok (Some c) R" and c: "dt_status c = D_executor_done"
    and n: "rs_revision r = dt_latest_result_revision c + 1"
    and u: "dt_status u = D_reviewing" "dt_latest_result_revision u = rs_revision r"
      "dt_accepted_result_revision u = dt_accepted_result_revision c"
  shows "task_ok (Some u) (R(T_results := R T_results @ [RResult r]))"
proof -
  let ?R = "R(T_results := R T_results @ [RResult r])"
  have "\<forall>ty. \<forall>x\<in>set (?R ty). record_ok (workspaces_of (?R T_workspaces)) ty x"
  proof -
    have "record_ok (workspaces_of (R T_workspaces)) T_results (RResult r)"
      by (simp add: record_ok_def)
    moreover have "\<forall>ty. \<forall>x\<in>set (R ty). record_ok (workspaces_of (R T_workspaces)) ty x"
      using t by (simp add: task_ok_def)
    ultimately show ?thesis by auto
  qed
  moreover have "map rs_revision (results_of (R T_results)) = [1..dt_latest_result_revision c]"
    and pos: "0 \<le> dt_latest_result_revision c"
    using t by (simp_all add: task_ok_def)
  then have "map rs_revision (results_of (?R T_results)) = [1..dt_latest_result_revision u]"
    using n u upto_rec2 [of 1 "dt_latest_result_revision c + 1"]
    by (simp add: results_of_def map_filter_single)
  moreover have "dt_accepted_result_revision u = None"
    using t c u by (simp add: task_ok_def accepted_statuses_def terminal_statuses_def)
  ultimately show ?thesis
    using u n pos by (simp add: task_ok_def accepted_statuses_def terminal_statuses_def)
qed

text \<open>The append and the move of \<open>capture\<close> together restore the numbering\<close>

lemma capture_move_ok:
  assumes S: "delegation_ok S" and c: "get_delegation_task k S = Some c" "dt_status c = D_executor_done"
    and n: "rs_revision r = dt_latest_result_revision c + 1"
    and a: "append_delegation_record k T_results rid (RResult r) S = Inr S'"
    and c': "get_delegation_task k S' = Some c'" and e: "de_status e = D_reviewing"
  shows "delegation_ok (append_delegation_event (dt_task_id c') e (set_delegation_task k
    (moved E m c' D_reviewing [U_latest_result_revision (rs_revision r)]) S'))"
  unfolding delegation_ok_def
proof (intro conjI allI)
  note A = append_record_Inr [OF a]
  note D = delegation_okD [OF S c(1)]
  let ?u = "moved E m c' D_reviewing [U_latest_result_revision (rs_revision r)]"
  have cc: "c' = c" using c(1) c' A by simp
  show "history_ok (append_delegation_event (dt_task_id c') e (set_delegation_task k ?u S'))"
    using history_ok_move [OF history_ok_record [OF a D(1)] c', of ?u e] c(2) D(3) e
    by (simp add: cc legal_def)
  fix j
  have old: "task_ok (get_delegation_task j S) (\<lambda>ty. get_delegation_records j ty S)"
    using S by (simp add: delegation_ok_def)
  show "task_ok (get_delegation_task j (append_delegation_event (dt_task_id c') e (set_delegation_task k ?u S')))
    (\<lambda>ty. get_delegation_records j ty (append_delegation_event (dt_task_id c') e (set_delegation_task k ?u S')))"
  proof (cases "j = k")
    case True
    have "(\<lambda>ty. get_delegation_records k ty S') =
        (\<lambda>ty. get_delegation_records k ty S)
          (T_results := get_delegation_records k T_results S @ [RResult r])"
      using A by auto
    then show ?thesis
      using task_ok_result [OF old [unfolded True c(1)] c(2) n, of ?u] unfolding True cc
      by (simp add: moved_def apply_updates_def)
  next
    case False
    with old A show ?thesis by simp
  qed
qed

lemma ok_capture: "keeps delegation_ok (capture E k)"
proof (rule keeps_starts)
  fix S assume S: "delegation_ok S"
  show "starts S (capture E k) delegation_ok"
    unfolding capture_def
  proof (rule starts_yields [where I = delegation_ok, OF _ S build_result_yields],
      rule stillI, rule keeps_build_result, elim conjE exE)
    fix r :: result_rec and c assume c: "get_delegation_task k S = Some c" "dt_status c = D_executor_done"
      and n: "rs_revision r = dt_latest_result_revision c + 1"
    show "starts S (thenM (append_record k T_results (RResult r))
        (thenM (transition E k D_reviewing [U_latest_result_revision (rs_revision r)]
          [(''result_id'', JStr (rs_result_id r)), (''revision'', JInt (rs_revision r))])
        (retM r))) delegation_ok"
    proof (rule starts_append [where I = delegation_ok, OF S])
      fix c' S' assume a: "append_delegation_record k T_results (record_id_of (RResult r)) (RResult r) S = Inr S'"
      note move = capture_move_ok [OF S c n a]
      note A = append_record_Inr [OF a]
      have legal: "legal (dt_status c) D_reviewing" by (simp add: c legal_def)
      have "get_delegation_task k S' = Some c" using A c by simp
      then show "starts S' (thenM (transition E k D_reviewing [U_latest_result_revision (rs_revision r)]
          [(''result_id'', JStr (rs_result_id r)), (''revision'', JInt (rs_revision r))]) (retM r)) delegation_ok"
        unfolding starts_def using move legal
        by (auto simp: thenM_run transition_legal Let_def retM_run event_of_def)
    qed
  qed
qed

section \<open>Reviews, promotions and removal\<close>

lemma bind_assoc: "bindM (bindM m f) g = bindM m (\<lambda>x. bindM (f x) g)"
  by (rule ext) (simp add: bindM_def split: prod.split sum.split)

lemma bind_ret: "bindM (retM a) f = f a"
  by (rule ext) (simp add: bindM_def retM_def)

lemma bind_then: "bindM (thenM m n) f = thenM m (bindM n f)"
  by (simp add: thenM_def bind_assoc)

lemmas monad_laws = bind_assoc bind_ret bind_then

lemma task_ok_status:
  assumes "task_ok (Some c) R" and "dt_latest_result_revision u = dt_latest_result_revision c"
    and "dt_status u \<in> accepted_statuses \<Longrightarrow>
      dt_accepted_result_revision u = Some (dt_latest_result_revision u) \<and>
      has_review Rv_accepted (dt_latest_result_revision u) (R T_reviews)"
    and "dt_status u \<notin> accepted_statuses \<Longrightarrow> dt_status u \<notin> set terminal_statuses \<Longrightarrow>
      dt_accepted_result_revision u = None"
    and "dt_status u = D_promoted \<Longrightarrow> has_promotion (dt_latest_result_revision u) (R T_promotions)"
  shows "task_ok (Some u) R"
  using assms by (simp add: task_ok_def)

text \<open>A record followed by a move, the pattern of every service\<close>

lemma starts_append_move:
  fixes k :: string and S :: mem_store and ty :: rtype and r :: drec
  defines "R \<equiv> (\<lambda>t. get_delegation_records k t S)(ty := get_delegation_records k ty S @ [r])"
  assumes S: "delegation_ok S" and c: "get_delegation_task k S = Some c" and ty: "ty \<noteq> T_results"
    and r: "record_ok (workspaces_of (get_delegation_records k T_workspaces S)) ty r"
    and m: "\<And>n. task_ok (Some c) R \<Longrightarrow> legal (dt_status c) st \<Longrightarrow> task_ok (Some (moved E n c st us)) R"
    and g: "\<And>n S''. delegation_ok S'' \<Longrightarrow> get_delegation_task k S'' = Some (moved E n c st us) \<Longrightarrow>
      (\<And>t. get_delegation_records k t S'' = R t) \<Longrightarrow> starts S'' g delegation_ok"
  shows "starts S (thenM (append_record k ty r) (thenM (transition E k st us d) g)) delegation_ok"
proof (rule starts_append [where I = delegation_ok, OF S])
  fix c' S' assume a: "append_delegation_record k ty (record_id_of r) r S = Inr S'"
  have S': "delegation_ok S'" by (rule append_ok [OF S c a ty r])
  note A = append_record_Inr [OF a]
  have rec: "(\<lambda>t. get_delegation_records k t S') = R"
    using A by (auto simp: R_def)
  have cS': "get_delegation_task k S' = Some c" using A c by simp
  note D = delegation_okD [OF S' cS']
  show "starts S' (thenM (transition E k st us d) g) delegation_ok"
  proof (rule starts_transition_then [where I = delegation_ok, OF S'])
    fix c2 :: dtask and n :: nat and e :: devent
    assume c2: "get_delegation_task k S' = Some c2" "legal (dt_status c2) st" and e: "de_status e = st"
    have cc: "c2 = c" using c2 cS' by simp
    let ?S = "append_delegation_event (dt_task_id c2) e (set_delegation_task k (moved E n c2 st us) S')"
    have "task_ok (Some (moved E n c st us)) (\<lambda>t. get_delegation_records k t S')"
      using m [of n] D(2) c2(2) cc unfolding rec by simp
    then have "delegation_ok ?S"
      using move_ok [OF S' cS', of "moved E n c st us" e] c2(2) D(3) e cc by simp
    then show "starts ?S g delegation_ok"
      using g [of ?S n] cc fun_cong [OF rec] by simp
  qed
qed

text \<open>The result and the task that a review decides on\<close>

lemma reviewable_yields:
  "yields S (reviewable k) (\<lambda>(c, r). get_delegation_task k S = Some c \<and> dt_status c = D_reviewing \<and>
     rs_revision r = dt_latest_result_revision c)"
  unfolding reviewable_def
  by ((rule yields_rules | (rule stillI, simp add: keeps_intros; fail))+) auto

lemma has_review_new:
  "has_review (rw_decision w) (rw_result_revision w) (rs @ [RReview w])"
  by (auto simp: has_review_def reviews_of_def map_filter_single)

lemma fresh_still: "still (fresh E p)" and now_still: "still (utc_now E)"
  by (rule stillI, rule keeps_intros)+

lemma starts_review:
  assumes S: "delegation_ok S" and c: "get_delegation_task k S = Some c"
    and n: "rs_revision r = dt_latest_result_revision c"
    and st: "dec = Rv_accepted \<and> st = D_accepted \<and> us = [U_accepted_result_revision (Some (rs_revision r))] \<or>
      st \<in> {D_revision_requested, D_rejected} \<and> us = [U_accepted_result_revision None]"
    and g: "\<And>w. still (g w)"
  shows "starts S (bindM (record_review E k r dec reviewer note)
    (\<lambda>w. thenM (transition E k st us (d w)) (g w))) delegation_ok"
  unfolding record_review_def Let_def monad_laws
  apply (rule starts_bind [where I = delegation_ok, OF fresh_still S])
  apply (rule starts_bind [where I = delegation_ok, OF now_still S])
  apply (rule starts_append_move [OF S c])
     apply simp
    apply (simp add: record_ok_def)
   apply (erule task_ok_status; insert st n; auto simp: moved_def apply_updates_def
      accepted_statuses_def terminal_statuses_def has_review_def reviews_of_def map_filter_single)
  apply (rule starts_still [OF g])
  apply assumption
  done

lemma ret_still: "still (retM a)"
  by (rule stillI, rule keeps_intros)

lemma starts_reviewable:
  assumes S: "delegation_ok S" and g: "\<And>c r. get_delegation_task k S = Some c \<Longrightarrow>
    dt_status c = D_reviewing \<Longrightarrow> rs_revision r = dt_latest_result_revision c \<Longrightarrow>
    starts S (f (c, r)) delegation_ok"
  shows "starts S (bindM (reviewable k) f) delegation_ok"
  by (rule starts_yields [where I = delegation_ok, OF _ S reviewable_yields])
    (auto intro: stillI keeps_reviewable g)

lemma ok_accept: "keeps delegation_ok (accept E k reviewer note)"
proof (rule keeps_starts)
  fix S assume S: "delegation_ok S"
  show "starts S (accept E k reviewer note) delegation_ok"
    unfolding accept_def
    by (rule starts_reviewable [OF S], simp only: split_conv)
      (rule starts_bind [where I = delegation_ok, OF _ S] starts_then [where I = delegation_ok, OF _ S]
        starts_review [OF S] ret_still stillI keeps_intros | assumption | simp)+
qed

lemma ok_reject: "keeps delegation_ok (reject E k reviewer note)"
proof (rule keeps_starts)
  fix S assume S: "delegation_ok S"
  show "starts S (reject E k reviewer note) delegation_ok"
    unfolding reject_def
    by (rule starts_reviewable [OF S], simp only: split_conv)
      (rule starts_review [OF S], auto intro: ret_still)
qed

lemma get_task_still: "still (get_task k)"
  by (rule stillI, rule keeps_intros)

lemma get_result_yields:
  "yields S (get_result k (Some n)) (\<lambda>r. rs_revision r = n)"
  by (auto simp: yields_def get_result_def get_records_def inr_eqs Let_def find_Some_iff)

lemma starts_result:
  assumes "delegation_ok S" and "\<And>r. rs_revision r = n \<Longrightarrow> starts S (f r) delegation_ok"
  shows "starts S (bindM (get_result k (Some n)) f) delegation_ok"
  by (rule starts_yields [where I = delegation_ok, OF _ assms(1) get_result_yields])
    (auto intro: stillI keeps_intros assms(2))

lemma ok_request_revision: "keeps delegation_ok (request_revision E k reviewer note)"
proof (rule keeps_starts)
  fix S assume S: "delegation_ok S"
  show "starts S (request_revision E k reviewer note) delegation_ok"
    unfolding request_revision_def
  proof (rule starts_bind [where I = delegation_ok, OF get_task_still S])
    fix c :: dtask and s t :: sys
    assume "sy_store s = S" "get_task k s = (Inr c, t)"
    then have c: "get_delegation_task k S = Some c" by simp
    have no_result: "starts S (bindM (new_message E k Sender_orchestrator Mk_revision note) (\<lambda>m.
        thenM (append_record k T_messages (RMessage m))
        (thenM (transition E k D_revision_requested [] (d m)) (retM (None :: review option))))) delegation_ok"
      if "dt_status c = D_executor_done" for d
      apply (rule starts_bind [where I = delegation_ok, OF _ S], rule stillI, rule keeps_intros)
      apply (rule starts_append_move [OF S c], simp, simp add: record_ok_def)
       apply (rule plain_move_ok, assumption, assumption)
         apply (simp_all add: that accepted_statuses_def starts_ret)
      done
    have failed: "starts S (bindM (get_result k (Some (dt_latest_result_revision c))) (\<lambda>r.
        bindM (record_review E k r Rv_revision_requested reviewer note) (\<lambda>review.
        thenM (transition E k D_revision_requested [U_accepted_result_revision None] (d r review))
        (retM (Some review))))) delegation_ok" for d
      by (rule starts_result [OF S], rule starts_review [OF S c]) (auto intro: ret_still)
    have review: "starts S (bindM (reviewable k) (\<lambda>(_, r).
        bindM (record_review E k r Rv_revision_requested reviewer note) (\<lambda>review.
        thenM (transition E k D_revision_requested [U_accepted_result_revision None] (d r review))
        (retM (Some review))))) delegation_ok" for d
      by (rule starts_reviewable [OF S], simp only: split_conv)
        (rule starts_review [OF S], auto intro: ret_still)
    show "starts S (if dt_status c = D_executor_done \<and> dt_latest_result_revision c = 0 then
       bindM (new_message E k Sender_orchestrator Mk_revision note) (\<lambda>m.
       thenM (append_record k T_messages (RMessage m))
       (thenM (transition E k D_revision_requested []
                 [(''message_id'', JStr (ms_message_id m)), (''reason'', JStr ''no_result'')])
       (retM None)))
     else if dt_status c = D_promotion_failed then
       bindM (get_result k (Some (dt_latest_result_revision c))) (\<lambda>result.
       bindM (record_review E k result Rv_revision_requested reviewer note) (\<lambda>review.
       thenM (transition E k D_revision_requested [U_accepted_result_revision None]
                [(''review_id'', JStr (rw_review_id review)),
                 (''revision'', JInt (rs_revision result)), (''reason'', JStr ''promotion_failed'')])
       (retM (Some review))))
     else
       bindM (reviewable k) (\<lambda>(_, result).
       bindM (record_review E k result Rv_revision_requested reviewer note) (\<lambda>review.
       thenM (transition E k D_revision_requested [U_accepted_result_revision None]
                [(''review_id'', JStr (rw_review_id review)),
                 (''revision'', JInt (rs_revision result))])
       (retM (Some review))))) delegation_ok"
      using no_result failed review by simp
  qed
qed

lemma starts_keeps: "keeps I m \<Longrightarrow> I S \<Longrightarrow> starts S m I"
  by (simp add: keeps_def starts_def)

lemma workspaces_of_mem: "w \<in> set (workspaces_of rs) \<longleftrightarrow> RWorkspace w \<in> set rs"
proof -
  have "as_workspace r = Some w \<longleftrightarrow> r = RWorkspace w" for r by (cases r) auto
  then show ?thesis by (induction rs) (auto simp: workspaces_of_def List.map_filter_def)
qed

lemma promotions_of_mem: "p \<in> set (promotions_of rs) \<longleftrightarrow> RPromotion p \<in> set rs"
  by (induction rs) (auto simp: promotions_of_def List.map_filter_def split: drec.splits)

lemma queue_of_mem: "q \<in> set (queue_of rs) \<longleftrightarrow> RQueue q \<in> set rs"
  by (induction rs) (auto simp: queue_of_def List.map_filter_def split: drec.splits)

lemma stored_record_ok:
  assumes "delegation_ok S" and r: "r \<in> set (get_delegation_records k ty S)"
  shows "record_ok (workspaces_of (get_delegation_records k T_workspaces S)) ty r"
proof -
  have t: "task_ok (get_delegation_task k S) (\<lambda>ty. get_delegation_records k ty S)"
    using assms(1) by (simp add: delegation_ok_def)
  with r obtain c where "get_delegation_task k S = Some c"
    by (cases "get_delegation_task k S") (auto simp: task_ok_def)
  with t r show ?thesis unfolding task_ok_def by simp
qed

lemma stored_scope_ok:
  assumes "delegation_ok S" and "w \<in> set (workspaces_of (get_delegation_records k T_workspaces S))"
  shows "scope_ok w" and "ws_status w = WS_ready"
  using stored_record_ok [OF assms(1), of "RWorkspace w" k T_workspaces] assms(2)
  by (simp_all add: workspaces_of_mem record_ok_def)

lemma get_workspace_yields:
  "yields S (get_workspace k) (\<lambda>w. w \<in> set (workspaces_of (get_delegation_records k T_workspaces S)) \<and>
     w = last (workspaces_of (get_delegation_records k T_workspaces S)))"
  by (auto simp: yields_def get_workspace_def get_records_def inr_eqs)

lemma ok_remove: "keeps delegation_ok (remove_workspace E home k)"
proof (rule keeps_starts)
  fix S assume S: "delegation_ok S"
  show "starts S (remove_workspace E home k) delegation_ok"
    unfolding remove_workspace_def Let_def
  proof (rule starts_yields [where I = delegation_ok, OF _ S get_workspace_yields], rule stillI,
      rule keeps_get_workspace, rule starts_keeps [where I = delegation_ok, OF _ S], elim conjE)
    fix w assume "w \<in> set (workspaces_of (get_delegation_records k T_workspaces S))"
    then have "scope_ok w" by (rule stored_scope_ok(1) [OF S])
    then have "keeps delegation_ok (append_record k T_workspace_lifecycle
        (RWorkspace (w\<lparr>ws_status := WS_removed, ws_removed_at := Some now\<rparr>)))" for now
      by (intro keeps_append_plain) (simp_all add: record_ok_def scope_ok_def)
    then show "keeps delegation_ok (if ws_status w = WS_removed then retM w
     else
       bindM (from_fs (\<lambda>f. e_resolve E f (ws_path w))) (\<lambda>path.
       thenM (require (in_parents home path) WorkspaceError
                ''Refusing to remove a workspace outside the managed root'')
       (bindM (from_fs (\<lambda>f. path_exists f path)) (\<lambda>ex.
        thenM (if ex then
                 thenM (ws_git E (ri_canonical_path (ws_repository w))
                   [''worktree'', ''remove'', ''--force'', path] None) (retM ())
               else retM ())
        (thenM (ws_git E (ri_canonical_path (ws_repository w))
                 [''branch'', ''-D'', ws_branch w] None)
        (bindM (utc_now E) (\<lambda>now.
         thenM (append_record k T_workspace_lifecycle
                  (RWorkspace (w\<lparr>ws_status := WS_removed, ws_removed_at := Some now\<rparr>)))
         (retM (w\<lparr>ws_status := WS_removed, ws_removed_at := Some now\<rparr>)))))))))"
      by (simp add: keeps_intros split del: if_split)
  qed
qed

lemma yields_mono: "yields S m P \<Longrightarrow> (\<And>a. P a \<Longrightarrow> Q a) \<Longrightarrow> yields S m Q"
  by (simp add: yields_def)

lemma then_assoc: "thenM (thenM a b) c = thenM a (thenM b c)"
  by (simp add: thenM_def bind_assoc)

lemma yields_inside:
  "yields S (forM (\<lambda>p.
            thenM (require (\<not> matches p (ws_denied_paths w)) PromotionError (d p))
            (require (matches p (ws_allowed_paths w)) PromotionError (a p))) files)
     (\<lambda>_. \<forall>p\<in>set files. matches p (ws_allowed_paths w) \<and> \<not> matches p (ws_denied_paths w))"
proof (induction files)
  case (Cons p files)
  show ?case
    unfolding forM.simps then_assoc
    by (intro yields_require yields_mono [OF Cons]) auto
qed (simp add: yields_def)

lemma yields_then:
  assumes "still m" and "yields S m (\<lambda>_. P)" and "P \<Longrightarrow> yields S n Q"
  shows "yields S (thenM m n) Q"
  unfolding thenM_def using assms by (rule yields_bind) auto

text \<open>What the guards of a promotion establish\<close>

lemma promotable_yields:
  "yields S (promotable E k) (\<lambda>(r, repository, head, patch, files).
     (\<exists>c. get_delegation_task k S = Some c \<and> dt_status c \<in> {D_accepted, D_promotion_failed} \<and>
        dt_accepted_result_revision c = Some (dt_latest_result_revision c) \<and>
        rs_revision r = dt_latest_result_revision c) \<and>
     r \<in> set (results_of (get_delegation_records k T_results S)) \<and> head = rs_base_commit r \<and>
     (\<exists>w\<in>set (workspaces_of (get_delegation_records k T_workspaces S)).
        w = last (workspaces_of (get_delegation_records k T_workspaces S)) \<and>
        inside w files \<and> repository = ri_canonical_path (ws_repository w)))"
  unfolding promotable_def Let_def
  apply ((rule yields_get_task yields_records yields_workspace yields_result yields_require
        yields_then [OF _ yields_inside] yields_any yields_skip yields_ret
      | (rule stillI, simp add: keeps_intros split del: if_split; fail))+)
    apply (simp add: inside_def)
  done
lemma starts_then_try:
  assumes "still m" and "\<And>e. starts S (thenM (h e) n) I" and "starts S n I"
  shows "starts S (thenM (tryM m h) n) I"
  unfolding starts_def
proof (intro allI impI)
  fix s :: sys assume s: "sy_store s = S"
  obtain r t where m: "m s = (r, t)" by fastforce
  with s have t: "sy_store t = S" using still_store [OF assms(1)] by auto
  show "I (sy_store (snd (thenM (tryM m h) n s)))"
  proof (cases r)
    case (Inl e)
    with assms(2) [of e] m t show ?thesis by (simp add: starts_def thenM_run tryM_run)
  next
    case (Inr a)
    with assms(3) m t show ?thesis by (simp add: starts_def thenM_run tryM_run)
  qed
qed

lemma raise_then: "thenM (raise c m) n = raise c m"
  by (rule ext) (simp add: thenM_run raise_def raiseM_run)

lemma then_bind: "thenM (bindM m f) n = bindM m (\<lambda>x. thenM (f x) n)"
  by (simp add: thenM_def bind_assoc)

text \<open>From one accepted status to another, with the record of a promotion\<close>

lemma task_ok_promotion_move:
  assumes "task_ok (Some c) R" and "dt_status c \<in> accepted_statuses"
    and "st \<in> accepted_statuses"
    and "st = D_promoted \<Longrightarrow> has_promotion (dt_latest_result_revision c) (R T_promotions)"
  shows "task_ok (Some (moved E n c st [])) R"
  by (rule task_ok_status [OF assms(1)])
    (use assms in \<open>auto simp: moved_def apply_updates_def task_ok_def\<close>)

text \<open>The outcome of a promotion, recorded from the status \<open>promoting\<close>\<close>

definition promoting_store :: "mem_store \<Rightarrow> string \<Rightarrow> int \<Rightarrow> string list \<Rightarrow> bool" where
  "promoting_store S k n files \<longleftrightarrow> delegation_ok S \<and>
     (\<exists>c. get_delegation_task k S = Some c \<and> dt_status c = D_promoting \<and>
        dt_latest_result_revision c = n) \<and>
     (\<exists>w\<in>set (workspaces_of (get_delegation_records k T_workspaces S)). inside w files)"

lemma starts_outcome:
  assumes S: "promoting_store S k n files" and p: "po_changed_files p = files"
    and st: "st \<in> accepted_statuses" and g: "still g"
    and ok: "st = D_promoted \<Longrightarrow> po_status p = Ps_promoted \<and> po_result_revision p = n"
  shows "starts S (thenM (append_record k T_promotions (RPromotion p))
    (thenM (transition E k st [] d) g)) delegation_ok"
proof -
  from S obtain c where D: "delegation_ok S" and c: "get_delegation_task k S = Some c"
    and cst: "dt_status c = D_promoting" and n: "dt_latest_result_revision c = n"
    by (auto simp: promoting_store_def)
  have rec: "record_ok (workspaces_of (get_delegation_records k T_workspaces S)) T_promotions (RPromotion p)"
    using S p by (simp add: record_ok_def promoting_store_def)
  show ?thesis
  proof (rule starts_append_move [OF D c _ rec])
    fix m
    assume "task_ok (Some c) ((\<lambda>t. get_delegation_records k t S)
        (T_promotions := get_delegation_records k T_promotions S @ [RPromotion p]))"
    then show "task_ok (Some (moved E m c st [])) ((\<lambda>t. get_delegation_records k t S)
        (T_promotions := get_delegation_records k T_promotions S @ [RPromotion p]))"
      using st ok cst n
      by (intro task_ok_promotion_move)
        (auto simp: accepted_statuses_def has_promotion_def promotions_of_def map_filter_single)
  qed (auto intro: starts_still g)
qed

lemma starts_fail:
  assumes S: "promoting_store S k (rs_revision r) files"
  shows "starts S (thenM (fail_promotion E k r repository head patch files pid e) n) delegation_ok"
proof -
  have D: "delegation_ok S" using S by (simp add: promoting_store_def)
  have raises: "still (raise c m :: 'z run)" for c m by (rule stillI, rule keeps_intros)
  show ?thesis
    unfolding fail_promotion_def then_bind then_assoc raise_then
    by (rule starts_bind [where I = delegation_ok, OF _ D], rule stillI, rule keeps_rollback,
        rule starts_bind [where I = delegation_ok, OF now_still D],
        rule starts_outcome [OF S _ _ raises]) (simp_all add: accepted_statuses_def)
qed

lemma starts_finish:
  assumes S: "promoting_store S k (rs_revision r) files"
  shows "starts S (finish_promotion E k r head files pid) delegation_ok"
proof -
  have D: "delegation_ok S" using S by (simp add: promoting_store_def)
  show ?thesis
    unfolding finish_promotion_def Let_def
    by (rule starts_bind [where I = delegation_ok, OF now_still D],
        rule starts_outcome [OF S _ _ ret_still]) (simp_all add: accepted_statuses_def)
qed

lemma starts_apply:
  assumes S: "promoting_store S k (rs_revision r) files"
  shows "starts S (bindM (fresh E p) (\<lambda>pid.
      thenM (tryM (thenM (apply_patch E repository patch)
         (verify_applied E repository base_commit patch files))
        (fail_promotion E k r repository head patch files pid))
      (finish_promotion E k r head files pid))) delegation_ok"
proof -
  have D: "delegation_ok S" using S by (simp add: promoting_store_def)
  show ?thesis
    by (rule starts_bind [where I = delegation_ok, OF fresh_still D], rule starts_then_try,
        rule stillI, simp add: keeps_intros, rule starts_fail [OF S], rule starts_finish [OF S])
qed

lemma ok_promote: "keeps delegation_ok (promote E k decided_by note)"
proof (rule keeps_starts)
  fix S assume S: "delegation_ok S"
  show "starts S (promote E k decided_by note) delegation_ok"
    unfolding promote_def
    apply (rule starts_yields [where I = delegation_ok, OF _ S promotable_yields])
     apply (rule stillI, rule keeps_promotable)
    apply (elim case_prodE conjE exE bexE)
    apply (simp only: split_conv)
    apply (rule starts_bind [where I = delegation_ok, OF fresh_still S])
    apply (rule starts_bind [where I = delegation_ok, OF now_still S])
    apply (rule starts_append_move [OF S], assumption, simp, simp add: record_ok_def)
     apply (erule task_ok_promotion_move)
       apply (auto simp: accepted_statuses_def)[3]
    apply (rule starts_apply)
    apply (auto simp: promoting_store_def moved_def apply_updates_def)
    done
qed

lemma ok_queue_promote: "keeps delegation_ok (queue_promote E k decided_by)"
  by (simp add: queue_promote_def keeps_intros ok_promote)

end
