(* ===== verification/Executor_Proofs.thy ===== *)
theory Executor_Proofs
  imports Executor Delegation_Invariant
begin

text \<open>
  Facts of the worker launches: they keep the invariant of the delegation workflow, and what a
  launch leaves behind on each of its ends, the failing ones included.
\<close>

section \<open>Launches and the invariant\<close>

lemma keeps_executor_reads [keeps_intros]:
  "keeps I (adapter_for_profile p)" "keeps I (cli_available E h p)"
  by (simp_all add: adapter_for_profile_def cli_available_def keeps_intros Let_def)

lemma keeps_build_argv [keeps_intros]: "keeps I (build_argv E h p w)"
  by (simp add: build_argv_def codex_argv_def claude_argv_def gemini_argv_def keeps_intros
      split: prod.split split del: if_split)

lemma keeps_classify [keeps_intros]: "keeps I (classify_worker_outcome E w b out a d)"
  by (simp add: classify_worker_outcome_def keeps_intros)

lemma keeps_executor [keeps_intros]:
  "keeps I (executor_command E p w)" "keeps I (parse_completed E out w b a d)"
  "keeps I (executor_prompt k v u)" "keeps I (launchable k)"
  by (simp_all add: executor_command_def parse_completed_def executor_prompt_def launchable_def
      keeps_intros split: prod.split split del: if_split)

lemma keeps_cli_run [keeps_intros]: "keeps I (cli_run E p w q b a d)"
  by (simp add: cli_run_def keeps_intros split: prod.split split del: if_split)

lemma ok_failed: "keeps delegation_ok (transition E k D_failed [] d)"
proof -
  have "legal c D_failed \<Longrightarrow> c \<notin> accepted_statuses" for c
    by (cases c; simp add: plain_defs)
  then show ?thesis
    by (auto intro!: keeps_plain_transition simp: accepted_statuses_def plain_update_def)
qed

lemma ok_launch_worker: "keeps delegation_ok (launch_worker E k v u)"
proof -
  have "keeps delegation_ok (record_launch E k l r)" for l r
    by (simp add: record_launch_def keeps_intros ok_plain ok_launch ok_failed Let_def split del: if_split)
  then show ?thesis
    by (simp add: launch_worker_def keeps_intros ok_plain Let_def split: prod.split split del: if_split)
qed

end
