(* ===== verification/Workflow.thy ===== *)
theory Workflow
  imports Executor_Proofs
begin

text \<open>
  The delegation workflow as a whole: \<open>canto delegate create\<close>, the set of calls that a user
  or an executor can make, and the step relation they span together with arbitrary changes of
  the file system by others. The properties of reachable states follow from the invariant.
\<close>

section \<open>Creating a task\<close>

text \<open>\<open>canto delegate create\<close>: the allowed paths must lie under the roots of the repository
  policy, when it names any; the denied paths of the policy are added\<close>

definition delegate_create ::
  "env \<Rightarrow> string \<Rightarrow> string \<Rightarrow> string list \<Rightarrow> string list \<Rightarrow> string list \<Rightarrow> string \<Rightarrow> dtask run" where
  "delegate_create E title repository allow deny allow_command instruction =
     bindM (load_repository E repository) (\<lambda>config.
     bindM (load_repository_policy E repository) (\<lambda>policy.
     let outside = filter (\<lambda>p. \<not> matches p (rp_allowed_paths policy)) allow in
     thenM (require (rp_allowed_paths policy = [] \<or> outside = []) RepositoryConfigError
              (''Task paths are outside repository policy: '' @ join '', '' outside))
     (bindM (fresh E ''task_'') (\<lambda>task_id.
      bindM (inspect_repository E (cf_canonical_path config)) (\<lambda>identity.
      bindM (utc_now E) (\<lambda>created.
      bindM (utc_now E) (\<lambda>updated.
      create_task E
        \<lparr>dt_task_id = task_id, dt_title = title, dt_status = D_draft, dt_repository = identity,
         dt_scope = \<lparr>sc_allowed_paths = allow,
           sc_denied_paths = sorted_set (rp_denied_paths policy @ deny),
           sc_allowed_commands = sorted_set (rp_allowed_commands policy @ allow_command),
           sc_required_commands = rp_required_commands policy,
           sc_allow_network = False, sc_allow_secrets = False\<rparr>,
         dt_instructions = instruction, dt_comparison_id = None, dt_variant_name = None,
         dt_prompt_supplement = None, dt_created_by = ''cli'', dt_executor_id = None,
         dt_workspace_id = None, dt_latest_result_revision = 0,
         dt_accepted_result_revision = None, dt_worker_priority = Pr_balanced,
         dt_worker_policy = None, dt_selection_decision_id = None, dt_selected_model_key = None,
         dt_created_at = created, dt_updated_at = updated\<rparr>)))))))"

section \<open>Calls\<close>

datatype call =
    Create string string "string list" "string list" "string list" string
  | Assign string string
  | Prepare string
  | Start string
  | Launch string "string option" "string option"
  | Message string string
  | Block string string
  | Resume string
  | Done_for_review string string
  | Run_command string string string
  | Report_command string string "bool option"
  | Waive_command string string string
  | Capture string
  | Request_revision string string string
  | Accept string string string
  | Reject string string string
  | Enqueue string string
  | Promote string string string
  | Queue_promote string string
  | Remove_workspace string

primrec run_call :: "env \<Rightarrow> string \<Rightarrow> call \<Rightarrow> unit run" where
  "run_call E home (Create title repo allow deny cmds instr) =
     ignore (delegate_create E title repo allow deny cmds instr)"
| "run_call E home (Assign k x) = ignore (delegate_assign E k x)"
| "run_call E home (Prepare k) = ignore (prepare E home k)"
| "run_call E home (Start k) = ignore (delegate_start E k)"
| "run_call E home (Launch k v u) = ignore (launch_worker E k v u)"
| "run_call E home (Message k b) = delegate_message E k b"
| "run_call E home (Block k b) = ignore (delegate_block E k b)"
| "run_call E home (Resume k) = ignore (delegate_resume E k)"
| "run_call E home (Done_for_review k b) = ignore (delegate_done E k b)"
| "run_call E home (Run_command k c d) = ignore (run_command E k c d)"
| "run_call E home (Report_command k c p) = ignore (report_command E k c p)"
| "run_call E home (Waive_command k c r) = ignore (waive_command E k c r)"
| "run_call E home (Capture k) = ignore (capture E k)"
| "run_call E home (Request_revision k r n) = ignore (request_revision E k r n)"
| "run_call E home (Accept k r n) = ignore (accept E k r n)"
| "run_call E home (Reject k r n) = ignore (reject E k r n)"
| "run_call E home (Enqueue k b) = ignore (enqueue E k b)"
| "run_call E home (Promote k b n) = ignore (promote E k b n)"
| "run_call E home (Queue_promote k b) = ignore (queue_promote E k b)"
| "run_call E home (Remove_workspace k) = ignore (remove_workspace E home k)"

text \<open>A step is a call, or a change of the file system and the clock by someone else\<close>

inductive step :: "env \<Rightarrow> string \<Rightarrow> sys \<Rightarrow> sys \<Rightarrow> bool" for E home where
  call: "step E home s (snd (run_call E home c s))"
| world: "sy_store t = sy_store s \<Longrightarrow> step E home s t"

inductive reachable :: "env \<Rightarrow> string \<Rightarrow> sys \<Rightarrow> bool" for E home where
  init: "sy_store s = empty_store \<Longrightarrow> reachable E home s"
| further: "reachable E home s \<Longrightarrow> step E home s t \<Longrightarrow> reachable E home t"

inductive_cases stepE [elim]: "step E home s t"

section \<open>Invariants of all calls\<close>

text \<open>
  A predicate of the store that the four operations of \<open>DelegationService\<close> keep is kept by
  every call: no service writes to the store in any other way.
\<close>

locale workflow_invariant =
  fixes I :: "mem_store \<Rightarrow> bool"
  assumes create: "keeps I (create_task E t)"
    and transition: "keeps I (transition E k st us d)"
    and append: "keeps I (append_record k ty r)"
    and profile: "keeps I (register_profile p)"
begin

lemmas primitives = create transition append profile

lemma record_review_keeps: "keeps I (record_review E k r d w n)"
  by (simp add: record_review_def keeps_intros primitives Let_def)

lemma ignore_keeps: "keeps I m \<Longrightarrow> keeps I (ignore m)"
  by (simp add: ignore_def keeps_intros)

lemma commands_keep:
  "keeps I (delegate_create E a b c d e f)" "keeps I (delegate_assign E k x)"
  "keeps I (delegate_start E k)" "keeps I (delegate_message E k b')"
  "keeps I (delegate_block E k b')" "keeps I (delegate_resume E k)" "keeps I (delegate_done E k b')"
  by (simp_all add: delegate_create_def command_defs keeps_intros primitives Let_def split del: if_split)

lemma services_keep:
  "keeps I (prepare E home k)" "keeps I (remove_workspace E home k)" "keeps I (capture E k)"
  "keeps I (run_command E k c d)" "keeps I (report_command E k c p)" "keeps I (waive_command E k c n)"
  by (simp_all add: prepare_def remove_workspace_def capture_def run_command_def
      report_command_def waive_command_def keeps_intros primitives Let_def split del: if_split)

lemma launch_keeps: "keeps I (launch_worker E k v u)"
proof -
  have "keeps I (record_launch E k l r)" for l r
    by (simp add: record_launch_def keeps_intros primitives Let_def split del: if_split)
  then show ?thesis
    by (simp add: launch_worker_def keeps_intros primitives Let_def split: prod.split
        split del: if_split)
qed

lemma reviews_keep:
  "keeps I (request_revision E k r n)" "keeps I (accept E k r n)" "keeps I (reject E k r n)"
  by (simp_all add: request_revision_def accept_def reject_def keeps_intros primitives
      record_review_keeps split del: if_split)

lemma promotions_keep:
  "keeps I (promote E k b n)" "keeps I (queue_promote E k b)" "keeps I (enqueue E k b)"
proof -
  have "keeps I (fail_promotion E k r a b c f i e)" for r a b c f i e
    by (simp add: fail_promotion_def keeps_intros primitives)
  moreover have "keeps I (finish_promotion E k r b f i)" for r b f i
    by (simp add: finish_promotion_def keeps_intros primitives Let_def)
  ultimately show "keeps I (promote E k b n)" for b n
    by (simp add: promote_def keeps_intros primitives split: prod.split)
  then show "keeps I (queue_promote E k b)"
    by (simp add: queue_promote_def keeps_intros)
  show "keeps I (enqueue E k b)"
    by (simp add: enqueue_def keeps_intros primitives Let_def split del: if_split)
qed

lemma call_keeps: "keeps I (run_call E home c)"
  by (cases c) (simp_all add: ignore_keeps commands_keep services_keep launch_keeps
      reviews_keep promotions_keep)

lemma step_keeps: "step E home s t \<Longrightarrow> I (sy_store s) \<Longrightarrow> I (sy_store t)"
  by (auto intro: keepsD [OF call_keeps])

lemma steps_keep: "(step E home)\<^sup>*\<^sup>* s t \<Longrightarrow> I (sy_store s) \<Longrightarrow> I (sy_store t)"
  by (induction rule: rtranclp_induct) (auto intro: step_keeps)

lemma reachable_holds: "reachable E home s \<Longrightarrow> I empty_store \<Longrightarrow> I (sy_store s)"
  by (induction rule: reachable.induct) (auto intro: step_keeps)

end

end
