(* ===== verification/Workflow_Proofs.thy ===== *)
theory Workflow_Proofs
  imports Workflow
begin

text \<open>
  What holds in every reachable state of the delegation workflow: the invariant of the tasks
  and their records, and, through the interpretations of \<open>workflow_invariant\<close>, that the
  history of a task is a legal chain, that scope and repository of a task never change, that a
  terminal status is final and that the logs of a task only grow.
\<close>

section \<open>The invariant\<close>

lemma ok_create_call: "keeps delegation_ok (delegate_create E a b c d e f)"
  by (simp add: delegate_create_def keeps_intros keeps_create_ok Let_def split del: if_split)

lemma ignore_keeps_ok: "keeps I m \<Longrightarrow> keeps I (ignore m)"
  by (simp add: ignore_def keeps_intros)

lemma call_ok: "keeps delegation_ok (run_call E home c)"
  by (cases c) (simp_all add: ignore_keeps_ok ok_create_call ok_commands ok_command_service ok_enqueue
      ok_prepare ok_capture ok_accept ok_reject ok_request_revision ok_remove ok_promote
      ok_queue_promote ok_launch_worker)

lemma step_ok: "step E home s t \<Longrightarrow> delegation_ok (sy_store s) \<Longrightarrow> delegation_ok (sy_store t)"
  by (auto intro: keepsD [OF call_ok])

lemma reachable_ok: "reachable E home s \<Longrightarrow> delegation_ok (sy_store s)"
  by (induction rule: reachable.induct) (auto intro: step_ok simp: delegation_ok_empty)

section \<open>Invariants of the four operations\<close>

lemma keeps_transitionI:
  assumes "\<And>c u e S. get_delegation_task k S = Some c \<Longrightarrow> legal (dt_status c) st \<Longrightarrow> I S \<Longrightarrow>
    (\<exists>n. u = moved E n c st us) \<Longrightarrow> I (append_delegation_event (dt_task_id c) e (set_delegation_task k u S))"
  shows "keeps I (transition E k st us d)"
proof (unfold keeps_def, intro allI impI)
  fix s :: sys assume h: "I (sy_store s)"
  show "I (sy_store (snd (transition E k st us d s)))"
  proof (cases rule: transition_cases [where k = k and s = s and st = st])
    case (legal c)
    show ?thesis
      using assms [OF legal h, of "moved E (sy_tick s) c st us"]
      by (auto simp: transition_legal [OF legal] Let_def)
  qed (simp_all add: h transition_illegal transition_missing)
qed

lemma keeps_createI:
  assumes "\<And>e S. get_delegation_task (dt_task_id t) S = None \<Longrightarrow> I S \<Longrightarrow>
    I (append_delegation_event (dt_task_id t) e (set_delegation_task (dt_task_id t) t S))"
  shows "keeps I (create_task E t)"
  using assms by (auto simp: keeps_def create_task_run)

lemma keeps_appendI:
  assumes "\<And>v S S'. \<forall>j. get_delegation_task j S' = get_delegation_task j S \<Longrightarrow>
    \<forall>j. get_delegation_events j S' = get_delegation_events j S \<Longrightarrow>
    \<forall>j t. get_delegation_records j t S' =
      (if j = k \<and> t = ty then get_delegation_records k ty S @ [v]
       else get_delegation_records j t S) \<Longrightarrow> I S \<Longrightarrow> I S'"
  shows "keeps I (append_record k ty r)"
proof -
  have "keeps I (store_record k ty rid v)" for rid v
    unfolding keeps_def
  proof (intro allI impI)
    fix s :: sys assume s: "I (sy_store s)"
    show "I (sy_store (snd (store_record k ty rid v s)))"
    proof (cases "append_delegation_record k ty rid v (sy_store s)")
      case (Inr S')
      have "I S'"
        using append_record_Inr [OF Inr] s by (intro assms [of S' "sy_store s" v]) blast+
      with Inr show ?thesis by (simp add: store_record_def)
    qed (use s in \<open>simp add: store_record_def split: store_error.split\<close>)
  qed
  then show ?thesis by (simp add: append_record_def keeps_intros)
qed

lemma keeps_profileI:
  assumes "\<And>S. I S \<Longrightarrow> I (set_executor_profile (xp_executor_id p) p S)"
  shows "keeps I (register_profile p)"
  unfolding register_profile_def by (intro keeps_intros keeps_on_store assms)

lemma profile_reads [simp]:
  "get_delegation_task k (set_executor_profile x p S) = get_delegation_task k S"
  "get_delegation_events k (set_executor_profile x p S) = get_delegation_events k S"
  "get_delegation_records k ty (set_executor_profile x p S) = get_delegation_records k ty S"
  by (simp_all add: get_delegation_task_def get_delegation_events_def get_delegation_records_def
      set_executor_profile_def)

text \<open>A field of a stored task that no call may change\<close>

definition fixed :: "string \<Rightarrow> (dtask \<Rightarrow> 'a) \<Rightarrow> 'a \<Rightarrow> mem_store \<Rightarrow> bool" where
  "fixed k f v S \<longleftrightarrow> (\<exists>t. get_delegation_task k S = Some t \<and> f t = v)"

definition terms_of :: "dtask \<Rightarrow> dscope \<times> repo_identity \<times> string \<times> string" where
  "terms_of t = (dt_scope t, dt_repository t, dt_title t, dt_instructions t)"

lemma terms_of_update: "terms_of (apply_update u t) = terms_of t"
  by (cases u) (simp_all add: terms_of_def)

lemma terms_of_updates: "terms_of (apply_updates us t) = terms_of t"
  unfolding apply_updates_def by (induction us arbitrary: t) (simp_all add: terms_of_update)

lemma terms_of_moved: "terms_of (moved E n c st us) = terms_of c"
  using terms_of_updates [of us c] by (simp add: moved_def terms_of_def)

definition grown :: "'a list \<Rightarrow> 'a list \<Rightarrow> bool" where
  "grown xs ys \<longleftrightarrow> take (length xs) ys = xs"

lemma grown_snoc: "grown xs ys \<Longrightarrow> grown xs (ys @ [y])"
proof -
  assume g: "grown xs ys"
  then have "length xs \<le> length ys" unfolding grown_def by (metis length_take min.cobounded1 nat_le_linear take_all)
  with g show ?thesis by (simp add: grown_def)
qed

interpretation wf_history: workflow_invariant history_ok
  by unfold_locales (simp_all add: keeps_intros)

interpretation wf_terms: workflow_invariant "fixed k terms_of v" for k v
  by unfold_locales
    (auto intro!: keeps_createI keeps_transitionI keeps_appendI keeps_profileI
      simp: fixed_def terms_of_moved)

interpretation wf_final: workflow_invariant
  "\<lambda>S. st \<in> set terminal_statuses \<and> fixed k dt_status st S" for k st
  by unfold_locales
    (auto intro!: keeps_createI keeps_transitionI keeps_appendI keeps_profileI
      simp: fixed_def legal_terminal legal_def)

interpretation wf_events: workflow_invariant "\<lambda>S. grown es (get_delegation_events k S)" for k es
  by unfold_locales
    (auto intro!: keeps_createI keeps_transitionI keeps_appendI keeps_profileI
      simp: grown_snoc)

interpretation wf_records: workflow_invariant "\<lambda>S. grown rs (get_delegation_records k ty S)" for k ty rs
  by unfold_locales
    (auto intro!: keeps_createI keeps_transitionI keeps_appendI keeps_profileI
      simp: grown_snoc)

end
