(* ===== verification/Workflow_Example.thy ===== *)
theory Workflow_Example
  imports Workflow_Proofs
begin

text \<open>
  A concrete run of the workflow, used to show that the hypotheses of the properties can hold:
  a repository at \<open>/r\<close> with one task whose worker adds the file \<open>src/a\<close>, driven from its
  creation to its promotion by a fixed Git and a fixed clock.
\<close>

definition demo_git :: "git_call \<Rightarrow> string" where
  "demo_git c =
     (let a = gc_args c in
      if a = [''rev-parse'', ''--show-toplevel''] then ''/r''
      else if a = [''rev-parse'', ''--git-common-dir''] then ''.git''
      else if a = [''rev-parse'', ''HEAD''] then ''c0''
      else if take 3 a = [''status'', ''--porcelain=v1'', ''-z''] then ''?? src/a'' @ [nul]
      else if take 2 a = [''diff'', ''--cached''] then ''patch''
      else [])"

definition demo_config :: repo_config where
  "demo_config = \<lparr>cf_version = 1, cf_repo_id = ''repo'', cf_canonical_path = ''/r'',
     cf_git_common_dir = ''/r/.git'', cf_initial_head = ''c0'', cf_remotes = []\<rparr>"

definition demo_policy :: repo_policy where
  "demo_policy = \<lparr>rp_version = 1, rp_allowed_paths = [], rp_denied_paths = [''secret''],
     rp_allowed_commands = [], rp_required_commands = [], rp_allow_network = False,
     rp_allow_secrets = False\<rparr>"

definition demo_env :: env where
  "demo_env = \<lparr>e_uuid = (\<lambda>n. show_nat n), e_now = (\<lambda>n. show_nat n),
     e_git = (\<lambda>n c f. (\<lparr>px_code = 0, px_stdout = demo_git c, px_stderr = []\<rparr>, f)),
     e_exec = (\<lambda>n argv cwd i f. (Finished \<lparr>px_code = 0, px_stdout = [], px_stderr = []\<rparr>, f)),
     e_which = (\<lambda>f x. None), e_state_root = ''/h'',
     e_sha = (\<lambda>s. s), e_resolve = (\<lambda>f p. p), e_dumps = (\<lambda>n j. ''json''), e_float = (\<lambda>r. []),
     e_loads = (\<lambda>s. Some (JList [JObj [(''path'', JStr ''src/a'')]])),
     e_shlex = (\<lambda>s. Some (split_on CHR '' '' s)), e_toml_repo = (\<lambda>s. Inr demo_config),
     e_toml_policy = (\<lambda>s. Inr demo_policy), e_toml_workers = (\<lambda>s. Inl [])\<rparr>"

definition demo_fs :: fsys where
  "demo_fs = \<lparr>fs_files = [(''/r/.canto/repo.toml'', []), (''/r/.canto/policy.toml'', [])],
     fs_dirs = [''/r'', ''/h''], fs_links = [], fs_readonly = []\<rparr>"

definition demo_start :: sys where
  "demo_start = \<lparr>sy_store = empty_store, sy_fs = demo_fs, sy_tick = 0\<rparr>"

definition demo_run :: "call list \<Rightarrow> sys" where
  "demo_run cs = foldl (\<lambda>s c. snd (run_call demo_env ''/h'' c s)) demo_start cs"

section \<open>The states of the run\<close>

definition demo_identity :: "repo_identity" where
  "demo_identity =
     \<lparr>ri_repo_id = Some ''repo'', ri_canonical_path = ''/r'', ri_git_common_dir = Some
     ''/r/.git'', ri_initial_head = Some ''c0'', ri_remotes = []\<rparr>"

definition demo_task :: "dtask" where
  "demo_task =
     \<lparr>dt_task_id = ''task_5'', dt_title = ''t'', dt_status = D_promoted, dt_repository
     = demo_identity, dt_scope = \<lparr>sc_allowed_paths = [''src''], sc_denied_paths =
     [''secret''], sc_allowed_commands = [], sc_required_commands = [], sc_allow_network =
     False, sc_allow_secrets = False\<rparr>, dt_instructions = ''do'', dt_comparison_id =
     None, dt_variant_name = None, dt_prompt_supplement = None, dt_created_by = ''cli'',
     dt_executor_id = Some ''me'', dt_workspace_id = Some ''workspace_33'',
     dt_latest_result_revision = 1, dt_accepted_result_revision = Some 1, dt_worker_priority =
     Pr_balanced, dt_worker_policy = None, dt_selection_decision_id = None,
     dt_selected_model_key = None, dt_created_at = ''14'', dt_updated_at = ''100''\<rparr>"

definition demo_events :: "devent list" where
  "demo_events =
     [\<lparr>de_event_id = ''event_16'', de_task_id = ''task_5'', de_event_type =
     ''task.created'', de_status = D_draft, de_details = [], de_created_at = ''17''\<rparr>,
     \<lparr>de_event_id = ''event_21'', de_task_id = ''task_5'', de_event_type =
     ''task.assigned'', de_status = D_assigned, de_details = [], de_created_at =
     ''22''\<rparr>, \<lparr>de_event_id = ''event_38'', de_task_id = ''task_5'',
     de_event_type = ''task.workspace_ready'', de_status = D_workspace_ready, de_details =
     [(''workspace_id'', JStr ''workspace_33'')], de_created_at = ''39''\<rparr>,
     \<lparr>de_event_id = ''event_42'', de_task_id = ''task_5'', de_event_type =
     ''task.executor_working'', de_status = D_executor_working, de_details = [(''session_id'',
     JStr ''session_40''), (''enforcement'', JStr ''manual_unverified'')], de_created_at =
     ''43''\<rparr>, \<lparr>de_event_id = ''event_47'', de_task_id = ''task_5'',
     de_event_type = ''task.executor_done'', de_status = D_executor_done, de_details = [],
     de_created_at = ''48''\<rparr>, \<lparr>de_event_id = ''event_58'', de_task_id =
     ''task_5'', de_event_type = ''task.reviewing'', de_status = D_reviewing, de_details =
     [(''result_id'', JStr ''result_55''), (''revision'', JInt 1)], de_created_at =
     ''59''\<rparr>, \<lparr>de_event_id = ''event_69'', de_task_id = ''task_5'',
     de_event_type = ''task.accepted'', de_status = D_accepted, de_details = [(''review_id'',
     JStr ''review_66''), (''revision'', JInt 1)], de_created_at = ''70''\<rparr>,
     \<lparr>de_event_id = ''event_88'', de_task_id = ''task_5'', de_event_type =
     ''task.promoting'', de_status = D_promoting, de_details = [(''decision_id'', JStr
     ''decision_85''), (''revision'', JInt 1)], de_created_at = ''89''\<rparr>,
     \<lparr>de_event_id = ''event_101'', de_task_id = ''task_5'', de_event_type =
     ''task.promoted'', de_status = D_promoted, de_details = [(''promotion_id'', JStr
     ''promotion_90''), (''changed_files'', JList [JStr ''src/a''])], de_created_at =
     ''102''\<rparr>]"

definition demo_profile :: "profile" where
  "demo_profile =
     \<lparr>xp_executor_id = ''me'', xp_name = ''me'', xp_harness = H_manual, xp_executable =
     None, xp_configuration = [], xp_model_provider = None, xp_model = None, xp_launch_mode =
     LM_manual, xp_permissions = \<lparr>pm_allow_network = False, pm_allow_secrets = False,
     pm_command_enforcement = E_manual_unverified\<rparr>, xp_created_at = ''18'',
     xp_updated_at = ''19''\<rparr>"

definition demo_messages :: "drec list" where
  "demo_messages =
     [RMessage \<lparr>ms_message_id = ''message_23'', ms_task_id = ''task_5'', ms_sender =
     Sender_orchestrator, ms_kind = Mk_assignment, ms_body = ''do'', ms_created_at =
     ''24''\<rparr>, RMessage \<lparr>ms_message_id = ''message_44'', ms_task_id = ''task_5'',
     ms_sender = Sender_executor, ms_kind = Mk_done, ms_body = ''ok'', ms_created_at =
     ''45''\<rparr>]"

definition demo_workspace :: dworkspace where
  "demo_workspace =
     \<lparr>ws_workspace_id = ''workspace_33'', ws_task_id = ''task_5'', ws_path
     = ''/h/task_5/workspace'', ws_branch = ''canto/delegation/task_5-space_33'',
     ws_base_commit = ''c0'', ws_repository = demo_identity, ws_allowed_paths = [''src''],
     ws_denied_paths = [''secret''], ws_status = WS_ready, ws_created_at = ''36'',
     ws_removed_at = None\<rparr>"

definition demo_workspaces :: "drec list" where
  "demo_workspaces = [RWorkspace demo_workspace]"

definition demo_sessions :: "drec list" where
  "demo_sessions =
     [RSession \<lparr>se_session_id = ''session_40'', se_task_id = ''task_5'', se_executor_id
     = ''me'', se_status = SS_running, se_enforcement = E_manual_unverified, se_started_at =
     Some ''37'', se_ended_at = None\<rparr>]"

definition demo_result :: result_rec where
  "demo_result =
     \<lparr>rs_result_id = ''result_55'', rs_task_id = ''task_5'', rs_revision = 1,
     rs_base_commit = ''c0'', rs_workspace_patch_sha256 = ''patch'', rs_artifacts =
     [\<lparr>ar_name = ''proposal.diff'', ar_relative_path = ''revision-1/proposal.diff'',
     ar_sha256 = ''patch'', ar_size = 5\<rparr>, \<lparr>ar_name = ''changed_files.json'',
     ar_relative_path = ''revision-1/changed_files.json'', ar_sha256 = ''json\<newline>'',
     ar_size = 5\<rparr>, \<lparr>ar_name = ''commands.log'', ar_relative_path =
     ''revision-1/commands.log'', ar_sha256 = [], ar_size = 0\<rparr>, \<lparr>ar_name =
     ''summary.md'', ar_relative_path = ''revision-1/summary.md'', ar_sha256 =
     ''# Delegation Result\<newline>\<newline>ok\<newline>'', ar_size = 24\<rparr>],
     rs_executor_summary = ''ok'', rs_producing_session_id = None, rs_producing_launch_id = None, rs_prompt_variant
     = None, rs_created_at = ''56''\<rparr>"

definition demo_results :: "drec list" where
  "demo_results = [RResult demo_result]"

definition demo_reviews :: "drec list" where
  "demo_reviews =
     [RReview \<lparr>rw_review_id = ''review_66'', rw_task_id = ''task_5'',
     rw_result_revision = 1, rw_decision = Rv_accepted, rw_reviewer = ''dev'', rw_note =
     ''fine'', rw_created_at = ''67''\<rparr>]"

definition demo_queue :: "drec list" where
  "demo_queue =
     [RQueue \<lparr>qe_queue_id = ''queue_72'', qe_task_id = ''task_5'', qe_result_revision =
     1, qe_base_commit = ''c0'', qe_changed_files = [''src/a''], qe_status = Q_pending,
     qe_blockers = [], qe_enqueued_by = ''dev'', qe_created_at = ''73''\<rparr>]"

definition demo_decisions :: "drec list" where
  "demo_decisions =
     [RDecision \<lparr>dc_decision_id = ''decision_85'', dc_task_id = ''task_5'',
     dc_result_revision = 1, dc_decision = Pd_promote, dc_decided_by = ''dev'', dc_note = [],
     dc_created_at = ''86''\<rparr>]"

definition demo_promotions :: "drec list" where
  "demo_promotions =
     [RPromotion \<lparr>po_promotion_id = ''promotion_90'', po_task_id = ''task_5'',
     po_result_revision = 1, po_status = Ps_promoted, po_changed_files = [''src/a''],
     po_repository_head = ''c0'', po_rollback_attempted = False, po_rollback_succeeded = None,
     po_error = None, po_created_at = ''99''\<rparr>]"

definition demo_ids :: "(string \<times> rtype \<times> string) list" where
  "demo_ids =
     [(''task_5'', T_promotions, ''promotion_90''), (''task_5'', T_promotion_decisions,
     ''decision_85''), (''task_5'', T_promotion_queue, ''queue_72''), (''task_5'', T_reviews,
     ''review_66''), (''task_5'', T_results, ''result_55''), (''task_5'', T_messages,
     ''message_44''), (''task_5'', T_sessions, ''session_40''), (''task_5'', T_workspaces,
     ''workspace_33''), (''task_5'', T_messages, ''message_23'')]"

definition demo_files :: "(string, string) dict" where
  "demo_files =
     [(''/r/.canto/repo.toml'', []), (''/r/.canto/policy.toml'', []),
     (''/h/task_5/artifacts/revision-1/proposal.diff'', ''patch''),
     (''/h/task_5/artifacts/revision-1/changed_files.json'', ''json\<newline>''),
     (''/h/task_5/artifacts/revision-1/commands.log'', []),
     (''/h/task_5/artifacts/revision-1/summary.md'', ''# Delegation Result\<newline>\<newline>ok\<newline>'')]"

definition demo_readonly :: "string list" where
  "demo_readonly =
     [''/h/task_5/artifacts/revision-1'', ''/h/task_5/artifacts/revision-1/summary.md'',
     ''/h/task_5/artifacts/revision-1/commands.log'',
     ''/h/task_5/artifacts/revision-1/changed_files.json'',
     ''/h/task_5/artifacts/revision-1/proposal.diff'']"

text \<open>The state after the first calls: the task with its status, the number of events, the
  records, the last record identifiers, the files and the clock\<close>

definition demo_state ::
  "dtask \<Rightarrow> nat \<Rightarrow> (rtype \<times> drec list) list \<Rightarrow> nat \<Rightarrow> fsys \<Rightarrow> nat \<Rightarrow> sys" where
  "demo_state t e rs i f n =
     \<lparr>sy_store = empty_store\<lparr>
        st_delegation_tasks := [(''task_5'', t)],
        st_delegation_events := [(''task_5'', take e demo_events)],
        st_executor_profiles := [(''me'', demo_profile)],
        st_delegation_records := map (\<lambda>(ty, r). ((''task_5'', ty), r)) rs,
        st_delegation_record_ids := drop i demo_ids\<rparr>,
      sy_fs = f, sy_tick = n\<rparr>"

definition demo_new_fs :: fsys where
  "demo_new_fs = demo_fs\<lparr>fs_dirs := [''/h/task_5'', ''/h'', ''/''] @ fs_dirs demo_fs\<rparr>"

definition demo_captured_fs :: fsys where
  "demo_captured_fs = \<lparr>fs_files = demo_files,
     fs_dirs = [''/h/task_5/artifacts/revision-1'', ''/h/task_5/artifacts'', ''/h/task_5'', ''/h'', ''/''] @
       fs_dirs demo_new_fs,
     fs_links = [], fs_readonly = demo_readonly\<rparr>"

definition demo_ready :: sys where
  "demo_ready = demo_state (demo_task\<lparr>dt_status := D_workspace_ready,
       dt_latest_result_revision := 0, dt_accepted_result_revision := None,
       dt_updated_at := ''37''\<rparr>) 3
     [(T_messages, take 1 demo_messages), (T_workspaces, demo_workspaces)] 7 demo_new_fs 40"

definition demo_done :: sys where
  "demo_done = demo_state (demo_task\<lparr>dt_status := D_executor_done,
       dt_latest_result_revision := 0, dt_accepted_result_revision := None,
       dt_updated_at := ''46''\<rparr>) 5
     [(T_messages, demo_messages), (T_workspaces, demo_workspaces), (T_sessions, demo_sessions)]
     5 demo_new_fs 49"

definition demo_reviewing :: sys where
  "demo_reviewing = demo_state (demo_task\<lparr>dt_status := D_reviewing,
       dt_accepted_result_revision := None, dt_updated_at := ''57''\<rparr>) 6
     [(T_messages, demo_messages), (T_workspaces, demo_workspaces), (T_sessions, demo_sessions),
      (T_results, demo_results)] 4 demo_captured_fs 60"

definition demo_queued :: sys where
  "demo_queued = demo_state (demo_task\<lparr>dt_status := D_accepted, dt_updated_at := ''68''\<rparr>) 7
     [(T_messages, demo_messages), (T_workspaces, demo_workspaces), (T_sessions, demo_sessions),
      (T_results, demo_results), (T_reviews, demo_reviews), (T_promotion_queue, demo_queue)]
     2 demo_captured_fs 74"

definition demo_promoting :: sys where
  "demo_promoting = demo_state (demo_task\<lparr>dt_status := D_promoting, dt_updated_at := ''87''\<rparr>) 8
     [(T_messages, demo_messages), (T_workspaces, demo_workspaces), (T_sessions, demo_sessions),
      (T_results, demo_results), (T_reviews, demo_reviews), (T_promotion_queue, demo_queue),
      (T_promotion_decisions, demo_decisions)]
     1 demo_captured_fs 90"

definition demo_promoted :: sys where
  "demo_promoted = demo_state demo_task 9
     [(T_messages, demo_messages), (T_workspaces, demo_workspaces), (T_sessions, demo_sessions),
      (T_results, demo_results), (T_reviews, demo_reviews), (T_promotion_queue, demo_queue),
      (T_promotion_decisions, demo_decisions), (T_promotions, demo_promotions)]
     0 demo_captured_fs 103"

definition demo_calls :: "call list" where
  "demo_calls =
     [Create ''t'' ''/r'' [''src''] [] [] ''do'', Assign ''task_5'' ''me'', Prepare ''task_5'',
      Start ''task_5'', Done_for_review ''task_5'' ''ok'', Capture ''task_5'',
      Accept ''task_5'' ''dev'' ''fine'', Enqueue ''task_5'' ''dev'', Promote ''task_5'' ''dev'' []]"

lemma demo_reachable: "reachable demo_env ''/h'' (demo_run cs)"
proof (induction cs rule: rev_induct)
  case Nil
  show ?case unfolding demo_run_def by (rule reachable.init) (simp add: demo_start_def)
next
  case (snoc c cs)
  have "demo_run (cs @ [c]) = snd (run_call demo_env ''/h'' c (demo_run cs))"
    by (simp add: demo_run_def)
  then show ?case using reachable.further [OF snoc step.call] by simp
qed

section \<open>Evaluation\<close>

lemmas demo_eqs = lazy_eqs tick_def fresh_def utc_now_def git_run_def exec_run_def on_fs_def
  from_fs_def on_store_def from_store_def ask_store_def raise_def require_def git_at_def

lemma demo_world:
  "e_uuid demo_env n = show_nat n" "e_now demo_env n = show_nat n"
  "e_git demo_env n c f = (\<lparr>px_code = 0, px_stdout = demo_git c, px_stderr = []\<rparr>, f)"
  "e_sha demo_env x = x" "e_resolve demo_env f p = p" "e_dumps demo_env n j = ''json''"
  "e_loads demo_env t = Some (JList [JObj [(''path'', JStr ''src/a'')]])"
  by (simp_all add: demo_env_def)

lemma demo_paths:
  "path_join ''/h/task_5/workspace'' ''src/a'' = ''/h/task_5/workspace/src/a''"
  "path_parent ''/h/task_5/workspace'' = ''/h/task_5''"
  "path_join ''/h/task_5'' ''artifacts'' = ''/h/task_5/artifacts''"
  "path_join ''/h/task_5/artifacts'' ''revision-1'' = ''/h/task_5/artifacts/revision-1''"
  "is_generated_cache ''src/a'' = False" "is_absolute ''src/a'' = False"
  "path_parts ''src/a'' = [''src'', ''a'']" "matches ''src/a'' [''src''] = True"
  "matches ''src/a'' [''secret''] = False" "strip ''c0'' = ''c0''" "strip [] = []"
  "show_int 1 = ''1''"
  by code_simp+

lemma demo_clock:
  "show_nat 55 = ''55''" "show_nat 56 = ''56''" "show_nat 85 = ''85''" "show_nat 86 = ''86''"
  "show_nat 90 = ''90''"
  by code_simp+

lemma demo_fields:
  "ws_path demo_workspace = ''/h/task_5/workspace''" "ws_base_commit demo_workspace = ''c0''"
  "ws_allowed_paths demo_workspace = [''src'']" "ws_denied_paths demo_workspace = [''secret'']"
  "ws_repository demo_workspace = demo_identity" "ri_canonical_path demo_identity = ''/r''"
  "dt_variant_name demo_task = None" "dt_accepted_result_revision demo_task = Some 1"
  "dt_latest_result_revision demo_task = 1" "rs_revision demo_result = 1"
  "rs_base_commit demo_result = ''c0''" "rs_result_id demo_result = ''result_55''"
  "workspaces_of demo_workspaces = [demo_workspace]" "results_of demo_results = [demo_result]"
  "launches_of [] = []" "commands_of [] = []" "last_opt ([] :: launch list) = None"
  "fs_links demo_new_fs = []"
  by code_simp+

text \<open>The worker's change, captured\<close>

abbreviation demo_change :: change where
  "demo_change \<equiv> \<lparr>ch_path = ''src/a'', ch_status = ''??''\<rparr>"

lemma demo_changed:
  "changed_files demo_env ''/h/task_5/workspace'' ''c0'' s =
     (Inr [demo_change], s\<lparr>sy_tick := Suc (Suc (sy_tick s))\<rparr>)"
  by (simp add: changed_files_def entry_changes_def demo_git_def nul_def demo_eqs demo_world
      demo_paths split del: if_split cong: lazy_congs)

lemma demo_patch:
  "workspace_patch demo_env ''/h/task_5/workspace'' ''c0'' (Some [demo_change]) s =
     (Inr ''patch'', s\<lparr>sy_tick := Suc (Suc (Suc (Suc (sy_tick s))))\<rparr>)"
  by (simp add: workspace_patch_def art_git_def demo_git_def demo_eqs demo_world
      split del: if_split cong: lazy_congs)

lemma demo_check:
  "fs_links (sy_fs s) = [] \<Longrightarrow> check_change demo_workspace demo_change s = (Inr (), s)"
  by (simp add: check_change_def demo_eqs demo_world demo_fields demo_paths is_symlink_def
      split del: if_split cong: lazy_congs)

lemma demo_done_reads:
  "get_delegation_task ''task_5'' (sy_store demo_done) =
     Some (demo_task\<lparr>dt_status := D_executor_done, dt_latest_result_revision := 0,
             dt_accepted_result_revision := None, dt_updated_at := ''46''\<rparr>)"
  "get_delegation_records ''task_5'' T_workspaces (sy_store demo_done) = demo_workspaces"
  "get_delegation_records ''task_5'' T_messages (sy_store demo_done) = demo_messages"
  "get_delegation_records ''task_5'' T_launches (sy_store demo_done) = []"
  "get_delegation_records ''task_5'' T_commands (sy_store demo_done) = []"
  "map ms_body (filter (\<lambda>m. ms_kind m = Mk_done) (messages_of demo_messages)) = [''ok'']"
  "sy_tick demo_done = 49" "sy_fs demo_done = demo_new_fs"
  by code_simp+

lemma demo_done_messages:
  "filter (\<lambda>m. ms_kind m = Mk_done) (messages_of demo_messages) =
     [\<lparr>ms_message_id = ''message_44'', ms_task_id = ''task_5'', ms_sender = Sender_executor,
       ms_kind = Mk_done, ms_body = ''ok'', ms_created_at = ''45''\<rparr>]"
  by code_simp

abbreviation demo_writing_fs :: "(string, string) dict \<Rightarrow> string list \<Rightarrow> fsys" where
  "demo_writing_fs fs ro \<equiv> demo_captured_fs\<lparr>fs_files := fs, fs_readonly := ro\<rparr>"

lemma demo_writes:
  "path_exists demo_new_fs ''/h/task_5/artifacts/revision-1'' = False"
  "make_dirs ''/h/task_5/artifacts/revision-1'' demo_new_fs =
     demo_writing_fs (fs_files demo_new_fs) []"
  "write_revision demo_env ''/h/task_5/artifacts/revision-1'' ''patch'' [demo_change] [] ''ok''
     (demo_done\<lparr>sy_tick := 56, sy_fs := demo_writing_fs (fs_files demo_new_fs) []\<rparr>) =
     (Inr (), demo_done\<lparr>sy_tick := 56, sy_fs := demo_captured_fs\<lparr>fs_readonly := []\<rparr>\<rparr>)"
  "set_readonly ''/h/task_5/artifacts/revision-1''
     (demo_captured_fs\<lparr>fs_readonly := tl demo_readonly\<rparr>) = demo_captured_fs"
  by code_simp+

lemma demo_protects:
  "forM (\<lambda>name. on_fs (set_readonly (path_join ''/h/task_5/artifacts/revision-1'' name)))
     required_names (demo_done\<lparr>sy_tick := 56, sy_fs := demo_captured_fs\<lparr>fs_readonly := []\<rparr>\<rparr>) =
   (Inr (), demo_done\<lparr>sy_tick := 56, sy_fs := demo_captured_fs\<lparr>fs_readonly := tl demo_readonly\<rparr>\<rparr>)"
  by code_simp

lemma demo_result_eq:
  "demo_result = \<lparr>rs_result_id = ''result_55'', rs_task_id = ''task_5'', rs_revision = 1,
     rs_base_commit = ''c0'', rs_workspace_patch_sha256 = ''patch'',
     rs_artifacts = rs_artifacts demo_result, rs_executor_summary = ''ok'',
     rs_producing_session_id = None, rs_producing_launch_id = None, rs_prompt_variant = None,
     rs_created_at = ''56''\<rparr>"
  by (simp add: demo_result_def)

lemma demo_build:
  "build_result demo_env ''task_5'' demo_done =
     (Inr demo_result, demo_done\<lparr>sy_fs := demo_captured_fs, sy_tick := 57\<rparr>)"
  by (simp add: build_result_def get_task_def get_workspace_def get_records_def outcome_gate_def
      demo_done_reads demo_done_messages demo_fields demo_changed demo_check demo_patch
      demo_paths demo_writes demo_protects [unfolded on_fs_def] demo_clock demo_eqs demo_world
      split del: if_split cong: lazy_congs)
    (subst demo_result_eq, simp, code_simp)

lemma demo_capture: "run_call demo_env ''/h'' (Capture ''task_5'') demo_done = (Inr (), demo_reviewing)"
proof -
  have "thenM (append_record ''task_5'' T_results (RResult demo_result))
     (thenM (transition demo_env ''task_5'' D_reviewing [U_latest_result_revision 1]
        [(''result_id'', JStr ''result_55''), (''revision'', JInt 1)]) (retM demo_result))
     (demo_done\<lparr>sy_fs := demo_captured_fs, sy_tick := 57\<rparr>) = (Inr demo_result, demo_reviewing)"
    by code_simp
  then show ?thesis
    by (simp add: capture_def ignore_def bindM_run thenM_run retM_run demo_build demo_fields)
qed

text \<open>The promotion\<close>

lemma demo_queued_reads:
  "get_delegation_task ''task_5'' (sy_store demo_queued) =
     Some (demo_task\<lparr>dt_status := D_accepted, dt_updated_at := ''68''\<rparr>)"
  "get_delegation_records ''task_5'' T_workspaces (sy_store demo_queued) = demo_workspaces"
  "get_delegation_records ''task_5'' T_results (sy_store demo_queued) = demo_results"
  "sy_tick demo_queued = 74" "sy_fs demo_queued = demo_captured_fs"
  "sy_tick demo_promoting = 90"
  "unmet_required ''task_5'' demo_queued = (Inr [], demo_queued)"
  by code_simp+

lemma demo_identity_check:
  "verify_repository_identity demo_env demo_identity demo_queued =
     (Inr demo_identity, demo_queued\<lparr>sy_tick := 82\<rparr>)"
  by code_simp

lemma demo_artifacts:
  "find_artifact ''proposal.diff'' demo_result =
     Some \<lparr>ar_name = ''proposal.diff'', ar_relative_path = ''revision-1/proposal.diff'',
           ar_sha256 = ''patch'', ar_size = 5\<rparr>"
  "find_artifact ''changed_files.json'' demo_result =
     Some \<lparr>ar_name = ''changed_files.json'', ar_relative_path = ''revision-1/changed_files.json'',
           ar_sha256 = [CHR ''j'', CHR ''s'', CHR ''o'', CHR ''n'', newline], ar_size = 5\<rparr>"
  "verified_content demo_env (path_join ''/h/task_5/artifacts'' ''revision-1/proposal.diff'')
     ''patch'' (demo_queued\<lparr>sy_tick := 83\<rparr>) = (Inr ''patch'', demo_queued\<lparr>sy_tick := 83\<rparr>)"
  "verified_content demo_env (path_join ''/h/task_5/artifacts'' ''revision-1/changed_files.json'')
     [CHR ''j'', CHR ''s'', CHR ''o'', CHR ''n'', newline] (demo_queued\<lparr>sy_tick := 83\<rparr>) =
     (Inr [CHR ''j'', CHR ''s'', CHR ''o'', CHR ''n'', newline], demo_queued\<lparr>sy_tick := 83\<rparr>)"
  by code_simp+

lemma demo_changed_paths: "changed_paths demo_env t = Inr [''src/a'']"
  by (simp add: changed_paths_def demo_world) code_simp

lemma demo_promotable:
  "promotable demo_env ''task_5'' demo_queued =
     (Inr (demo_result, ''/r'', ''c0'', ''patch'', [''src/a'']), demo_queued\<lparr>sy_tick := 85\<rparr>)"
  by (simp add: promotable_def get_task_def get_result_def get_workspace_def get_records_def
      promo_git_def demo_git_def demo_queued_reads demo_fields demo_identity_check demo_artifacts
      demo_changed_paths demo_paths demo_eqs demo_world split del: if_split cong: lazy_congs)

lemma demo_decides:
  "append_record ''task_5'' T_promotion_decisions
     (RDecision \<lparr>dc_decision_id = ''decision_85'', dc_task_id = ''task_5'',
        dc_result_revision = 1, dc_decision = Pd_promote, dc_decided_by = ''dev'', dc_note = [],
        dc_created_at = ''86''\<rparr>) (demo_queued\<lparr>sy_tick := 87\<rparr>) =
   (Inr (), snd (append_record ''task_5'' T_promotion_decisions (hd demo_decisions)
              (demo_queued\<lparr>sy_tick := 87\<rparr>)))"
  "transition demo_env ''task_5'' D_promoting []
     [(''decision_id'', JStr ''decision_85''), (''revision'', JInt 1)]
     (snd (append_record ''task_5'' T_promotion_decisions (hd demo_decisions)
        (demo_queued\<lparr>sy_tick := 87\<rparr>))) =
   (Inr (demo_task\<lparr>dt_status := D_promoting, dt_updated_at := ''87''\<rparr>), demo_promoting)"
  by code_simp+

lemma demo_applies:
  "apply_patch demo_env ''/r'' ''patch'' s = (Inr (), s\<lparr>sy_tick := sy_tick s + 1\<rparr>)"
  "verify_applied demo_env ''/r'' ''c0'' ''patch'' [''src/a''] s =
     (Inr (), s\<lparr>sy_tick := sy_tick s + 7\<rparr>)"
  by (simp_all add: apply_patch_def verify_applied_def index_entries_def promo_git_def
      demo_git_def demo_eqs demo_world split del: if_split cong: lazy_congs)

lemma demo_finishes:
  "finish_promotion demo_env ''task_5'' demo_result ''c0'' [''src/a''] ''promotion_90''
     (demo_promoting\<lparr>sy_tick := 99\<rparr>) = (Inr (hd (promotions_of demo_promotions)), demo_promoted)"
  by code_simp

lemma demo_promote:
  "run_call demo_env ''/h'' (Promote ''task_5'' ''dev'' []) demo_queued = (Inr (), demo_promoted)"
  by (simp add: promote_def ignore_def demo_promotable demo_fields demo_world demo_clock
      demo_queued_reads demo_decides demo_applies demo_finishes demo_eqs
      split del: if_split cong: lazy_congs)

text \<open>The states of the run are reachable\<close>

lemma demo_starts:
  "demo_run (take 3 demo_calls) = demo_ready"
  "foldl (\<lambda>s c. snd (run_call demo_env ''/h'' c s)) demo_ready (take 2 (drop 3 demo_calls)) = demo_done"
  "foldl (\<lambda>s c. snd (run_call demo_env ''/h'' c s)) demo_reviewing (take 2 (drop 6 demo_calls)) =
     demo_queued"
  by code_simp+

lemma reachable_foldl:
  "reachable E h s \<Longrightarrow> reachable E h (foldl (\<lambda>s c. snd (run_call E h c s)) s cs)"
  by (induction cs arbitrary: s) (auto intro: reachable.further step.call)

lemma demo_reached:
  "reachable demo_env ''/h'' demo_ready" "reachable demo_env ''/h'' demo_done"
  "reachable demo_env ''/h'' demo_reviewing" "reachable demo_env ''/h'' demo_queued"
  "reachable demo_env ''/h'' demo_promoted"
proof -
  show 1: "reachable demo_env ''/h'' demo_ready"
    using demo_reachable [of "take 3 demo_calls"] by (simp only: demo_starts)
  show 2: "reachable demo_env ''/h'' demo_done"
    using reachable_foldl [OF 1, of "take 2 (drop 3 demo_calls)"] by (simp only: demo_starts)
  show 3: "reachable demo_env ''/h'' demo_reviewing"
    using reachable.further [OF 2 step.call, of "Capture ''task_5''"] by (simp only: demo_capture snd_conv)
  show 4: "reachable demo_env ''/h'' demo_queued"
    using reachable_foldl [OF 3, of "take 2 (drop 6 demo_calls)"] by (simp only: demo_starts)
  show "reachable demo_env ''/h'' demo_promoted"
    using reachable.further [OF 4 step.call, of "Promote ''task_5'' ''dev'' []"]
    by (simp only: demo_promote snd_conv)
qed

end
