(* ===== verification/Delegation_Properties.thy ===== *)
theory Delegation_Properties
  imports Workflow_Example
begin

text \<open>
  The properties of the delegation workflow: what every reachable state satisfies, what a
  promotion guarantees, and the behaviour of the services on their error branches. The facts
  behind them are the invariant of \<open>Workflow_Proofs\<close> and the interpretations of
  \<open>workflow_invariant\<close>.
\<close>

section \<open>Reachable states\<close>

text \<open>C3: in every reachable state the events of a task are its history: the first one is the
  creation in \<open>draft\<close>, each next status follows the previous one in the transition table, and
  the last one is the stored status of the task.\<close>

theorem history_is_legal:
  assumes "reachable E home s" and "get_delegation_task k (sy_store s) = Some t"
  shows "get_delegation_events k (sy_store s) \<noteq> [] \<and>
    de_status (hd (get_delegation_events k (sy_store s))) = D_draft \<and>
    legal_chain (map de_status (get_delegation_events k (sy_store s))) \<and>
    de_status (last (get_delegation_events k (sy_store s))) = dt_status t"
proof -
  have "history_ok (sy_store s)" by (rule wf_history.reachable_holds [OF assms(1) history_ok_empty])
  with assms(2) show ?thesis
    using history_okD [of "sy_store s" k t] by (simp add: statuses_def)
qed

lemma demo_task_promoted:
  "get_delegation_task ''task_5'' (sy_store demo_promoted) = Some demo_task"
  by code_simp

theorem history_is_legal_witness:
  "legal_chain (map de_status (get_delegation_events ''task_5'' (sy_store demo_promoted)))"
  using history_is_legal [OF demo_reached(5) demo_task_promoted] by blast

text \<open>C12: in every reachable state the captured results of a task are numbered one, two, and so
  on up to the task's latest revision: no revision is lost, repeated or out of order.\<close>

theorem results_are_numbered:
  assumes "reachable E home s" and "get_delegation_task k (sy_store s) = Some t"
  shows "map rs_revision (results_of (get_delegation_records k T_results (sy_store s))) =
    [1..dt_latest_result_revision t]"
  using delegation_okD(2) [OF reachable_ok [OF assms(1)] assms(2)] by (simp add: task_ok_def)

theorem results_are_numbered_witness:
  "map rs_revision (results_of (get_delegation_records ''task_5'' T_results (sy_store demo_promoted))) =
    [1..1]"
  using results_are_numbered [OF demo_reached(5) demo_task_promoted] by (simp add: demo_fields)

text \<open>C2: a task that is accepted, being promoted, promoted or whose promotion failed carries
  the accepted revision, which is the latest one, and a review that accepted exactly that
  revision is on record.\<close>

theorem accepted_is_reviewed:
  assumes "reachable E home s" and "get_delegation_task k (sy_store s) = Some t"
    and "dt_status t \<in> {D_accepted, D_promoting, D_promoted, D_promotion_failed}"
  shows "dt_accepted_result_revision t = Some (dt_latest_result_revision t) \<and>
    (\<exists>w\<in>set (reviews_of (get_delegation_records k T_reviews (sy_store s))).
       rw_decision w = Rv_accepted \<and> rw_result_revision w = dt_latest_result_revision t)"
proof -
  have "dt_status t \<in> accepted_statuses" using assms(3) by (simp add: accepted_statuses_def)
  with delegation_okD(2) [OF reachable_ok [OF assms(1)] assms(2)] show ?thesis
    by (simp add: task_ok_def has_review_def)
qed

theorem accepted_is_reviewed_witness:
  "dt_status demo_task = D_promoted \<and> dt_accepted_result_revision demo_task = Some 1 \<and>
    (\<exists>w\<in>set (reviews_of (get_delegation_records ''task_5'' T_reviews (sy_store demo_promoted))).
       rw_decision w = Rv_accepted \<and> rw_result_revision w = 1)"
proof -
  have "dt_status demo_task = D_promoted" by code_simp
  with accepted_is_reviewed [OF demo_reached(5) demo_task_promoted] show ?thesis
    by (simp add: demo_fields)
qed

text \<open>C1: a promoted task has a promotion on record for its latest, that is its accepted,
  revision, and every file of it lies under an allowed path and under no denied path of a
  workspace of the task: nothing outside the agreed scope is ever promoted.\<close>

theorem promoted_within_scope:
  assumes "reachable E home s" and "get_delegation_task k (sy_store s) = Some t"
    and "dt_status t = D_promoted"
  shows "\<exists>p\<in>set (promotions_of (get_delegation_records k T_promotions (sy_store s))).
    po_status p = Ps_promoted \<and> po_result_revision p = dt_latest_result_revision t \<and>
    po_changed_files p \<noteq> [] \<and>
    (\<exists>w\<in>set (workspaces_of (get_delegation_records k T_workspaces (sy_store s))).
       \<forall>f\<in>set (po_changed_files p).
         matches f (ws_allowed_paths w) \<and> \<not> matches f (ws_denied_paths w))"
proof -
  note ok = reachable_ok [OF assms(1)]
  have "has_promotion (dt_latest_result_revision t) (get_delegation_records k T_promotions (sy_store s))"
    using delegation_okD(2) [OF ok assms(2)] assms(3) by (simp add: task_ok_def)
  then obtain p where p: "p \<in> set (promotions_of (get_delegation_records k T_promotions (sy_store s)))"
    "po_status p = Ps_promoted" "po_result_revision p = dt_latest_result_revision t"
    by (auto simp: has_promotion_def)
  then have "RPromotion p \<in> set (get_delegation_records k T_promotions (sy_store s))"
    by (simp add: promotions_of_mem)
  from stored_record_ok [OF ok this] p show ?thesis
    by (fastforce simp: record_ok_def inside_def)
qed

theorem promoted_within_scope_witness:
  "\<exists>p\<in>set (promotions_of (get_delegation_records ''task_5'' T_promotions (sy_store demo_promoted))).
    po_status p = Ps_promoted \<and> po_result_revision p = 1"
proof -
  have "dt_status demo_task = D_promoted" by code_simp
  from promoted_within_scope [OF demo_reached(5) demo_task_promoted this] show ?thesis
    by (auto simp: demo_fields)
qed

text \<open>the paths a stored workspace allows and the paths it denies exclude each other: no
  path is under both, so the order in which the two lists are checked does not matter.\<close>

theorem scope_is_unambiguous:
  assumes "reachable E home s"
    and "w \<in> set (workspaces_of (get_delegation_records k T_workspaces (sy_store s)))"
  shows "\<not> (matches p (ws_allowed_paths w) \<and> matches p (ws_denied_paths w))"
  using stored_scope_ok(1) [OF reachable_ok [OF assms(1)] assms(2)]
  by (intro matches_exclusive) (auto simp: scope_ok_def)

theorem scope_is_unambiguous_witness:
  "\<not> (matches ''src/a'' (ws_allowed_paths demo_workspace) \<and>
      matches ''src/a'' (ws_denied_paths demo_workspace))"
proof -
  have "demo_workspace \<in> set (workspaces_of
      (get_delegation_records ''task_5'' T_workspaces (sy_store demo_queued)))"
    by (simp add: demo_queued_reads demo_fields)
  from scope_is_unambiguous [OF demo_reached(4) this] show ?thesis .
qed

section \<open>What later calls cannot change\<close>

text \<open>C4: whatever calls follow, by whomever and in whatever order, a task keeps its scope, its
  repository, its title and its instructions, and its events and its records of each type are
  only appended to.\<close>

theorem terms_are_frozen:
  assumes "(step E home)\<^sup>*\<^sup>* s t" and "get_delegation_task k (sy_store s) = Some a"
  shows "\<exists>b. get_delegation_task k (sy_store t) = Some b \<and> dt_scope b = dt_scope a \<and>
    dt_repository b = dt_repository a \<and> dt_title b = dt_title a \<and>
    dt_instructions b = dt_instructions a \<and>
    take (length (get_delegation_events k (sy_store s))) (get_delegation_events k (sy_store t)) =
      get_delegation_events k (sy_store s) \<and>
    take (length (get_delegation_records k ty (sy_store s)))
      (get_delegation_records k ty (sy_store t)) = get_delegation_records k ty (sy_store s)"
proof -
  have "fixed k terms_of (terms_of a) (sy_store t)"
    by (rule wf_terms.steps_keep [OF assms(1)]) (simp add: fixed_def assms(2))
  moreover have "grown (get_delegation_events k (sy_store s)) (get_delegation_events k (sy_store t))"
    by (rule wf_events.steps_keep [OF assms(1)]) (simp add: grown_def)
  moreover have "grown (get_delegation_records k ty (sy_store s)) (get_delegation_records k ty (sy_store t))"
    by (rule wf_records.steps_keep [OF assms(1)]) (simp add: grown_def)
  ultimately show ?thesis by (auto simp: fixed_def terms_of_def grown_def)
qed

lemma demo_steps: "(step demo_env ''/h'')\<^sup>*\<^sup>* demo_done demo_reviewing"
  using step.call [of demo_env "''/h''" demo_done "Capture ''task_5''"]
  by (intro r_into_rtranclp) (simp only: demo_capture snd_conv)

theorem terms_are_frozen_witness:
  "\<exists>b. get_delegation_task ''task_5'' (sy_store demo_reviewing) = Some b \<and>
     dt_scope b = dt_scope demo_task"
  using terms_are_frozen [OF demo_steps demo_done_reads(1), where ty = T_results] by auto

text \<open>C11: a task that is promoted, rejected, cancelled or failed stays so: no later call of
  anyone moves it again.\<close>

theorem terminal_is_final:
  assumes "(step E home)\<^sup>*\<^sup>* s t" and "get_delegation_task k (sy_store s) = Some a"
    and "dt_status a \<in> set terminal_statuses"
  shows "\<exists>b. get_delegation_task k (sy_store t) = Some b \<and> dt_status b = dt_status a"
  using wf_final.steps_keep [OF assms(1), of "dt_status a" k] assms(2,3) by (auto simp: fixed_def)

theorem terminal_is_final_witness:
  "\<exists>b. get_delegation_task ''task_5''
      (sy_store (snd (run_call demo_env ''/h'' (Reject ''task_5'' [] []) demo_promoted))) = Some b \<and>
    dt_status b = D_promoted"
proof -
  have st: "dt_status demo_task = D_promoted" by code_simp
  then have t: "dt_status demo_task \<in> set terminal_statuses" by (simp add: terminal_statuses_def)
  have "(step demo_env ''/h'')\<^sup>*\<^sup>* demo_promoted
      (snd (run_call demo_env ''/h'' (Reject ''task_5'' [] []) demo_promoted))"
    by (rule r_into_rtranclp) (rule step.call)
  from terminal_is_final [OF this demo_task_promoted t] st show ?thesis by simp
qed

section \<open>Removed workspaces and queue entries\<close>

text \<open>removing a workspace goes unnoticed: after a removal that succeeded, the service still
  returns the workspace with status \<open>ready\<close>, because the removal is recorded under another
  record type than the one it reads. The early return for a removed workspace is dead code.\<close>

theorem removal_goes_unnoticed:
  assumes "reachable E home s" and "remove_workspace E home k s = (Inr w, t)"
  shows "\<exists>v. get_workspace k t = (Inr v, t) \<and> ws_status v = WS_ready"
proof -
  have run: "snd (run_call E home (Remove_workspace k) s) = t"
    by (simp add: ignore_def thenM_run assms(2) retM_run)
  have t: "reachable E home t"
    using reachable.further [OF assms(1) step.call, of "Remove_workspace k"] by (simp only: run)
  have "grown (get_delegation_records k T_workspaces (sy_store s))
      (get_delegation_records k T_workspaces (sy_store t))"
    using keepsD [OF wf_records.call_keeps, of "get_delegation_records k T_workspaces (sy_store s)"
        k T_workspaces s E home "Remove_workspace k"] by (simp only: run) (simp add: grown_def)
  moreover obtain u t' where got: "get_workspace k s = (Inr u, t')"
    using assms(2) by (auto simp: remove_workspace_def bindM_Inr)
  then have "u \<in> set (workspaces_of (get_delegation_records k T_workspaces (sy_store s)))"
    using yieldsD [OF get_workspace_yields] by blast
  then have "RWorkspace u \<in> set (get_delegation_records k T_workspaces (sy_store s))"
    by (simp add: workspaces_of_mem)
  ultimately have "RWorkspace u \<in> set (get_delegation_records k T_workspaces (sy_store t))"
    unfolding grown_def by (metis in_set_takeD)
  then have ne: "workspaces_of (get_delegation_records k T_workspaces (sy_store t)) \<noteq> []"
    by (metis workspaces_of_mem empty_iff empty_set)
  obtain a where "get_delegation_task k (sy_store s) = Some a"
    using got by (auto simp: get_workspace_def get_records_def inr_eqs)
  then have "fixed k terms_of (terms_of a) (sy_store t)"
    using keepsD [OF wf_terms.call_keeps, of k "terms_of a" s E home "Remove_workspace k"]
    by (simp only: run) (simp add: fixed_def)
  then obtain b where "get_delegation_task k (sy_store t) = Some b" by (auto simp: fixed_def)
  with ne have "get_workspace k t =
      (Inr (last (workspaces_of (get_delegation_records k T_workspaces (sy_store t)))), t)"
    by (simp add: get_workspace_def get_records_def get_task_run run_eqs require_def from_store_def)
  moreover have "ws_status (last (workspaces_of (get_delegation_records k T_workspaces (sy_store t)))) =
      WS_ready"
    by (rule stored_scope_ok(2) [OF reachable_ok [OF t] last_in_set [OF ne]])
  ultimately show ?thesis by blast
qed

theorem removal_goes_unnoticed_witness:
  "\<exists>v t. get_workspace ''task_5'' t = (Inr v, t) \<and> ws_status v = WS_ready \<and>
     t = snd (remove_workspace demo_env ''/h'' ''task_5'' demo_ready)"
proof -
  have "\<not> isl (fst (remove_workspace demo_env ''/h'' ''task_5'' demo_ready))" by code_simp
  then obtain w where "remove_workspace demo_env ''/h'' ''task_5'' demo_ready =
      (Inr w, snd (remove_workspace demo_env ''/h'' ''task_5'' demo_ready))"
    by (metis prod.collapse sum.collapse(2))
  from removal_goes_unnoticed [OF demo_reached(1) this] show ?thesis by blast
qed

text \<open>an entry of the promotion queue never leaves it: whatever happens later, the promotion of
  its task included, the entry is still there with the status \<open>pending\<close> or \<open>blocked\<close>, so
  that it keeps blocking every other task that changes the same paths.\<close>

theorem queue_entries_never_leave:
  assumes "reachable E home s" and "(step E home)\<^sup>*\<^sup>* s t"
    and "q \<in> set (queue_of (get_delegation_records k T_promotion_queue (sy_store s)))"
  shows "q \<in> set (queue_of (get_delegation_records k T_promotion_queue (sy_store t))) \<and>
    qe_status q \<in> {Q_pending, Q_blocked}"
proof -
  have q: "RQueue q \<in> set (get_delegation_records k T_promotion_queue (sy_store s))"
    using assms(3) by (simp add: queue_of_mem)
  have "grown (get_delegation_records k T_promotion_queue (sy_store s))
      (get_delegation_records k T_promotion_queue (sy_store t))"
    by (rule wf_records.steps_keep [OF assms(2)]) (simp add: grown_def)
  with q have "RQueue q \<in> set (get_delegation_records k T_promotion_queue (sy_store t))"
    unfolding grown_def by (metis in_set_takeD)
  then show ?thesis
    using stored_record_ok [OF reachable_ok [OF assms(1)] q] by (simp add: queue_of_mem record_ok_def)
qed

lemma demo_promotes: "(step demo_env ''/h'')\<^sup>*\<^sup>* demo_queued demo_promoted"
  using step.call [of demo_env "''/h''" demo_queued "Promote ''task_5'' ''dev'' []"]
  by (intro r_into_rtranclp) (simp only: demo_promote snd_conv)

theorem queue_entries_never_leave_witness:
  "(\<exists>t. get_delegation_task ''task_5'' (sy_store demo_promoted) = Some t \<and> dt_status t = D_promoted) \<and>
   (\<exists>q\<in>set (queue_of (get_delegation_records ''task_5'' T_promotion_queue (sy_store demo_promoted))).
      qe_status q \<in> {Q_pending, Q_blocked})"
proof -
  have "dt_status demo_task = D_promoted" by code_simp
  moreover have "hd (queue_of demo_queue) \<in> set (queue_of
      (get_delegation_records ''task_5'' T_promotion_queue (sy_store demo_queued)))"
    by code_simp
  from queue_entries_never_leave [OF demo_reached(4) demo_promotes this] show ?thesis
    using demo_task_promoted calculation by blast
qed

section \<open>Processes that time out or cannot start\<close>

text \<open>a command that is killed at its timeout after it has written output is lost: the
  captured output is bytes, writing it as text raises, and no record of the command is
  appended.\<close>

theorem timed_out_output_is_lost:
  assumes "\<And>n argv cwd i f. \<exists>out f'. e_exec E n argv cwd i f = (Timed_out out, f') \<and> px_stdout out \<noteq> []"
  shows "(\<exists>e. fst (run_command E k command cwd s) = Inl e) \<and>
    get_delegation_records j T_commands (sy_store (snd (run_command E k command cwd s))) =
      get_delegation_records j T_commands (sy_store s)"
proof -
  obtain P F where PF: "\<And>n argv d i f. e_exec E n argv d i f = (Timed_out (P n argv d i f), F n argv d i f) \<and>
      px_stdout (P n argv d i f) \<noteq> []"
    using assms by metis
  then have x: "wp (exec_run E argv d i) Q X s \<longleftrightarrow>
      Q (P (sy_tick s) argv d i (sy_fs s), True)
        (s\<lparr>sy_fs := F (sy_tick s) argv d i (sy_fs s), sy_tick := Suc (sy_tick s)\<rparr>)" for argv d i Q X and s :: sys
    by (simp add: wp_exec_run)
  have "wp (run_command E k command cwd) (\<lambda>_ _. False) (\<lambda>e t. sy_store t = sy_store s) s"
    unfolding run_command_def Let_def
    by (auto simp: wp_eqs x PF get_workspace_def get_records_def write_captured_def
        simp del: wp_exec_run split: option.split sum.split)
  then show ?thesis by (auto simp: wp_def split: prod.splits sum.splits)
qed

definition slow_env :: env where
  "slow_env = demo_env\<lparr>e_exec := (\<lambda>n argv d i f.
     (Timed_out \<lparr>px_code = 0, px_stdout = ''half'', px_stderr = []\<rparr>, f))\<rparr>"

definition demo_checkout :: "sys \<Rightarrow> sys" where
  "demo_checkout s = s\<lparr>sy_fs := make_dir ''/h/task_5/workspace'' (sy_fs s)\<rparr>"

theorem timed_out_output_is_lost_witness:
  "fst (run_command slow_env ''task_5'' ''make'' ''.'' (demo_checkout demo_done)) =
     Inl (Exc TypeError ''data must be str, not bytes'') \<and>
   get_delegation_records ''task_5'' T_commands
     (sy_store (snd (run_command slow_env ''task_5'' ''make'' ''.'' (demo_checkout demo_done)))) = []"
proof -
  have "\<exists>out f'. e_exec slow_env n argv d i f = (Timed_out out, f') \<and> px_stdout out \<noteq> []" for n argv d i f
    by (simp add: slow_env_def)
  from timed_out_output_is_lost [OF this, of "''task_5''" "''make''" "''.''" "demo_checkout demo_done"
      "''task_5''"]
  have "get_delegation_records ''task_5'' T_commands
     (sy_store (snd (run_command slow_env ''task_5'' ''make'' ''.'' (demo_checkout demo_done)))) = []"
    by (simp add: demo_checkout_def demo_done_reads)
  moreover have "fst (run_command slow_env ''task_5'' ''make'' ''.'' (demo_checkout demo_done)) =
     Inl (Exc TypeError ''data must be str, not bytes'')"
    by code_simp
  ultimately show ?thesis by blast
qed

text \<open>C27: a launch whose executable is missing fails too late: it raises an executor error, but
  the task has already moved to \<open>executor_working\<close>, a session with status \<open>running\<close> is on
  record, and there is no launch to end it.\<close>

theorem failed_launch_keeps_working:
  assumes "launchable k s = (Inr (task, p, w), s)" and "\<And>f x. e_which E f x = None"
    and "(k, T_sessions, ''session_'' @ e_uuid E (Suc (sy_tick s))) \<notin> set (st_delegation_record_ids (sy_store s))"
  shows "\<exists>m t c z. launch_worker E k variant supplement s = (Inl (Exc ExecutorError m), t) \<and>
    get_delegation_task k (sy_store t) = Some c \<and> dt_status c = D_executor_working \<and>
    get_delegation_records k T_sessions (sy_store t) =
      get_delegation_records k T_sessions (sy_store s) @ [RSession z] \<and> se_status z = SS_running \<and>
    get_delegation_records k T_launches (sy_store t) = get_delegation_records k T_launches (sy_store s)"
proof -
  from assms(1) have t: "get_delegation_task k (sy_store s) = Some task"
    and l: "dt_status task \<in> {D_workspace_ready, D_revision_requested}"
    and h: "xp_harness p \<in> set cli_harnesses"
    by (auto simp: launchable_def inr_eqs)
  from l have legal: "legal (dt_status task) D_executor_working" by (auto simp: legal_def)
  have "\<exists>m. executor_command E p d s' = (Inl (Exc ExecutorError m), s')" for d and s' :: sys
    using h by (auto simp: executor_command_def adapter_for_profile_def build_argv_def codex_argv_def
        claude_argv_def gemini_argv_def cli_available_def run_eqs require_def raise_def from_fs_def
        assms(2) given_def is_cli_error_def Let_def cli_harnesses_def)
  then obtain M where cmd: "\<And>d s'. executor_command E p d s' = (Inl (Exc ExecutorError (M d s')), s')"
    by metis
  have frame: "get_delegation_task k (st\<lparr>st_delegation_record_ids := x, st_delegation_records := y\<rparr>) =
      get_delegation_task k st" for st x y
    by (simp add: get_delegation_task_def)
  note legal_step = transition_legal [where c = task]
  show ?thesis
    using t legal assms(3)
    by (simp add: launch_worker_def assms(1) executor_prompt_def get_records_def get_task_run
        append_record_def store_record_def append_delegation_record_def fresh_def utc_now_def
        tick_def on_fs_def from_store_def require_def lazy_eqs frame legal_step cmd
        split del: if_split cong: lazy_congs)
      (simp add: get_delegation_task_def get_delegation_records_def set_delegation_task_def
        append_delegation_event_def moved_def)
qed

definition demo_cli_ready :: sys where
  "demo_cli_ready = demo_ready\<lparr>sy_store := (sy_store demo_ready)\<lparr>st_executor_profiles :=
     [(''me'', demo_profile\<lparr>xp_harness := H_codex_cli, xp_launch_mode := LM_canto\<rparr>)]\<rparr>\<rparr>"

lemma demo_cli_ready_launchable:
  "\<exists>task p w. launchable ''task_5'' demo_cli_ready = (Inr (task, p, w), demo_cli_ready)"
proof -
  have "\<not> isl (fst (launchable ''task_5'' demo_cli_ready))"
    "snd (launchable ''task_5'' demo_cli_ready) = demo_cli_ready"
    by code_simp+
  then show ?thesis
    by (cases "launchable ''task_5'' demo_cli_ready"; cases "fst (launchable ''task_5'' demo_cli_ready)") auto
qed

theorem failed_launch_keeps_working_witness:
  "\<exists>m t c. launch_worker demo_env ''task_5'' None None demo_cli_ready = (Inl (Exc ExecutorError m), t) \<and>
     get_delegation_task ''task_5'' (sy_store t) = Some c \<and> dt_status c = D_executor_working"
proof -
  obtain task p w where l: "launchable ''task_5'' demo_cli_ready = (Inr (task, p, w), demo_cli_ready)"
    using demo_cli_ready_launchable by blast
  have w: "e_which demo_env f x = None" for f x
    by (simp add: demo_env_def)
  have "(''task_5'', T_sessions, ''session_'' @ e_uuid demo_env (Suc (sy_tick demo_cli_ready)))
      \<notin> set (st_delegation_record_ids (sy_store demo_cli_ready))"
    by code_simp
  from failed_launch_keeps_working [OF l w this] show ?thesis by blast
qed

end
