(* ===== verification/Memory_Text.thy ===== *)
theory Memory_Text
  imports System
begin

text \<open>
  The text functions of \<open>canto/core/memory.py\<close> and the standard library functions they use:
  \<open>json.dumps(value, sort_keys=True)\<close>, the four secret patterns as recognisers on positions of
  a string, \<open>datetime.fromisoformat\<close> on the timestamps that \<open>utc_now\<close> writes, the token
  estimate and the query terms. Patterns and case folding are those of ASCII text.
\<close>

section \<open>\<open>json.dumps\<close> with sorted keys\<close>

definition hex_digit :: "nat \<Rightarrow> char" where
  "hex_digit n = (if n < 10 then char_of (48 + n) else char_of (87 + n))"

text \<open>\<open>ensure_ascii\<close>: everything outside the printable ASCII range is escaped\<close>

definition json_char :: "char \<Rightarrow> string" where
  "json_char c =
     (if c = CHR 0x22 then [CHR 0x5C, CHR 0x22]
      else if c = CHR 0x5C then [CHR 0x5C, CHR 0x5C]
      else if c = CHR 0x0A then [CHR 0x5C, CHR ''n'']
      else if c = CHR 0x0D then [CHR 0x5C, CHR ''r'']
      else if c = CHR 0x09 then [CHR 0x5C, CHR ''t'']
      else if c = CHR 0x08 then [CHR 0x5C, CHR ''b'']
      else if c = CHR 0x0C then [CHR 0x5C, CHR ''f'']
      else if CHR '' '' \<le> c \<and> c \<le> CHR ''~'' then [c]
      else CHR 0x5C # ''u00'' @ [hex_digit (of_char c div 16), hex_digit (of_char c mod 16)])"

definition json_string :: "string \<Rightarrow> string" where
  "json_string s = CHR 0x22 # concat (map json_char s) @ [CHR 0x22]"

text \<open>How a \<open>float\<close> is written (\<open>fl\<close>) is left open: no value that memory stores holds one\<close>

fun dumps :: "(rat \<Rightarrow> string) \<Rightarrow> json \<Rightarrow> string"
  and dumps_list :: "(rat \<Rightarrow> string) \<Rightarrow> json list \<Rightarrow> string list"
  and dumps_pairs :: "(rat \<Rightarrow> string) \<Rightarrow> (string \<times> json) list \<Rightarrow> (string \<times> string) list" where
  "dumps fl JNull = ''null''"
| "dumps fl (JBool b) = (if b then ''true'' else ''false'')"
| "dumps fl (JInt i) = show_int i"
| "dumps fl (JFloat r) = fl r"
| "dumps fl (JStr s) = json_string s"
| "dumps fl (JList js) = ''['' @ join '', '' (dumps_list fl js) @ '']''"
| "dumps fl (JObj kvs) = ''{'' @ join '', '' (map snd (sort_key fst (dumps_pairs fl kvs))) @ ''}''"
| "dumps_list fl [] = []"
| "dumps_list fl (j # js) = dumps fl j # dumps_list fl js"
| "dumps_pairs fl [] = []"
| "dumps_pairs fl ((k, v) # kvs) =
     (k, json_string k @ '': '' @ dumps fl v) # dumps_pairs fl kvs"

section \<open>Secret patterns\<close>

definition is_digit :: "char \<Rightarrow> bool" where
  "is_digit c \<longleftrightarrow> CHR ''0'' \<le> c \<and> c \<le> CHR ''9''"

definition is_letter :: "char \<Rightarrow> bool" where
  "is_letter c \<longleftrightarrow>
     (CHR ''a'' \<le> c \<and> c \<le> CHR ''z'') \<or> (CHR ''A'' \<le> c \<and> c \<le> CHR ''Z'')"

definition word_char :: "char \<Rightarrow> bool" where
  "word_char c \<longleftrightarrow> is_digit c \<or> is_letter c \<or> c = CHR ''_''"

definition is_white :: "char \<Rightarrow> bool" where
  "is_white c \<longleftrightarrow> c \<in> set white"

text \<open>\<open>pattern.search\<close>: some position matches; a position is given by what follows it and by
  whether a word character precedes it, which is what \<open>\b\<close> asks\<close>

fun search_at :: "(bool \<Rightarrow> string \<Rightarrow> bool) \<Rightarrow> bool \<Rightarrow> string \<Rightarrow> bool" where
  "search_at p w [] = p w []"
| "search_at p w (c # cs) = (p w (c # cs) \<or> search_at p (word_char c) cs)"

definition private_key_at :: "bool \<Rightarrow> string \<Rightarrow> bool" where
  "private_key_at w s \<longleftrightarrow>
     (\<exists>k\<in>set [''RSA '', ''EC '', ''OPENSSH '', []].
        startswith s (''-----BEGIN '' @ k @ ''PRIVATE KEY-----''))"

definition token_char :: "char \<Rightarrow> bool" where
  "token_char c \<longleftrightarrow> is_digit c \<or> is_letter c \<or> c \<in> set ''_-''"

definition prefixed_token_at :: "bool \<Rightarrow> string \<Rightarrow> bool" where
  "prefixed_token_at w s \<longleftrightarrow>
     \<not> w \<and> (\<exists>p\<in>set [''sk-'', ''ghp_'', ''github_pat_''].
       startswith s p \<and> 8 \<le> length (takeWhile token_char (drop (length p) s)))"

text \<open>\<open>\s*[:=]\s*\<close>: what follows the assignment sign\<close>

definition after_assignment :: "string \<Rightarrow> string option" where
  "after_assignment s =
     (case dropWhile is_white s of
        c # cs \<Rightarrow> if c \<in> set '':='' then Some (dropWhile is_white cs) else None
      | [] \<Rightarrow> None)"

definition value_char :: "char \<Rightarrow> bool" where
  "value_char c \<longleftrightarrow> is_digit c \<or> is_letter c \<or> c \<in> set ''_./+-=''"

definition unquote :: "string \<Rightarrow> string" where
  "unquote s = (case s of c # cs \<Rightarrow> if c \<in> {CHR 0x27, CHR 0x22} then cs else s | [] \<Rightarrow> [])"

text \<open>A prefix in any case, as \<open>(?i)\<close> asks\<close>

fun lower_startswith :: "string \<Rightarrow> string \<Rightarrow> bool" where
  "lower_startswith s [] = True"
| "lower_startswith [] (k # ks) = False"
| "lower_startswith (c # cs) (k # ks) = (if lower_char c = k then lower_startswith cs ks else False)"

definition assigned_secret_at :: "bool \<Rightarrow> string \<Rightarrow> bool" where
  "assigned_secret_at w s \<longleftrightarrow>
     \<not> w \<and> (\<exists>k\<in>set [''api_key'', ''api-key'', ''apikey'', ''password'', ''secret'', ''token''].
       lower_startswith s k \<and>
       (case after_assignment (drop (length k) s) of
          Some v \<Rightarrow> 12 \<le> length (takeWhile value_char (unquote v))
        | None \<Rightarrow> False))"

definition aws_secret_at :: "bool \<Rightarrow> string \<Rightarrow> bool" where
  "aws_secret_at w s \<longleftrightarrow>
     \<not> w \<and> lower_startswith s ''aws_secret_access_key'' \<and>
     (case after_assignment (drop 21 s) of Some v \<Rightarrow> v \<noteq> [] | None \<Rightarrow> False)"

text \<open>Evaluation: inside a word only the first pattern can match\<close>

lemma boundary_first [code]:
  "prefixed_token_at w s = (if w then False else
     \<exists>p\<in>set [''sk-'', ''ghp_'', ''github_pat_''].
       if startswith s p then 8 \<le> length (takeWhile token_char (drop (length p) s)) else False)"
  "assigned_secret_at w s = (if w then False else
     \<exists>k\<in>set [''api_key'', ''api-key'', ''apikey'', ''password'', ''secret'', ''token''].
       if lower_startswith s k then
         (case after_assignment (drop (length k) s) of
            Some v \<Rightarrow> 12 \<le> length (takeWhile value_char (unquote v))
          | None \<Rightarrow> False)
       else False)"
  "aws_secret_at w s = (if w then False else
     if lower_startswith s ''aws_secret_access_key'' then
       (case after_assignment (drop 21 s) of Some v \<Rightarrow> v \<noteq> [] | None \<Rightarrow> False)
     else False)"
  by (simp_all add: prefixed_token_at_def assigned_secret_at_def aws_secret_at_def)

definition SECRET_PATTERNS :: "(bool \<Rightarrow> string \<Rightarrow> bool) list" where
  "SECRET_PATTERNS = [private_key_at, prefixed_token_at, assigned_secret_at, aws_secret_at]"

definition secret_like :: "string \<Rightarrow> bool" where
  "secret_like s \<longleftrightarrow> (\<exists>p\<in>set SECRET_PATTERNS. search_at p False s)"

section \<open>Timestamps\<close>

definition parse_int :: "string \<Rightarrow> int option" where
  "parse_int s =
     (if s \<noteq> [] \<and> list_all is_digit s
      then Some (foldl (\<lambda>n c. 10 * n + (of_char c - 48)) 0 s) else None)"

definition leap :: "int \<Rightarrow> bool" where
  "leap y \<longleftrightarrow> y mod 4 = 0 \<and> (y mod 100 \<noteq> 0 \<or> y mod 400 = 0)"

definition month_lengths :: "int \<Rightarrow> int list" where
  "month_lengths y = [31, if leap y then 29 else 28, 31, 30, 31, 30, 31, 31, 30, 31, 30, 31]"

definition days_before_year :: "int \<Rightarrow> int" where
  "days_before_year y = (let p = y - 1 in p * 365 + p div 4 - p div 100 + p div 400)"

text \<open>\<open>date.toordinal\<close>\<close>

definition ordinal :: "int \<Rightarrow> int \<Rightarrow> int \<Rightarrow> int" where
  "ordinal y m d = days_before_year y + sum_list (take (nat (m - 1)) (month_lengths y)) + d"

text \<open>Microseconds, from text of the form \<open>YYYY-MM-DDTHH:MM:SS[.ffffff]\<close> with a UTC offset,
  which is all that \<open>isoformat\<close> writes for the source; other text is a \<open>ValueError\<close>\<close>

definition parse_zone :: "string \<Rightarrow> int option" where
  "parse_zone rest =
     (if rest = ''+00:00'' then Some 0
      else if startswith rest ''.'' \<and> drop 7 rest = ''+00:00'' then parse_int (take 6 (drop 1 rest))
      else None)"

definition fromisoformat :: "string \<Rightarrow> int option" where
  "fromisoformat t =
     (let date = split_on CHR ''-'' (take 10 t); time = split_on CHR '':'' (take 8 (drop 11 t)) in
      if map length date = [4, 2, 2] \<and> take 1 (drop 10 t) = ''T'' \<and> map length time = [2, 2, 2]
      then (case (map parse_int date, map parse_int time, parse_zone (drop 19 t)) of
              ([Some y, Some mo, Some d], [Some h, Some mi, Some s], Some us) \<Rightarrow>
                if 1 \<le> y \<and> 1 \<le> mo \<and> mo \<le> 12 \<and> 1 \<le> d \<and>
                   d \<le> month_lengths y ! nat (mo - 1) \<and> h < 24 \<and> mi < 60 \<and> s < 60
                then Some ((((ordinal y mo d * 24 + h) * 60 + mi) * 60 + s) * 1000000 + us)
                else None
            | _ \<Rightarrow> None)
      else None)"

definition replace_char :: "char \<Rightarrow> string \<Rightarrow> string \<Rightarrow> string" where
  "replace_char c r s = concat (map (\<lambda>x. if x = c then r else [x]) s)"

text \<open>\<open>_parse_time\<close>: nothing for a missing or empty text, an error (\<open>None\<close>) for a malformed
  one\<close>

definition parse_time :: "string \<Rightarrow> int option option" where
  "parse_time v =
     (if v = [] then Some None
      else map_option Some (fromisoformat (replace_char CHR ''Z'' ''+00:00'' v)))"

definition micros_per_day :: int where
  "micros_per_day = 86400000000"

section \<open>Queries and budgets\<close>

definition estimate_tokens :: "string \<Rightarrow> nat" where
  "estimate_tokens text = max 1 ((length text + 3) div 4)"

text \<open>\<open>re.findall(r"[a-z0-9_@.-]+", query)\<close>: the maximal runs\<close>

definition term_char :: "char \<Rightarrow> bool" where
  "term_char c \<longleftrightarrow> is_digit c \<or> (CHR ''a'' \<le> c \<and> c \<le> CHR ''z'') \<or> c \<in> set ''_@.-''"

function runs :: "(char \<Rightarrow> bool) \<Rightarrow> string \<Rightarrow> string list" where
  "runs P [] = []"
| "runs P (c # cs) =
     (if P c then (c # takeWhile P cs) # runs P (dropWhile P cs) else runs P cs)"
  by pat_completeness auto
termination
  by (relation "measure (\<lambda>(P, s). length s)") (auto simp: le_imp_less_Suc length_dropWhile_le)

definition query_terms :: "string \<Rightarrow> string list" where
  "query_terms query = remdups (filter (\<lambda>t. 1 < length t) (runs term_char (lower query)))"

section \<open>The dump of a memory item\<close>

primrec mstatus_str :: "mstatus \<Rightarrow> string" where
  "mstatus_str M_observed = ''observed''"
| "mstatus_str M_proposed = ''proposed''"
| "mstatus_str M_active = ''active''"
| "mstatus_str M_superseded = ''superseded''"
| "mstatus_str M_expired = ''expired''"
| "mstatus_str M_rejected = ''rejected''"
| "mstatus_str M_deleted = ''deleted''"

primrec mtype_str :: "mtype \<Rightarrow> string" where
  "mtype_str MT_terminology = ''terminology''"
| "mtype_str MT_decision = ''decision''"
| "mtype_str MT_preference = ''preference''"
| "mtype_str MT_constraint = ''constraint''"
| "mtype_str MT_fact = ''fact''"
| "mtype_str MT_observation = ''observation''"
| "mtype_str MT_outcome = ''outcome''"
| "mtype_str MT_known_trap = ''known_trap''"
| "mtype_str MT_open_question = ''open_question''"
| "mtype_str MT_summary = ''summary''"
| "mtype_str MT_source_pointer = ''source_pointer''"

primrec mconfidence_str :: "mconfidence \<Rightarrow> string" where
  "mconfidence_str Mc_verified = ''verified''"
| "mconfidence_str Mc_supported = ''supported''"
| "mconfidence_str Mc_derived = ''derived''"
| "mconfidence_str Mc_observed = ''observed''"
| "mconfidence_str Mc_uncertain = ''uncertain''"

primrec actor_str :: "actor_kind \<Rightarrow> string" where
  "actor_str Ak_developer = ''developer''"
| "actor_str Ak_worker = ''worker''"
| "actor_str Ak_system = ''system''"

definition opt_json :: "string option \<Rightarrow> json" where
  "opt_json v = (case v of None \<Rightarrow> JNull | Some s \<Rightarrow> JStr s)"

text \<open>\<open>item.model_dump(mode="json")\<close>\<close>

definition mitem_json :: "mitem \<Rightarrow> json" where
  "mitem_json m = JObj
     [(''memory_id'', JStr (mi_memory_id m)), (''scope'', JStr (mi_scope m)),
      (''type'', JStr (mtype_str (mi_type m))), (''status'', JStr (mstatus_str (mi_status m))),
      (''title'', JStr (mi_title m)), (''body'', JStr (mi_body m)),
      (''confidence'', JStr (mconfidence_str (mi_confidence m))),
      (''source'', JObj
         [(''kind'', JStr (sr_kind (mi_source m))), (''ref'', JStr (sr_ref (mi_source m))),
          (''freshness'', opt_json (sr_freshness (mi_source m))),
          (''resolved'', JBool (sr_resolved (mi_source m)))]),
      (''author_kind'', JStr (actor_str (mi_author_kind m))),
      (''author_id'', JStr (mi_author_id m)),
      (''aliases'', JList (map JStr (mi_aliases m))), (''tags'', JList (map JStr (mi_tags m))),
      (''approval_id'', opt_json (mi_approval_id m)), (''repo_id'', opt_json (mi_repo_id m)),
      (''project_id'', opt_json (mi_project_id m)), (''low_value'', JBool (mi_low_value m)),
      (''created_at'', JStr (mi_created_at m)), (''reviewed_at'', opt_json (mi_reviewed_at m)),
      (''expires_at'', opt_json (mi_expires_at m)),
      (''superseded_by'', opt_json (mi_superseded_by m)),
      (''deleted_at'', opt_json (mi_deleted_at m))]"

text \<open>\<open>activation_policy.model_dump(mode="json")\<close>\<close>

primrec activation_mode_str :: "activation_mode \<Rightarrow> string" where
  "activation_mode_str Am_bounded_orchestrator = ''bounded_orchestrator''"
| "activation_mode_str Am_developer_only = ''developer_only''"

definition policy_json :: "activation_policy \<Rightarrow> json" where
  "policy_json p = JObj
     [(''mode'', JStr (activation_mode_str (av_mode p))),
      (''orchestrator_id'', JStr (av_orchestrator_id p)),
      (''auto_activate_types'', JList (map (\<lambda>t. JStr (mtype_str t)) (av_auto_activate_types p))),
      (''auto_activate_scopes'', JList (map JStr (av_auto_activate_scopes p))),
      (''require_governed_source'', JBool (av_require_governed_source p)),
      (''require_no_conflicts'', JBool (av_require_no_conflicts p)),
      (''require_distinct_proposer_and_approver'',
         JBool (av_require_distinct_proposer_and_approver p)),
      (''allow_non_conflicting_aliases'', JBool (av_allow_non_conflicting_aliases p)),
      (''max_auto_activations_per_task'', JInt (av_max_auto_activations_per_task p)),
      (''max_auto_activations_per_day'', JInt (av_max_auto_activations_per_day p))]"

end
