(* ===== verification/Views.thy ===== *)
theory Views
  imports Promotion Executor Memory_Text
begin

text \<open>
  The views of delegation: \<open>canto/core/delegation_pool.py\<close>, \<open>delegation_timeline.py\<close>,
  \<open>delegation_comparison.py\<close>, \<open>delegation_review_summary.py\<close>, \<open>delegation_conflicts.py\<close> and
  \<open>delegation_dashboard.py\<close>. Each reads tasks and records and builds a summary of them; only
  \<open>create_variants\<close> writes. A record that the source dumps to a dict stays the typed record, and
  a set of rows keyed by a status word is a list per word. File contents are text already.
\<close>

section \<open>Availability of executors\<close>

text \<open>\<open>DelegationCliExecutor.available\<close>\<close>

definition executor_available :: "env \<Rightarrow> profile \<Rightarrow> string run" where
  "executor_available E p =
     tryM (available_for_profile E p)
       (\<lambda>e. if is_cli_error e then raise ExecutorError (exc_str e) else raiseM e)"

text \<open>\<open>try: detail = available(profile) except ExecutorError as exc: detail = str(exc)\<close>\<close>

definition availability :: "env \<Rightarrow> profile \<Rightarrow> (bool \<times> string) run" where
  "availability E p =
     tryM (bindM (executor_available E p) (\<lambda>x. retM (True, x)))
       (\<lambda>e. if exc_cls e = ExecutorError then retM (False, exc_str e) else raiseM e)"

section \<open>The pool\<close>

definition pool_availability :: "env \<Rightarrow> profile \<Rightarrow> (bool \<times> string) run" where
  "pool_availability E p =
     (if xp_harness p = H_manual then retM (True, ''manual_unverified'')
      else if xp_harness p \<in> set cli_harnesses then availability E p
      else retM (False, ''Unsupported executor harness: '' @ harness_str (xp_harness p)))"

definition open_tasks :: "dtask list \<Rightarrow> dtask list" where
  "open_tasks = filter (\<lambda>t. dt_status t \<notin> set terminal_statuses)"

definition assigned_tasks :: "dtask list \<Rightarrow> profile \<Rightarrow> string list" where
  "assigned_tasks tasks p =
     sort (map dt_task_id (filter (\<lambda>t. dt_executor_id t = Some (xp_executor_id p))
       (open_tasks tasks)))"

definition pool_executors :: "env \<Rightarrow> pool_entry list run" where
  "pool_executors E =
     bindM list_tasks (\<lambda>tasks.
     bindM list_profiles (\<lambda>profiles.
     mapM (\<lambda>p.
       let assigned = assigned_tasks tasks p in
       bindM (pool_availability E p) (\<lambda>(available, detail).
       retM \<lparr>pe_executor_id = xp_executor_id p, pe_harness = xp_harness p,
             pe_available = available, pe_availability_detail = detail,
             pe_active_tasks = length assigned, pe_task_ids = assigned\<rparr>)) profiles))"

definition pool_tasks :: "bool \<Rightarrow> task_status_view list run" where
  "pool_tasks active_only =
     bindM list_tasks (\<lambda>tasks.
     retM (map (\<lambda>t. \<lparr>tv_task_id = dt_task_id t, tv_title = dt_title t,
         tv_status = dt_status t, tv_executor_id = dt_executor_id t,
         tv_workspace_id = dt_workspace_id t,
         tv_latest_result_revision = dt_latest_result_revision t,
         tv_updated_at = dt_updated_at t\<rparr>)
       (if active_only then open_tasks tasks else tasks)))"

section \<open>The timeline\<close>

definition RECORD_TYPES :: "rtype list" where
  "RECORD_TYPES = [T_workspaces, T_workspace_lifecycle, T_sessions, T_launches, T_messages,
     T_commands, T_results, T_reviews, T_promotion_decisions, T_promotion_queue, T_promotions]"

primrec rtype_str :: "rtype \<Rightarrow> string" where
  "rtype_str T_workspaces = ''workspaces''"
| "rtype_str T_workspace_lifecycle = ''workspace_lifecycle''"
| "rtype_str T_sessions = ''sessions''"
| "rtype_str T_launches = ''launches''"
| "rtype_str T_messages = ''messages''"
| "rtype_str T_commands = ''commands''"
| "rtype_str T_results = ''results''"
| "rtype_str T_reviews = ''reviews''"
| "rtype_str T_promotion_decisions = ''promotion_decisions''"
| "rtype_str T_promotion_queue = ''promotion_queue''"
| "rtype_str T_promotions = ''promotions''"
| "rtype_str T_worker_usage = ''worker_usage''"

definition TERMINAL_EVENT_TYPES :: "string list" where
  "TERMINAL_EVENT_TYPES = [''task.promoted'', ''task.rejected'', ''task.cancelled'',
     ''task.failed'']"

text \<open>\<open>value.get("created_at")\<close>, \<open>value.get("started_at")\<close> and \<open>value.get("removed_at")\<close>\<close>

fun record_created_at :: "drec \<Rightarrow> string option" where
  "record_created_at (RWorkspace w) = Some (ws_created_at w)"
| "record_created_at (RSession z) = None"
| "record_created_at (RLaunch l) = None"
| "record_created_at (RMessage m) = Some (ms_created_at m)"
| "record_created_at (RCommand c) = Some (cm_created_at c)"
| "record_created_at (RResult r) = Some (rs_created_at r)"
| "record_created_at (RReview r) = Some (rw_created_at r)"
| "record_created_at (RDecision d) = Some (dc_created_at d)"
| "record_created_at (RQueue q) = Some (qe_created_at q)"
| "record_created_at (RPromotion p) = Some (po_created_at p)"
| "record_created_at (RUsage u) = None"

definition record_started_at :: "drec \<Rightarrow> string option" where
  "record_started_at r =
     (case r of RSession z \<Rightarrow> se_started_at z | RLaunch l \<Rightarrow> Some (la_started_at l)
      | RUsage u \<Rightarrow> Some (us_started_at u) | _ \<Rightarrow> None)"

definition record_removed_at :: "drec \<Rightarrow> string option" where
  "record_removed_at r = (case r of RWorkspace w \<Rightarrow> ws_removed_at w | _ \<Rightarrow> None)"

definition record_timestamp :: "dtask \<Rightarrow> drec \<Rightarrow> string" where
  "record_timestamp t r =
     the (or_else (record_created_at r)
           (or_else (record_started_at r) (or_else (record_removed_at r) (Some (dt_created_at t)))))"

primrec sender_str :: "sender \<Rightarrow> string" where
  "sender_str Sender_orchestrator = ''orchestrator''"
| "sender_str Sender_executor = ''executor''"

primrec message_kind_str :: "message_kind \<Rightarrow> string" where
  "message_kind_str Mk_assignment = ''assignment''"
| "message_kind_str Mk_progress = ''progress''"
| "message_kind_str Mk_blocker = ''blocker''"
| "message_kind_str Mk_revision = ''revision''"
| "message_kind_str Mk_done = ''done''"

primrec command_status_str :: "command_status \<Rightarrow> string" where
  "command_status_str Cs_reported = ''reported''"
| "command_status_str Cs_passed = ''passed''"
| "command_status_str Cs_failed = ''failed''"
| "command_status_str Cs_waived = ''waived''"

primrec review_decision_str :: "review_decision \<Rightarrow> string" where
  "review_decision_str Rv_revision_requested = ''revision_requested''"
| "review_decision_str Rv_accepted = ''accepted''"
| "review_decision_str Rv_rejected = ''rejected''"

primrec promotion_status_str :: "promotion_status \<Rightarrow> string" where
  "promotion_status_str Ps_promoted = ''promoted''"
| "promotion_status_str Ps_promotion_failed = ''promotion_failed''"

primrec queue_status_str :: "queue_status \<Rightarrow> string" where
  "queue_status_str Q_pending = ''pending''"
| "queue_status_str Q_blocked = ''blocked''"
| "queue_status_str Q_promoted = ''promoted''"
| "queue_status_str Q_failed = ''failed''"

text \<open>\<open>_summary\<close>; the record type and the kind of the record agree\<close>

definition summary_of :: "rtype \<Rightarrow> drec \<Rightarrow> string" where
  "summary_of ty r =
     (case r of
        RMessage m \<Rightarrow> sender_str (ms_sender m) @ '': '' @ message_kind_str (ms_kind m)
      | RCommand c \<Rightarrow> ''command '' @ command_status_str (cm_status c) @ '': '' @ cm_command c
      | RReview v \<Rightarrow> ''review '' @ review_decision_str (rw_decision v) @ '' for revision '' @
                     show_int (rw_result_revision v)
      | RResult x \<Rightarrow> ''captured result revision '' @ show_int (rs_revision x)
      | RPromotion p \<Rightarrow> ''promotion '' @ promotion_status_str (po_status p)
      | RQueue q \<Rightarrow> ''promotion queue '' @ queue_status_str (qe_status q)
      | _ \<Rightarrow> map (\<lambda>c. if c = CHR ''_'' then CHR '' '' else c) (rtype_str ty))"

text \<open>The dump that an item carries: of an event or of a record\<close>

datatype timeline_data = Of_event devent | Of_record drec

record timeline_item =
  ti_timestamp :: string
  ti_kind :: string
  ti_record_id :: string
  ti_summary :: string
  ti_data :: timeline_data

definition event_item :: "devent \<Rightarrow> timeline_item" where
  "event_item e = \<lparr>ti_timestamp = de_created_at e, ti_kind = ''event'',
     ti_record_id = de_event_id e, ti_summary = de_event_type e, ti_data = Of_event e\<rparr>"

text \<open>\<open>_record_id\<close> takes the first field whose name ends in \<open>_id\<close>: in the order of the models, which the
  in-memory store keeps, that is the record's own id. SQLite sorts the fields, so that there it can
  be another id of the record.\<close>

definition record_item :: "dtask \<Rightarrow> rtype \<Rightarrow> drec \<Rightarrow> timeline_item" where
  "record_item t ty r = \<lparr>ti_timestamp = record_timestamp t r, ti_kind = rtype_str ty,
     ti_record_id = record_id_of r, ti_summary = summary_of ty r, ti_data = Of_record r\<rparr>"

type_synonym timeline_row = "(string \<times> nat \<times> nat) \<times> timeline_item"

definition event_rows :: "devent list \<Rightarrow> timeline_row list" where
  "event_rows es =
     map (\<lambda>(i, e).
       ((if de_event_type e \<in> set TERMINAL_EVENT_TYPES then ''9999-12-31T23:59:59.999999Z''
         else de_created_at e, 0, i), event_item e)) (enumerate 0 es)"

definition record_rows :: "dtask \<Rightarrow> nat \<Rightarrow> rtype \<Rightarrow> drec list \<Rightarrow> timeline_row list" where
  "record_rows t type_order ty rs =
     map (\<lambda>(i, r). ((record_timestamp t r, type_order, i), record_item t ty r)) (enumerate 0 rs)"

definition timeline :: "string \<Rightarrow> timeline_item list run" where
  "timeline k =
     bindM (get_task k) (\<lambda>t.
     bindM (get_task_events k) (\<lambda>es.
     bindM (mapM (\<lambda>(o', ty). bindM (get_records k ty) (\<lambda>rs. retM (record_rows t o' ty rs)))
              (enumerate 1 RECORD_TYPES)) (\<lambda>rows.
     retM (map snd (sort_key fst (event_rows es @ concat rows))))))"

section \<open>Reading a result\<close>

text \<open>\<open>read_text\<close> turns \<open>\r\n\<close> and \<open>\r\<close> into \<open>\n\<close>\<close>

fun universal_newlines :: "string \<Rightarrow> string" where
  "universal_newlines [] = []"
| "universal_newlines [c] = [if c = CHR 0x0D then newline else c]"
| "universal_newlines (c # d # ds) =
     (if c = CHR 0x0D
      then newline # (if d = newline then universal_newlines ds else universal_newlines (d # ds))
      else c # universal_newlines (d # ds))"

text \<open>\<open>str.splitlines()\<close> breaks at every line boundary of Unicode, not only at newlines\<close>

definition line_break :: "char \<Rightarrow> bool" where
  "line_break c \<longleftrightarrow> c \<in> {newline, CHR 0x0B, CHR 0x0C, CHR 0x0D, CHR 0x1C, CHR 0x1D, CHR 0x1E, CHR 0x85}"

definition text_lines :: "string \<Rightarrow> string list" where
  "text_lines s = splitlines (map (\<lambda>c. if line_break c then newline else c) s)"

text \<open>\<open>_patch_stats\<close>: the added and the deleted lines\<close>

definition patch_stats :: "string \<Rightarrow> nat \<times> nat" where
  "patch_stats patch =
     (let ls = text_lines patch in
      (length (filter (\<lambda>l. startswith l ''+'' \<and> \<not> startswith l ''+++'') ls),
       length (filter (\<lambda>l. startswith l ''-'' \<and> \<not> startswith l ''---'') ls)))"

text \<open>\<open>[item["path"] for item in json.loads(text)]\<close>, in the order of the text\<close>

definition listed_paths :: "env \<Rightarrow> string \<Rightarrow> exc + string list" where
  "listed_paths E text =
     (case e_loads E text of
        Some (JList items) \<Rightarrow> collect (map item_path items)
      | Some (JObj []) \<Rightarrow> Inr []
      | Some (JStr []) \<Rightarrow> Inr []
      | Some _ \<Rightarrow> Inl (Exc TypeError ''object is not iterable'')
      | None \<Rightarrow> Inl (Exc ValueError ''Invalid JSON''))"

text \<open>\<open>{artifact.name: artifact for artifact in result.artifacts}.get(name)\<close>\<close>

definition artifact_named :: "string \<Rightarrow> result_rec \<Rightarrow> artifact option" where
  "artifact_named name result = find (\<lambda>a. ar_name a = name) (rev (rs_artifacts result))"

definition artifact_text :: "string \<Rightarrow> string run" where
  "artifact_text path =
     bindM (from_fs (\<lambda>f. (is_file f path, read_file f path))) (\<lambda>(ex, content).
     thenM (require ex OSError path) (retM (universal_newlines content)))"

text \<open>\<open>s.partition(sep)\<close> for a separator that is not empty: what precedes its first
  occurrence, and what follows it when there is one\<close>

fun partition_on :: "string \<Rightarrow> string \<Rightarrow> string \<times> string option" where
  "partition_on sep [] = ([], None)"
| "partition_on sep (c # cs) =
     (if startswith (c # cs) sep then ([], Some (drop (length sep) (c # cs)))
      else (case partition_on sep cs of (a, b) \<Rightarrow> (c # a, b)))"

lemma partition_shorter:
  assumes "partition_on sep s = (a, Some b)" "sep \<noteq> []"
  shows "length b < length s"
  using assms
proof (induction s arbitrary: a)
  case (Cons c cs)
  then show ?case
    by (cases sep) (auto split: if_splits prod.splits intro: less_SucI)
qed simp

text \<open>\<open>s.split(sep)\<close>\<close>

function split_text :: "string \<Rightarrow> string \<Rightarrow> string list" where
  "split_text sep s =
     (if sep = [] then [s]
      else (case partition_on sep s of
              (a, None) \<Rightarrow> [a]
            | (a, Some b) \<Rightarrow> a # split_text sep b))"
  by pat_completeness auto
termination
  by (relation "measure (\<lambda>(sep, s). length s)") (auto dest!: sym [THEN partition_shorter])

declare split_text.simps [simp del]

section \<open>Comparison of variants\<close>

record variant =
  va_name :: string
  va_prompt_supplement :: string

record comparison_item =
  ci_task_id :: string
  ci_variant_name :: string
  ci_base_commit :: string
  ci_status :: dstatus
  ci_result_revision :: "int option"
  ci_changed_files :: "string list"
  ci_patch_additions :: nat
  ci_patch_deletions :: nat
  ci_commands :: "command_rec list"
  ci_exit_code :: "int option"
  ci_timed_out :: bool
  ci_runtime_seconds :: "rat option"
  ci_token_usage :: "(string, int) dict option"
  ci_session_id :: "string option"
  ci_launch_id :: "string option"

record comparison =
  cp_comparison_id :: string
  cp_repository :: repo_identity
  cp_base_commit :: string
  cp_variants :: "comparison_item list"

text \<open>Timestamps are those that \<open>utc_now\<close> writes\<close>

definition iso_micros :: "string \<Rightarrow> int option" where
  "iso_micros t = fromisoformat (replace_char CHR ''Z'' ''+00:00'' t)"

definition runtime :: "string \<Rightarrow> string option \<Rightarrow> exc + rat option" where
  "runtime started_at ended_at =
     (if \<not> given ended_at then Inr None
      else
        (case (iso_micros (the ended_at), iso_micros started_at) of
           (Some b, Some a) \<Rightarrow> Inr (Some (of_int (max 0 (b - a)) / 1000000))
         | _ \<Rightarrow> Inl (Exc ValueError ''Invalid isoformat string'')))"

definition variant_task :: "dtask \<Rightarrow> string \<Rightarrow> string \<Rightarrow> variant \<Rightarrow> dtask" where
  "variant_task source comparison_id task_id v =
     source\<lparr>dt_task_id := task_id, dt_comparison_id := Some comparison_id,
            dt_variant_name := Some (va_name v),
            dt_prompt_supplement := Some (va_prompt_supplement v)\<rparr>"

definition create_variants :: "env \<Rightarrow> string \<Rightarrow> variant list \<Rightarrow> dtask list run" where
  "create_variants E source_task_id variants =
     bindM (get_task source_task_id) (\<lambda>source.
     thenM (require (dt_status source = D_draft) ComparisonError
              ''Comparison variants must be created from a draft task'')
     (thenM (require (2 \<le> length variants) ComparisonError
               ''A comparison requires at least two variants'')
     (let names = map (\<lambda>v. strip (va_name v)) variants in
      thenM (require ([] \<notin> set names \<and> distinct names) ComparisonError
               ''Comparison variant names must be non-empty and unique'')
      (bindM (if given (dt_comparison_id source) then retM (the (dt_comparison_id source))
              else fresh E ''comparison_'') (\<lambda>comparison_id.
       mapM (\<lambda>v. bindM (fresh E ''task_'') (\<lambda>i.
                create_task E (variant_task source comparison_id i v))) variants)))))"

text \<open>\<open>task.repository != repository\<close>: a dict compares without regard to order\<close>

definition same_identity :: "repo_identity \<Rightarrow> repo_identity \<Rightarrow> bool" where
  "same_identity a b \<longleftrightarrow>
     ri_repo_id a = ri_repo_id b \<and> ri_canonical_path a = ri_canonical_path b \<and>
     ri_git_common_dir a = ri_git_common_dir b \<and> ri_initial_head a = ri_initial_head b \<and>
     same_dict (ri_remotes a) (ri_remotes b)"

definition or_empty :: "string option \<Rightarrow> string" where
  "or_empty v = (case v of None \<Rightarrow> [] | Some x \<Rightarrow> x)"

definition result_files ::
  "env \<Rightarrow> dworkspace list \<Rightarrow> result_rec \<Rightarrow> (string list \<times> nat \<times> nat) run" where
  "result_files E workspaces result =
     bindM (optM (last_opt workspaces) (Exc IndexError ''list index out of range'')) (\<lambda>w.
     let artifact_root = path_join (path_parent (ws_path w)) ''artifacts'' in
     bindM (case artifact_named ''changed_files.json'' result of
              None \<Rightarrow> retM []
            | Some a \<Rightarrow>
                bindM (artifact_text (path_join artifact_root (ar_relative_path a))) (\<lambda>text.
                liftM (listed_paths E text))) (\<lambda>changed_files.
     bindM (case artifact_named ''proposal.diff'' result of
              None \<Rightarrow> retM (0, 0)
            | Some a \<Rightarrow>
                bindM (artifact_text (path_join artifact_root (ar_relative_path a))) (\<lambda>text.
                retM (patch_stats text))) (\<lambda>(additions, deletions).
     retM (changed_files, additions, deletions))))"

definition comparison_base :: "dtask \<Rightarrow> dworkspace list \<Rightarrow> string" where
  "comparison_base t workspaces =
     (case last_opt workspaces of
        Some w \<Rightarrow> ws_base_commit w
      | None \<Rightarrow> or_empty (ri_initial_head (dt_repository t)))"

definition compare_item :: "env \<Rightarrow> dtask \<Rightarrow> comparison_item run" where
  "compare_item E t =
     bindM (get_records (dt_task_id t) T_workspaces) (\<lambda>ws.
     let workspaces = workspaces_of ws in
     bindM (get_records (dt_task_id t) T_results) (\<lambda>rs.
     let result = last_opt (results_of rs) in
     bindM (case result of None \<Rightarrow> retM ([], 0, 0) | Some r \<Rightarrow> result_files E workspaces r)
       (\<lambda>(changed_files, additions, deletions).
     bindM (get_records (dt_task_id t) T_launches) (\<lambda>ls.
     let launch = last_opt (launches_of ls) in
     bindM (get_records (dt_task_id t) T_commands) (\<lambda>cs.
     bindM (case launch of None \<Rightarrow> retM None
                         | Some l \<Rightarrow> liftM (runtime (la_started_at l) (la_ended_at l))) (\<lambda>seconds.
     retM \<lparr>ci_task_id = dt_task_id t,
           ci_variant_name = the (or_else (dt_variant_name t) (Some (dt_task_id t))),
           ci_base_commit = comparison_base t workspaces, ci_status = dt_status t,
           ci_result_revision = map_option rs_revision result, ci_changed_files = changed_files,
           ci_patch_additions = additions, ci_patch_deletions = deletions,
           ci_commands = commands_of cs, ci_exit_code = Option.bind launch la_exit_code,
           ci_timed_out = (case launch of None \<Rightarrow> False | Some l \<Rightarrow> la_timed_out l),
           ci_runtime_seconds = seconds, ci_token_usage = Option.bind launch la_token_usage,
           ci_session_id = (case result of Some r \<Rightarrow> rs_producing_session_id r
                                         | None \<Rightarrow> map_option la_session_id launch),
           ci_launch_id = (case result of Some r \<Rightarrow> rs_producing_launch_id r
                                        | None \<Rightarrow> map_option la_launch_id launch)\<rparr>))))))"

definition compare :: "env \<Rightarrow> string \<Rightarrow> comparison run" where
  "compare E comparison_id =
     bindM list_tasks (\<lambda>all_tasks.
     let tasks = sort_key (\<lambda>t. (or_empty (dt_variant_name t), dt_task_id t))
                   (filter (\<lambda>t. dt_comparison_id t = Some comparison_id) all_tasks) in
     thenM (require (2 \<le> length tasks) ComparisonError
              (''Comparison requires at least two sibling tasks: '' @ comparison_id))
     (let repository = dt_repository (hd tasks) in
      thenM (require (\<forall>t\<in>set (tl tasks). same_identity (dt_repository t) repository)
               ComparisonError ''Comparison tasks have incompatible repository identities'')
      (bindM (mapM (compare_item E) tasks) (\<lambda>items.
       let bases = remdups (map ci_base_commit items) in
       thenM (require (length bases = 1) ComparisonError
                ''Comparison tasks have incompatible Git bases'')
       (retM \<lparr>cp_comparison_id = comparison_id, cp_repository = repository,
              cp_base_commit = hd bases, cp_variants = items\<rparr>)))))"

section \<open>The review summary\<close>

record review_summary =
  sm_task_id :: string
  sm_status :: dstatus
  sm_result_revision :: int
  sm_producing_session_id :: "string option"
  sm_producing_launch_id :: "string option"
  sm_executor_id :: "string option"
  sm_prompt_variant :: "string option"
  sm_changed_files :: "string list"
  sm_patch_additions :: nat
  sm_patch_deletions :: nat
  sm_commands :: "(command_status \<times> command_rec list) list"
  sm_missing_commands :: "string list"
  sm_artifact_checksums_valid :: bool
  sm_scope_checks_passed :: bool
  sm_canonical_head :: "string option"
  sm_base_commit :: string
  sm_canonical_clean_for_changed_files :: bool
  sm_acceptance_ready :: bool
  sm_promotion_ready :: bool
  sm_blockers :: "string list"

definition summary_git :: "env \<Rightarrow> string \<Rightarrow> string list \<Rightarrow> string run" where
  "summary_git E repository args =
     bindM (git_run E (git_at repository args)) (\<lambda>out.
     retM (if px_code out = 0 then strip (px_stdout out) else []))"

definition artifact_ok :: "env \<Rightarrow> fsys \<Rightarrow> string \<Rightarrow> artifact \<Rightarrow> bool" where
  "artifact_ok E f artifact_root a =
     (let path = path_join artifact_root (ar_relative_path a) in
      is_file f path \<and> e_sha E (read_file f path) = ar_sha256 a)"

text \<open>The text of an artifact of the result, when it is listed and its file is there\<close>

definition present_text :: "string \<Rightarrow> string \<Rightarrow> result_rec \<Rightarrow> string option run" where
  "present_text artifact_root name result =
     (case artifact_named name result of
        None \<Rightarrow> retM None
      | Some a \<Rightarrow>
          let path = path_join artifact_root (ar_relative_path a) in
          from_fs (\<lambda>f. if is_file f path then Some (universal_newlines (read_file f path)) else None))"

definition command_groups :: "command_status list \<Rightarrow> command_rec list \<Rightarrow>
    (command_status \<times> command_rec list) list" where
  "command_groups groups records =
     map (\<lambda>st. (st, filter (\<lambda>c. cm_status c = st) records)) groups"

text \<open>What holds a result back, in the order of the checks\<close>

definition summary_blockers ::
  "artifact list \<Rightarrow> bool \<Rightarrow> string list \<Rightarrow> bool \<Rightarrow> bool \<Rightarrow> string list" where
  "summary_blockers broken patch_changed missing stale dirty =
     map (\<lambda>a. ''Artifact checksum invalid: '' @ ar_name a) broken @
     (if patch_changed then [''Workspace changed after result capture''] else []) @
     (if missing \<noteq> [] then [''Required commands are not satisfied: '' @ join '', '' missing]
      else []) @
     (if stale then [''Canonical repository HEAD no longer matches result base''] else []) @
     (if dirty then [''Canonical repository has uncommitted changes in affected paths'']
      else [])"

text \<open>\<open>summarize\<close>, once the task, the result and the workspace are read\<close>

definition summarize_result ::
  "env \<Rightarrow> string \<Rightarrow> dtask \<Rightarrow> result_rec \<Rightarrow> dworkspace \<Rightarrow> review_summary run" where
  "summarize_result E k task result workspace =
    (let artifact_root = path_join (path_parent (ws_path workspace)) ''artifacts'' in
     bindM (from_fs (\<lambda>f. filter (\<lambda>a. \<not> artifact_ok E f artifact_root a) (rs_artifacts result))) (\<lambda>broken.
     bindM (present_text artifact_root ''changed_files.json'' result) (\<lambda>changed_text.
     bindM (case changed_text of None \<Rightarrow> retM [] | Some text \<Rightarrow> liftM (listed_paths E text)) (\<lambda>files.
     bindM (present_text artifact_root ''proposal.diff'' result) (\<lambda>patch_text.
     let (additions, deletions) = patch_stats (or_empty patch_text) in
     bindM (workspace_patch E (ws_path workspace) (rs_base_commit result) None) (\<lambda>current_patch.
     let patch_changed = e_sha E current_patch \<noteq> rs_workspace_patch_sha256 result in
     bindM (get_records k T_commands) (\<lambda>records.
     bindM (unmet_required k) (\<lambda>missing.
     let repository = ri_canonical_path (ws_repository workspace) in
     bindM (summary_git E repository [''rev-parse'', ''HEAD'']) (\<lambda>head.
     bindM (if files = [] then retM []
            else summary_git E repository ([''status'', ''--porcelain'', ''--''] @ files)) (\<lambda>changes.
     let dirty = (changes \<noteq> []);
         blockers = summary_blockers broken patch_changed missing (head \<noteq> rs_base_commit result)
                      dirty in
     retM \<lparr>sm_task_id = k, sm_status = dt_status task, sm_result_revision = rs_revision result,
           sm_producing_session_id = rs_producing_session_id result,
           sm_producing_launch_id = rs_producing_launch_id result,
           sm_executor_id = dt_executor_id task, sm_prompt_variant = rs_prompt_variant result,
           sm_changed_files = files, sm_patch_additions = additions,
           sm_patch_deletions = deletions,
           sm_commands = command_groups [Cs_passed, Cs_failed, Cs_reported, Cs_waived]
                           (commands_of records),
           sm_missing_commands = missing, sm_artifact_checksums_valid = (broken = []),
           sm_scope_checks_passed = True,
           sm_canonical_head = (if head = [] then None else Some head),
           sm_base_commit = rs_base_commit result,
           sm_canonical_clean_for_changed_files = (\<not> dirty),
           sm_acceptance_ready = (dt_status task = D_reviewing \<and> blockers = []),
           sm_promotion_ready = (dt_status task = D_accepted \<and>
             dt_accepted_result_revision task = Some (rs_revision result) \<and> blockers = []),
           sm_blockers = blockers\<rparr>))))))))))"

definition summarize :: "env \<Rightarrow> string \<Rightarrow> int option \<Rightarrow> review_summary run" where
  "summarize E k revision =
     bindM (get_task k) (\<lambda>task.
     bindM (get_result k revision) (\<lambda>result.
     bindM (get_workspace k) (\<lambda>workspace.
     summarize_result E k task result workspace)))"

section \<open>Conflicts\<close>

record conflict_report =
  kr_task_id :: string
  kr_blockers :: "blocker list"

text \<open>The code and the safe actions of a blocker of the summary, by the start of its message\<close>

definition conflict_code :: "string \<Rightarrow> (blocker_code \<times> string list) option" where
  "conflict_code message =
     (if startswith message ''Artifact checksum invalid''
      then Some (B_artifact_checksum, [''recapture'', ''reject''])
      else if startswith message ''Workspace changed''
      then Some (B_workspace_changed, [''revise'', ''recapture''])
      else if startswith message ''Canonical repository HEAD''
      then Some (B_stale_base, [''revise'', ''recapture'', ''manual reconciliation''])
      else if startswith message ''Canonical repository has uncommitted''
      then Some (B_dirty_worktree, [''manual reconciliation'', ''retry''])
      else None)"

definition summary_conflict ::
  "string \<Rightarrow> string \<Rightarrow> review_summary \<Rightarrow> string \<Rightarrow> blocker option" where
  "summary_conflict k repository summary message =
     (case conflict_code message of
        None \<Rightarrow> None
      | Some (code, actions) \<Rightarrow>
          Some \<lparr>bk_code = code, bk_message = message, bk_repository = repository, bk_task_id = k,
            bk_result_revision = Some (sm_result_revision summary),
            bk_conflicting_task_id = None, bk_overlapping_paths = [],
            bk_expected_base = Some (sm_base_commit summary),
            bk_actual_head = sm_canonical_head summary, bk_rollback_attempted = False,
            bk_rollback_succeeded = None, bk_safe_actions = actions\<rparr>)"

definition overlap_prefix :: string where
  "overlap_prefix = ''overlaps queued task ''"

text \<open>The other task and the paths, read back out of the message of the queue\<close>

definition overlap_conflict ::
  "string \<Rightarrow> string \<Rightarrow> queue_entry \<Rightarrow> string \<Rightarrow> blocker option" where
  "overlap_conflict k repository entry message =
     (if \<not> startswith message overlap_prefix then None
      else
        (let (front, rest) = partition_on '': '' message; paths = or_empty rest in
         Some \<lparr>bk_code = B_queue_overlap, bk_message = message, bk_repository = repository,
           bk_task_id = k, bk_result_revision = Some (qe_result_revision entry),
           bk_conflicting_task_id = Some (removeprefix overlap_prefix front),
           bk_overlapping_paths = (if paths = [] then [] else split_text '', '' paths),
           bk_expected_base = None, bk_actual_head = None, bk_rollback_attempted = False,
           bk_rollback_succeeded = None,
           bk_safe_actions = [''dequeue'', ''revise'', ''manual reconciliation'']\<rparr>))"

definition failure_conflict :: "string \<Rightarrow> string \<Rightarrow> promotion \<Rightarrow> blocker" where
  "failure_conflict k repository p =
     \<lparr>bk_code = B_promotion_failure,
      bk_message = the (or_else (po_error p) (Some ''Promotion failed'')),
      bk_repository = repository, bk_task_id = k,
      bk_result_revision = Some (po_result_revision p), bk_conflicting_task_id = None,
      bk_overlapping_paths = [], bk_expected_base = None, bk_actual_head = None,
      bk_rollback_attempted = po_rollback_attempted p,
      bk_rollback_succeeded = po_rollback_succeeded p,
      bk_safe_actions = [''inspect partial state'', ''manual reconciliation'', ''reject'']\<rparr>"

definition explain_conflicts :: "env \<Rightarrow> string \<Rightarrow> conflict_report run" where
  "explain_conflicts E k =
     thenM (get_task k)
     (bindM (get_workspace k) (\<lambda>workspace.
      let repository = ri_canonical_path (ws_repository workspace) in
      bindM (get_records k T_results) (\<lambda>results.
      bindM (if results_of results = [] then retM []
             else bindM (summarize E k None) (\<lambda>summary.
               retM (List.map_filter (summary_conflict k repository summary) (sm_blockers summary))))
        (\<lambda>of_summary.
      bindM (queue_entry_of k) (\<lambda>queued.
      bindM (case queued of
               None \<Rightarrow> retM []
             | Some entry \<Rightarrow>
                 bindM (queue_blockers E k (qe_base_commit entry) (qe_changed_files entry))
                   (\<lambda>current. retM (List.map_filter (overlap_conflict k repository entry) current)))
        (\<lambda>of_queue.
      bindM (get_records k T_promotions) (\<lambda>promotions.
      let of_promotion = (case last_opt (promotions_of promotions) of
            None \<Rightarrow> []
          | Some p \<Rightarrow> if po_status p = Ps_promotion_failed then [failure_conflict k repository p]
                      else []) in
      retM \<lparr>kr_task_id = k, kr_blockers = of_summary @ of_queue @ of_promotion\<rparr>)))))))"

section \<open>The dashboard\<close>

primrec ATTENTION_ORDER :: "attention \<Rightarrow> nat" where
  "ATTENTION_ORDER At_blocked = 0"
| "ATTENTION_ORDER At_review = 1"
| "ATTENTION_ORDER At_ready = 2"
| "ATTENTION_ORDER At_working = 3"
| "ATTENTION_ORDER At_terminal = 4"

definition dashboard_attention :: "dstatus \<Rightarrow> outcome option \<Rightarrow> attention" where
  "dashboard_attention st worker_outcome =
     (if st = D_executor_done \<and> worker_outcome \<in> {Some O_advisory, Some O_no_work} then At_blocked
      else if st \<in> {D_executor_blocked, D_promotion_failed, D_failed} then At_blocked
      else if st \<in> {D_executor_done, D_reviewing, D_revision_requested} then At_review
      else if st \<in> {D_draft, D_assigned, D_workspace_ready, D_accepted} then At_ready
      else if st \<in> set terminal_statuses then At_terminal
      else At_working)"

primrec status_actions :: "dstatus \<Rightarrow> string list" where
  "status_actions D_draft = [''assign'']"
| "status_actions D_assigned = [''prepare'']"
| "status_actions D_workspace_ready = [''launch'', ''start'']"
| "status_actions D_executor_working = [''message'', ''block'', ''done'']"
| "status_actions D_executor_blocked = [''resume'', ''reject'']"
| "status_actions D_executor_done = [''capture'', ''revise'']"
| "status_actions D_reviewing = [''accept'', ''revise'', ''reject'']"
| "status_actions D_revision_requested = [''launch'', ''resume'']"
| "status_actions D_accepted = [''review-summary'', ''queue-add'', ''promote'']"
| "status_actions D_promoting = []"
| "status_actions D_promotion_failed = [''conflict'', ''revise'', ''promote'', ''reject'']"
| "status_actions D_promoted = []"
| "status_actions D_rejected = []"
| "status_actions D_cancelled = []"
| "status_actions D_failed = []"

definition dashboard_actions :: "dstatus \<Rightarrow> outcome option \<Rightarrow> string list" where
  "dashboard_actions st worker_outcome =
     (if st = D_executor_done \<and> worker_outcome \<in> {Some O_advisory, Some O_no_work} then [''revise'']
      else status_actions st)"

definition dashboard_row :: "dtask \<Rightarrow> dashboard_task run" where
  "dashboard_row t =
     bindM (if given (dt_executor_id t)
            then tryM (bindM (get_profile (the (dt_executor_id t))) (\<lambda>p. retM (Some p)))
                   (\<lambda>e. retM None)
            else retM None) (\<lambda>p.
     bindM (get_records (dt_task_id t) T_launches) (\<lambda>ls.
     let worker_outcome = Option.bind (last_opt (launches_of ls)) la_outcome;
         actions = dashboard_actions (dt_status t) worker_outcome in
     retM \<lparr>db_task_id = dt_task_id t, db_title = dt_title t, db_status = dt_status t,
           db_attention = dashboard_attention (dt_status t) worker_outcome,
           db_executor_id = dt_executor_id t, db_harness = map_option xp_harness p,
           db_repository = path_name (ri_canonical_path (dt_repository t)),
           db_latest_result_revision = dt_latest_result_revision t,
           db_accepted_result_revision = dt_accepted_result_revision t,
           db_worker_outcome = worker_outcome,
           db_next_action = (if actions \<noteq> [] then hd actions else ''none''),
           db_updated_at = dt_updated_at t\<rparr>))"

text \<open>\<open>rows.sort(key=key, reverse=True)\<close> keeps equal rows in their order\<close>

definition sort_reverse :: "('a \<Rightarrow> 'k :: linorder) \<Rightarrow> 'a list \<Rightarrow> 'a list" where
  "sort_reverse key xs = rev (sort_key key (rev xs))"

definition dashboard_list :: "bool \<Rightarrow> dashboard_task list run" where
  "dashboard_list active_only =
     bindM list_tasks (\<lambda>tasks.
     bindM (mapM dashboard_row (if active_only then open_tasks tasks else tasks)) (\<lambda>rows.
     retM (sort_key (\<lambda>r. ATTENTION_ORDER (db_attention r))
            (sort_reverse db_updated_at (sort_key db_task_id rows)))))"

datatype executor_view = Known_executor profile bool string | Unknown_executor string

record dashboard_detail =
  dd_task :: dashboard_task
  dd_repository :: repo_identity
  dd_scope :: dscope
  dd_workspace :: "dworkspace option"
  dd_executor :: "executor_view option"
  dd_sessions :: "session list"
  dd_launches :: "launch list"
  dd_latest_result :: "result_rec option"
  dd_reviews :: "review list"
  dd_commands :: "(command_status \<times> command_rec list) list"
  dd_queue :: "queue_entry option"
  dd_outcome_detail :: "string option"
  dd_next_actions :: "string list"
  dd_artifact_root :: "string option"

definition detail_executor :: "env \<Rightarrow> string \<Rightarrow> executor_view run" where
  "detail_executor E x =
     tryM
       (bindM (get_profile x) (\<lambda>p.
        if xp_harness p \<in> set cli_harnesses
        then bindM (availability E p) (\<lambda>(available, detail). retM (Known_executor p available detail))
        else retM (Known_executor p True ''manual_unverified'')))
       (\<lambda>e. retM (Unknown_executor x))"

definition dashboard_details :: "env \<Rightarrow> string \<Rightarrow> dashboard_detail run" where
  "dashboard_details E k =
     bindM (get_task k) (\<lambda>task.
     bindM (dashboard_list False) (\<lambda>rows.
     bindM (optM (find (\<lambda>r. db_task_id r = k) rows) (Exc StopIteration [])) (\<lambda>row.
     bindM (get_records k T_workspaces) (\<lambda>ws.
     let workspace = last_opt (workspaces_of ws) in
     bindM (if given (dt_executor_id task)
            then bindM (detail_executor E (the (dt_executor_id task))) (\<lambda>v. retM (Some v))
            else retM None) (\<lambda>executor.
     bindM (get_records k T_results) (\<lambda>results.
     bindM (get_records k T_commands) (\<lambda>commands.
     bindM (get_records k T_promotion_queue) (\<lambda>queue.
     bindM (get_records k T_launches) (\<lambda>launches.
     bindM (projected_sessions k) (\<lambda>sessions.
     bindM (get_records k T_reviews) (\<lambda>reviews.
     retM \<lparr>dd_task = row, dd_repository = dt_repository task, dd_scope = dt_scope task,
           dd_workspace = workspace, dd_executor = executor, dd_sessions = sessions,
           dd_launches = launches_of launches,
           dd_latest_result = last_opt (results_of results), dd_reviews = reviews_of reviews,
           dd_commands = command_groups [Cs_passed, Cs_failed, Cs_reported, Cs_waived]
                           (commands_of commands),
           dd_queue = last_opt (queue_of queue),
           dd_outcome_detail = Option.bind (last_opt (launches_of launches)) la_outcome_detail,
           dd_next_actions = dashboard_actions (dt_status task) (db_worker_outcome row),
           dd_artifact_root = map_option (\<lambda>w. path_join (path_parent (ws_path w)) ''artifacts'')
             workspace\<rparr>)))))))))))"

end
