(* ===== verification/View_Properties.thy ===== *)
theory View_Properties
  imports Views Workflow_Example "HOL-Library.Multiset"
begin

text \<open>
  Properties of the views of delegation: they read only; the timeline loses nothing; the pool
  lists every open task with its executor; variants differ in what they were asked to differ in;
  a summary says ready only after its checks; conflicts are read back from the queue's messages;
  and what the dashboard offers against what the services accept.
\<close>

section \<open>Views read only\<close>

lemma keeps_availability [keeps_intros]:
  "keeps I (executor_available E p)" "keeps I (availability E p)" "keeps I (pool_availability E p)"
  by (simp_all add: executor_available_def availability_def pool_availability_def keeps_intros
      executor_defs available_for_profile_def Let_def split: prod.split)

lemma keeps_view_reads [keeps_intros]:
  "keeps I list_profiles" "keeps I (get_task_events k)" "keeps I (projected_sessions k)"
  "keeps I (artifact_text path)" "keeps I (present_text r n x)" "keeps I (summary_git E r a)"
  by (simp_all add: list_profiles_def get_task_events_def projected_sessions_def artifact_text_def
      present_text_def summary_git_def keeps_intros Let_def split: option.split prod.split)

lemma keeps_pool: "keeps I (pool_executors E)" "keeps I (pool_tasks b)"
  by (simp_all add: pool_executors_def pool_tasks_def keeps_intros Let_def split: prod.split)

lemma keeps_timeline: "keeps I (timeline k)"
  by (simp add: timeline_def keeps_intros split: prod.split)

lemma keeps_result_files [keeps_intros]: "keeps I (result_files E ws r)"
  by (simp add: result_files_def keeps_intros Let_def split: option.split prod.split)

lemma keeps_compare: "keeps I (compare E c)"
  by (simp add: compare_def compare_item_def keeps_intros Let_def split: option.split prod.split)

lemma keeps_summarize [keeps_intros]: "keeps I (summarize E k n)"
  by (simp add: summarize_def summarize_result_def keeps_intros Let_def split: option.split prod.split)

lemma keeps_explain: "keeps I (explain_conflicts E k)"
  by (simp add: explain_conflicts_def keeps_intros Let_def split: option.split)

lemma keeps_dashboard [keeps_intros]: "keeps I (dashboard_list b)"
  by (simp add: dashboard_list_def dashboard_row_def keeps_intros Let_def)

lemma keeps_details: "keeps I (dashboard_details E k)"
  by (simp add: dashboard_details_def detail_executor_def keeps_intros Let_def split: prod.split)

lemma mapM_reads: "(\<And>x. x \<in> set xs \<Longrightarrow> f x s = (Inr (g x), s)) \<Longrightarrow> mapM f xs s = (Inr (map g xs), s)"
  by (induction xs) (simp_all add: run_eqs)

lemma get_records_run:
  "get_delegation_task k (sy_store s) = Some t \<Longrightarrow>
   get_records k ty s = (Inr (get_delegation_records k ty (sy_store s)), s)"
  by (simp add: get_records_def get_task_run from_store_def run_eqs)

text \<open>Pool, timeline, comparison, review summary, conflicts and dashboard leave the stored tasks and
  records as they are, whether they return or raise.\<close>

theorem views_are_read_only:
  "sy_store (snd (pool_executors E s)) = sy_store s \<and>
   sy_store (snd (pool_tasks b s)) = sy_store s \<and>
   sy_store (snd (timeline k s)) = sy_store s \<and>
   sy_store (snd (compare E c s)) = sy_store s \<and>
   sy_store (snd (summarize E k n s)) = sy_store s \<and>
   sy_store (snd (explain_conflicts E k s)) = sy_store s \<and>
   sy_store (snd (dashboard_list b s)) = sy_store s \<and>
   sy_store (snd (dashboard_details E k s)) = sy_store s"
  by (intro conjI still_snd stillI keeps_pool keeps_timeline keeps_compare keeps_summarize
      keeps_explain keeps_dashboard keeps_details)

section \<open>The timeline\<close>

text \<open>The time by which an item is placed\<close>

definition item_time :: "timeline_item \<Rightarrow> string" where
  "item_time i =
     (case ti_data i of
        Of_event e \<Rightarrow> if de_event_type e \<in> set TERMINAL_EVENT_TYPES
                       then ''9999-12-31T23:59:59.999999Z'' else de_created_at e
      | Of_record r \<Rightarrow> ti_timestamp i)"

lemma fst_event_rows: "row \<in> set (event_rows es) \<Longrightarrow> fst (fst row) = item_time (snd row)"
  by (auto simp: event_rows_def item_time_def event_item_def)

lemma fst_record_rows: "row \<in> set (record_rows t n ty rs) \<Longrightarrow> fst (fst row) = item_time (snd row)"
  by (auto simp: record_rows_def item_time_def record_item_def)

lemma data_event_rows: "map (ti_data \<circ> snd) (event_rows es) = map Of_event es"
proof -
  have "map (ti_data \<circ> snd) (event_rows es) = map (Of_event \<circ> snd) (enumerate 0 es)"
    by (auto simp: event_rows_def event_item_def)
  then show ?thesis by (simp only: map_map [symmetric] map_snd_enumerate)
qed

lemma data_record_rows: "map (ti_data \<circ> snd) (record_rows t n ty rs) = map Of_record rs"
proof -
  have "map (ti_data \<circ> snd) (record_rows t n ty rs) = map (Of_record \<circ> snd) (enumerate 0 rs)"
    by (auto simp: record_rows_def record_item_def)
  then show ?thesis by (simp only: map_map [symmetric] map_snd_enumerate)
qed

lemma data_all_rows:
  "map (ti_data \<circ> snd) (concat (map (\<lambda>(n, ty). record_rows t n ty (f ty)) (enumerate m tys))) =
   map Of_record (concat (map f tys))"
  by (induction tys arbitrary: m) (simp_all add: data_record_rows)

lemma mset_map_sort: "mset (map f (sort_key g xs)) = mset (map f xs)"
  by simp

lemma timeline_run:
  assumes "get_delegation_task k (sy_store s) = Some t"
  shows "timeline k s =
    (Inr (map snd (sort_key fst (event_rows (get_delegation_events k (sy_store s)) @
       concat (map (\<lambda>(n, ty). record_rows t n ty (get_delegation_records k ty (sy_store s)))
         (enumerate 1 RECORD_TYPES))))), s)"
proof -
  have "mapM (\<lambda>(n, ty). bindM (get_records k ty) (\<lambda>rs. retM (record_rows t n ty rs)))
      (enumerate 1 RECORD_TYPES) s =
    (Inr (map (\<lambda>(n, ty). record_rows t n ty (get_delegation_records k ty (sy_store s)))
      (enumerate 1 RECORD_TYPES)), s)"
    by (rule mapM_reads) (auto simp: get_records_run [OF assms] run_eqs)
  with assms show ?thesis
    by (simp add: timeline_def get_task_run get_task_events_def from_store_def run_eqs)
qed

text \<open>C30: The timeline of a task holds each of its events and each record of the types in
  \<open>RECORD_TYPES\<close> exactly once and nothing else, ordered by time, where an event that ends the task
  counts as later than everything. The usage records of AI workers are of another type.\<close>

theorem timeline_is_complete:
  assumes "get_delegation_task k (sy_store s) = Some t"
  shows "\<exists>items. timeline k s = (Inr items, s) \<and> sorted (map item_time items) \<and>
    mset (map ti_data items) =
      mset (map Of_event (get_delegation_events k (sy_store s))) +
      mset (map Of_record (concat (map (\<lambda>ty. get_delegation_records k ty (sy_store s)) RECORD_TYPES)))"
proof -
  let ?es = "event_rows (get_delegation_events k (sy_store s))"
  let ?rs = "concat (map (\<lambda>(n, ty). record_rows t n ty (get_delegation_records k ty (sy_store s)))
    (enumerate 1 RECORD_TYPES))"
  let ?rows = "sort_key fst (?es @ ?rs)"
  have "sorted (map (fst \<circ> fst) ?rows)"
    using sorted_sort_key [of fst "?es @ ?rs"]
    by (auto simp: sorted_map less_eq_prod_def elim!: sorted_wrt_mono_rel [rotated])
  moreover have "map item_time (map snd ?rows) = map (fst \<circ> fst) ?rows"
    by (auto dest!: fst_event_rows fst_record_rows)
  ultimately have "sorted (map item_time (map snd ?rows))" by (simp only:)
  moreover have "mset (map ti_data (map snd ?rows)) =
      mset (map (ti_data \<circ> snd) ?es) + mset (map (ti_data \<circ> snd) ?rs)"
    using mset_map_sort [of "ti_data \<circ> snd" fst "?es @ ?rs"]
    by (simp only: map_map map_append mset_append)
  then have "mset (map ti_data (map snd ?rows)) =
      mset (map Of_event (get_delegation_events k (sy_store s))) +
      mset (map Of_record (concat (map (\<lambda>ty. get_delegation_records k ty (sy_store s)) RECORD_TYPES)))"
    by (simp only: data_event_rows data_all_rows)
  ultimately show ?thesis using timeline_run [OF assms] by blast
qed

section \<open>The pool\<close>

lemma pool_entries:
  assumes "mapM (\<lambda>p. let assigned = g p in bindM (pool_availability E p) (\<lambda>(available, detail).
      retM \<lparr>pe_executor_id = xp_executor_id p, pe_harness = xp_harness p,
        pe_available = available, pe_availability_detail = detail,
        pe_active_tasks = length assigned, pe_task_ids = assigned\<rparr>)) ps s = (Inr es, s')"
  shows "map (\<lambda>e. (pe_executor_id e, pe_task_ids e, pe_active_tasks e)) es =
         map (\<lambda>p. (xp_executor_id p, g p, length (g p))) ps"
  using assms by (induction ps arbitrary: s es) (auto simp: Let_def bindM_Inr retM_Inr split: prod.splits)

text \<open>The pool has one entry per registered executor, in their order, and lists under it exactly
  the tasks that are assigned to it and not ended, sorted and counted.\<close>

theorem pool_lists_open_tasks:
  assumes "pool_executors E s = (Inr es, s')"
  shows "map pe_executor_id es = map xp_executor_id (list_executor_profiles (sy_store s)) \<and>
    list_all (\<lambda>e. sorted (pe_task_ids e) \<and> pe_active_tasks e = length (pe_task_ids e) \<and>
      mset (pe_task_ids e) = mset (map dt_task_id (filter (\<lambda>t.
        dt_executor_id t = Some (pe_executor_id e) \<and> dt_status t \<notin> set terminal_statuses)
          (list_delegation_tasks (sy_store s))))) es"
proof -
  let ?g = "assigned_tasks (list_delegation_tasks (sy_store s))"
  let ?ps = "list_executor_profiles (sy_store s)"
  have entries: "map (\<lambda>e. (pe_executor_id e, pe_task_ids e, pe_active_tasks e)) es =
      map (\<lambda>p. (xp_executor_id p, ?g p, length (?g p))) ?ps"
    by (rule pool_entries [where E = E and s = s and s' = s'])
      (use assms in \<open>simp add: pool_executors_def list_tasks_def list_profiles_def from_store_def
        run_eqs Let_def\<close>)
  have "map pe_executor_id es = map fst (map (\<lambda>e. (pe_executor_id e, pe_task_ids e, pe_active_tasks e)) es)"
    by simp
  then have "map pe_executor_id es = map xp_executor_id ?ps" unfolding entries by simp
  moreover have "\<exists>p. (pe_executor_id e, pe_task_ids e, pe_active_tasks e) =
      (xp_executor_id p, ?g p, length (?g p))" if "e \<in> set es" for e
    using entries that by (metis (mono_tags, lifting) in_set_conv_nth length_map nth_map)
  ultimately show ?thesis
    unfolding list_all_iff
    by (fastforce simp: assigned_tasks_def open_tasks_def conj_commute simp flip: mset_map)
qed

section \<open>Variants\<close>

lemma fresh_store: "fresh E p s = (r, t) \<Longrightarrow> sy_store t = sy_store s"
  by (auto simp: fresh_def tick_def run_eqs)

lemma created_variants:
  assumes "mapM (\<lambda>v. bindM (fresh E ''task_'') (\<lambda>i. create_task E (variant_task source c i v))) vs s =
      (Inr ts, s')"
  shows "length ts = length vs \<and> distinct (map dt_task_id ts) \<and>
    ts = map (\<lambda>(v, i). variant_task source c i v) (zip vs (map dt_task_id ts)) \<and>
    (\<forall>i. get_delegation_task i (sy_store s') =
       (case map_of (map (\<lambda>t. (dt_task_id t, t)) ts) i of
          Some t \<Rightarrow> Some t | None \<Rightarrow> get_delegation_task i (sy_store s))) \<and>
    (\<forall>t\<in>set ts. get_delegation_task (dt_task_id t) (sy_store s) = None)"
  using assms
proof (induction vs arbitrary: s ts)
  case (Cons v vs)
  from Cons.prems obtain i s1 t s2 rest where
    i: "fresh E ''task_'' s = (Inr i, s1)" and
    t: "create_task E (variant_task source c i v) s1 = (Inr t, s2)" and
    rest: "mapM (\<lambda>v. bindM (fresh E ''task_'') (\<lambda>i. create_task E (variant_task source c i v))) vs s2 =
      (Inr rest, s')" and ts: "ts = t # rest"
    by (auto simp: bindM_Inr retM_Inr)
  have s1: "sy_store s1 = sy_store s" using i by (rule fresh_store)
  have t': "t = variant_task source c i v" "dt_task_id t = i"
    "get_delegation_task i (sy_store s) = None"
    and s2: "\<And>j. get_delegation_task j (sy_store s2) =
      (if j = i then Some t else get_delegation_task j (sy_store s))"
    using t s1 by (auto simp: create_task_run variant_task_def get_task_append_event
        get_task_set_task split: if_splits)
  note IH = Cons.IH [OF rest]
  have other: "dt_task_id u \<noteq> i \<and> get_delegation_task (dt_task_id u) (sy_store s) = None"
    if "u \<in> set rest" for u
    using IH that by (auto simp: s2 split: if_splits)
  then have fresh_id: "i \<notin> dt_task_id ` set rest" by blast
  show ?case unfolding ts
  proof (intro conjI)
    show "t # rest = map (\<lambda>(v, i). variant_task source c i v)
        (zip (v # vs) (map dt_task_id (t # rest)))"
      using IH t' by simp
    show "\<forall>j. get_delegation_task j (sy_store s') =
        (case map_of (map (\<lambda>t. (dt_task_id t, t)) (t # rest)) j of
           Some t \<Rightarrow> Some t | None \<Rightarrow> get_delegation_task j (sy_store s))"
    proof
      fix j
      show "get_delegation_task j (sy_store s') =
        (case map_of (map (\<lambda>t. (dt_task_id t, t)) (t # rest)) j of
           Some t \<Rightarrow> Some t | None \<Rightarrow> get_delegation_task j (sy_store s))"
      proof (cases "j = i")
        case True
        have "map_of (map (\<lambda>t. (dt_task_id t, t)) rest) i = None"
          using fresh_id by (auto simp: map_of_eq_None_iff)
        then show ?thesis using IH True t' s2 by simp
      next
        case False
        then have "map_of (map (\<lambda>t. (dt_task_id t, t)) (t # rest)) j =
            map_of (map (\<lambda>t. (dt_task_id t, t)) rest) j" using t' by simp
        then show ?thesis using IH False s2 by (simp only: if_False)
      qed
    qed
    show "distinct (map dt_task_id (t # rest))" using IH t' fresh_id by simp
  qed (use IH t' other in auto)
qed (simp add: run_eqs)

text \<open>C29: The variants of a comparison are stored as drafts that differ from the source task in their
  identifier, the comparison, the name and the supplement only; they replace no task, and every
  other task stays as it is.\<close>

theorem variants_share_their_source:
  assumes "create_variants E k vs s = (Inr ts, s')"
  shows "\<exists>source c. get_delegation_task k (sy_store s) = Some source \<and> dt_status source = D_draft \<and>
    2 \<le> length ts \<and> length ts = length vs \<and> distinct (map dt_task_id ts) \<and>
    ts = map (\<lambda>(v, i). source\<lparr>dt_task_id := i, dt_comparison_id := Some c,
      dt_variant_name := Some (va_name v), dt_prompt_supplement := Some (va_prompt_supplement v)\<rparr>)
        (zip vs (map dt_task_id ts)) \<and>
    distinct (map (\<lambda>v. strip (va_name v)) vs) \<and>
    (\<forall>i. get_delegation_task i (sy_store s') =
       (case map_of (map (\<lambda>t. (dt_task_id t, t)) ts) i of
          Some t \<Rightarrow> Some t | None \<Rightarrow> get_delegation_task i (sy_store s))) \<and>
    (\<forall>t\<in>set ts. get_delegation_task (dt_task_id t) (sy_store s) = None)"
proof -
  from assms obtain source c s1 where
    source: "get_delegation_task k (sy_store s) = Some source" "dt_status source = D_draft" and
    vs: "2 \<le> length vs" "distinct (map (\<lambda>v. strip (va_name v)) vs)" and
    s1: "sy_store s1 = sy_store s" and
    created: "mapM (\<lambda>v. bindM (fresh E ''task_'') (\<lambda>i. create_task E (variant_task source c i v)))
      vs s1 = (Inr ts, s')"
    by (auto simp: create_variants_def inr_eqs Let_def require_def split: if_splits dest: fresh_store)
  note made = created_variants [OF created, unfolded s1]
  have "2 \<le> length ts" using made vs by simp
  with source made vs show ?thesis unfolding variant_task_def by blast
qed

section \<open>What the dashboard offers\<close>

text \<open>The status that an action of the dashboard asks for; the other actions only read or append\<close>

fun action_target :: "string \<Rightarrow> dstatus option" where
  "action_target a =
     map_of [(''assign'', D_assigned), (''prepare'', D_workspace_ready),
       (''launch'', D_executor_working), (''start'', D_executor_working),
       (''resume'', D_executor_working), (''block'', D_executor_blocked),
       (''done'', D_executor_done), (''capture'', D_reviewing), (''accept'', D_accepted),
       (''revise'', D_revision_requested), (''reject'', D_rejected), (''promote'', D_promoting)] a"

text \<open>Every action that the dashboard offers for a task asks for a status that the transition table
  allows next, but for the rejection of a blocked task; and a task that has not ended is always offered one, unless it is being promoted.\<close>

theorem dashboard_offers_legal_moves:
  "list_all (\<lambda>a. (st, a) = (D_executor_blocked, ''reject'') \<or>
     (case action_target a of None \<Rightarrow> True | Some st' \<Rightarrow> st' \<in> set (transitions st)))
     (dashboard_actions st worker_outcome) \<and>
   (dashboard_actions st worker_outcome = [] \<longleftrightarrow> st \<in> set terminal_statuses \<or> st = D_promoting)"
  by (cases st) (auto simp: dashboard_actions_def terminal_statuses_def)

text \<open>C32: The dashboard offers to reject a task whose worker is blocked or whose promotion failed, but
  the review service rejects only a task under review: the offer always ends in an error.\<close>

theorem dashboard_offers_refused_reject:
  assumes "get_delegation_task k (sy_store s) = Some t"
    and "dt_status t = D_executor_blocked \<or> dt_status t = D_promotion_failed"
  shows "''reject'' \<in> set (dashboard_actions (dt_status t) o') \<and>
    reject E k reviewer note s =
      (Inl (Exc ReviewError ''Delegation task is not awaiting review''), s)"
  using assms
  by (auto simp: dashboard_actions_def reject_def reviewable_def get_task_run require_def run_eqs)

text \<open>For a profile of an API worker the pool says that its harness is unsupported while the
  dashboard says that it is available.\<close>

theorem api_worker_availability_differs:
  assumes "get_executor_profile x (sy_store s) = Some p" and "xp_harness p = H_api_worker"
  shows "pool_availability E p s = (Inr (False, ''Unsupported executor harness: api_worker''), s) \<and>
    detail_executor E x s = (Inr (Known_executor p True ''manual_unverified''), s)"
  using assms
  by (simp add: pool_availability_def detail_executor_def get_profile_def from_store_def
      cli_harnesses_def run_eqs)

section \<open>Review summaries\<close>

lemma get_records_Inr:
  "get_records k ty s = (Inr rs, t) \<longleftrightarrow>
   get_delegation_task k (sy_store s) \<noteq> None \<and> rs = get_delegation_records k ty (sy_store s) \<and> t = s"
  by (auto simp: get_records_def get_task_run from_store_def run_eqs split: option.splits)

lemma get_result_Inr:
  "get_result k n s = (Inr r, t) \<Longrightarrow> t = s \<and>
     r \<in> set (results_of (get_delegation_records k T_results (sy_store s))) \<and>
     (n = None \<longrightarrow> r = last (results_of (get_delegation_records k T_results (sy_store s))))"
  by (auto simp: get_result_def inr_eqs Let_def get_records_Inr require_def
      find_Some_iff split: option.splits)

text \<open>The workspace that the review service reads: the last stored one\<close>

lemma get_workspace_Inr:
  "get_workspace k s = (Inr w, t) \<Longrightarrow> t = s \<and>
     last_opt (workspaces_of (get_delegation_records k T_workspaces (sy_store s))) = Some w"
  by (auto simp: get_workspace_def inr_eqs Let_def get_records_Inr require_def last_opt_def
      split: option.splits if_splits)

lemma unmet_Inr:
  assumes "unmet_required k s = (Inr [], u)" and "get_delegation_task k (sy_store s) = Some t"
  shows "set (sc_required_commands (dt_scope t)) \<subseteq>
    cm_command ` set (filter satisfies
      (commands_of (get_delegation_records k T_commands (sy_store s))))"
  using assms
  by (auto simp: unmet_required_def inr_eqs Let_def get_records_Inr filter_empty_conv
      eq_commute [of "[]"])

lemma present_text_Inr: "present_text a n r s = (Inr v, t) \<Longrightarrow> t = s"
  by (auto simp: present_text_def Let_def split: option.splits)

lemma optional_lift_Inr:
  "(case v of None \<Rightarrow> retM a | Some x \<Rightarrow> liftM (g x)) s = (Inr y, t) \<Longrightarrow> t = s"
  by (auto split: option.splits)

lemma patch_store: "workspace_patch E w b c s = (r, t) \<Longrightarrow> sy_store t = sy_store s"
  by (rule still_store [OF stillI [OF keeps_workspace_patch]])

lemma summary_blockers_Nil:
  "summary_blockers broken patch_changed missing stale dirty = [] \<longleftrightarrow>
   broken = [] \<and> \<not> patch_changed \<and> missing = [] \<and> \<not> stale \<and> \<not> dirty"
  by (auto simp: summary_blockers_def)

definition vetted :: "env \<Rightarrow> sys \<Rightarrow> string \<Rightarrow> dtask \<Rightarrow> result_rec \<Rightarrow> dworkspace \<Rightarrow> bool" where
  "vetted E s k t r w \<longleftrightarrow>
     list_all (artifact_ok E (sy_fs s) (path_join (path_parent (ws_path w)) ''artifacts''))
       (rs_artifacts r) \<and>
     set (sc_required_commands (dt_scope t)) \<subseteq> cm_command ` set (filter satisfies
       (commands_of (get_delegation_records k T_commands (sy_store s))))"

text \<open>The state of the working tree: the patch of the workspace still has the checksum of the result,
  the repository stands at the base of the result, and none of the changed files is modified there;
  the three Git commands run one after the other\<close>

definition untouched :: "env \<Rightarrow> sys \<Rightarrow> result_rec \<Rightarrow> dworkspace \<Rightarrow> string list \<Rightarrow> bool" where
  "untouched E s r w files \<longleftrightarrow>
     (\<exists>patch s1 head s2. workspace_patch E (ws_path w) (rs_base_commit r) None s = (Inr patch, s1) \<and>
        e_sha E patch = rs_workspace_patch_sha256 r \<and>
        summary_git E (ri_canonical_path (ws_repository w)) [''rev-parse'', ''HEAD''] s1 = (Inr head, s2) \<and>
        head = rs_base_commit r \<and>
        (files = [] \<or> (\<exists>s3. summary_git E (ri_canonical_path (ws_repository w))
           ([''status'', ''--porcelain'', ''--''] @ files) s2 = (Inr [], s3))))"

lemma unmet_state: "unmet_required k s = (Inr v, u) \<Longrightarrow> u = s"
  by (auto simp: unmet_required_def inr_eqs Let_def get_records_Inr)

lemma git_unless_empty:
  "(if files = [] then retM [] else m) s = (Inr v, t) \<Longrightarrow> v = [] \<Longrightarrow> files = [] \<or> (\<exists>u. m s = (Inr [], u))"
  by (auto split: if_splits)

lemma summarize_result_ready:
  assumes sm: "summarize_result E k t r w s = (Inr sm, s')"
    and t: "get_delegation_task k (sy_store s) = Some t"
    and ready: "sm_acceptance_ready sm \<or> sm_promotion_ready sm"
  shows "vetted E s k t r w \<and> untouched E s r w (sm_changed_files sm) \<and>
    sm_result_revision sm = rs_revision r \<and>
    (if sm_acceptance_ready sm then dt_status t = D_reviewing
     else dt_status t = D_accepted \<and> dt_accepted_result_revision t = Some (rs_revision r))"
proof -
  have tree: "untouched E s r w (sm_changed_files sm)"
    using sm ready
    by (clarsimp simp: summarize_result_def inr_eqs Let_def get_records_Inr case_prod_beta
        summary_blockers_Nil dest!: present_text_Inr optional_lift_Inr unmet_state split del: if_split)
      (auto simp: untouched_def dest!: git_unless_empty)
  show ?thesis
    using sm t ready
    by (clarsimp simp: summarize_result_def inr_eqs Let_def get_records_Inr case_prod_beta
        summary_blockers_Nil tree [simplified] dest!: present_text_Inr optional_lift_Inr patch_store
        split del: if_split)
      (use tree in \<open>auto simp: vetted_def list_all_iff filter_empty_conv dest!: unmet_Inr\<close>)
qed

text \<open>C28: A summary calls a result ready for acceptance only while the task is under review, and ready for
  promotion only while exactly this revision is accepted; in both cases every artifact was there
  with its checksum, every required command was satisfied, the patch of the workspace was the
  captured one, the repository stood at the base of the result, and none of the files that the
  summary lists as changed was modified there.\<close>

theorem ready_is_checked:
  assumes "summarize E k n s = (Inr sm, s')"
    and "sm_acceptance_ready sm \<or> sm_promotion_ready sm"
  shows "\<exists>t r w. get_delegation_task k (sy_store s) = Some t \<and>
    r \<in> set (results_of (get_delegation_records k T_results (sy_store s))) \<and>
    last_opt (workspaces_of (get_delegation_records k T_workspaces (sy_store s))) = Some w \<and>
    vetted E s k t r w \<and> untouched E s r w (sm_changed_files sm) \<and>
    sm_result_revision sm = rs_revision r \<and>
    (if sm_acceptance_ready sm then dt_status t = D_reviewing
     else dt_status t = D_accepted \<and> dt_accepted_result_revision t = Some (rs_revision r))"
proof -
  from assms(1) obtain t r w s1 s2 where
    t: "get_delegation_task k (sy_store s) = Some t" and r: "get_result k n s = (Inr r, s1)" and
    w: "get_workspace k s1 = (Inr w, s2)" and sm: "summarize_result E k t r w s2 = (Inr sm, s')"
    by (auto simp: summarize_def inr_eqs)
  have [simp]: "s1 = s" "s2 = s" using get_result_Inr [OF r] get_workspace_Inr [OF w] by auto
  show ?thesis
    using t get_result_Inr [OF r] get_workspace_Inr [OF w]
      summarize_result_ready [OF sm [simplified] t assms(2)] by auto
qed

section \<open>Comparisons\<close>

lemma compare_item_id: "compare_item E t s = (Inr i, s') \<Longrightarrow> ci_task_id i = dt_task_id t"
  by (auto simp: compare_item_def inr_eqs Let_def case_prod_beta)

lemma compared_ids:
  "mapM (compare_item E) ts s = (Inr is, s') \<Longrightarrow> map ci_task_id is = map dt_task_id ts"
  by (induction ts arbitrary: s "is") (auto simp: inr_eqs dest: compare_item_id)

lemma same_identity_refl [simp]: "same_identity a a"
  by (simp add: same_identity_def same_dict_def)

lemma remdups_single: "length (remdups xs) = 1 \<Longrightarrow> x \<in> set xs \<Longrightarrow> x = hd (remdups xs)"
  by (cases "remdups xs") (auto simp flip: set_remdups [of xs])

text \<open>C31: A comparison that is returned covers exactly the tasks of that comparison, at least two, all of
  one repository, and all of them start from the one base commit it names.\<close>

theorem comparison_has_one_base:
  assumes "compare E c s = (Inr r, s')"
  shows "2 \<le> length (cp_variants r) \<and>
    list_all (\<lambda>i. ci_base_commit i = cp_base_commit r) (cp_variants r) \<and>
    mset (map ci_task_id (cp_variants r)) = mset (map dt_task_id
      (filter (\<lambda>t. dt_comparison_id t = Some c) (list_delegation_tasks (sy_store s)))) \<and>
    list_all (\<lambda>t. same_identity (dt_repository t) (cp_repository r))
      (filter (\<lambda>t. dt_comparison_id t = Some c) (list_delegation_tasks (sy_store s)))"
proof -
  define ts where "ts = sort_key (\<lambda>t. (or_empty (dt_variant_name t), dt_task_id t))
    (filter (\<lambda>t. dt_comparison_id t = Some c) (list_delegation_tasks (sy_store s)))"
  from assms obtain "is" where
    two: "2 \<le> length ts" and
    same: "\<forall>t\<in>set (tl ts). same_identity (dt_repository t) (dt_repository (hd ts))" and
    items: "mapM (compare_item E) ts s = (Inr is, s')" and
    one: "length (remdups (map ci_base_commit is)) = 1" and
    r: "r = \<lparr>cp_comparison_id = c, cp_repository = dt_repository (hd ts),
      cp_base_commit = hd (remdups (map ci_base_commit is)), cp_variants = is\<rparr>"
    unfolding compare_def list_tasks_def Let_def inr_eqs from_store_Inr require_Inr retM_Inr
    by (elim exE conjE) (simp only: ts_def [symmetric])
  note ids = compared_ids [OF items]
  have all: "\<forall>t\<in>set ts. same_identity (dt_repository t) (dt_repository (hd ts))"
    using same by (metis list.exhaust_sel list.set(1) empty_iff same_identity_refl set_ConsD)
  have "mset (map ci_task_id is) = mset (map dt_task_id ts)" using ids by simp
  moreover have "length is = length ts" using ids by (metis length_map)
  moreover have "list_all (\<lambda>i. ci_base_commit i = cp_base_commit r) is"
    unfolding list_all_iff r using remdups_single [OF one] by simp
  ultimately show ?thesis using two all by (simp add: r list_all_iff ts_def)
qed

section \<open>Conflicts\<close>

lemma partition_first: "c \<notin> set a \<Longrightarrow> partition_on (c # cs) (a @ (c # cs) @ b) = (a, Some b)"
  by (induction a) (auto simp: startswith_def)

lemma partition_none: "c \<notin> set a \<Longrightarrow> partition_on (c # cs) a = (a, None)"
  by (induction a) (auto simp: startswith_def)

lemma split_join:
  assumes "\<forall>x\<in>set xs. c \<notin> set x" "xs \<noteq> []"
  shows "split_text (c # cs) (join (c # cs) xs) = xs"
  using assms
proof (induction xs rule: induct_list012)
  case (2 x)
  then show ?case by (subst split_text.simps) (simp add: partition_none)
next
  case (3 x y zs)
  then show ?case
    using partition_first [of c x cs "join (c # cs) (y # zs)"]
    by (subst split_text.simps) simp
qed simp

lemma join_Nil_iff: "xs \<noteq> [] \<Longrightarrow> [] \<notin> set xs \<Longrightarrow> join sep xs \<noteq> []"
  by (cases xs rule: remdups_adj.cases) auto

lemma overlap_read_back:
  assumes "CHR '':'' \<notin> set other" "paths \<noteq> []" "\<forall>p\<in>set paths. p \<noteq> [] \<and> CHR '','' \<notin> set p"
  shows "\<exists>b. overlap_conflict k r e (''overlaps queued task '' @ other @ '': '' @ join '', '' paths) = Some b \<and>
    bk_conflicting_task_id b = Some other \<and> bk_overlapping_paths b = paths"
proof -
  have "partition_on '': '' (''overlaps queued task '' @ other @ '': '' @ join '', '' paths) =
      (''overlaps queued task '' @ other, Some (join '', '' paths))"
    using partition_first [of "CHR '':''" "''overlaps queued task '' @ other" "'' ''"
        "join '', '' paths"] assms(1) by simp
  moreover have "split_text '', '' (join '', '' paths) = paths"
    using assms by (intro split_join) auto
  moreover have "join '', '' paths \<noteq> []" using assms by (intro join_Nil_iff) auto
  ultimately show ?thesis
    by (auto simp: overlap_conflict_def overlap_prefix_def or_empty_def removeprefix_def startswith_def)
qed

lemma mapM_member:
  "mapM f xs s = (Inr ys, t) \<Longrightarrow> y \<in> set ys \<Longrightarrow> \<exists>x\<in>set xs. \<exists>s1 s2. f x s1 = (Inr y, s2)"
  by (induction xs arbitrary: s ys) (simp, simp add: inr_eqs, metis (no_types, lifting) set_ConsD)

lemma queue_entry_Inr: "queue_entry_of k s = (Inr v, t) \<longleftrightarrow>
   get_delegation_task k (sy_store s) \<noteq> None \<and>
   v = last_opt (queue_of (get_delegation_records k T_promotion_queue (sy_store s))) \<and> t = s"
  by (auto simp: queue_entry_of_def inr_eqs get_records_Inr)

definition queued :: "mem_store \<Rightarrow> queue_entry \<Rightarrow> bool" where
  "queued S e \<longleftrightarrow> (\<exists>t\<in>set (list_delegation_tasks S).
     last_opt (queue_of (get_delegation_records (dt_task_id t) T_promotion_queue S)) = Some e)"

lemma queue_list_Inr:
  assumes "queue_list s = (Inr es, t)" "e \<in> set es"
  shows "queued (sy_store s) e"
proof -
  obtain vs where vs: "mapM (\<lambda>t. queue_entry_of (dt_task_id t)) (list_delegation_tasks (sy_store s)) s =
      (Inr vs, t)" and "Some e \<in> set vs"
    using assms by (auto simp: queue_list_def inr_eqs list_tasks_def map_filter_def)
  have "mapM (\<lambda>t. queue_entry_of (dt_task_id t)) xs s = (Inr vs, t) \<Longrightarrow> Some e \<in> set vs \<Longrightarrow>
      \<exists>x\<in>set xs. queue_entry_of (dt_task_id x) s = (Inr (Some e), s)" for xs
    by (induction xs arbitrary: vs) (auto simp: inr_eqs queue_entry_Inr)
  from this [OF vs \<open>Some e \<in> set vs\<close>] show ?thesis by (auto simp: queued_def queue_entry_Inr)
qed

definition overlapping :: "string list \<Rightarrow> queue_entry \<Rightarrow> string list" where
  "overlapping files e =
     sorted_set (filter (\<lambda>l. \<exists>r\<in>set (qe_changed_files e). queue_overlap l r) files)"

lemma git_run_store: "git_run E g s = (r, t) \<Longrightarrow> sy_store t = sy_store s"
  by (auto simp: git_run_def split: prod.splits)

lemma overlap_step:
  "(if P then retM [] else bindM g (\<lambda>w. if Q w then retM [] else retM (if R then [msg] else []))) s =
     (Inr l, t) \<Longrightarrow> m \<in> set l \<Longrightarrow> \<not> P \<and> R \<and> m = msg"
  by (auto simp: inr_eqs split: if_splits)

lemma overlap_message:
  assumes "queue_blockers E k base_commit files s = (Inr ms, s')" "m \<in> set ms"
    "startswith m ''overlaps queued task ''"
  shows "\<exists>e. queued (sy_store s) e \<and> qe_task_id e \<noteq> k \<and> overlapping files e \<noteq> [] \<and>
    m = ''overlaps queued task '' @ qe_task_id e @ '': '' @ join '', '' (overlapping files e)"
proof -
  let ?f = "\<lambda>repository e. if qe_task_id e = k \<or> qe_status e \<notin> {Q_pending, Q_blocked} then retM []
    else bindM (get_workspace (qe_task_id e)) (\<lambda>other_workspace.
      if ri_canonical_path (ws_repository other_workspace) \<noteq> repository then retM []
      else retM (if overlapping files e \<noteq> []
                 then [''overlaps queued task '' @ qe_task_id e @ '': '' @
                       join '', '' (overlapping files e)] else []))"
  from assms(1) obtain repository head es lists s1 s2 where
    es: "queue_list s1 = (Inr es, s2)" and s1: "sy_store s1 = sy_store s" and
    lists: "mapM (?f repository) es s2 = (Inr lists, s')" and
    ms: "ms = (if head \<noteq> base_commit then [''canonical HEAD diverged: expected '' @ base_commit @
      '', found '' @ head] else []) @ concat lists"
    unfolding queue_blockers_def Let_def inr_eqs require_Inr retM_Inr overlapping_def [symmetric]
    by (elim exE conjE) (auto dest!: get_workspace_Inr git_run_store)
  have "\<not> startswith (''canonical HEAD diverged: expected '' @ x) ''overlaps queued task ''" for x
    by (simp add: startswith_def)
  with assms(2,3) ms obtain l where "l \<in> set lists" "m \<in> set l" by (auto split: if_splits)
  with mapM_member [OF lists this(1)] obtain e s3 s4 where
    "e \<in> set es" "?f repository e s3 = (Inr l, s4)" by blast
  from overlap_step [OF this(2) \<open>m \<in> set l\<close>] queue_list_Inr [OF es this(1)] s1
  show ?thesis by metis
qed

text \<open>A path with a comma and a space in it is read back as two paths\<close>

lemma comma_path_is_split:
  assumes "CHR '':'' \<notin> set other" and "a \<noteq> []" and "b \<noteq> []" and "CHR '','' \<notin> set a" and "CHR '','' \<notin> set b"
  shows "\<exists>c. overlap_conflict k r e (''overlaps queued task '' @ other @ '': '' @
      join '', '' [a @ '', '' @ b]) = Some c \<and> bk_overlapping_paths c = [a, b]"
  using overlap_read_back [of other "[a, b]" k r e] assms by auto

text \<open>Each overlap that the queue reports in words is read back by the conflict report as it was
  meant: the identifier of the queued task and the very paths of this task that overlap with it,
  as long as identifiers hold no colon and paths no comma.\<close>

theorem conflicts_read_the_queue:
  assumes "queue_blockers E k base_commit files s = (Inr ms, s')" and "m \<in> set ms"
    and "startswith m ''overlaps queued task ''"
    and "\<forall>p\<in>set files. p \<noteq> [] \<and> CHR '','' \<notin> set p"
    and "\<forall>e. queued (sy_store s) e \<longrightarrow> CHR '':'' \<notin> set (qe_task_id e)"
  shows "\<exists>b e. overlap_conflict k r entry m = Some b \<and> queued (sy_store s) e \<and> qe_task_id e \<noteq> k \<and>
    bk_conflicting_task_id b = Some (qe_task_id e) \<and>
    bk_overlapping_paths b = sorted_set (filter (\<lambda>l. \<exists>x\<in>set (qe_changed_files e). queue_overlap l x) files)"
proof -
  obtain e where e: "queued (sy_store s) e" "qe_task_id e \<noteq> k" "overlapping files e \<noteq> []"
      "m = ''overlaps queued task '' @ qe_task_id e @ '': '' @ join '', '' (overlapping files e)"
    using overlap_message [OF assms(1-3)] by blast
  have "\<forall>p\<in>set (overlapping files e). p \<noteq> [] \<and> CHR '','' \<notin> set p"
    using assms(4) by (simp add: overlapping_def)
  then obtain b where "overlap_conflict k r entry m = Some b"
      "bk_conflicting_task_id b = Some (qe_task_id e)" "bk_overlapping_paths b = overlapping files e"
    unfolding e(4) using overlap_read_back [OF _ e(3), of "qe_task_id e" k r entry] e(1) assms(5)
    by blast
  with e(1,2) show ?thesis unfolding overlapping_def by blast
qed

section \<open>Witnesses\<close>

lemma ran: "(case fst p of Inr x \<Rightarrow> P x | Inl e \<Rightarrow> False) \<Longrightarrow> \<exists>x t. p = (Inr x, t) \<and> P x"
  by (cases p) (auto split: sum.splits)

lemma demo_ready: "case fst (summarize demo_env ''task_5'' None demo_reviewing) of
    Inr sm \<Rightarrow> sm_acceptance_ready sm \<and> sm_result_revision sm = 1 | Inl e \<Rightarrow> False"
  by code_simp

text \<open>A draft with two variants, and a registered executor\<close>

definition view_start :: sys where
  "view_start = \<lparr>sy_store = set_executor_profile ''me'' demo_profile
     (set_delegation_task ''task_5''
       (demo_task\<lparr>dt_status := D_draft, dt_workspace_id := None, dt_latest_result_revision := 0,
                  dt_accepted_result_revision := None\<rparr>) empty_store),
     sy_fs = demo_fs, sy_tick = 6\<rparr>"

definition view_variants :: "variant list" where
  "view_variants = [\<lparr>va_name = ''b'', va_prompt_supplement = ''x''\<rparr>,
     \<lparr>va_name = ''a'', va_prompt_supplement = []\<rparr>]"

definition view_compared :: sys where
  "view_compared = snd (create_variants demo_env ''task_5'' view_variants view_start)"

lemma demo_variants: "case fst (create_variants demo_env ''task_5'' view_variants view_start) of
    Inr ts \<Rightarrow> map dt_task_id ts = [''task_7'', ''task_10''] | Inl e \<Rightarrow> False"
  by code_simp

lemma demo_compare: "case fst (compare demo_env ''comparison_6'' view_compared) of
    Inr r \<Rightarrow> map ci_variant_name (cp_variants r) = [''a'', ''b''] \<and> cp_base_commit r = ''c0''
  | Inl e \<Rightarrow> False"
  by code_simp

lemma demo_pool: "case fst (pool_executors demo_env view_compared) of
    Inr es \<Rightarrow> map pe_task_ids es = [[''task_10'', ''task_5'', ''task_7'']] | Inl e \<Rightarrow> False"
  by code_simp


text \<open>A second task beside the queued one\<close>

definition view_rival :: sys where
  "view_rival = snd (append_record ''task_9'' T_workspaces
     (RWorkspace (demo_workspace\<lparr>ws_workspace_id := ''workspace_9'', ws_task_id := ''task_9''\<rparr>))
     (demo_queued\<lparr>sy_store := set_delegation_task ''task_9'' (demo_task\<lparr>dt_task_id := ''task_9''\<rparr>)
       (sy_store demo_queued)\<rparr>))"

definition view_message :: string where
  "view_message = ''overlaps queued task task_5: src, src/a''"

lemma demo_rival:
  "case fst (queue_blockers demo_env ''task_9'' ''c0'' [''src/a'', ''lib'', ''src''] view_rival) of
     Inr ms \<Rightarrow> ms = [view_message] | Inl e \<Rightarrow> False"
  "map (\<lambda>t. map_option qe_task_id (last_opt (queue_of
     (get_delegation_records (dt_task_id t) T_promotion_queue (sy_store view_rival)))))
     (list_delegation_tasks (sy_store view_rival)) = [Some ''task_5'', None]"
  by code_simp+

lemma demo_rival_queued: "queued (sy_store view_rival) e \<Longrightarrow> qe_task_id e = ''task_5''"
proof -
  assume "queued (sy_store view_rival) e"
  then have "Some (qe_task_id e) \<in> set (map (\<lambda>t. map_option qe_task_id (last_opt (queue_of
     (get_delegation_records (dt_task_id t) T_promotion_queue (sy_store view_rival)))))
     (list_delegation_tasks (sy_store view_rival)))"
    unfolding queued_def by force
  then show ?thesis unfolding demo_rival by simp
qed

theorem timeline_is_complete_witness:
  "\<exists>items. timeline ''task_5'' view_start = (Inr items, view_start) \<and>
    sorted (map item_time items) \<and>
    mset (map ti_data items) =
      mset (map Of_event (get_delegation_events ''task_5'' (sy_store view_start))) +
      mset (map Of_record (concat
        (map (\<lambda>ty. get_delegation_records ''task_5'' ty (sy_store view_start)) RECORD_TYPES)))"
  by (rule timeline_is_complete) (simp add: view_start_def)

theorem pool_lists_open_tasks_witness:
  "\<exists>es s'. pool_executors demo_env view_compared = (Inr es, s') \<and>
    map pe_task_ids es = [[''task_10'', ''task_5'', ''task_7'']] \<and>
    list_all (\<lambda>e. sorted (pe_task_ids e) \<and> pe_active_tasks e = length (pe_task_ids e)) es"
proof -
  from ran [OF demo_pool] obtain es s' where
    es: "pool_executors demo_env view_compared = (Inr es, s')"
      "map pe_task_ids es = [[''task_10'', ''task_5'', ''task_7'']]" by (elim exE conjE)
  with pool_lists_open_tasks [OF es(1)] show ?thesis by (auto simp: list_all_iff)
qed

theorem variants_share_their_source_witness:
  "\<exists>ts s'. create_variants demo_env ''task_5'' view_variants view_start = (Inr ts, s') \<and>
    map dt_task_id ts = [''task_7'', ''task_10''] \<and>
    (\<exists>source c. get_delegation_task ''task_5'' (sy_store view_start) = Some source \<and>
      ts = map (\<lambda>(v, i). source\<lparr>dt_task_id := i, dt_comparison_id := Some c,
        dt_variant_name := Some (va_name v), dt_prompt_supplement := Some (va_prompt_supplement v)\<rparr>)
          (zip view_variants [''task_7'', ''task_10'']))"
proof -
  from ran [OF demo_variants] obtain ts s' where
    ts: "create_variants demo_env ''task_5'' view_variants view_start = (Inr ts, s')"
      "map dt_task_id ts = [''task_7'', ''task_10'']" by (elim exE conjE)
  from variants_share_their_source [OF ts(1)] ts show ?thesis by (metis (no_types, lifting))
qed

theorem dashboard_offers_refused_reject_witness:
  "''reject'' \<in> set (dashboard_actions D_promotion_failed None) \<and>
   reject demo_env ''task_5'' ''dev'' []
     (view_start\<lparr>sy_store := set_delegation_task ''task_5'' (demo_task\<lparr>dt_status := D_promotion_failed\<rparr>)
        empty_store\<rparr>) =
     (Inl (Exc ReviewError ''Delegation task is not awaiting review''),
      view_start\<lparr>sy_store := set_delegation_task ''task_5'' (demo_task\<lparr>dt_status := D_promotion_failed\<rparr>)
        empty_store\<rparr>)"
  using dashboard_offers_refused_reject [of "''task_5''" "view_start\<lparr>sy_store := set_delegation_task
    ''task_5'' (demo_task\<lparr>dt_status := D_promotion_failed\<rparr>) empty_store\<rparr>"
    "demo_task\<lparr>dt_status := D_promotion_failed\<rparr>" None demo_env "''dev''" "[]"] by simp

theorem api_worker_availability_differs_witness:
  "pool_availability demo_env (demo_profile\<lparr>xp_harness := H_api_worker\<rparr>)
     (view_start\<lparr>sy_store := set_executor_profile ''me'' (demo_profile\<lparr>xp_harness := H_api_worker\<rparr>)
        empty_store\<rparr>) =
   (Inr (False, ''Unsupported executor harness: api_worker''),
     view_start\<lparr>sy_store := set_executor_profile ''me'' (demo_profile\<lparr>xp_harness := H_api_worker\<rparr>)
        empty_store\<rparr>)"
  using api_worker_availability_differs [of "''me''" "view_start\<lparr>sy_store := set_executor_profile ''me''
    (demo_profile\<lparr>xp_harness := H_api_worker\<rparr>) empty_store\<rparr>"] 
  by (simp add: get_executor_profile_def set_executor_profile_def)

theorem ready_is_checked_witness:
  "\<exists>sm s' t r w. summarize demo_env ''task_5'' None demo_reviewing = (Inr sm, s') \<and>
    sm_acceptance_ready sm \<and> sm_result_revision sm = 1 \<and>
    vetted demo_env demo_reviewing ''task_5'' t r w \<and> dt_status t = D_reviewing \<and> rs_revision r = 1"
proof -
  from ran [OF demo_ready] obtain sm s' where
    sm: "summarize demo_env ''task_5'' None demo_reviewing = (Inr sm, s')"
      "sm_acceptance_ready sm" "sm_result_revision sm = 1" by blast
  from ready_is_checked [OF sm(1)] sm show ?thesis by (metis (no_types, lifting))
qed

theorem comparison_has_one_base_witness:
  "\<exists>r s'. compare demo_env ''comparison_6'' view_compared = (Inr r, s') \<and>
    map ci_variant_name (cp_variants r) = [''a'', ''b''] \<and>
    list_all (\<lambda>i. ci_base_commit i = ''c0'') (cp_variants r)"
proof -
  from ran [OF demo_compare] obtain r s' where
    r: "compare demo_env ''comparison_6'' view_compared = (Inr r, s')"
      "map ci_variant_name (cp_variants r) = [''a'', ''b'']" "cp_base_commit r = ''c0''" by (elim exE conjE)
  with comparison_has_one_base [OF r(1)] show ?thesis by auto
qed

theorem conflicts_read_the_queue_witness:
  "\<exists>b. overlap_conflict ''task_9'' ''/r'' (hd (queue_of demo_queue)) view_message = Some b \<and>
    bk_conflicting_task_id b = Some ''task_5''"
proof -
  from ran [OF demo_rival(1)] obtain s' where
    ms: "queue_blockers demo_env ''task_9'' ''c0'' [''src/a'', ''lib'', ''src''] view_rival =
      (Inr [view_message], s')" by blast
  have ids: "\<forall>e. queued (sy_store view_rival) e \<longrightarrow> CHR '':'' \<notin> set (qe_task_id e)"
    using demo_rival_queued by auto
  from conflicts_read_the_queue [OF ms _ _ _ ids, of view_message "''/r''"
      "hd (queue_of demo_queue)"]
  show ?thesis using demo_rival_queued by (auto simp: view_message_def startswith_def)
qed

end
