(* ===== verification/Json_Values.thy ===== *)
theory Json_Values
  imports Memory_Text
begin

text \<open>
  What Python code does with values of type \<open>Any\<close> that came from JSON or YAML: dictionary
  access with and without a default, truth values, iteration, equality and \<open>int(x)\<close>. An operation
  on a value of the wrong type raises \<open>AttributeError\<close>, \<open>TypeError\<close>, \<open>KeyError\<close> or \<open>ValueError\<close>, as
  the interpreter does. Such operations are pure and may fail: they return a sum.
\<close>

section \<open>Pure computations that may raise\<close>

definition bindE :: "'e + 'a \<Rightarrow> ('a \<Rightarrow> 'e + 'b) \<Rightarrow> 'e + 'b" where
  "bindE r f = (case r of Inl e \<Rightarrow> Inl e | Inr a \<Rightarrow> f a)"

definition checkE :: "bool \<Rightarrow> exc_class \<Rightarrow> string \<Rightarrow> exc + unit" where
  "checkE b c m = (if b then Inr () else Inl (Exc c m))"

primrec mapE :: "('x \<Rightarrow> 'e + 'a) \<Rightarrow> 'x list \<Rightarrow> 'e + 'a list" where
  "mapE f [] = Inr []"
| "mapE f (x # xs) = bindE (f x) (\<lambda>y. bindE (mapE f xs) (\<lambda>ys. Inr (y # ys)))"

text \<open>\<open>any(p(x) for x in xs)\<close>: stops at the first hit\<close>

primrec anyE :: "('x \<Rightarrow> 'e + bool) \<Rightarrow> 'x list \<Rightarrow> 'e + bool" where
  "anyE p [] = Inr False"
| "anyE p (x # xs) = bindE (p x) (\<lambda>b. if b then Inr True else anyE p xs)"

lemma bindE_run [simp]: "bindE (Inr a) f = f a" "bindE (Inl e) f = Inl e"
  by (simp_all add: bindE_def)

lemma bindE_Inr [simp]: "bindE r f = Inr b \<longleftrightarrow> (\<exists>a. r = Inr a \<and> f a = Inr b)"
  by (cases r) simp_all

lemma checkE_Inr [simp]: "checkE b c m = Inr u \<longleftrightarrow> b"
  by (simp add: checkE_def)

lemma checkE_True [simp]: "checkE True c m = Inr ()"
  by (simp add: checkE_def)

lemma mapE_Inr: "mapE f xs = Inr ys \<Longrightarrow> list_all2 (\<lambda>x y. f x = Inr y) xs ys"
  by (induction xs arbitrary: ys) auto

lemma mapE_member: "mapE f xs = Inr ys \<Longrightarrow> y \<in> set ys \<Longrightarrow> \<exists>x\<in>set xs. f x = Inr y"
  by (induction xs arbitrary: ys) auto

section \<open>Types and text of values\<close>

primrec type_name :: "json \<Rightarrow> string" where
  "type_name JNull = ''NoneType''"
| "type_name (JBool b) = ''bool''"
| "type_name (JInt i) = ''int''"
| "type_name (JFloat r) = ''float''"
| "type_name (JStr s) = ''str''"
| "type_name (JList js) = ''list''"
| "type_name (JObj d) = ''dict''"

primrec truth :: "json \<Rightarrow> bool" where
  "truth JNull = False"
| "truth (JBool b) = b"
| "truth (JInt i) = (i \<noteq> 0)"
| "truth (JFloat r) = (r \<noteq> 0)"
| "truth (JStr s) = (s \<noteq> [])"
| "truth (JList js) = (js \<noteq> [])"
| "truth (JObj d) = (d \<noteq> [])"

definition is_str :: "json \<Rightarrow> bool" where
  "is_str v = (case v of JStr s \<Rightarrow> True | _ \<Rightarrow> False)"

definition is_dict :: "json \<Rightarrow> bool" where
  "is_dict v = (case v of JObj d \<Rightarrow> True | _ \<Rightarrow> False)"

definition is_list :: "json \<Rightarrow> bool" where
  "is_list v = (case v of JList js \<Rightarrow> True | _ \<Rightarrow> False)"

text \<open>\<open>isinstance(v, int) and not isinstance(v, bool)\<close>\<close>

definition is_int :: "json \<Rightarrow> bool" where
  "is_int v = (case v of JInt i \<Rightarrow> True | _ \<Rightarrow> False)"

definition is_bool :: "json \<Rightarrow> bool" where
  "is_bool v = (case v of JBool b \<Rightarrow> True | _ \<Rightarrow> False)"

lemma is_dict_iff: "is_dict v \<longleftrightarrow> (\<exists>d. v = JObj d)"
  by (cases v) (auto simp: is_dict_def)

lemma is_str_iff: "is_str v \<longleftrightarrow> (\<exists>s. v = JStr s)"
  by (cases v) (auto simp: is_str_def)

lemma is_list_iff: "is_list v \<longleftrightarrow> (\<exists>js. v = JList js)"
  by (cases v) (auto simp: is_list_def)

text \<open>\<open>repr\<close> of a string without quotes, backslashes and control characters, as in the message
  of a \<open>KeyError\<close> or of a printed list\<close>

definition quoted :: "string \<Rightarrow> string" where
  "quoted s = CHR 0x27 # s @ [CHR 0x27]"

definition show_list :: "string list \<Rightarrow> string" where
  "show_list xs = ''['' @ join '', '' (map quoted xs) @ '']''"

section \<open>Access\<close>

text \<open>\<open>v.get(...)\<close>, \<open>v.items()\<close>: only a dict has them\<close>

definition as_dict :: "json \<Rightarrow> exc + jobj" where
  "as_dict v =
     (case v of JObj d \<Rightarrow> Inr d
      | _ \<Rightarrow> Inl (Exc AttributeError (quoted (type_name v) @ '' object has no attribute 'get'' @ [CHR 0x27])))"

text \<open>\<open>d.get(key, default)\<close>\<close>

definition get_or :: "jobj \<Rightarrow> string \<Rightarrow> json \<Rightarrow> json" where
  "get_or d k v = (case dget d k of None \<Rightarrow> v | Some x \<Rightarrow> x)"

text \<open>\<open>d.get(key)\<close>\<close>

definition get_null :: "jobj \<Rightarrow> string \<Rightarrow> json" where
  "get_null d k = get_or d k JNull"

definition has_key :: "jobj \<Rightarrow> string \<Rightarrow> bool" where
  "has_key d k \<longleftrightarrow> dget d k \<noteq> None"

text \<open>\<open>d[key]\<close>\<close>

definition item :: "jobj \<Rightarrow> string \<Rightarrow> exc + json" where
  "item d k = (case dget d k of None \<Rightarrow> Inl (Exc KeyError (quoted k)) | Some x \<Rightarrow> Inr x)"

text \<open>\<open>v[key]\<close> with a string key\<close>

definition index :: "json \<Rightarrow> string \<Rightarrow> exc + json" where
  "index v k =
     (case v of
        JObj d \<Rightarrow> item d k
      | JList js \<Rightarrow> Inl (Exc TypeError ''list indices must be integers or slices, not str'')
      | JStr s \<Rightarrow> Inl (Exc TypeError ''string indices must be integers, not 'str'')
      | _ \<Rightarrow> Inl (Exc TypeError (quoted (type_name v) @ '' object is not subscriptable'')))"

text \<open>\<open>list(v)\<close>: what a \<open>for\<close> loop runs over\<close>

definition iter :: "json \<Rightarrow> exc + json list" where
  "iter v =
     (case v of
        JList js \<Rightarrow> Inr js
      | JStr s \<Rightarrow> Inr (map (\<lambda>c. JStr [c]) s)
      | JObj d \<Rightarrow> Inr (map (\<lambda>k. JStr k) (keys d))
      | _ \<Rightarrow> Inl (Exc TypeError (quoted (type_name v) @ '' object is not iterable'')))"

text \<open>\<open>set(v)\<close> and membership in a set: dicts and lists cannot be hashed\<close>

definition hashed :: "json \<Rightarrow> exc + json" where
  "hashed v =
     (if is_list v \<or> is_dict v
      then Inl (Exc TypeError (''unhashable type: '' @ quoted (type_name v))) else Inr v)"

definition as_set :: "json \<Rightarrow> exc + json list" where
  "as_set v = bindE (iter v) (mapE hashed)"

text \<open>\<open>s in v\<close> for a string \<open>s\<close>\<close>

definition member :: "string \<Rightarrow> json \<Rightarrow> exc + bool" where
  "member s v =
     (case v of
        JList js \<Rightarrow> Inr (JStr s \<in> set js)
      | JStr t \<Rightarrow> Inr (contains s t)
      | JObj d \<Rightarrow> Inr (has_key d s)
      | _ \<Rightarrow> Inl (Exc TypeError (''argument of type '' @ quoted (type_name v) @
                                '' is not iterable'')))"

section \<open>Equality\<close>

text \<open>Booleans are numbers, and numbers compare by value\<close>

definition number_of :: "json \<Rightarrow> rat option" where
  "number_of v =
     (case v of JBool b \<Rightarrow> Some (if b then 1 else 0) | JInt i \<Rightarrow> Some (of_int i)
      | JFloat r \<Rightarrow> Some r | _ \<Rightarrow> None)"

text \<open>\<open>a == b\<close>: dicts are compared as mappings, in any order of their keys\<close>

fun py_eq :: "json \<Rightarrow> json \<Rightarrow> bool"
  and py_eq_list :: "json list \<Rightarrow> json list \<Rightarrow> bool"
  and py_eq_items :: "jobj \<Rightarrow> jobj \<Rightarrow> bool" where
  "py_eq JNull b = (b = JNull)"
| "py_eq (JBool x) b = (number_of b = number_of (JBool x))"
| "py_eq (JInt x) b = (number_of b = number_of (JInt x))"
| "py_eq (JFloat x) b = (number_of b = number_of (JFloat x))"
| "py_eq (JStr s) b = (b = JStr s)"
| "py_eq (JList xs) b = (case b of JList ys \<Rightarrow> py_eq_list xs ys | _ \<Rightarrow> False)"
| "py_eq (JObj d) b =
     (case b of JObj e \<Rightarrow> length d = length e \<and> py_eq_items d e | _ \<Rightarrow> False)"
| "py_eq_list [] ys = (ys = [])"
| "py_eq_list (x # xs) ys =
     (case ys of [] \<Rightarrow> False | y # ys' \<Rightarrow> py_eq x y \<and> py_eq_list xs ys')"
| "py_eq_items [] e = True"
| "py_eq_items ((k, v) # d) e =
     ((case dget e k of None \<Rightarrow> False | Some w \<Rightarrow> py_eq v w) \<and> py_eq_items d e)"

text \<open>\<open>a == b\<close> of two dicts, and of two optional dicts\<close>

definition dict_eq :: "jobj \<Rightarrow> jobj \<Rightarrow> bool" where
  "dict_eq d e \<longleftrightarrow> length d = length e \<and> py_eq_items d e"

definition opt_dict_eq :: "jobj option \<Rightarrow> jobj option \<Rightarrow> bool" where
  "opt_dict_eq a b =
     (case (a, b) of (None, None) \<Rightarrow> True | (Some d, Some e) \<Rightarrow> dict_eq d e | _ \<Rightarrow> False)"

section \<open>\<open>int(v)\<close> and \<open>str(v)\<close>\<close>

definition int_of_string :: "string \<Rightarrow> int option" where
  "int_of_string s =
     (let t = strip s;
          neg = startswith t ''-'';
          u = (if neg \<or> startswith t ''+'' then drop 1 t else t);
          pieces = split_on CHR ''_'' u in
      if list_all (\<lambda>p. p \<noteq> [] \<and> list_all is_digit p) pieces
      then map_option (\<lambda>n. if neg then - n else n) (parse_int (concat pieces)) else None)"

definition truncate_rat :: "rat \<Rightarrow> int" where
  "truncate_rat r = (if 0 \<le> r then floor r else - floor (- r))"

definition int_of_json :: "json \<Rightarrow> exc + int" where
  "int_of_json v =
     (case v of
        JBool b \<Rightarrow> Inr (if b then 1 else 0)
      | JInt i \<Rightarrow> Inr i
      | JFloat r \<Rightarrow> Inr (truncate_rat r)
      | JStr s \<Rightarrow>
          (case int_of_string s of Some i \<Rightarrow> Inr i
           | None \<Rightarrow> Inl (Exc ValueError
               (''invalid literal for int() with base 10: '' @ quoted s)))
      | _ \<Rightarrow> Inl (Exc TypeError
          (''int() argument must be a string, a bytes-like object or a real number, not '' @
           quoted (type_name v))))"

text \<open>\<open>v >= n\<close> for an integer \<open>n\<close>\<close>

definition at_least :: "json \<Rightarrow> int \<Rightarrow> exc + bool" where
  "at_least v n =
     (case number_of v of
        Some r \<Rightarrow> Inr (of_int n \<le> r)
      | None \<Rightarrow> Inl (Exc TypeError
          (quoted ''>='' @ '' not supported between instances of '' @ quoted (type_name v) @
           '' and '' @ quoted ''int'')))"

text \<open>\<open>str(v)\<close> of a scalar; lists and dicts print as nested \<open>repr\<close>\<close>

fun py_show :: "(rat \<Rightarrow> string) \<Rightarrow> bool \<Rightarrow> json \<Rightarrow> string"
  and py_shows :: "(rat \<Rightarrow> string) \<Rightarrow> json list \<Rightarrow> string list"
  and py_pairs :: "(rat \<Rightarrow> string) \<Rightarrow> jobj \<Rightarrow> string list" where
  "py_show fl q (JStr s) = (if q then quoted s else s)"
| "py_show fl q JNull = ''None''"
| "py_show fl q (JBool b) = (if b then ''True'' else ''False'')"
| "py_show fl q (JInt i) = show_int i"
| "py_show fl q (JFloat r) = fl r"
| "py_show fl q (JList js) = ''['' @ join '', '' (py_shows fl js) @ '']''"
| "py_show fl q (JObj d) = ''{'' @ join '', '' (py_pairs fl d) @ ''}''"
| "py_shows fl [] = []"
| "py_shows fl (j # js) = py_show fl True j # py_shows fl js"
| "py_pairs fl [] = []"
| "py_pairs fl ((k, v) # d) = (quoted k @ '': '' @ py_show fl True v) # py_pairs fl d"

definition py_str :: "(rat \<Rightarrow> string) \<Rightarrow> json \<Rightarrow> string" where
  "py_str fl v = py_show fl False v"

section \<open>\<open>json.dumps\<close> with its options\<close>

text \<open>The separators after an item and after a key, and whether keys are sorted\<close>

fun json_text :: "(rat \<Rightarrow> string) \<Rightarrow> string \<times> string \<Rightarrow> bool \<Rightarrow> json \<Rightarrow> string"
  and json_texts :: "(rat \<Rightarrow> string) \<Rightarrow> string \<times> string \<Rightarrow> bool \<Rightarrow> json list \<Rightarrow> string list"
  and json_items :: "(rat \<Rightarrow> string) \<Rightarrow> string \<times> string \<Rightarrow> bool \<Rightarrow> jobj \<Rightarrow> (string \<times> string) list"
where
  "json_text fl sep srt JNull = ''null''"
| "json_text fl sep srt (JBool b) = (if b then ''true'' else ''false'')"
| "json_text fl sep srt (JInt i) = show_int i"
| "json_text fl sep srt (JFloat r) = fl r"
| "json_text fl sep srt (JStr s) = json_string s"
| "json_text fl sep srt (JList js) = ''['' @ join (fst sep) (json_texts fl sep srt js) @ '']''"
| "json_text fl sep srt (JObj d) =
     ''{'' @ join (fst sep) (map snd
        (if srt then sort_key fst (json_items fl sep srt d) else json_items fl sep srt d)) @ ''}''"
| "json_texts fl sep srt [] = []"
| "json_texts fl sep srt (j # js) = json_text fl sep srt j # json_texts fl sep srt js"
| "json_items fl sep srt [] = []"
| "json_items fl sep srt ((k, v) # d) =
     (k, json_string k @ snd sep @ json_text fl sep srt v) # json_items fl sep srt d"

definition spaced :: "string \<times> string" where
  "spaced = ('', '', '': '')"

definition compact :: "string \<times> string" where
  "compact = ('','', '':'')"

end
