(* ===== verification/Job_Policy.thy ===== *)
theory Job_Policy
  imports Json_Values
begin

text \<open>
  \<open>canto/core/policy.py\<close>: which providers may run at all and which need an approval, and
  \<open>canto/core/runner_contract.py\<close>, \<open>canto/core/write_contract.py\<close>: what a provider manifest must
  declare. A provider is the dictionary that YAML gives; nothing is assumed about its shape. The
  host of a URL is what \<open>urllib.parse\<close> finds; its check of a bracketed address is a parameter.
\<close>

section \<open>\<open>urlparse(url).hostname\<close>\<close>

definition scheme_char :: "char \<Rightarrow> bool" where
  "scheme_char c \<longleftrightarrow> is_letter c \<or> is_digit c \<or> c \<in> set ''+-.''"

text \<open>The text after a scheme, if there is one\<close>

definition after_scheme :: "string \<Rightarrow> string" where
  "after_scheme url =
     (case partition_at '':'' url of (before, found, after) \<Rightarrow>
        if found \<and> before \<noteq> [] \<and> is_letter (hd before) \<and> list_all scheme_char before
        then after else url)"

definition clean_url :: "string \<Rightarrow> string" where
  "clean_url s =
     filter (\<lambda>c. c \<notin> {CHR 0x09, CHR 0x0A, CHR 0x0D}) (dropWhile (\<lambda>c. c \<le> CHR '' '') s)"

definition netloc_of :: "string \<Rightarrow> string" where
  "netloc_of s =
     (let rest = after_scheme (clean_url s) in
      if startswith rest ''//'' then takeWhile (\<lambda>c. c \<notin> set ''/?#'') (drop 2 rest) else [])"

definition url_hostname :: "(string \<Rightarrow> bool) \<Rightarrow> string \<Rightarrow> exc + string option" where
  "url_hostname bracketed s =
     (let netloc = netloc_of s;
          lb = CHR ''['' \<in> set netloc; rb = CHR '']'' \<in> set netloc in
      bindE (checkE (lb = rb) ValueError ''Invalid IPv6 URL'') (\<lambda>_.
      bindE (checkE (lb \<longrightarrow> bracketed netloc) ValueError ''Invalid IPv6 URL'') (\<lambda>_.
      let info = last (split_on CHR ''@'' netloc);
          host = (case partition_at ''['' info of (before, found, after) \<Rightarrow>
                    if found then fst (partition_at '']'' after)
                    else fst (partition_at '':'' info));
          (name, percent, zone) = partition_at ''%'' host in
      Inr (if host = [] then None
           else Some (lower name @ (if percent then ''%'' else []) @ zone)))))"

section \<open>Policy\<close>

definition plain_domain :: "string \<Rightarrow> string" where
  "plain_domain s = rstrip_chars ''.'' (lower s)"

definition domain_is_approved :: "string \<Rightarrow> string list \<Rightarrow> bool" where
  "domain_is_approved hostname approved_domains =
     (let h = plain_domain hostname in
      \<exists>d\<in>set approved_domains. h = plain_domain d \<or> endswith h (''.'' @ plain_domain d))"

definition evaluate_policy ::
  "(string \<Rightarrow> bool) \<Rightarrow> jobj \<Rightarrow> jobj \<Rightarrow> policy_rec \<Rightarrow> exc + string list" where
  "evaluate_policy bracketed provider inputs policy =
     bindE (if dget provider ''permissions'' = None then Inr []
            else as_dict (get_null provider ''permissions'')) (\<lambda>permissions.
     bindE (checkE (truth (get_null permissions ''network_read'') \<longrightarrow> py_allow_network policy)
       PolicyDenied ''Provider requires network access, but policy.allow_network is false'') (\<lambda>_.
     bindE (checkE (truth (get_null permissions ''destructive'') \<longrightarrow> py_allow_destructive policy)
       PolicyDenied ''Provider is destructive, but policy.allow_destructive is false'') (\<lambda>_.
     bindE (checkE (truth (get_null permissions ''filesystem_write'') \<longrightarrow>
                    py_allow_filesystem_write policy)
       PolicyDenied ''Provider writes artifacts, but policy.allow_filesystem_write is false'') (\<lambda>_.
     bindE (as_set (get_or provider ''approval_required'' (JList []))) (\<lambda>rules.
     let r1 = (if JStr ''always'' \<in> set rules \<or> JStr ''scaffold_capability'' \<in> set rules
               then [''Provider requires Cantor approval''] else []) in
     bindE (if JStr ''max_depth_greater_than_5'' \<in> set rules
            then bindE (int_of_json (get_or inputs ''max_depth'' (JInt 0))) (\<lambda>depth.
                   Inr (if 5 < depth then [''Crawl depth greater than 5''] else []))
            else Inr []) (\<lambda>r2.
     bindE (if JStr ''network_access_to_non_approved_domain'' \<in> set rules
            then bindE (case get_null inputs ''source_url'' of
                          JStr url \<Rightarrow> url_hostname bracketed url | _ \<Rightarrow> Inr None) (\<lambda>host.
                   Inr (case host of
                          Some h \<Rightarrow>
                            if h \<noteq> [] \<and> \<not> domain_is_approved h (py_approved_domains policy)
                            then [''Network access to non-approved domain '' @ h] else []
                        | None \<Rightarrow> []))
            else Inr []) (\<lambda>r3.
     let r4 = (if truth (get_null permissions ''database_write'')
               then [''Database write access''] else []);
         r5 = (if truth (get_null permissions ''production_access'')
               then [''Production access''] else []) in
     bindE (if py_mode policy = Mode_live
            then bindE (at_least (get_or provider ''risk_level'' (JInt 1)) 2) (\<lambda>b.
                   Inr (if b then [''Live execution with elevated risk''] else []))
            else Inr []) (\<lambda>r6.
     Inr (sorted_set (r1 @ r2 @ r3 @ r4 @ r5 @ r6))))))))))"

section \<open>Runner contract\<close>

definition RUNNER_TYPES :: "string list" where
  "RUNNER_TYPES = [''binary'', ''container'', ''node'', ''python'']"

text \<open>\<open>isinstance(v, str) and v\<close>\<close>

definition full_str :: "json \<Rightarrow> bool" where
  "full_str v = (case v of JStr s \<Rightarrow> s \<noteq> [] | _ \<Rightarrow> False)"

definition validate_runner_contract :: "jobj \<Rightarrow> exc + unit" where
  "validate_runner_contract provider =
     (case get_null provider ''runner'' of
        JNull \<Rightarrow> Inr ()
      | JObj runner \<Rightarrow>
          bindE (hashed (get_null runner ''type'')) (\<lambda>runtime.
          bindE (checkE (runtime \<in> JStr ` set RUNNER_TYPES) RunnerContractError
                   (''runner.type must be one of: '' @ join '', '' RUNNER_TYPES)) (\<lambda>_.
          if runtime \<noteq> JStr ''container''
          then checkE (full_str (get_null runner ''entrypoint'')) RunnerContractError
                 ((case runtime of JStr t \<Rightarrow> t | _ \<Rightarrow> []) @ '' runner requires entrypoint'')
          else bindE (checkE (full_str (get_null runner ''image'')) RunnerContractError
                 ''container runner requires image'') (\<lambda>_.
               checkE (case get_null runner ''command'' of
                         JList cs \<Rightarrow> cs \<noteq> [] \<and> list_all full_str cs | _ \<Rightarrow> False)
                 RunnerContractError ''container runner requires a string command list'')))
      | _ \<Rightarrow> Inl (Exc RunnerContractError ''runner must be a mapping''))"

section \<open>Write contract\<close>

definition RECOVERY_MODES :: "string list" where
  "RECOVERY_MODES = [''rollback'', ''compensate'', ''manual'']"

definition REQUIRED_ARTIFACTS :: "string list" where
  "REQUIRED_ARTIFACTS = [''change_set'', ''recovery'', ''validation'', ''verification'']"

text \<open>\<open>isinstance(v, str) and v in inputs\<close>\<close>

definition names_input :: "json \<Rightarrow> json \<Rightarrow> exc + bool" where
  "names_input v inputs = (case v of JStr s \<Rightarrow> member s inputs | _ \<Rightarrow> Inr False)"

text \<open>\<open>v in outputs\<close> for any hashable \<open>v\<close>\<close>

definition declared_output :: "json \<Rightarrow> json \<Rightarrow> exc + bool" where
  "declared_output outputs v =
     (case v of
        JStr s \<Rightarrow> member s outputs
      | _ \<Rightarrow>
          (case outputs of
             JObj d \<Rightarrow> bindE (hashed v) (\<lambda>_. Inr False)
           | JList js \<Rightarrow> Inr (list_ex (\<lambda>w. py_eq w v) js)
           | JStr t \<Rightarrow> Inl (Exc TypeError
               (quoted ''in <string>'' @ '' requires string as left operand, not '' @ type_name v))
           | _ \<Rightarrow> bindE (member [] outputs) Inr))"

text \<open>\<open>sorted(vs)\<close> of strings or of numbers; other values cannot be compared\<close>

definition sort_values :: "json list \<Rightarrow> exc + json list" where
  "sort_values vs =
     (if length vs \<le> 1 then Inr vs
      else if list_all is_str vs
      then Inr (sort_key (\<lambda>v. case v of JStr s \<Rightarrow> s | _ \<Rightarrow> []) vs)
      else if list_all (\<lambda>v. number_of v \<noteq> None) vs
      then Inr (sort_key (\<lambda>v. case number_of v of Some r \<Rightarrow> r | None \<Rightarrow> 0) vs)
      else Inl (Exc TypeError (quoted ''<'' @ '' not supported between instances'')))"

definition validate_write_contract :: "(rat \<Rightarrow> string) \<Rightarrow> jobj \<Rightarrow> exc + unit" where
  "validate_write_contract fl provider =
     (let fail = (\<lambda>m b. checkE b WriteContractError m) in
      case get_null provider ''write'' of
        JNull \<Rightarrow> Inr ()
      | JObj contract \<Rightarrow>
          bindE (fail ''write providers must declare a runner''
                   (is_dict (get_null provider ''runner''))) (\<lambda>_.
          bindE (case get_null contract ''modes'' of
                   JList ms \<Rightarrow>
                     bindE (mapE hashed ms) (\<lambda>ms. fail ''write.modes must include dry_run and live''
                       (JStr ''dry_run'' \<in> set ms \<and> JStr ''live'' \<in> set ms))
                 | _ \<Rightarrow> fail ''write.modes must include dry_run and live'' False) (\<lambda>_.
          bindE (case get_null contract ''target'' of
                   JObj t \<Rightarrow> bindE (fail ''write.target.scope is required''
                                     (is_str (get_null t ''scope''))) (\<lambda>_. Inr t)
                 | _ \<Rightarrow> Inl (Exc WriteContractError ''write.target.scope is required'')) (\<lambda>target.
          let inputs = get_or provider ''inputs'' (JObj []) in
          bindE (names_input (get_null target ''identity_input'') inputs) (\<lambda>ok.
          bindE (fail ''write.target.identity_input must name a declared provider input'' ok) (\<lambda>_.
          bindE (case get_or contract ''credential_refs'' (JList []) of
                   JList refs \<Rightarrow>
                     anyE (\<lambda>n. case n of
                         JStr s \<Rightarrow> if endswith s ''_ref'' then bindE (member s inputs) (\<lambda>b. Inr (\<not> b))
                                    else Inr True
                       | _ \<Rightarrow> Inr True) refs
                 | _ \<Rightarrow> Inr True) (\<lambda>bad.
          bindE (fail ''write.credential_refs must name declared *_ref inputs'' (\<not> bad)) (\<lambda>_.
          bindE (case get_null contract ''artifacts'' of
                   JObj a \<Rightarrow> Inr a
                 | _ \<Rightarrow> Inl (Exc WriteContractError ''write.artifacts must be a mapping''))
            (\<lambda>artifacts.
          let missing = filter (\<lambda>n. \<not> has_key artifacts n) REQUIRED_ARTIFACTS in
          bindE (fail (''write.artifacts is missing required entries: '' @ show_list missing)
                   (missing = [])) (\<lambda>_.
          bindE (mapE (\<lambda>v. bindE (declared_output (get_or provider ''outputs'' (JObj [])) v)
                              (\<lambda>b. Inr (if b then [] else [v]))) (map snd artifacts)) (\<lambda>vs.
          bindE (if concat vs = [] then Inr ()
                 else bindE (sort_values (concat vs)) (\<lambda>undeclared.
                   fail (''write.artifacts references undeclared outputs: '' @
                         py_str fl (JList undeclared)) False)) (\<lambda>_.
          bindE (case get_null contract ''idempotency'' of
                   JObj i \<Rightarrow> bindE (fail ''write.idempotency.required must be true''
                                     (get_null i ''required'' = JBool True)) (\<lambda>_. Inr i)
                 | _ \<Rightarrow> Inl (Exc WriteContractError ''write.idempotency.required must be true''))
            (\<lambda>idempotency.
          bindE (names_input (get_null idempotency ''input'') inputs) (\<lambda>ok.
          bindE (fail ''write.idempotency.input must name a declared provider input'' ok) (\<lambda>_.
          bindE (case get_null contract ''recovery'' of
                   JObj r \<Rightarrow> bindE (hashed (get_null r ''mode'')) (\<lambda>m.
                                Inr (m \<in> JStr ` set RECOVERY_MODES))
                 | _ \<Rightarrow> Inr False) (\<lambda>ok.
          bindE (fail ''write.recovery.mode must be rollback, compensate, or manual'' ok) (\<lambda>_.
          let permissions = get_or provider ''permissions'' (JObj []) in
          bindE (member ''production_access'' permissions) (\<lambda>b.
          bindE (fail ''write providers must declare permissions.production_access'' b) (\<lambda>_.
          bindE (member ''destructive'' permissions) (\<lambda>b.
          fail ''write providers must declare permissions.destructive'' b)))))))))))))))))))
      | _ \<Rightarrow> Inl (Exc WriteContractError ''write must be a mapping''))"

section \<open>What the contracts guarantee\<close>

text \<open>A host is approved when the labels of an approved domain end the labels of the host\<close>

definition label_suffix :: "string list \<Rightarrow> string list \<Rightarrow> bool" where
  "label_suffix d h \<longleftrightarrow> length d \<le> length h \<and> drop (length h - length d) h = d"

lemma endswith_labels:
  "h = d \<or> endswith h (CHR ''.'' # d) \<longleftrightarrow> label_suffix (split_on CHR ''.'' d) (split_on CHR ''.'' h)"
proof
  assume "h = d \<or> endswith h (CHR ''.'' # d)"
  then consider "h = d" | r where "h = r @ CHR ''.'' # d"
    by (auto simp: endswith_iff)
  then show "label_suffix (split_on CHR ''.'' d) (split_on CHR ''.'' h)"
  proof cases
    case 2
    then have "split_on CHR ''.'' h = split_on CHR ''.'' r @ split_on CHR ''.'' d"
      by (simp add: split_on_parts)
    then show ?thesis by (simp add: label_suffix_def)
  qed (simp add: label_suffix_def)
next
  assume a: "label_suffix (split_on CHR ''.'' d) (split_on CHR ''.'' h)"
  define ls where "ls = take (length (split_on CHR ''.'' h) - length (split_on CHR ''.'' d)) (split_on CHR ''.'' h)"
  have "split_on CHR ''.'' h = ls @ split_on CHR ''.'' d"
    using a unfolding label_suffix_def ls_def by (metis append_take_drop_id)
  then have h: "h = join ''.'' (ls @ split_on CHR ''.'' d)"
    by (metis join_split_on)
  show "h = d \<or> endswith h (CHR ''.'' # d)"
  proof (cases "ls = []")
    case True
    then show ?thesis using h by (simp add: join_split_on)
  next
    case False
    then have "h = join ''.'' ls @ ''.'' @ d"
      using h by (simp add: join_append join_split_on)
    then show ?thesis by (auto simp: endswith_iff)
  qed
qed

end
