(* ===== verification/Selection.thy ===== *)
theory Selection
  imports Delegation Job_Policy
begin

text \<open>
  \<open>canto/core/ai_selection.py\<close>: the composition of selection policies, the estimated cost and the
  score of a model, and \<open>WorkerSelectionService\<close>, which picks the best eligible model and records
  its decision. A \<open>float\<close> is a rational number, so that scores are exact. Of \<open>urlparse\<close> and
  \<open>ipaddress\<close> the text forms of IPv6 are a parameter.
\<close>

section \<open>Words of the literals\<close>

primrec provider_str :: "ai_provider \<Rightarrow> string" where
  "provider_str P_openai = ''openai''"
| "provider_str P_anthropic = ''anthropic''"
| "provider_str P_google = ''google''"
| "provider_str P_openai_compatible = ''openai_compatible''"
| "provider_str P_ollama = ''ollama''"

primrec transport_str :: "transport \<Rightarrow> string" where
  "transport_str T_http = ''http''"
| "transport_str T_cli = ''cli''"

primrec classification_str :: "classification \<Rightarrow> string" where
  "classification_str C_implementation = ''implementation''"
| "classification_str C_advisory = ''advisory''"
| "classification_str C_unavailable = ''unavailable''"
| "classification_str C_unvalidated = ''unvalidated''"

primrec priority_str :: "priority \<Rightarrow> string" where
  "priority_str Pr_economy = ''economy''"
| "priority_str Pr_balanced = ''balanced''"
| "priority_str Pr_quality = ''quality''"
| "priority_str Pr_urgent = ''urgent''"

primrec availability_str :: "availability \<Rightarrow> string" where
  "availability_str A_available = ''available''"
| "availability_str A_missing = ''missing''"
| "availability_str A_endpoint_unreachable = ''endpoint_unreachable''"
| "availability_str A_unknown = ''unknown''"

text \<open>A literal is ordered as the string it is\<close>

lemma provider_str_inj: "provider_str a = provider_str b \<Longrightarrow> a = b"
  by (cases a; cases b) simp_all

lemma transport_str_inj: "transport_str a = transport_str b \<Longrightarrow> a = b"
  by (cases a; cases b) simp_all

instantiation ai_provider :: linorder
begin

definition less_eq_ai_provider :: "ai_provider \<Rightarrow> ai_provider \<Rightarrow> bool" where
  "a \<le> b \<longleftrightarrow> provider_str a \<le> provider_str b"

definition less_ai_provider :: "ai_provider \<Rightarrow> ai_provider \<Rightarrow> bool" where
  "a < b \<longleftrightarrow> provider_str a < provider_str b"

instance
  by standard (auto simp: less_eq_ai_provider_def less_ai_provider_def dest: provider_str_inj)

end

instantiation transport :: linorder
begin

definition less_eq_transport :: "transport \<Rightarrow> transport \<Rightarrow> bool" where
  "a \<le> b \<longleftrightarrow> transport_str a \<le> transport_str b"

definition less_transport :: "transport \<Rightarrow> transport \<Rightarrow> bool" where
  "a < b \<longleftrightarrow> transport_str a < transport_str b"

instance
  by standard (auto simp: less_eq_transport_def less_transport_def dest: transport_str_inj)

end

section \<open>Composition of policies\<close>

definition narrow :: "'a :: linorder list list \<Rightarrow> 'a list" where
  "narrow values =
     (case filter (\<lambda>v. v \<noteq> []) values of
        [] \<Rightarrow> []
      | c # cs \<Rightarrow> sorted_set (filter (\<lambda>x. \<forall>d\<in>set cs. x \<in> set d) c))"

definition minimum :: "'a :: linorder option list \<Rightarrow> 'a option" where
  "minimum vs =
     (case List.map_filter id vs of [] \<Rightarrow> None | x # xs \<Rightarrow> Some (foldl min x xs))"

text \<open>The last list that is not empty\<close>

definition preference :: "'a list list \<Rightarrow> 'a list" where
  "preference values = (case find (\<lambda>v. v \<noteq> []) (rev values) of None \<Rightarrow> [] | Some v \<Rightarrow> v)"

definition compose_budget :: "budget_policy list \<Rightarrow> budget_policy" where
  "compose_budget bs =
     \<lparr>bp_enabled = list_ex bp_enabled bs,
      bp_max_estimated_usd = minimum (map bp_max_estimated_usd bs),
      bp_max_actual_usd = minimum (map bp_max_actual_usd bs),
      bp_max_input_tokens = minimum (map bp_max_input_tokens bs),
      bp_max_output_tokens = minimum (map bp_max_output_tokens bs),
      bp_max_turns = minimum (map bp_max_turns bs),
      bp_max_tool_calls = minimum (map bp_max_tool_calls bs),
      bp_max_wall_seconds = minimum (map bp_max_wall_seconds bs),
      bp_allow_unknown_pricing = list_all bp_allow_unknown_pricing bs\<rparr>"

definition compose_worker_policy :: "selection_policy option list \<Rightarrow> selection_policy" where
  "compose_worker_policy layers =
     (let active = List.map_filter id layers in
      if active = [] then default_policy
      else
        \<lparr>sp_priority = sp_priority (last active),
         sp_allowed_transports = narrow (map sp_allowed_transports active),
         sp_allowed_endpoints = narrow (map sp_allowed_endpoints active),
         sp_allowed_providers = narrow (map sp_allowed_providers active),
         sp_allowed_models = narrow (map sp_allowed_models active),
         sp_preferred_models = preference (map sp_preferred_models active),
         sp_allowed_cli_profile_pools = narrow (map sp_allowed_cli_profile_pools active),
         sp_preferred_cli_profile_pools = preference (map sp_preferred_cli_profile_pools active),
         sp_allowed_cli_profiles = narrow (map sp_allowed_cli_profiles active),
         sp_preferred_cli_profiles = preference (map sp_preferred_cli_profiles active),
         sp_prefer_subscription_cli = list_ex sp_prefer_subscription_cli active,
         sp_api_fallback_requires_approval = list_ex sp_api_fallback_requires_approval active,
         sp_orchestrator_provider =
           Option.bind (find (\<lambda>l. given (sp_orchestrator_provider l)) (rev active))
             sp_orchestrator_provider,
         sp_cloud_allowed = list_all sp_cloud_allowed active,
         sp_cloud_fallback_allowed = list_all sp_cloud_fallback_allowed active,
         sp_local_first = list_ex sp_local_first active,
         sp_required_classification =
           (if list_ex (\<lambda>l. sp_required_classification l = RC_implementation) active
            then RC_implementation else RC_advisory),
         sp_budget = compose_budget (map sp_budget active)\<rparr>)"

section \<open>Endpoints\<close>

text \<open>What the standard library says about bracketed and IPv6 hosts: whether a bracketed host is
  accepted by \<open>urlparse\<close>, and for a host the loopback flag of \<open>IPv6Address\<close> when it is one\<close>

record net_env =
  ne_bracketed :: "string \<Rightarrow> bool"
  ne_ipv6_loopback :: "string \<Rightarrow> bool option"

definition ipv4_octet :: "string \<Rightarrow> int option" where
  "ipv4_octet s =
     (if length s \<le> 3 \<and> (s = ''0'' \<or> take 1 s \<noteq> ''0'')
      then (case parse_int s of Some n \<Rightarrow> if n \<le> 255 then Some n else None | None \<Rightarrow> None)
      else None)"

definition ipv4_loopback :: "string \<Rightarrow> bool option" where
  "ipv4_loopback host =
     (case map ipv4_octet (split_on CHR ''.'' host) of
        [Some a, Some b, Some c, Some d] \<Rightarrow> Some (a = 127)
      | _ \<Rightarrow> None)"

definition endpoint_is_local :: "net_env \<Rightarrow> endpoint_rec \<Rightarrow> exc + bool" where
  "endpoint_is_local N e =
     bindE (url_hostname (ne_bracketed N) (ep_base_url e)) (\<lambda>host.
     Inr (if ep_provider e = P_ollama \<and> given host then
            (case ipv4_loopback (the host) of
               Some b \<Rightarrow> b
             | None \<Rightarrow> (case ne_ipv6_loopback N (the host) of
                          Some b \<Rightarrow> b | None \<Rightarrow> the host = ''localhost''))
          else False))"

section \<open>Scores\<close>

record estimate =
  et_input_tokens :: nat
  et_output_tokens :: nat
  et_minimum_context_tokens :: nat

definition default_estimate :: estimate where
  "default_estimate = \<lparr>et_input_tokens = 8000, et_output_tokens = 4000,
     et_minimum_context_tokens = 16000\<rparr>"

definition estimate_model_cost :: "model_rec \<Rightarrow> estimate \<Rightarrow> rat option" where
  "estimate_model_cost m e =
     (if md_provider m = P_ollama then Some 0
      else
        (case (pr_input_per_million (md_pricing m), pr_output_per_million (md_pricing m)) of
           (Some i, Some out) \<Rightarrow>
             Some ((of_nat (et_input_tokens e) * i + of_nat (et_output_tokens e) * out) / 1000000)
         | _ \<Rightarrow> None))"

definition first_index :: "'a \<Rightarrow> 'a list \<Rightarrow> nat" where
  "first_index x xs = length (takeWhile (\<lambda>y. y \<noteq> x) xs)"

text \<open>Why a model is not eligible, in the order of the checks\<close>

definition rejections ::
  "model_rec \<Rightarrow> endpoint_rec option \<Rightarrow> bool option \<Rightarrow> bool \<Rightarrow> selection_policy \<Rightarrow> estimate \<Rightarrow>
   string list" where
  "rejections m endpoint healthy local policy e =
     (let cost = estimate_model_cost m e; budget = sp_budget policy in
      concat (map (\<lambda>(b, r). if b then [r] else [])
       [(case endpoint of None \<Rightarrow> True | Some x \<Rightarrow> \<not> ep_enabled x,
           ''endpoint is missing or disabled''),
        (healthy = Some False, ''endpoint is currently unhealthy''),
        (\<not> local \<and> \<not> sp_cloud_allowed policy, ''cloud use is not authorized''),
        (sp_allowed_endpoints policy \<noteq> [] \<and> md_endpoint_id m \<notin> set (sp_allowed_endpoints policy),
           ''endpoint is not allowed''),
        (sp_allowed_providers policy \<noteq> [] \<and> md_provider m \<notin> set (sp_allowed_providers policy),
           ''provider is not allowed''),
        (sp_allowed_models policy \<noteq> [] \<and> md_model_key m \<notin> set (sp_allowed_models policy),
           ''model is not allowed''),
        (md_provider m = P_ollama \<and> md_availability m \<noteq> A_available,
           ''local model availability is '' @ availability_str (md_availability m)),
        (md_probe_state m = PS_absent, ''coding-worker probe is absent''),
        (md_probe_state m \<noteq> PS_absent \<and> (md_probe_stale m \<or> md_probe_state m = PS_stale),
           ''coding-worker probe is stale''),
        (md_classification m \<noteq> required_as_class (sp_required_classification policy),
           ''requires '' @
             classification_str (required_as_class (sp_required_classification policy)) @
             '' classification; got '' @ classification_str (md_classification m)),
        (case md_context_tokens m of None \<Rightarrow> False
           | Some n \<Rightarrow> n \<noteq> 0 \<and> n < et_minimum_context_tokens e,
           ''context window is below the task estimate''),
        (bp_enabled budget \<and> cost = None \<and> \<not> bp_allow_unknown_pricing budget,
           ''pricing is unknown under an enabled budget''),
        (bp_enabled budget \<and>
           (case (bp_max_estimated_usd budget, cost) of (Some limit, Some c) \<Rightarrow> limit < c | _ \<Rightarrow> False),
           ''estimated cost exceeds task budget'')]))"

definition score_components ::
  "model_rec \<Rightarrow> bool \<Rightarrow> selection_policy \<Rightarrow> estimate \<Rightarrow> rat \<times> rat \<times> rat \<times> rat" where
  "score_components m local policy e =
     (let cost = (case estimate_model_cost m e of None \<Rightarrow> 0 | Some c \<Rightarrow> c);
          context_tokens = (case md_context_tokens m of None \<Rightarrow> et_minimum_context_tokens e
            | Some n \<Rightarrow> if n = 0 then et_minimum_context_tokens e else n) in
      (if md_model_key m \<in> set (sp_preferred_models policy)
       then 10000 - of_nat (first_index (md_model_key m) (sp_preferred_models policy)) else 0,
       if local \<and> sp_local_first policy then 1000 else 0,
       100 / (1 + cost * 100),
       min (of_nat context_tokens / 100000) 10))"

definition score_value :: "priority \<Rightarrow> rat \<times> rat \<times> rat \<times> rat \<Rightarrow> rat" where
  "score_value priority parts =
     (case parts of (preferred, local, cost, capacity) \<Rightarrow>
        (case priority of
           Pr_economy \<Rightarrow> preferred + local + cost * 10 - capacity
         | Pr_quality \<Rightarrow> preferred + local * (1 / 10) + capacity * 100 + cost
         | Pr_urgent \<Rightarrow> preferred + local * (1 / 4) + capacity * 50 + cost
         | Pr_balanced \<Rightarrow> preferred + local * (1 / 2) + cost * 5 + capacity * 20))"

definition component_dict :: "rat \<times> rat \<times> rat \<times> rat \<Rightarrow> (string, rat) dict" where
  "component_dict parts =
     (case parts of (preferred, local, cost, capacity) \<Rightarrow>
        [(''preference'', preferred), (''local'', local), (''cost'', cost), (''capacity'', capacity)])"

definition score_model ::
  "net_env \<Rightarrow> model_rec \<Rightarrow> endpoint_rec option \<Rightarrow> bool option \<Rightarrow> selection_policy \<Rightarrow> estimate \<Rightarrow>
   exc + candidate_score" where
  "score_model N m endpoint healthy policy e =
     bindE (case endpoint of None \<Rightarrow> Inr False | Some x \<Rightarrow> endpoint_is_local N x) (\<lambda>local.
     let rejected = rejections m endpoint healthy local policy e;
         parts = score_components m local policy e in
     Inr \<lparr>cd_model_key = md_model_key m, cd_eligible = (rejected = []),
          cd_rejection_reasons = rejected,
          cd_components = (if rejected = [] then component_dict parts else []),
          cd_estimated_cost_usd = estimate_model_cost m e,
          cd_score = (if rejected = [] then Some (score_value (sp_priority policy) parts)
                      else None)\<rparr>)"

section \<open>The service\<close>

text \<open>The latest health record of each endpoint; of two with one timestamp the first counts\<close>

definition latest_endpoint_health :: "ai_rec list \<Rightarrow> (string, bool) dict" where
  "latest_endpoint_health rs =
     map (\<lambda>(k, v). (k, snd v))
       (foldl (\<lambda>d r. case r of
            AHealth h \<Rightarrow>
              if hl_endpoint_id h = [] then d
              else
                (case dget d (hl_endpoint_id h) of
                   None \<Rightarrow> dset (hl_endpoint_id h) (hl_checked_at h, hl_available h) d
                 | Some current \<Rightarrow>
                     if fst current < hl_checked_at h
                     then dset (hl_endpoint_id h) (hl_checked_at h, hl_available h) d else d)
          | _ \<Rightarrow> d) [] rs)"

text \<open>\<open>eligible.sort(key=lambda item: (-(item.score or 0), item.model_key))\<close>\<close>

definition ranked_candidates :: "candidate_score list \<Rightarrow> candidate_score list" where
  "ranked_candidates cs =
     sort_key (\<lambda>c. (- (case cd_score c of None \<Rightarrow> 0 | Some x \<Rightarrow> x), cd_model_key c))
       (filter cd_eligible cs)"

definition select_model ::
  "env \<Rightarrow> net_env \<Rightarrow> string \<Rightarrow> model_rec list \<Rightarrow> (string, endpoint_rec) dict \<Rightarrow>
   selection_policy \<Rightarrow> estimate option \<Rightarrow> string list option \<Rightarrow> selection_decision run" where
  "select_model E N k models endpoints policy given_estimate snapshot_ids =
     (let e = (case given_estimate of None \<Rightarrow> default_estimate | Some x \<Rightarrow> x) in
      bindM (from_store (\<lambda>t. latest_endpoint_health (list_ai_records ''endpoint_health'' t))) (\<lambda>health.
      bindM (liftM (mapE (\<lambda>m. score_model N m (dget endpoints (md_endpoint_id m))
               (dget health (md_endpoint_id m)) policy e) models)) (\<lambda>candidates.
      let ranking = ranked_candidates candidates;
          selected = (if ranking = [] then None else Some (cd_model_key (hd ranking)));
          reason = (if given selected
            then ''Selected '' @ the selected @ '' as the highest deterministic '' @
                 priority_str (sp_priority policy) @ '' score''
            else ''No model satisfied the composed Worker policy'') in
      bindM (fresh E ''selection_'') (\<lambda>decision_id.
      bindM (utc_now E) (\<lambda>created_at.
      let decision = \<lparr>sd_decision_id = decision_id, sd_task_id = k, sd_policy = policy,
            sd_catalog_snapshot_ids = (case snapshot_ids of None \<Rightarrow> [] | Some ids \<Rightarrow> ids),
            sd_candidates = candidates, sd_selected_model_key = selected, sd_reason = reason,
            sd_created_at = created_at\<rparr> in
      thenM (on_store (set_ai_record ''selection'' decision_id (ASelection decision)))
        (retM decision))))))"

definition explain_selection :: "string \<Rightarrow> selection_decision run" where
  "explain_selection decision_id =
     bindM (from_store (get_ai_record ''selection'' decision_id)) (\<lambda>v.
     case v of
       Some (ASelection d) \<Rightarrow> retM d
     | _ \<Rightarrow> raise SelectionError (''Worker selection not found: '' @ decision_id))"

end
