(* ===== verification/Selection_Properties.thy ===== *)
theory Selection_Properties
  imports Selection "HOL-Library.Multiset"
begin

text \<open>
  Properties of the selection of models: the selected model satisfies every rule of the policy and
  has the best score, the order of the catalog does not matter, and composing policies keeps every
  bound except where two lists exclude each other.
\<close>

section \<open>The selected model\<close>

lemma score_model_Inr:
  "score_model N m ep h p e = Inr c \<Longrightarrow> cd_model_key c = md_model_key m \<and>
     (\<exists>local. (case ep of None \<Rightarrow> Inr False | Some x \<Rightarrow> endpoint_is_local N x) = Inr local \<and>
        (cd_eligible c \<longleftrightarrow> rejections m ep h local p e = []))"
  by (auto simp: score_model_def Let_def)

lemma rejections_Nil:
  "rejections m ep h local p e = [] \<longleftrightarrow>
     (\<exists>x. ep = Some x \<and> ep_enabled x) \<and> h \<noteq> Some False \<and> (local \<or> sp_cloud_allowed p) \<and>
     (sp_allowed_endpoints p = [] \<or> md_endpoint_id m \<in> set (sp_allowed_endpoints p)) \<and>
     (sp_allowed_providers p = [] \<or> md_provider m \<in> set (sp_allowed_providers p)) \<and>
     (sp_allowed_models p = [] \<or> md_model_key m \<in> set (sp_allowed_models p)) \<and>
     (md_provider m = P_ollama \<longrightarrow> md_availability m = A_available) \<and>
     md_probe_state m = PS_current \<and> \<not> md_probe_stale m \<and>
     md_classification m = required_as_class (sp_required_classification p) \<and>
     (case md_context_tokens m of None \<Rightarrow> True
        | Some n \<Rightarrow> n = 0 \<or> et_minimum_context_tokens e \<le> n) \<and>
     (bp_enabled (sp_budget p) \<longrightarrow>
        (case estimate_model_cost m e of
           None \<Rightarrow> bp_allow_unknown_pricing (sp_budget p)
         | Some c \<Rightarrow> (case bp_max_estimated_usd (sp_budget p) of None \<Rightarrow> True | Some l \<Rightarrow> c \<le> l)))"
  by (cases "md_probe_state m")
    (auto simp: rejections_def Let_def not_le split: option.splits)

lemma set_ranked_candidates: "set (ranked_candidates cs) = {c \<in> set cs. cd_eligible c}"
  by (simp add: ranked_candidates_def)

definition score_of :: "candidate_score \<Rightarrow> rat" where
  "score_of c = (case cd_score c of None \<Rightarrow> 0 | Some x \<Rightarrow> x)"

lemma ranked_first:
  assumes "ranked_candidates cs = c # rest" "d \<in> set cs" "cd_eligible d"
  shows "score_of d \<le> score_of c"
proof -
  have "sorted (map (\<lambda>c. (- score_of c, cd_model_key c)) (c # rest))"
    using assms(1) unfolding ranked_candidates_def score_of_def [symmetric] by (metis sorted_sort_key)
  moreover have "d \<in> set (c # rest)"
    using assms set_ranked_candidates [of cs] by auto
  ultimately show ?thesis by (auto simp: less_eq_prod_def)
qed

lemma select_model_Inr:
  assumes "select_model E N k models endpoints p ge ids s = (Inr d, s')"
  obtains health where "health = latest_endpoint_health (list_ai_records ''endpoint_health'' (sy_store s))"
    "mapE (\<lambda>m. score_model N m (dget endpoints (md_endpoint_id m)) (dget health (md_endpoint_id m)) p
       (case ge of None \<Rightarrow> default_estimate | Some x \<Rightarrow> x)) models = Inr (sd_candidates d)"
    "sd_selected_model_key d = (if ranked_candidates (sd_candidates d) = [] then None
       else Some (cd_model_key (hd (ranked_candidates (sd_candidates d)))))"
  using assms by (auto simp: select_model_def inr_eqs Let_def)

text \<open>C33: A selected model is one of the catalog, its endpoint is enabled and not unhealthy, it is
  local or cloud use is allowed, it is in the lists of endpoints, providers and models of the policy
  that are not empty, it has the required classification, a current probe, a context window that is
  unknown or large enough and a cost within the budget, a local model is available, and no eligible
  candidate has a better score. The transports of the policy play no part in the selection.\<close>

theorem selected_model_obeys_policy:
  assumes "select_model E N k models endpoints p (Some e) ids s = (Inr d, s')"
    and "sd_selected_model_key d = Some key"
  shows "\<exists>m\<in>set models. \<exists>x local. md_model_key m = key \<and>
    dget endpoints (md_endpoint_id m) = Some x \<and> ep_enabled x \<and>
    dget (latest_endpoint_health (list_ai_records ''endpoint_health'' (sy_store s)))
      (md_endpoint_id m) \<noteq> Some False \<and>
    endpoint_is_local N x = Inr local \<and> (local \<or> sp_cloud_allowed p) \<and>
    (sp_allowed_endpoints p = [] \<or> md_endpoint_id m \<in> set (sp_allowed_endpoints p)) \<and>
    (sp_allowed_providers p = [] \<or> md_provider m \<in> set (sp_allowed_providers p)) \<and>
    (sp_allowed_models p = [] \<or> key \<in> set (sp_allowed_models p)) \<and>
    md_classification m = required_as_class (sp_required_classification p) \<and>
    (md_provider m = P_ollama \<longrightarrow> md_availability m = A_available) \<and>
    md_probe_state m = PS_current \<and> \<not> md_probe_stale m \<and>
    (case md_context_tokens m of None \<Rightarrow> True
       | Some n \<Rightarrow> n = 0 \<or> et_minimum_context_tokens e \<le> n) \<and>
    (bp_enabled (sp_budget p) \<longrightarrow>
       (case estimate_model_cost m e of
          None \<Rightarrow> bp_allow_unknown_pricing (sp_budget p)
        | Some c \<Rightarrow> (case bp_max_estimated_usd (sp_budget p) of None \<Rightarrow> True | Some l \<Rightarrow> c \<le> l))) \<and>
    (\<exists>best\<in>set (sd_candidates d). cd_model_key best = key \<and>
       (\<forall>c\<in>set (sd_candidates d). cd_eligible c \<longrightarrow> score_of c \<le> score_of best))"
proof -
  obtain health where
    health: "health = latest_endpoint_health (list_ai_records ''endpoint_health'' (sy_store s))" and
    scored: "mapE (\<lambda>m. score_model N m (dget endpoints (md_endpoint_id m))
      (dget health (md_endpoint_id m)) p e) models = Inr (sd_candidates d)" and
    sel: "sd_selected_model_key d = (if ranked_candidates (sd_candidates d) = [] then None
       else Some (cd_model_key (hd (ranked_candidates (sd_candidates d)))))"
    by (rule select_model_Inr [OF assms(1)]) simp
  from sel assms(2) obtain c rest where ranking: "ranked_candidates (sd_candidates d) = c # rest"
      and key: "cd_model_key c = key"
    by (cases "ranked_candidates (sd_candidates d)") auto
  have c: "c \<in> set (sd_candidates d)" "cd_eligible c"
    using set_ranked_candidates [of "sd_candidates d"] ranking by auto
  from mapE_member [OF scored c(1)] obtain m where m: "m \<in> set models"
      "score_model N m (dget endpoints (md_endpoint_id m)) (dget health (md_endpoint_id m)) p e = Inr c"
    by blast
  from score_model_Inr [OF m(2)] c(2) obtain local where
    local: "(case dget endpoints (md_endpoint_id m) of None \<Rightarrow> Inr False
       | Some x \<Rightarrow> endpoint_is_local N x) = Inr local" and
    ok: "rejections m (dget endpoints (md_endpoint_id m)) (dget health (md_endpoint_id m)) local p e = []"
    and mk: "md_model_key m = key" using key by auto
  from ok obtain x where x: "dget endpoints (md_endpoint_id m) = Some x" "ep_enabled x"
    unfolding rejections_Nil by blast
  have best: "\<exists>best\<in>set (sd_candidates d). cd_model_key best = key \<and>
       (\<forall>c\<in>set (sd_candidates d). cd_eligible c \<longrightarrow> score_of c \<le> score_of best)"
    using c(1) key ranked_first [OF ranking] by blast
  show ?thesis
    by (rule bexI [OF _ m(1)], rule exI [of _ x], rule exI [of _ local])
      (use ok x local mk best in \<open>simp only: rejections_Nil health [symmetric]\<close>, simp)
qed

section \<open>The order of the catalog\<close>

lemma mapE_mset:
  assumes "mapE f xs = Inr ys" "mset xs = mset xs'"
  shows "\<exists>ys'. mapE f xs' = Inr ys' \<and> mset ys' = mset ys"
  using assms
proof (induction xs arbitrary: ys xs')
  case (Cons x xs)
  from Cons.prems(1) obtain y zs where y: "f x = Inr y" "mapE f xs = Inr zs" "ys = y # zs" by auto
  from Cons.prems(2) obtain as bs where xs': "xs' = as @ x # bs" "mset xs = mset (as @ bs)"
    by (metis (no_types, lifting) add_mset_remove_trivial in_multiset_in_set list.set_intros(1)
        mset.simps(2) mset_append set_mset_mset split_list union_mset_add_mset_right)
  from Cons.IH [OF y(2) xs'(2)] obtain us where us: "mapE f (as @ bs) = Inr us" "mset us = mset zs"
    by blast
  have "mapE f (as @ bs) = Inr us \<Longrightarrow> \<exists>vs. mapE f (as @ x # bs) = Inr vs \<and> mset vs = add_mset y (mset us)"
    for as us
    by (induction as arbitrary: us) (use y(1) in force)+
  from this [OF us(1)] us(2) show ?case by (simp add: xs' y)
qed simp

lemma ranked_perm:
  assumes "mset cs = mset ds" "distinct (map cd_model_key cs)"
  shows "ranked_candidates cs = ranked_candidates ds"
proof -
  have "mset (filter cd_eligible cs) = mset (filter cd_eligible ds)" using assms(1) by simp
  moreover have "inj_on cd_model_key (set cs)" using assms(2) by (simp add: distinct_map)
  then have "inj_on (\<lambda>c. (- score_of c, cd_model_key c)) (set (filter cd_eligible cs))"
    by (auto simp: inj_on_def)
  ultimately show ?thesis
    unfolding ranked_candidates_def score_of_def [symmetric]
    by (intro sort_key_inj_key_eq) simp_all
qed

text \<open>C34: The selection does not depend on the order in which the catalog lists its models.\<close>

theorem selection_ignores_order:
  assumes "select_model E N k models endpoints p ge ids s = (Inr d, s')"
    and "mset models = mset models'" and "distinct (map md_model_key models)"
  shows "\<exists>d' s''. select_model E N k models' endpoints p ge ids s = (Inr d', s'') \<and>
    sd_selected_model_key d' = sd_selected_model_key d \<and>
    mset (sd_candidates d') = mset (sd_candidates d)"
proof -
  obtain health where
    health: "health = latest_endpoint_health (list_ai_records ''endpoint_health'' (sy_store s))" and
    scored: "mapE (\<lambda>m. score_model N m (dget endpoints (md_endpoint_id m))
      (dget health (md_endpoint_id m)) p (case ge of None \<Rightarrow> default_estimate | Some x \<Rightarrow> x)) models =
      Inr (sd_candidates d)" and
    sel: "sd_selected_model_key d = (if ranked_candidates (sd_candidates d) = [] then None
       else Some (cd_model_key (hd (ranked_candidates (sd_candidates d)))))"
    by (rule select_model_Inr [OF assms(1)])
  from mapE_mset [OF scored assms(2)] obtain cs where
    cs: "mapE (\<lambda>m. score_model N m (dget endpoints (md_endpoint_id m))
      (dget health (md_endpoint_id m)) p (case ge of None \<Rightarrow> default_estimate | Some x \<Rightarrow> x)) models' =
      Inr cs" "mset cs = mset (sd_candidates d)" by blast
  have "map cd_model_key (sd_candidates d) = map md_model_key models"
    using mapE_Inr [OF scored] by (induction rule: list_all2_induct) (auto dest: score_model_Inr)
  then have same: "ranked_candidates cs = ranked_candidates (sd_candidates d)"
    using ranked_perm [of "sd_candidates d" cs] cs(2) assms(3) by simp
  show ?thesis using cs same sel
    by (auto simp: select_model_def run_eqs Let_def from_store_def on_store_def fresh_def utc_now_def
        tick_def health [symmetric] split: prod.split)
qed

section \<open>Composition\<close>

text \<open>What every layer that restricts a field allows\<close>

definition agreed :: "('p \<Rightarrow> 'a list) \<Rightarrow> 'p option list \<Rightarrow> 'a set" where
  "agreed f layers =
     {x. (\<exists>l. Some l \<in> set layers \<and> f l \<noteq> []) \<and>
         (\<forall>l. Some l \<in> set layers \<and> f l \<noteq> [] \<longrightarrow> x \<in> set (f l))}"

lemma set_narrow: "set (narrow vs) = {x. (\<exists>v\<in>set vs. v \<noteq> []) \<and> (\<forall>v\<in>set vs. v \<noteq> [] \<longrightarrow> x \<in> set v)}"
proof (cases "filter (\<lambda>v. v \<noteq> []) vs")
  case Nil
  then show ?thesis by (auto simp: narrow_def filter_empty_conv)
next
  case (Cons c cs)
  have mem: "v \<in> set (c # cs) \<longleftrightarrow> v \<in> set vs \<and> v \<noteq> []" for v
    by (simp only: Cons [symmetric]) simp
  have "set (narrow vs) = {x. \<forall>v\<in>set (c # cs). x \<in> set v}"
    by (auto simp: narrow_def Cons)
  moreover have "\<exists>v\<in>set vs. v \<noteq> []" using mem [of c] by auto
  ultimately show ?thesis using mem by blast
qed

lemma set_narrow_layers: "set (narrow (map f (List.map_filter id layers))) = agreed f layers"
  unfolding set_narrow agreed_def by (force simp: map_filter_def)

lemma minimum_le: "Some x \<in> set vs \<Longrightarrow> \<exists>y. minimum vs = Some y \<and> y \<le> x"
proof -
  have fold_le: "foldl min a xs \<le> a" "x \<in> set xs \<Longrightarrow> foldl min a xs \<le> x" for a :: 'a and x xs
    by (induction xs arbitrary: a) (auto intro: order_trans [OF _ min.cobounded1] order_trans [OF _ min.cobounded2])
  assume "Some x \<in> set vs"
  then have "x \<in> set (List.map_filter id vs)" by (force simp: map_filter_def)
  then show ?thesis by (auto simp: minimum_def fold_le split: list.splits)
qed

lemma composed:
  "Some l \<in> set layers \<Longrightarrow> l \<in> set (List.map_filter id layers)"
  by (force simp: map_filter_def)

definition at_most :: "'a :: linorder option \<Rightarrow> 'a option \<Rightarrow> bool" where
  "at_most a b \<longleftrightarrow>
     (case b of None \<Rightarrow> True | Some y \<Rightarrow> (case a of None \<Rightarrow> False | Some x \<Rightarrow> x \<le> y))"

lemma at_most_minimum: "v \<in> set vs \<Longrightarrow> at_most (minimum vs) v"
  by (auto simp: at_most_def dest: minimum_le split: option.splits)

text \<open>C35: A composed policy keeps every layer's bound: the budget limits, the cloud permissions, the
  approval and the classification of each layer; and of each kind of list it allows exactly what all
  layers that restrict it have in common, so that a composed list is empty only when no layer
  restricts it or when the lists of the layers exclude each other.\<close>

theorem composition_keeps_bounds:
  assumes "Some l \<in> set layers" and "p = compose_worker_policy layers"
  shows "set (sp_allowed_transports p) = agreed sp_allowed_transports layers \<and>
    set (sp_allowed_endpoints p) = agreed sp_allowed_endpoints layers \<and>
    set (sp_allowed_providers p) = agreed sp_allowed_providers layers \<and>
    set (sp_allowed_models p) = agreed sp_allowed_models layers \<and>
    set (sp_allowed_cli_profile_pools p) = agreed sp_allowed_cli_profile_pools layers \<and>
    set (sp_allowed_cli_profiles p) = agreed sp_allowed_cli_profiles layers \<and>
    (sp_cloud_allowed p \<longrightarrow> sp_cloud_allowed l) \<and>
    (sp_cloud_fallback_allowed p \<longrightarrow> sp_cloud_fallback_allowed l) \<and>
    (sp_api_fallback_requires_approval l \<longrightarrow> sp_api_fallback_requires_approval p) \<and>
    (sp_required_classification l = RC_implementation \<longrightarrow>
       sp_required_classification p = RC_implementation) \<and>
    (bp_enabled (sp_budget l) \<longrightarrow> bp_enabled (sp_budget p)) \<and>
    at_most (bp_max_estimated_usd (sp_budget p)) (bp_max_estimated_usd (sp_budget l)) \<and>
    at_most (bp_max_actual_usd (sp_budget p)) (bp_max_actual_usd (sp_budget l)) \<and>
    at_most (bp_max_input_tokens (sp_budget p)) (bp_max_input_tokens (sp_budget l)) \<and>
    at_most (bp_max_output_tokens (sp_budget p)) (bp_max_output_tokens (sp_budget l)) \<and>
    at_most (bp_max_turns (sp_budget p)) (bp_max_turns (sp_budget l)) \<and>
    at_most (bp_max_tool_calls (sp_budget p)) (bp_max_tool_calls (sp_budget l)) \<and>
    at_most (bp_max_wall_seconds (sp_budget p)) (bp_max_wall_seconds (sp_budget l)) \<and>
    (bp_allow_unknown_pricing (sp_budget p) \<longrightarrow> bp_allow_unknown_pricing (sp_budget l))"
proof -
  let ?active = "List.map_filter id layers"
  have l: "l \<in> set ?active" by (rule composed [OF assms(1)])
  then have "?active \<noteq> []" by auto
  with l show ?thesis unfolding assms(2)
    by (simp add: compose_worker_policy_def compose_budget_def Let_def set_narrow_layers)
      (auto simp: list_ex_iff list_all_iff intro!: at_most_minimum)
qed

text \<open>C36: Where two layers exclude each other, nothing is left of the restriction: the composed list is
  empty, and an empty list allows every model.\<close>

theorem disjoint_layers_lift_restriction:
  assumes "sp_allowed_models a \<noteq> []" and "sp_allowed_models b \<noteq> []"
    and "set (sp_allowed_models a) \<inter> set (sp_allowed_models b) = {}"
  shows "sp_allowed_models (compose_worker_policy [Some a, Some b]) = [] \<and>
    ''model is not allowed'' \<notin>
      set (rejections m ep h local (compose_worker_policy [Some a, Some b]) e)"
proof -
  have "narrow [sp_allowed_models a, sp_allowed_models b] = []"
    using assms by (auto simp: narrow_def filter_empty_conv)
  then have none: "sp_allowed_models (compose_worker_policy [Some a, Some b]) = []"
    by (simp add: compose_worker_policy_def map_filter_def Let_def)
  have "''model is not allowed'' \<notin> set (rejections m ep h local p e)" if "sp_allowed_models p = []" for p
    using that by (cases "md_availability m"; cases "md_classification m";
      cases "sp_required_classification p") (auto simp: rejections_def Let_def)
  with none show ?thesis by blast
qed

section \<open>Witnesses\<close>

definition sel_endpoint :: endpoint_rec where
  "sel_endpoint = \<lparr>ep_endpoint_id = ''e'', ep_provider = P_ollama, ep_base_url = ''http://127.0.0.1:11434'',
     ep_credential_ref = None, ep_enabled = True, ep_validation_status = V_valid,
     ep_validation_detail = [], ep_validated_at = None, ep_capabilities = [],
     ep_configuration = [], ep_created_at = [], ep_updated_at = []\<rparr>"

definition sel_model :: "string \<Rightarrow> nat \<Rightarrow> model_rec" where
  "sel_model key context_tokens = \<lparr>md_model_key = key, md_endpoint_id = ''e'', md_provider = P_ollama,
     md_provider_model_id = key, md_resolved_version = [], md_display_name = None, md_aliases = [],
     md_context_tokens = Some context_tokens, md_max_output_tokens = None, md_capabilities = [],
     md_pricing = \<lparr>pr_currency = ''USD'', pr_input_per_million = None,
       pr_cached_input_per_million = None, pr_output_per_million = None, pr_source = None,
       pr_version = None\<rparr>,
     md_classification = C_implementation, md_probe_version = Some ''1'', md_probe_stale = False,
     md_probe_state = PS_current, md_availability = A_available, md_availability_reason = [],
     md_last_seen_at = None, md_missing_since = None, md_runtime_metadata = [],
     md_metadata_provenance = [], md_catalog_checksum = [], md_discovered_at = [],
     md_updated_at = []\<rparr>"

definition sel_net :: net_env where
  "sel_net = \<lparr>ne_bracketed = (\<lambda>h. True), ne_ipv6_loopback = (\<lambda>h. None)\<rparr>"

definition sel_env :: env where
  "sel_env = \<lparr>e_uuid = (\<lambda>n. show_nat n), e_now = (\<lambda>n. show_nat n),
     e_git = (\<lambda>n c f. (\<lparr>px_code = 0, px_stdout = [], px_stderr = []\<rparr>, f)),
     e_exec = (\<lambda>n argv cwd i f. (Finished \<lparr>px_code = 0, px_stdout = [], px_stderr = []\<rparr>, f)),
     e_which = (\<lambda>f x. None), e_state_root = [], e_sha = (\<lambda>s. s), e_resolve = (\<lambda>f p. p),
     e_dumps = (\<lambda>n j. []), e_float = (\<lambda>r. []), e_loads = (\<lambda>s. None),
     e_shlex = (\<lambda>s. None), e_toml_repo = (\<lambda>s. Inl []),
     e_toml_policy = (\<lambda>s. Inl []), e_toml_workers = (\<lambda>s. Inl [])\<rparr>"

definition sel_start :: sys where
  "sel_start = \<lparr>sy_store = empty_store,
     sy_fs = \<lparr>fs_files = [], fs_dirs = [], fs_links = [], fs_readonly = []\<rparr>, sy_tick = 0\<rparr>"

lemma sel_local: "endpoint_is_local sel_net sel_endpoint = Inr True"
  by code_simp

definition sel_candidate :: "string \<Rightarrow> nat \<Rightarrow> candidate_score" where
  "sel_candidate key n = \<lparr>cd_model_key = key, cd_eligible = True, cd_rejection_reasons = [],
     cd_components = component_dict (0, 1000, 100, of_nat n / 100000),
     cd_estimated_cost_usd = Some 0, cd_score = Some (1000 + of_nat n / 5000)\<rparr>"

lemma sel_scores:
  "16000 \<le> n \<Longrightarrow> n < 100000 \<Longrightarrow>
   score_model sel_net (sel_model key n) (Some sel_endpoint) None default_policy default_estimate =
     Inr (sel_candidate key n)"
  by (simp add: score_model_def sel_local [unfolded sel_endpoint_def] rejections_def
      score_components_def score_value_def sel_candidate_def sel_model_def sel_endpoint_def
      default_policy_def default_budget_def default_estimate_def estimate_model_cost_def Let_def)

lemma sel_ranking:
  "ranked_candidates [sel_candidate ''a'' 32000, sel_candidate ''b'' 64000] =
     [sel_candidate ''b'' 64000, sel_candidate ''a'' 32000]"
  by (simp add: ranked_candidates_def sel_candidate_def)

definition sel_models :: "model_rec list" where
  "sel_models = [sel_model ''a'' 32000, sel_model ''b'' 64000]"

lemma sel_run: "\<exists>d s'. select_model sel_env sel_net ''t'' sel_models [(''e'', sel_endpoint)]
    default_policy (Some default_estimate) None sel_start = (Inr d, s') \<and>
    sd_selected_model_key d = Some ''b''"
  by (simp add: select_model_def sel_models_def run_eqs from_store_def on_store_def fresh_def utc_now_def
      tick_def sel_start_def list_ai_records_def latest_endpoint_health_def empty_store_def Let_def
      sel_model_def [of _ _, THEN arg_cong [where f = md_endpoint_id], simplified] sel_scores
      sel_ranking given_def)
    (simp add: sel_candidate_def)

theorem selected_model_obeys_policy_witness:
  "\<exists>d s'. select_model sel_env sel_net ''t'' sel_models [(''e'', sel_endpoint)]
    default_policy (Some default_estimate) None sel_start = (Inr d, s') \<and>
    sd_selected_model_key d = Some ''b'' \<and>
    (\<exists>m\<in>set sel_models. md_model_key m = ''b'' \<and> md_classification m = C_implementation)"
proof -
  obtain d s' where d: "select_model sel_env sel_net ''t'' sel_models [(''e'', sel_endpoint)]
      default_policy (Some default_estimate) None sel_start = (Inr d, s')"
      "sd_selected_model_key d = Some ''b''" using sel_run by blast
  from selected_model_obeys_policy [OF d] have
    "\<exists>m\<in>set sel_models. md_model_key m = ''b'' \<and>
       md_classification m = required_as_class (sp_required_classification default_policy)" by blast
  with d show ?thesis by (auto simp: default_policy_def)
qed

theorem selection_ignores_order_witness:
  "\<exists>d s'. select_model sel_env sel_net ''t'' (rev sel_models) [(''e'', sel_endpoint)]
    default_policy (Some default_estimate) None sel_start = (Inr d, s') \<and>
    sd_selected_model_key d = Some ''b''"
proof -
  obtain d s' where d: "select_model sel_env sel_net ''t'' sel_models [(''e'', sel_endpoint)]
      default_policy (Some default_estimate) None sel_start = (Inr d, s')"
      "sd_selected_model_key d = Some ''b''" using sel_run by blast
  from selection_ignores_order [OF d(1), of "rev sel_models"] d(2) show ?thesis
    by (auto simp: sel_models_def sel_model_def)
qed

theorem composition_keeps_bounds_witness:
  "sp_cloud_allowed (compose_worker_policy [Some default_policy, None]) = False"
  using composition_keeps_bounds [of default_policy "[Some default_policy, None]"
    "compose_worker_policy [Some default_policy, None]"]
  by (auto simp: default_policy_def)

theorem disjoint_layers_lift_restriction_witness:
  "''model is not allowed'' \<notin> set (rejections (sel_model ''c'' 32000) (Some sel_endpoint) None True
     (compose_worker_policy [Some (default_policy\<lparr>sp_allowed_models := [''a'']\<rparr>),
        Some (default_policy\<lparr>sp_allowed_models := [''b'']\<rparr>)]) default_estimate)"
  using disjoint_layers_lift_restriction [of "default_policy\<lparr>sp_allowed_models := [''a'']\<rparr>"
    "default_policy\<lparr>sp_allowed_models := [''b'']\<rparr>"] by simp

end
