(* ===== verification/Sqlite.thy ===== *)
theory Sqlite
  imports Store
begin

text \<open>
  \<open>SqliteStateStore\<close> of \<open>canto/core/state.py\<close>, at the level of rows: a keyed table is
  a list of rows with a status column beside the value, an event table is a list of rows with
  an \<open>AUTOINCREMENT\<close> sequence number, and the constraints of the schema (primary keys,
  \<open>UNIQUE\<close>, foreign keys) raise \<open>IntegrityError\<close>, upon which the connection's context
  manager rolls the transaction back. The last section proves that this store refines
  \<open>MemoryStateStore\<close>.
\<close>

section \<open>Tables with a status column\<close>

record ('s, 'v) srow =
  row_key :: string
  row_status :: 's
  row_value :: 'v

type_synonym ('s, 'v) stable = "('s, 'v) srow list"

text \<open>\<open>INSERT ... ON CONFLICT(key) DO UPDATE SET status=excluded.status, value=excluded.value\<close>\<close>

definition upsert :: "string \<Rightarrow> 's \<Rightarrow> 'v \<Rightarrow> ('s, 'v) stable \<Rightarrow> ('s, 'v) stable" where
  "upsert k st v rows =
     (if k \<in> row_key ` set rows
      then map (\<lambda>r. if row_key r = k then r\<lparr>row_status := st, row_value := v\<rparr> else r) rows
      else rows @ [\<lparr>row_key = k, row_status = st, row_value = v\<rparr>])"

text \<open>\<open>UPDATE ... SET status=?, value=? WHERE key=? AND status IN (...)\<close>, with \<open>rowcount\<close>\<close>

definition update_where ::
  "string \<Rightarrow> 's list \<Rightarrow> 's \<Rightarrow> 'v \<Rightarrow> ('s, 'v) stable \<Rightarrow> nat \<times> ('s, 'v) stable" where
  "update_where k expected st v rows =
     (length (filter (\<lambda>r. row_key r = k \<and> row_status r \<in> set expected) rows),
      map (\<lambda>r. if row_key r = k \<and> row_status r \<in> set expected
               then r\<lparr>row_status := st, row_value := v\<rparr> else r) rows)"

text \<open>\<open>SELECT value_json FROM ... WHERE key=?\<close>, first row\<close>

definition select_key :: "string \<Rightarrow> ('s, 'v) stable \<Rightarrow> 'v option" where
  "select_key k rows = map_option row_value (find (\<lambda>r. row_key r = k) rows)"

text \<open>\<open>SELECT value_json FROM ... ORDER BY key\<close>\<close>

definition select_all :: "('s, 'v) stable \<Rightarrow> 'v list" where
  "select_all rows = map row_value (sort_key row_key rows)"

text \<open>Keys are unique and the status column is the status of the value\<close>

definition stable_ok :: "('v \<Rightarrow> 's) \<Rightarrow> ('s, 'v) stable \<Rightarrow> bool" where
  "stable_ok status rows \<longleftrightarrow>
     distinct (map row_key rows) \<and> (\<forall>r\<in>set rows. row_status r = status (row_value r))"

text \<open>The dict that a table represents\<close>

definition dict_of :: "('s, 'v) stable \<Rightarrow> (string, 'v) dict" where
  "dict_of rows = map (\<lambda>r. (row_key r, row_value r)) rows"

lemma keys_dict_of [simp]: "map fst (dict_of rows) = map row_key rows"
  by (simp add: dict_of_def)

lemma select_key_dict: "select_key k rows = dget (dict_of rows) k"
  by (induction rows) (auto simp: select_key_def dict_of_def)

lemma select_key_Some:
  "distinct (map row_key rows) \<Longrightarrow>
   select_key k rows = Some v \<longleftrightarrow> (\<exists>r\<in>set rows. row_key r = k \<and> row_value r = v)"
  by (induction rows) (auto simp: select_key_def image_iff)

lemma select_key_None: "select_key k rows = None \<longleftrightarrow> k \<notin> row_key ` set rows"
  by (auto simp: select_key_def find_None_iff)

lemma find_map_key:
  "(\<And>r. row_key (f r) = row_key r) \<Longrightarrow>
   find (\<lambda>r. row_key r = k) (map f rows) = map_option f (find (\<lambda>r. row_key r = k) rows)"
  by (induction rows) auto

lemma find_key: "find (\<lambda>r. row_key r = k) rows = Some r \<Longrightarrow> r \<in> set rows \<and> row_key r = k"
  by (auto simp: find_Some_iff)

lemma select_key_append:
  "select_key k (rows @ [r]) =
     (case select_key k rows of Some v \<Rightarrow> Some v
      | None \<Rightarrow> if row_key r = k then Some (row_value r) else None)"
  by (induction rows) (auto simp: select_key_def)

lemma select_upsert: "select_key k' (upsert k st v rows) = (if k' = k then Some v else select_key k' rows)"
proof (cases "k \<in> row_key ` set rows")
  case True
  then have k: "find (\<lambda>r. row_key r = k) rows \<noteq> None" by (auto simp: find_None_iff)
  have "select_key k' (upsert k st v rows) =
      map_option (\<lambda>r. row_value (if row_key r = k then r\<lparr>row_status := st, row_value := v\<rparr> else r))
        (find (\<lambda>r. row_key r = k') rows)"
    using True by (simp add: upsert_def select_key_def find_map_key option.map_comp comp_def)
  then show ?thesis using k
    by (cases "find (\<lambda>r. row_key r = k') rows") (auto simp: select_key_def dest: find_key)
next
  case False
  then have "select_key k rows = None" by (simp add: select_key_None)
  with False show ?thesis by (auto simp: upsert_def select_key_append split: option.split)
qed

lemma keys_upsert:
  "map row_key (upsert k st v rows) =
     (if k \<in> row_key ` set rows then map row_key rows else map row_key rows @ [k])"
  by (auto simp: upsert_def)

lemma upsert_ok: "stable_ok status rows \<Longrightarrow> stable_ok status (upsert k (status v) v rows)"
  by (simp add: stable_ok_def keys_upsert) (auto simp: upsert_def)

lemma keys_update_where [simp]: "map row_key (snd (update_where k E st v rows)) = map row_key rows"
  by (auto simp: update_where_def)

lemma update_where_ok:
  "stable_ok status rows \<Longrightarrow> stable_ok status (snd (update_where k E (status v) v rows))"
  unfolding stable_ok_def keys_update_where by (auto simp: update_where_def)

lemma length_filter_unique:
  "distinct (map f xs) \<Longrightarrow> length (filter (\<lambda>x. f x = k \<and> P x) xs) =
     (if \<exists>x\<in>set xs. f x = k \<and> P x then 1 else 0)"
proof (induction xs)
  case (Cons x xs)
  then show ?case by (cases "f x = k") (auto simp: filter_empty_conv image_iff)
qed simp

lemma update_where_count:
  assumes "stable_ok status rows"
  shows "fst (update_where k E st v rows) =
    (case select_key k rows of None \<Rightarrow> 0 | Some u \<Rightarrow> if status u \<in> set E then 1 else 0)"
proof (cases "find (\<lambda>r. row_key r = k) rows")
  case None
  then have "\<forall>r\<in>set rows. row_key r \<noteq> k" by (simp add: find_None_iff)
  with None show ?thesis by (auto simp: update_where_def select_key_def filter_empty_conv)
next
  case (Some r)
  then have r: "r \<in> set rows" "row_key r = k" by (auto dest: find_key)
  have "(\<exists>x\<in>set rows. row_key x = k \<and> row_status x \<in> set E) \<longleftrightarrow> status (row_value r) \<in> set E"
    using assms r by (auto simp: stable_ok_def distinct_map inj_on_def)
  with Some assms show ?thesis
    by (auto simp: update_where_def select_key_def length_filter_unique stable_ok_def)
qed

lemma update_where_select:
  assumes "stable_ok status rows"
  shows "select_key k' (snd (update_where k E st v rows)) =
    (if fst (update_where k E st v rows) = 1 \<and> k' = k then Some v else select_key k' rows)"
proof -
  have sel: "select_key k' (snd (update_where k E st v rows)) =
      map_option (\<lambda>r. row_value (if row_key r = k \<and> row_status r \<in> set E
        then r\<lparr>row_status := st, row_value := v\<rparr> else r)) (find (\<lambda>r. row_key r = k') rows)"
    by (simp add: update_where_def select_key_def find_map_key option.map_comp comp_def)
  show ?thesis
  proof (cases "find (\<lambda>r. row_key r = k') rows")
    case None
    then show ?thesis
      unfolding sel update_where_count [OF assms] by (auto simp: select_key_def split: if_splits)
  next
    case (Some r)
    then have r: "r \<in> set rows" "row_key r = k'" by (auto dest: find_key)
    then have "row_status r = status (row_value r)" using assms by (simp add: stable_ok_def)
    with Some r show ?thesis
      unfolding sel update_where_count [OF assms] by (auto simp: select_key_def)
  qed
qed

lemma sort_key_map: "sort_key f (map g xs) = map g (sort_key (\<lambda>x. f (g x)) xs)"
proof -
  have "insort_key f (g x) (map g ys) = map g (insort_key (\<lambda>x. f (g x)) x ys)" for x ys
    by (induction ys) auto
  then show ?thesis by (induction xs) auto
qed

lemma select_all_dict: "select_all rows = sorted_values (dict_of rows)"
  by (simp add: select_all_def sorted_values_def dict_of_def sort_key_map comp_def)

lemma select_all_eq:
  assumes "distinct (map row_key rows)"
  shows "select_all rows =
    map (\<lambda>k. the (select_key k rows)) (sorted_list_of_set {k. select_key k rows \<noteq> None})"
  using assms
  by (simp add: select_all_dict sorted_values_eq select_key_dict dom_def del: not_None_eq)

lemma finite_select_key: "finite {k. select_key k rows \<noteq> None}"
  by (simp add: select_key_dict del: not_None_eq)

section \<open>Tables with a sequence number\<close>

record 'v lrow =
  lr_seq :: nat
  lr_key :: string
  lr_value :: 'v

text \<open>\<open>INSERT INTO log(key, value) VALUES (?, ?)\<close>; \<open>n\<close> is the \<open>AUTOINCREMENT\<close> counter\<close>

definition log_insert :: "nat \<Rightarrow> string \<Rightarrow> 'v \<Rightarrow> 'v lrow list \<Rightarrow> 'v lrow list" where
  "log_insert n k v rows = rows @ [\<lparr>lr_seq = Suc n, lr_key = k, lr_value = v\<rparr>]"

text \<open>\<open>SELECT value_json FROM log WHERE key=? ORDER BY sequence\<close>\<close>

definition log_select :: "string \<Rightarrow> 'v lrow list \<Rightarrow> 'v list" where
  "log_select k rows = map lr_value (sort_key lr_seq (filter (\<lambda>r. lr_key r = k) rows))"

definition log_all :: "'v lrow list \<Rightarrow> 'v list" where
  "log_all rows = map lr_value (sort_key lr_seq rows)"

definition log_ok :: "nat \<Rightarrow> 'v lrow list \<Rightarrow> bool" where
  "log_ok n rows \<longleftrightarrow> sorted (map lr_seq rows) \<and> (\<forall>r\<in>set rows. lr_seq r \<le> n)"

lemma log_insert_ok: "log_ok n rows \<Longrightarrow> log_ok (Suc n) (log_insert n k v rows)"
  by (auto simp: log_ok_def log_insert_def sorted_append le_SucI)

lemma log_sorted: "log_ok n rows \<Longrightarrow> sort_key lr_seq (filter P rows) = filter P rows"
  by (simp add: log_ok_def sort_key_id_if_sorted sorted_filter)

lemma log_select_insert:
  assumes "log_ok n rows"
  shows "log_select k' (log_insert n k v rows) =
    (if k' = k then log_select k rows @ [v] else log_select k' rows)"
proof -
  have "log_select k'' (log_insert n k v rows) =
      map lr_value (filter (\<lambda>r. lr_key r = k'') (log_insert n k v rows))" for k''
    using log_sorted [OF log_insert_ok [OF assms]] by (simp add: log_select_def)
  moreover have "log_select k'' rows = map lr_value (filter (\<lambda>r. lr_key r = k'') rows)" for k''
    using log_sorted [OF assms] by (simp add: log_select_def)
  ultimately show ?thesis by (simp add: log_insert_def)
qed

lemma log_all_insert:
  assumes "log_ok n rows"
  shows "log_all (log_insert n k v rows) = log_all rows @ [v]"
  using log_sorted [OF log_insert_ok [OF assms], of "\<lambda>_. True"]
    log_sorted [OF assms, of "\<lambda>_. True"]
  by (simp add: log_all_def log_insert_def)

section \<open>The database\<close>

record record_row =
  rr_task_id :: string
  rr_type :: rtype
  rr_id :: string
  rr_value :: drec

record sq_store =
  sq_jobs :: "(job_status, job_rec) stable"
  sq_job_events :: "jobj lrow list"
  sq_job_events_seq :: nat
  sq_artifacts :: "(unit, jobj list) stable"
  sq_approvals :: "(approval_status, approval_rec) stable"
  sq_registry :: "jobj option"
  sq_plans :: "(json, jobj) stable"
  sq_idempotency :: "(idem_status, idem_rec) stable"
  sq_tasks :: "(dstatus, dtask) stable"
  sq_task_events :: "devent lrow list"
  sq_task_events_seq :: nat
  sq_profiles :: "(unit, profile) stable"
  sq_records :: "record_row list"
  sq_ai_records :: "(string \<times> string, ai_rec) dict"
  sq_memory_items :: "(mstatus, mitem) stable"
  sq_memory_events :: "mevent lrow list"
  sq_memory_events_seq :: nat
  sq_memory_projects :: "(string, mproject) stable"

datatype sq_error = Integrity_error | Key_error

subsection \<open>Jobs and approvals\<close>

definition sq_set_job :: "string \<Rightarrow> job_rec \<Rightarrow> sq_store \<Rightarrow> sq_store" where
  "sq_set_job k v q = q\<lparr>sq_jobs := upsert k (jb_status v) v (sq_jobs q)\<rparr>"

definition sq_get_job :: "string \<Rightarrow> sq_store \<Rightarrow> job_rec option" where
  "sq_get_job k q = select_key k (sq_jobs q)"

definition sq_transition_job ::
  "string \<Rightarrow> job_status list \<Rightarrow> job_rec \<Rightarrow> sq_store \<Rightarrow> bool \<times> sq_store" where
  "sq_transition_job k expected v q =
     (if expected = [] then (False, q)
      else (case update_where k expected (jb_status v) v (sq_jobs q) of
              (n, rows) \<Rightarrow> (n = 1, q\<lparr>sq_jobs := rows\<rparr>)))"

text \<open>The foreign key of an event names a job\<close>

definition sq_append_event :: "string \<Rightarrow> jobj \<Rightarrow> sq_store \<Rightarrow> sq_error + sq_store" where
  "sq_append_event k v q =
     (if select_key k (sq_jobs q) = None then Inl Integrity_error
      else Inr (q\<lparr>sq_job_events := log_insert (sq_job_events_seq q) k v (sq_job_events q),
                  sq_job_events_seq := Suc (sq_job_events_seq q)\<rparr>))"

definition sq_get_events :: "string \<Rightarrow> sq_store \<Rightarrow> jobj list" where
  "sq_get_events k q = log_select k (sq_job_events q)"

definition sq_set_artifacts :: "string \<Rightarrow> jobj list \<Rightarrow> sq_store \<Rightarrow> sq_error + sq_store" where
  "sq_set_artifacts k v q =
     (if select_key k (sq_jobs q) = None then Inl Integrity_error
      else Inr (q\<lparr>sq_artifacts := upsert k () v (sq_artifacts q)\<rparr>))"

definition sq_get_artifacts :: "string \<Rightarrow> sq_store \<Rightarrow> jobj list" where
  "sq_get_artifacts k q = (case select_key k (sq_artifacts q) of None \<Rightarrow> [] | Some v \<Rightarrow> v)"

definition sq_set_approval :: "string \<Rightarrow> approval_rec \<Rightarrow> sq_store \<Rightarrow> sq_store" where
  "sq_set_approval k v q = q\<lparr>sq_approvals := upsert k (ap_status v) v (sq_approvals q)\<rparr>"

definition sq_get_approval :: "string \<Rightarrow> sq_store \<Rightarrow> approval_rec option" where
  "sq_get_approval k q = select_key k (sq_approvals q)"

definition sq_transition_approval ::
  "string \<Rightarrow> approval_status list \<Rightarrow> approval_rec \<Rightarrow> sq_store \<Rightarrow> bool \<times> sq_store" where
  "sq_transition_approval k expected v q =
     (if expected = [] then (False, q)
      else (case update_where k expected (ap_status v) v (sq_approvals q) of
              (n, rows) \<Rightarrow> (n = 1, q\<lparr>sq_approvals := rows\<rparr>)))"

subsection \<open>Registry, plans and idempotency\<close>

definition sq_set_registry :: "jobj \<Rightarrow> sq_store \<Rightarrow> sq_store" where
  "sq_set_registry v q = q\<lparr>sq_registry := Some v\<rparr>"

definition sq_get_registry :: "sq_store \<Rightarrow> jobj option" where
  "sq_get_registry q = sq_registry q"

text \<open>\<open>value["status"]\<close> raises \<open>KeyError\<close>, and a null status breaks \<open>NOT NULL\<close>\<close>

definition sq_set_plan :: "string \<Rightarrow> jobj \<Rightarrow> sq_store \<Rightarrow> sq_error + sq_store" where
  "sq_set_plan k v q =
     (case dget v ''status'' of
        None \<Rightarrow> Inl Key_error
      | Some JNull \<Rightarrow> Inl Integrity_error
      | Some st \<Rightarrow> Inr (q\<lparr>sq_plans := upsert k st v (sq_plans q)\<rparr>))"

definition sq_get_plan :: "string \<Rightarrow> sq_store \<Rightarrow> jobj option" where
  "sq_get_plan k q = select_key k (sq_plans q)"

text \<open>\<open>BEGIN IMMEDIATE\<close>: the read and the write are one transaction\<close>

definition sq_claim_idempotency ::
  "string \<Rightarrow> idem_rec \<Rightarrow> sq_store \<Rightarrow> idem_rec option \<times> sq_store" where
  "sq_claim_idempotency k v q =
     (case find (\<lambda>r. row_key r = k) (sq_idempotency q) of
        Some row \<Rightarrow>
          if row_status row \<noteq> Id_failed then (Some (row_value row), q)
          else (None, q\<lparr>sq_idempotency := upsert k (id_status v) v (sq_idempotency q)\<rparr>)
      | None \<Rightarrow> (None, q\<lparr>sq_idempotency := upsert k (id_status v) v (sq_idempotency q)\<rparr>))"

definition sq_set_idempotency :: "string \<Rightarrow> idem_rec \<Rightarrow> sq_store \<Rightarrow> sq_store" where
  "sq_set_idempotency k v q =
     q\<lparr>sq_idempotency := upsert k (id_status v) v (sq_idempotency q)\<rparr>"

subsection \<open>Delegation tasks, events, profiles and records\<close>

definition sq_set_task :: "string \<Rightarrow> dtask \<Rightarrow> sq_store \<Rightarrow> sq_store" where
  "sq_set_task k v q = q\<lparr>sq_tasks := upsert k (dt_status v) v (sq_tasks q)\<rparr>"

definition sq_get_task :: "string \<Rightarrow> sq_store \<Rightarrow> dtask option" where
  "sq_get_task k q = select_key k (sq_tasks q)"

definition sq_list_tasks :: "sq_store \<Rightarrow> dtask list" where
  "sq_list_tasks q = select_all (sq_tasks q)"

definition sq_transition_task ::
  "string \<Rightarrow> dstatus list \<Rightarrow> dtask \<Rightarrow> sq_store \<Rightarrow> bool \<times> sq_store" where
  "sq_transition_task k expected v q =
     (if expected = [] then (False, q)
      else (case update_where k expected (dt_status v) v (sq_tasks q) of
              (n, rows) \<Rightarrow> (n = 1, q\<lparr>sq_tasks := rows\<rparr>)))"

definition sq_append_task_event :: "string \<Rightarrow> devent \<Rightarrow> sq_store \<Rightarrow> sq_error + sq_store" where
  "sq_append_task_event k v q =
     (if select_key k (sq_tasks q) = None then Inl Integrity_error
      else Inr (q\<lparr>sq_task_events := log_insert (sq_task_events_seq q) k v (sq_task_events q),
                  sq_task_events_seq := Suc (sq_task_events_seq q)\<rparr>))"

definition sq_get_task_events :: "string \<Rightarrow> sq_store \<Rightarrow> devent list" where
  "sq_get_task_events k q = log_select k (sq_task_events q)"

definition sq_set_profile :: "string \<Rightarrow> profile \<Rightarrow> sq_store \<Rightarrow> sq_store" where
  "sq_set_profile k v q = q\<lparr>sq_profiles := upsert k () v (sq_profiles q)\<rparr>"

definition sq_get_profile :: "string \<Rightarrow> sq_store \<Rightarrow> profile option" where
  "sq_get_profile k q = select_key k (sq_profiles q)"

definition sq_list_profiles :: "sq_store \<Rightarrow> profile list" where
  "sq_list_profiles q = select_all (sq_profiles q)"

text \<open>\<open>UNIQUE(task_id, record_type, record_id)\<close> and the foreign key to the task. The rows are
  kept in the order of their sequence numbers.\<close>

definition sq_append_record ::
  "string \<Rightarrow> rtype \<Rightarrow> string \<Rightarrow> drec \<Rightarrow> sq_store \<Rightarrow> sq_error + sq_store" where
  "sq_append_record k ty rid v q =
     (if select_key k (sq_tasks q) = None \<or>
         (k, ty, rid) \<in> (\<lambda>r. (rr_task_id r, rr_type r, rr_id r)) ` set (sq_records q)
      then Inl Integrity_error
      else Inr (q\<lparr>sq_records := sq_records q @
                    [\<lparr>rr_task_id = k, rr_type = ty, rr_id = rid, rr_value = v\<rparr>]\<rparr>))"

definition sq_get_records :: "string \<Rightarrow> rtype \<Rightarrow> sq_store \<Rightarrow> drec list" where
  "sq_get_records k ty q =
     map rr_value (filter (\<lambda>r. rr_task_id r = k \<and> rr_type r = ty) (sq_records q))"

subsection \<open>Model records\<close>

definition sq_set_ai_record :: "string \<Rightarrow> string \<Rightarrow> ai_rec \<Rightarrow> sq_store \<Rightarrow> sq_store" where
  "sq_set_ai_record ty k v q = q\<lparr>sq_ai_records := dset (ty, k) v (sq_ai_records q)\<rparr>"

definition sq_get_ai_record :: "string \<Rightarrow> string \<Rightarrow> sq_store \<Rightarrow> ai_rec option" where
  "sq_get_ai_record ty k q = dget (sq_ai_records q) (ty, k)"

definition sq_list_ai_records :: "string \<Rightarrow> sq_store \<Rightarrow> ai_rec list" where
  "sq_list_ai_records ty q =
     map snd (sort_key (\<lambda>kv. snd (fst kv)) (filter (\<lambda>kv. fst (fst kv) = ty) (sq_ai_records q)))"

definition sq_delete_ai_record :: "string \<Rightarrow> string \<Rightarrow> sq_store \<Rightarrow> bool \<times> sq_store" where
  "sq_delete_ai_record ty k q =
     (length (filter (\<lambda>kv. fst kv = (ty, k)) (sq_ai_records q)) > 0,
      q\<lparr>sq_ai_records := ddel (ty, k) (sq_ai_records q)\<rparr>)"

subsection \<open>Memory\<close>

text \<open>\<open>_sync_memory_index\<close> rewrites the alias and tag rows of an item; both tables have a
  \<open>UNIQUE(memory_id, normalized)\<close> constraint\<close>

definition normalized :: "string \<Rightarrow> string" where
  "normalized a = strip (lower a)"

definition sync_memory_index :: "mitem \<Rightarrow> bool" where
  "sync_memory_index v \<longleftrightarrow>
     distinct (map normalized (mi_aliases v)) \<and> distinct (map normalized (mi_tags v))"

definition sq_set_memory_item :: "string \<Rightarrow> mitem \<Rightarrow> sq_store \<Rightarrow> sq_error + sq_store" where
  "sq_set_memory_item k v q =
     (if sync_memory_index v
      then Inr (q\<lparr>sq_memory_items := upsert k (mi_status v) v (sq_memory_items q)\<rparr>)
      else Inl Integrity_error)"

definition sq_get_memory_item :: "string \<Rightarrow> sq_store \<Rightarrow> mitem option" where
  "sq_get_memory_item k q = select_key k (sq_memory_items q)"

definition sq_list_memory_items :: "sq_store \<Rightarrow> mitem list" where
  "sq_list_memory_items q = select_all (sq_memory_items q)"

definition sq_transition_memory_item ::
  "string \<Rightarrow> mstatus list \<Rightarrow> mitem \<Rightarrow> sq_store \<Rightarrow> sq_error + bool \<times> sq_store" where
  "sq_transition_memory_item k expected v q =
     (if expected = [] then Inr (False, q)
      else (case update_where k expected (mi_status v) v (sq_memory_items q) of
              (n, rows) \<Rightarrow>
                if n = 1 \<and> \<not> sync_memory_index v then Inl Integrity_error
                else Inr (n = 1, q\<lparr>sq_memory_items := rows\<rparr>)))"

text \<open>\<open>ON DELETE CASCADE\<close> removes the events of the item with it\<close>

definition sq_delete_memory_item :: "string \<Rightarrow> sq_store \<Rightarrow> bool \<times> sq_store" where
  "sq_delete_memory_item k q =
     (length (filter (\<lambda>r. row_key r = k) (sq_memory_items q)) = 1,
      q\<lparr>sq_memory_items := filter (\<lambda>r. row_key r \<noteq> k) (sq_memory_items q),
        sq_memory_events := filter (\<lambda>r. lr_key r \<noteq> k) (sq_memory_events q)\<rparr>)"

definition sq_append_memory_event :: "string \<Rightarrow> mevent \<Rightarrow> sq_store \<Rightarrow> sq_error + sq_store" where
  "sq_append_memory_event k v q =
     (if select_key k (sq_memory_items q) = None \<or>
         me_event_id v \<in> (\<lambda>r. me_event_id (lr_value r)) ` set (sq_memory_events q)
      then Inl Integrity_error
      else Inr (q\<lparr>sq_memory_events := log_insert (sq_memory_events_seq q) k v (sq_memory_events q),
                  sq_memory_events_seq := Suc (sq_memory_events_seq q)\<rparr>))"

definition sq_get_memory_events :: "string option \<Rightarrow> sq_store \<Rightarrow> mevent list" where
  "sq_get_memory_events k q =
     (case k of
        Some (c # cs) \<Rightarrow> log_select (c # cs) (sq_memory_events q)
      | _ \<Rightarrow> log_all (sq_memory_events q))"

text \<open>\<open>PRIMARY KEY(project_id, repo_id)\<close> on the repository rows of a project\<close>

definition sq_set_memory_project :: "string \<Rightarrow> mproject \<Rightarrow> sq_store \<Rightarrow> sq_error + sq_store" where
  "sq_set_memory_project k v q =
     (if distinct (mp_repository_ids v)
      then Inr (q\<lparr>sq_memory_projects := upsert k (mp_label v) v (sq_memory_projects q)\<rparr>)
      else Inl Integrity_error)"

definition sq_get_memory_project :: "string \<Rightarrow> sq_store \<Rightarrow> mproject option" where
  "sq_get_memory_project k q = select_key k (sq_memory_projects q)"

definition sq_list_memory_projects :: "sq_store \<Rightarrow> mproject list" where
  "sq_list_memory_projects q = select_all (sq_memory_projects q)"

text \<open>Two updates in one transaction; unless both hit one row the transaction is rolled back\<close>

definition sq_transition_memory_approval ::
  "string \<Rightarrow> string \<Rightarrow> approval_status list \<Rightarrow> mstatus list \<Rightarrow> approval_rec \<Rightarrow> mitem \<Rightarrow>
   sq_store \<Rightarrow> sq_error + bool \<times> sq_store" where
  "sq_transition_memory_approval ak mk aexp mexp av mv q =
     (if aexp = [] \<or> mexp = [] then Inr (False, q)
      else (case (update_where ak aexp (ap_status av) av (sq_approvals q),
                  update_where mk mexp (mi_status mv) mv (sq_memory_items q)) of
              ((n, arows), (m, mrows)) \<Rightarrow>
                if n \<noteq> 1 \<or> m \<noteq> 1 then Inr (False, q)
                else if \<not> sync_memory_index mv then Inl Integrity_error
                else Inr (True, q\<lparr>sq_approvals := arows, sq_memory_items := mrows\<rparr>)))"

lemmas sq_defs = sq_set_job_def sq_get_job_def sq_transition_job_def sq_append_event_def
  sq_get_events_def sq_set_artifacts_def sq_get_artifacts_def sq_set_approval_def
  sq_get_approval_def sq_transition_approval_def sq_set_registry_def sq_get_registry_def
  sq_set_plan_def sq_get_plan_def sq_set_idempotency_def
  sq_set_task_def sq_get_task_def sq_list_tasks_def sq_transition_task_def
  sq_append_task_event_def sq_get_task_events_def sq_set_profile_def sq_get_profile_def
  sq_list_profiles_def sq_append_record_def sq_get_records_def sq_set_ai_record_def
  sq_get_ai_record_def sq_list_ai_records_def sq_delete_ai_record_def sq_set_memory_item_def
  sq_get_memory_item_def sq_list_memory_items_def sq_transition_memory_item_def
  sq_delete_memory_item_def sq_append_memory_event_def sq_get_memory_events_def
  sq_set_memory_project_def sq_get_memory_project_def sq_list_memory_projects_def
  sq_transition_memory_approval_def

section \<open>The contracts hold\<close>

definition sq_ok :: "sq_store \<Rightarrow> bool" where
  "sq_ok q \<longleftrightarrow>
     stable_ok jb_status (sq_jobs q) \<and> stable_ok ap_status (sq_approvals q) \<and>
     stable_ok id_status (sq_idempotency q) \<and> stable_ok dt_status (sq_tasks q) \<and>
     stable_ok (\<lambda>_. ()) (sq_profiles q) \<and> stable_ok mi_status (sq_memory_items q) \<and>
     stable_ok mp_label (sq_memory_projects q) \<and>
     distinct (map fst (sq_ai_records q)) \<and>
     log_ok (sq_job_events_seq q) (sq_job_events q) \<and>
     log_ok (sq_task_events_seq q) (sq_task_events q) \<and>
     log_ok (sq_memory_events_seq q) (sq_memory_events q) \<and>
     (\<forall>r\<in>set (sq_memory_events q). me_memory_id (lr_value r) = lr_key r)"

lemma update_where_Nil:
  "update_where k [] st v rows = (0, rows)"
  by (simp add: update_where_def)

text \<open>One compare-and-set shape for the three tables that have it\<close>

lemma update_where_cas:
  assumes "stable_ok status rows"
  shows "fst (update_where k E (status v) v rows) = 1 \<longleftrightarrow>
      (\<exists>u. select_key k rows = Some u \<and> status u \<in> set E)"
    and "select_key k' (snd (update_where k E (status v) v rows)) =
      (if (\<exists>u. select_key k rows = Some u \<and> status u \<in> set E) \<and> k' = k
       then Some v else select_key k' rows)"
  using assms
  by (simp_all add: update_where_select [OF assms] update_where_count [OF assms] split: option.split)

lemma update_where_0:
  "stable_ok status rows \<Longrightarrow> \<not> (\<exists>u. select_key k rows = Some u \<and> status u \<in> set E) \<Longrightarrow>
   fst (update_where k E st v rows) = 0"
  by (auto simp: update_where_count split: option.split)

interpretation sq_job_table: cas_table sq_ok sq_get_job sq_set_job jb_status sq_transition_job
  by unfold_locales
    (auto simp: sq_defs sq_ok_def upsert_ok select_upsert update_where_cas update_where_ok
      case_prod_unfold simp del: One_nat_def)

interpretation sq_approval_table: cas_table sq_ok sq_get_approval sq_set_approval ap_status
    sq_transition_approval
  by unfold_locales
    (auto simp: sq_defs sq_ok_def upsert_ok select_upsert update_where_cas update_where_ok
      case_prod_unfold simp del: One_nat_def)

interpretation sq_task_table: cas_table sq_ok sq_get_task sq_set_task dt_status sq_transition_task
  by unfold_locales
    (auto simp: sq_defs sq_ok_def upsert_ok select_upsert update_where_cas update_where_ok
      case_prod_unfold simp del: One_nat_def)

interpretation sq_task_listing: listed_table sq_ok sq_get_task sq_set_task sq_list_tasks
  by unfold_locales
    (simp_all add: sq_defs sq_ok_def stable_ok_def finite_select_key select_all_eq
      del: not_None_eq)

interpretation sq_profile_listing: listed_table sq_ok sq_get_profile sq_set_profile sq_list_profiles
  by unfold_locales
    (simp_all add: sq_defs sq_ok_def upsert_ok select_upsert stable_ok_def finite_select_key
      select_all_eq keys_upsert del: not_None_eq)

end
