(* ===== verification/Refinement.thy ===== *)
theory Refinement
  imports Sqlite
begin

text \<open>
  \<open>SqliteStateStore\<close> refines \<open>MemoryStateStore\<close>: after any sequence of operations, started from
  related states, both stores have returned the same results, as long as no constraint of the
  schema is violated. The relation says that every read of the two stores agrees; the operations
  of both are replayed by \<open>mem_step\<close> and \<open>sq_step\<close>. Three operations of the stores are not among
  them, because there the two differ: the deletion of a memory item, which takes the item's events
  along in SQLite only, the text search, which SQLite answers from a full-text index, and writing
  an empty registry, which only SQLite remembers.
\<close>

section \<open>Operations and results\<close>

datatype store_op =
    SetJob string job_rec
  | GetJob string
  | TransitionJob string "job_status list" job_rec
  | AppendEvent string jobj
  | GetEvents string
  | SetApproval string approval_rec
  | GetApproval string
  | TransitionApproval string "approval_status list" approval_rec
  | ClaimIdempotency string idem_rec
  | SetIdempotency string idem_rec
  | SetTask string dtask
  | GetTask string
  | ListTasks
  | TransitionTask string "dstatus list" dtask
  | AppendTaskEvent string devent
  | GetTaskEvents string
  | SetProfile string profile
  | GetProfile string
  | ListProfiles
  | AppendRecord string rtype string drec
  | GetRecords string rtype
  | SetMemoryItem string mitem
  | GetMemoryItem string
  | ListMemoryItems
  | TransitionMemoryItem string "mstatus list" mitem
  | SetMemoryProject string mproject
  | GetMemoryProject string
  | ListMemoryProjects
  | TransitionMemoryApproval string string "approval_status list" "mstatus list" approval_rec mitem
  | SetArtifacts string "jobj list"
  | GetArtifacts string
  | SetRegistry "string \<times> json" jobj
  | GetRegistry
  | SetPlan string jobj
  | GetPlan string
  | SetAiRecord string string ai_rec
  | GetAiRecord string string
  | ListAiRecords string
  | DeleteAiRecord string string
  | AppendMemoryEvent mevent
  | GetMemoryEvents "string option"

text \<open>A registry that is not empty is given by its first field and the others; an event of a memory
  item is stored under the id of that item, as every caller does\<close>

datatype store_result =
    Done
  | Answer bool
  | AJob "job_rec option"
  | AEvents "jobj list"
  | AApproval "approval_rec option"
  | AIdem "idem_rec option"
  | ATask "dtask option"
  | ATasks "dtask list"
  | ATaskEvents "devent list"
  | AProfile "profile option"
  | AProfiles "profile list"
  | ARecords "drec list"
  | AItem "mitem option"
  | AItems "mitem list"
  | AProject "mproject option"
  | AProjects "mproject list"
  | AArtifacts "jobj list"
  | AnObject "jobj option"
  | AnAiRecord "ai_rec option"
  | AiRecords "ai_rec list"
  | AMemoryEvents "mevent list"
  | Conflict

definition answer :: "bool \<times> 's \<Rightarrow> store_result \<times> 's" where
  "answer r = (Answer (fst r), snd r)"

primrec mem_step :: "store_op \<Rightarrow> mem_store \<Rightarrow> store_result \<times> mem_store" where
  "mem_step (SetJob k v) s = (Done, set_job k v s)"
| "mem_step (GetJob k) s = (AJob (get_job k s), s)"
| "mem_step (TransitionJob k E v) s = answer (transition_job k E v s)"
| "mem_step (AppendEvent k v) s = (Done, append_event k v s)"
| "mem_step (GetEvents k) s = (AEvents (get_events k s), s)"
| "mem_step (SetApproval k v) s = (Done, set_approval k v s)"
| "mem_step (GetApproval k) s = (AApproval (get_approval k s), s)"
| "mem_step (TransitionApproval k E v) s = answer (transition_approval k E v s)"
| "mem_step (ClaimIdempotency k v) s = apfst AIdem (claim_idempotency k v s)"
| "mem_step (SetIdempotency k v) s = (Done, set_idempotency k v s)"
| "mem_step (SetTask k v) s = (Done, set_delegation_task k v s)"
| "mem_step (GetTask k) s = (ATask (get_delegation_task k s), s)"
| "mem_step ListTasks s = (ATasks (list_delegation_tasks s), s)"
| "mem_step (TransitionTask k E v) s = answer (transition_delegation_task k E v s)"
| "mem_step (AppendTaskEvent k v) s = (Done, append_delegation_event k v s)"
| "mem_step (GetTaskEvents k) s = (ATaskEvents (get_delegation_events k s), s)"
| "mem_step (SetProfile k v) s = (Done, set_executor_profile k v s)"
| "mem_step (GetProfile k) s = (AProfile (get_executor_profile k s), s)"
| "mem_step ListProfiles s = (AProfiles (list_executor_profiles s), s)"
| "mem_step (AppendRecord k ty rid v) s =
     (case append_delegation_record k ty rid v s of Inl e \<Rightarrow> (Conflict, s) | Inr t \<Rightarrow> (Done, t))"
| "mem_step (GetRecords k ty) s = (ARecords (get_delegation_records k ty s), s)"
| "mem_step (SetMemoryItem k v) s = (Done, set_memory_item k v s)"
| "mem_step (GetMemoryItem k) s = (AItem (get_memory_item k s), s)"
| "mem_step ListMemoryItems s = (AItems (list_memory_items s), s)"
| "mem_step (TransitionMemoryItem k E v) s = answer (transition_memory_item k E v s)"
| "mem_step (SetMemoryProject k v) s = (Done, set_memory_project k v s)"
| "mem_step (GetMemoryProject k) s = (AProject (get_memory_project k s), s)"
| "mem_step ListMemoryProjects s = (AProjects (list_memory_projects s), s)"
| "mem_step (TransitionMemoryApproval ak mk aE mE av mv) s =
     answer (transition_memory_approval ak mk aE mE av mv s)"
| "mem_step (SetArtifacts k v) s = (Done, set_artifacts k v s)"
| "mem_step (GetArtifacts k) s = (AArtifacts (get_artifacts k s), s)"
| "mem_step (SetRegistry x v) s = (Done, set_registry (x # v) s)"
| "mem_step GetRegistry s = (AnObject (get_registry s), s)"
| "mem_step (SetPlan k v) s = (Done, set_plan k v s)"
| "mem_step (GetPlan k) s = (AnObject (get_plan k s), s)"
| "mem_step (SetAiRecord ty k v) s = (Done, set_ai_record ty k v s)"
| "mem_step (GetAiRecord ty k) s = (AnAiRecord (get_ai_record ty k s), s)"
| "mem_step (ListAiRecords ty) s = (AiRecords (list_ai_records ty s), s)"
| "mem_step (DeleteAiRecord ty k) s = answer (delete_ai_record ty k s)"
| "mem_step (AppendMemoryEvent e) s = (Done, append_memory_event (me_memory_id e) e s)"
| "mem_step (GetMemoryEvents k) s = (AMemoryEvents (get_memory_events k s), s)"

text \<open>An \<open>IntegrityError\<close> leaves the database as it was\<close>

definition attempt :: "sq_store \<Rightarrow> sq_error + sq_store \<Rightarrow> store_result \<times> sq_store" where
  "attempt q r = (case r of Inl e \<Rightarrow> (Conflict, q) | Inr q' \<Rightarrow> (Done, q'))"

definition attempt_answer ::
  "sq_store \<Rightarrow> sq_error + bool \<times> sq_store \<Rightarrow> store_result \<times> sq_store" where
  "attempt_answer q r = (case r of Inl e \<Rightarrow> (Conflict, q) | Inr a \<Rightarrow> answer a)"

primrec sq_step :: "store_op \<Rightarrow> sq_store \<Rightarrow> store_result \<times> sq_store" where
  "sq_step (SetJob k v) q = (Done, sq_set_job k v q)"
| "sq_step (GetJob k) q = (AJob (sq_get_job k q), q)"
| "sq_step (TransitionJob k E v) q = answer (sq_transition_job k E v q)"
| "sq_step (AppendEvent k v) q = attempt q (sq_append_event k v q)"
| "sq_step (GetEvents k) q = (AEvents (sq_get_events k q), q)"
| "sq_step (SetApproval k v) q = (Done, sq_set_approval k v q)"
| "sq_step (GetApproval k) q = (AApproval (sq_get_approval k q), q)"
| "sq_step (TransitionApproval k E v) q = answer (sq_transition_approval k E v q)"
| "sq_step (ClaimIdempotency k v) q = apfst AIdem (sq_claim_idempotency k v q)"
| "sq_step (SetIdempotency k v) q = (Done, sq_set_idempotency k v q)"
| "sq_step (SetTask k v) q = (Done, sq_set_task k v q)"
| "sq_step (GetTask k) q = (ATask (sq_get_task k q), q)"
| "sq_step ListTasks q = (ATasks (sq_list_tasks q), q)"
| "sq_step (TransitionTask k E v) q = answer (sq_transition_task k E v q)"
| "sq_step (AppendTaskEvent k v) q = attempt q (sq_append_task_event k v q)"
| "sq_step (GetTaskEvents k) q = (ATaskEvents (sq_get_task_events k q), q)"
| "sq_step (SetProfile k v) q = (Done, sq_set_profile k v q)"
| "sq_step (GetProfile k) q = (AProfile (sq_get_profile k q), q)"
| "sq_step ListProfiles q = (AProfiles (sq_list_profiles q), q)"
| "sq_step (AppendRecord k ty rid v) q = attempt q (sq_append_record k ty rid v q)"
| "sq_step (GetRecords k ty) q = (ARecords (sq_get_records k ty q), q)"
| "sq_step (SetMemoryItem k v) q = attempt q (sq_set_memory_item k v q)"
| "sq_step (GetMemoryItem k) q = (AItem (sq_get_memory_item k q), q)"
| "sq_step ListMemoryItems q = (AItems (sq_list_memory_items q), q)"
| "sq_step (TransitionMemoryItem k E v) q =
     attempt_answer q (sq_transition_memory_item k E v q)"
| "sq_step (SetMemoryProject k v) q = attempt q (sq_set_memory_project k v q)"
| "sq_step (GetMemoryProject k) q = (AProject (sq_get_memory_project k q), q)"
| "sq_step ListMemoryProjects q = (AProjects (sq_list_memory_projects q), q)"
| "sq_step (TransitionMemoryApproval ak mk aE mE av mv) q =
     attempt_answer q (sq_transition_memory_approval ak mk aE mE av mv q)"
| "sq_step (SetArtifacts k v) q = attempt q (sq_set_artifacts k v q)"
| "sq_step (GetArtifacts k) q = (AArtifacts (sq_get_artifacts k q), q)"
| "sq_step (SetRegistry x v) q = (Done, sq_set_registry (x # v) q)"
| "sq_step GetRegistry q = (AnObject (sq_get_registry q), q)"
| "sq_step (SetPlan k v) q = attempt q (sq_set_plan k v q)"
| "sq_step (GetPlan k) q = (AnObject (sq_get_plan k q), q)"
| "sq_step (SetAiRecord ty k v) q = (Done, sq_set_ai_record ty k v q)"
| "sq_step (GetAiRecord ty k) q = (AnAiRecord (sq_get_ai_record ty k q), q)"
| "sq_step (ListAiRecords ty) q = (AiRecords (sq_list_ai_records ty q), q)"
| "sq_step (DeleteAiRecord ty k) q = answer (sq_delete_ai_record ty k q)"
| "sq_step (AppendMemoryEvent e) q = attempt q (sq_append_memory_event (me_memory_id e) e q)"
| "sq_step (GetMemoryEvents k) q = (AMemoryEvents (sq_get_memory_events k q), q)"

section \<open>The relation\<close>

definition record_ids :: "sq_store \<Rightarrow> (string \<times> rtype \<times> string) set" where
  "record_ids q = (\<lambda>r. (rr_task_id r, rr_type r, rr_id r)) ` set (sq_records q)"

definition related :: "mem_store \<Rightarrow> sq_store \<Rightarrow> bool" where
  "related s q \<longleftrightarrow> store_ok s \<and> sq_ok q \<and>
     (\<forall>k. get_job k s = sq_get_job k q) \<and>
     (\<forall>k. get_events k s = sq_get_events k q) \<and>
     (\<forall>k. get_approval k s = sq_get_approval k q) \<and>
     (\<forall>k. dget (st_idempotency s) k = select_key k (sq_idempotency q)) \<and>
     (\<forall>k. get_delegation_task k s = sq_get_task k q) \<and>
     (\<forall>k. get_delegation_events k s = sq_get_task_events k q) \<and>
     (\<forall>k. get_executor_profile k s = sq_get_profile k q) \<and>
     (\<forall>k ty. get_delegation_records k ty s = sq_get_records k ty q) \<and>
     set (st_delegation_record_ids s) = record_ids q \<and>
     (\<forall>k. get_memory_item k s = sq_get_memory_item k q) \<and>
     (\<forall>k. get_memory_project k s = sq_get_memory_project k q) \<and>
     (\<forall>k. get_artifacts k s = sq_get_artifacts k q) \<and> get_registry s = sq_get_registry q \<and>
     (\<forall>k. get_plan k s = sq_get_plan k q) \<and> st_ai_records s = sq_ai_records q \<and>
     st_memory_events s = log_all (sq_memory_events q)"

definition empty_db :: sq_store where
  "empty_db = \<lparr>sq_jobs = [], sq_job_events = [], sq_job_events_seq = 0, sq_artifacts = [],
     sq_approvals = [], sq_registry = None, sq_plans = [], sq_idempotency = [], sq_tasks = [],
     sq_task_events = [], sq_task_events_seq = 0, sq_profiles = [], sq_records = [],
     sq_ai_records = [], sq_memory_items = [], sq_memory_events = [],
     sq_memory_events_seq = 0, sq_memory_projects = []\<rparr>"

lemma related_empty: "related empty_store empty_db"
  by (simp add: related_def empty_db_def empty_store_def store_ok_def sq_ok_def store_defs sq_defs
      stable_ok_def log_ok_def log_select_def log_all_def record_ids_def select_key_def
      lget_def Store.truthy_def)

lemma claim_refines:
  assumes "related s q"
  shows "fst (claim_idempotency k v s) = fst (sq_claim_idempotency k v q)"
    and "related (snd (claim_idempotency k v s)) (snd (sq_claim_idempotency k v q))"
proof -
  have l: "dget (st_idempotency s) k = map_option row_value (find (\<lambda>r. row_key r = k) (sq_idempotency q))"
    using assms by (simp add: related_def select_key_def)
  have st: "row_status r = id_status (row_value r)"
    if "find (\<lambda>r. row_key r = k) (sq_idempotency q) = Some r" for r
    using assms that find_key [OF that] by (simp add: related_def sq_ok_def stable_ok_def)
  show "fst (claim_idempotency k v s) = fst (sq_claim_idempotency k v q)"
    using l st by (auto simp: claim_idempotency_def sq_claim_idempotency_def split: option.split)
  have up: "related (s\<lparr>st_idempotency := dset k v (st_idempotency s)\<rparr>)
      (q\<lparr>sq_idempotency := upsert k (id_status v) v (sq_idempotency q)\<rparr>)"
    using assms
    by (auto simp: related_def store_defs sq_defs store_ok_def sq_ok_def upsert_ok select_upsert
        record_ids_def)
  show "related (snd (claim_idempotency k v s)) (snd (sq_claim_idempotency k v q))"
    using l st up assms
    by (auto simp: claim_idempotency_def sq_claim_idempotency_def split: option.split)
qed

section \<open>The simulation\<close>

lemmas cas_facts = update_where_cas update_where_0 update_where_ok update_where_Nil

lemmas relate = related_def store_defs sq_defs store_ok_def sq_ok_def record_ids_def

lemma listing_refines:
  assumes "related s q"
  shows "list_delegation_tasks s = sq_list_tasks q"
    and "list_executor_profiles s = sq_list_profiles q"
    and "list_memory_items s = sq_list_memory_items q"
    and "list_memory_projects s = sq_list_memory_projects q"
  using assms
  by (simp_all add: related_def mem_task_list.listing_get sq_task_listing.listing_get
      mem_profiles.listing_get sq_profile_listing.listing_get mem_item_list.listing_get
      mem_project_list.listing_get sq_list_memory_items_def sq_list_memory_projects_def
      select_all_eq sq_ok_def stable_ok_def sq_get_memory_item_def sq_get_memory_project_def
      del: not_None_eq)

lemma truthy_simps [simp]:
  "Store.truthy None = None" "Store.truthy (Some []) = None" "Store.truthy (Some (x # xs)) = Some (x # xs)"
  by (simp_all add: Store.truthy_def)

lemma truthy_nonempty: "v \<noteq> [] \<Longrightarrow> Store.truthy (Some v) = Some v"
  by (cases v) simp_all

lemma sort_key_cong_on:
  "(\<And>x y. x \<in> set xs \<Longrightarrow> y \<in> set xs \<Longrightarrow> f x \<le> f y \<longleftrightarrow> g x \<le> g y) \<Longrightarrow> sort_key f xs = sort_key g xs"
proof (induction xs)
  case (Cons x xs)
  have "insort_key f x ys = insort_key g x ys" if "set ys \<subseteq> set xs" for ys
    using that Cons.prems by (induction ys) auto
  then show ?case using Cons by simp
qed simp

lemma ai_listing_refines:
  assumes "related s q"
  shows "list_ai_records ty s = sq_list_ai_records ty q"
proof -
  have "st_ai_records s = sq_ai_records q" using assms by (simp add: related_def)
  then show ?thesis
    unfolding list_ai_records_def sq_list_ai_records_def
    by (simp add: filter_sort) (rule arg_cong [of _ _ "map snd"], rule sort_key_cong_on,
        auto simp: less_eq_prod_def)
qed

lemma ai_delete_refines:
  assumes "related s q"
  shows "fst (delete_ai_record ty k s) = fst (sq_delete_ai_record ty k q)"
    and "related (snd (delete_ai_record ty k s)) (snd (sq_delete_ai_record ty k q))"
proof -
  have eq: "st_ai_records s = sq_ai_records q" using assms by (simp add: related_def)
  have "dget d x \<noteq> None \<longleftrightarrow> 0 < length (filter (\<lambda>kv. fst kv = x) d)" for d :: "((string \<times> string) \<times> ai_rec) list" and x
    by (induction d) auto
  then show "fst (delete_ai_record ty k s) = fst (sq_delete_ai_record ty k q)"
    by (simp add: delete_ai_record_def sq_delete_ai_record_def eq)
  show "related (snd (delete_ai_record ty k s)) (snd (sq_delete_ai_record ty k q))"
    using assms eq by (simp add: relate delete_ai_record_def sq_delete_ai_record_def distinct_ddel)
qed

lemma memory_events_refine:
  assumes "related s q"
  shows "get_memory_events k s = sq_get_memory_events k q"
proof -
  have rows: "log_ok (sq_memory_events_seq q) (sq_memory_events q)"
    "\<forall>r\<in>set (sq_memory_events q). me_memory_id (lr_value r) = lr_key r"
    "st_memory_events s = log_all (sq_memory_events q)"
    using assms by (simp_all add: related_def sq_ok_def)
  have "filter (\<lambda>e. me_memory_id e = i) (log_all (sq_memory_events q)) = log_select i (sq_memory_events q)" for i
    using log_sorted [OF rows(1), of "\<lambda>_. True"] log_sorted [OF rows(1)] rows(2)
    by (auto simp: log_all_def log_select_def filter_map comp_def intro!: filter_cong arg_cong [of _ _ "map lr_value"])
  then show ?thesis
    by (auto simp: get_memory_events_def sq_get_memory_events_def rows(3) split: option.split list.split)
qed

text \<open>The compare-and-sets of the two stores, one lemma per table\<close>

lemma transition_job_refines:
  assumes "related s q"
  shows "fst (transition_job k E v s) = fst (sq_transition_job k E v q)"
    and "related (snd (transition_job k E v s)) (snd (sq_transition_job k E v q))"
  using assms
  by (auto simp: relate case_prod_unfold cas_facts split: option.splits simp del: One_nat_def)

lemma transition_approval_refines:
  assumes "related s q"
  shows "fst (transition_approval k E v s) = fst (sq_transition_approval k E v q)"
    and "related (snd (transition_approval k E v s)) (snd (sq_transition_approval k E v q))"
  using assms
  by (auto simp: relate case_prod_unfold cas_facts split: option.splits simp del: One_nat_def)

lemma transition_task_refines:
  assumes "related s q"
  shows "fst (transition_delegation_task k E v s) = fst (sq_transition_task k E v q)"
    and "related (snd (transition_delegation_task k E v s)) (snd (sq_transition_task k E v q))"
  using assms
  by (auto simp: relate case_prod_unfold cas_facts split: option.splits simp del: One_nat_def)

definition hits :: "('v \<Rightarrow> 's) \<Rightarrow> string \<Rightarrow> 's list \<Rightarrow> ('s, 'v) stable \<Rightarrow> bool" where
  "hits status k E rows \<longleftrightarrow> (\<exists>u. select_key k rows = Some u \<and> status u \<in> set E)"

lemma update_where_hits:
  assumes "stable_ok status rows" and "update_where k E (status v) v rows = (n, rows')"
  shows "n = 1 \<longleftrightarrow> hits status k E rows"
    and "select_key k' rows' = (if hits status k E rows \<and> k' = k then Some v else select_key k' rows)"
    and "stable_ok status rows'"
  using update_where_cas [OF assms(1), where k = k and E = E and v = v]
    update_where_ok [OF assms(1), where k = k and E = E and v = v] assms(2)
  unfolding hits_def by auto

lemma related_items:
  assumes "related s q" and "stable_ok mi_status rows"
    and "\<And>k'. select_key k' rows = (if k' = k then Some v else select_key k' (sq_memory_items q))"
  shows "related (s\<lparr>st_memory_items := dset k v (st_memory_items s)\<rparr>) (q\<lparr>sq_memory_items := rows\<rparr>)"
  using assms by (simp add: relate)

lemma related_items_same:
  assumes "related s q" and "stable_ok mi_status rows"
    and "\<And>k'. select_key k' rows = select_key k' (sq_memory_items q)"
  shows "related s (q\<lparr>sq_memory_items := rows\<rparr>)"
  using assms by (simp add: relate)

lemma related_approvals:
  assumes "related s q" and "stable_ok ap_status rows"
    and "\<And>k'. select_key k' rows = (if k' = k then Some v else select_key k' (sq_approvals q))"
  shows "related (s\<lparr>st_approvals := dset k v (st_approvals s)\<rparr>) (q\<lparr>sq_approvals := rows\<rparr>)"
  using assms by (simp add: relate)

lemma transition_item_cond:
  "transition_memory_item k E v s =
     (if \<exists>u. get_memory_item k s = Some u \<and> mi_status u \<in> set E
      then (True, s\<lparr>st_memory_items := dset k v (st_memory_items s)\<rparr>) else (False, s))"
  by (auto simp: transition_memory_item_def get_memory_item_def split: option.split)

lemma transition_memory_approval_cond:
  "transition_memory_approval ak mk aE mE av mv s =
     (if (\<exists>u. get_approval ak s = Some u \<and> ap_status u \<in> set aE) \<and>
         (\<exists>u. get_memory_item mk s = Some u \<and> mi_status u \<in> set mE)
      then (True, s\<lparr>st_approvals := dset ak av (st_approvals s),
                    st_memory_items := dset mk mv (st_memory_items s)\<rparr>) else (False, s))"
  by (auto simp: transition_memory_approval_def get_memory_item_def get_approval_def
      split: option.split)

lemma related_facts:
  assumes "related s q"
  shows "stable_ok mi_status (sq_memory_items q)" and "stable_ok ap_status (sq_approvals q)"
    and "get_memory_item k s = select_key k (sq_memory_items q)"
    and "get_approval k s = select_key k (sq_approvals q)"
  using assms by (simp_all add: related_def sq_ok_def sq_get_memory_item_def sq_get_approval_def)

lemma transition_item_refines:
  assumes r: "related s q" and sq: "sq_transition_memory_item k E v q = Inr a"
  shows "fst (transition_memory_item k E v s) = fst a \<and>
    related (snd (transition_memory_item k E v s)) (snd a)"
proof -
  obtain n rows where u: "update_where k E (mi_status v) v (sq_memory_items q) = (n, rows)" by fastforce
  note h = update_where_hits [OF related_facts(1) [OF r] u]
  show ?thesis
  proof (cases "hits mi_status k E (sq_memory_items q)")
    case True
    then have "E \<noteq> []" by (auto simp: hits_def)
    with sq u h(1) True have "a = (True, q\<lparr>sq_memory_items := rows\<rparr>)"
      by (simp add: sq_transition_memory_item_def split: if_splits)
    moreover from True have "\<exists>u. get_memory_item k s = Some u \<and> mi_status u \<in> set E"
      by (simp add: hits_def related_facts(3) [OF r])
    ultimately show ?thesis
      using related_items [OF r h(3), of k v] h(2) True by (simp add: transition_item_cond)
  next
    case False
    with sq u h(1) have "\<not> fst a" "snd a = q \<or> snd a = q\<lparr>sq_memory_items := rows\<rparr>"
      by (auto simp: sq_transition_memory_item_def split: if_splits)
    moreover from False have "\<not> (\<exists>u. get_memory_item k s = Some u \<and> mi_status u \<in> set E)"
      by (simp add: hits_def related_facts(3) [OF r])
    ultimately show ?thesis
      using related_items_same [OF r h(3)] h(2) False r by (auto simp: transition_item_cond)
  qed
qed

lemma transition_memory_approval_refines:
  assumes r: "related s q" and sq: "sq_transition_memory_approval ak mk aE mE av mv q = Inr b"
  shows "fst (transition_memory_approval ak mk aE mE av mv s) = fst b \<and>
    related (snd (transition_memory_approval ak mk aE mE av mv s)) (snd b)"
proof -
  obtain n arows where ua: "update_where ak aE (ap_status av) av (sq_approvals q) = (n, arows)"
    by fastforce
  obtain m mrows where um: "update_where mk mE (mi_status mv) mv (sq_memory_items q) = (m, mrows)"
    by fastforce
  note ha = update_where_hits [OF related_facts(2) [OF r] ua]
  note hm = update_where_hits [OF related_facts(1) [OF r] um]
  show ?thesis
  proof (cases "hits ap_status ak aE (sq_approvals q) \<and> hits mi_status mk mE (sq_memory_items q)")
    case True
    then have "aE \<noteq> []" "mE \<noteq> []" by (auto simp: hits_def)
    with sq ua um ha(1) hm(1) True
    have "b = (True, q\<lparr>sq_approvals := arows, sq_memory_items := mrows\<rparr>)"
      by (simp add: sq_transition_memory_approval_def split: if_splits)
    moreover have "related (s\<lparr>st_approvals := dset ak av (st_approvals s),
          st_memory_items := dset mk mv (st_memory_items s)\<rparr>)
        (q\<lparr>sq_approvals := arows, sq_memory_items := mrows\<rparr>)"
      using related_items [OF related_approvals [OF r ha(3), of ak av] hm(3), of mk mv] ha(2) hm(2) True
      by simp
    ultimately show ?thesis
      using True by (simp add: transition_memory_approval_cond hits_def related_facts(3,4) [OF r])
  next
    case False
    then have "b = (False, q)"
      using sq ua um ha(1) hm(1) by (auto simp: sq_transition_memory_approval_def split: if_splits)
    moreover have "\<not> ((\<exists>u. get_approval ak s = Some u \<and> ap_status u \<in> set aE) \<and>
         (\<exists>u. get_memory_item mk s = Some u \<and> mi_status u \<in> set mE))"
      using False by (simp add: hits_def related_facts(3,4) [OF r])
    ultimately show ?thesis using r by (simp add: transition_memory_approval_cond)
  qed
qed

lemma set_log_insert:
  "set (log_insert n k v rows) = insert \<lparr>lr_seq = Suc n, lr_key = k, lr_value = v\<rparr> (set rows)"
  by (simp add: log_insert_def)

lemma simulate:
  assumes "related s q" and "fst (sq_step oper q) \<noteq> Conflict"
  shows "fst (mem_step oper s) = fst (sq_step oper q) \<and>
    related (snd (mem_step oper s)) (snd (sq_step oper q))"
proof (cases oper)
  case (TransitionJob k E v)
  then show ?thesis using assms by (simp add: answer_def transition_job_refines)
next
  case (TransitionApproval k E v)
  then show ?thesis using assms by (simp add: answer_def transition_approval_refines)
next
  case (TransitionTask k E v)
  then show ?thesis using assms by (simp add: answer_def transition_task_refines)
next
  case (TransitionMemoryItem k E v)
  then show ?thesis using assms transition_item_refines [OF assms(1), of k E v]
    by (simp add: answer_def attempt_answer_def split: sum.splits)
next
  case (TransitionMemoryApproval ak mk aE mE av mv)
  then show ?thesis using assms transition_memory_approval_refines [OF assms(1)]
    by (simp add: answer_def attempt_answer_def split: sum.splits)
next
  case (ClaimIdempotency k v)
  then show ?thesis using assms by (simp add: claim_refines)
next
  case (AppendEvent k v)
  then show ?thesis using assms
    by (auto simp: relate attempt_def log_insert_ok log_select_insert split: if_splits)
next
  case (AppendTaskEvent k v)
  then show ?thesis using assms
    by (auto simp: relate attempt_def log_insert_ok log_select_insert split: if_splits)
next
  case (SetArtifacts k v)
  then show ?thesis using assms
    by (auto simp: relate attempt_def lget_def select_upsert split: if_splits)
next
  case (SetRegistry x v)
  then show ?thesis using assms by (simp add: relate)
next
  case (SetPlan k v)
  have "v \<noteq> []" if "dget v ''status'' = Some x" for x
    using that by (cases v) simp_all
  then have "Store.truthy (Some v) = Some v" if "dget v ''status'' = Some x" for x
    using that truthy_nonempty by blast
  then show ?thesis using SetPlan assms
    by (auto simp: relate attempt_def select_upsert split: option.splits json.splits)
next
  case (SetAiRecord ty k v)
  then show ?thesis using assms by (simp add: relate distinct_dset)
next
  case (DeleteAiRecord ty k)
  then show ?thesis using assms by (simp add: answer_def ai_delete_refines)
next
  case (ListAiRecords ty)
  then show ?thesis using assms by (simp add: ai_listing_refines)
next
  case (AppendMemoryEvent e)
  then show ?thesis using assms
    by (auto simp: relate attempt_def log_insert_ok log_all_insert set_log_insert split: if_splits)
next
  case (AppendRecord k ty rid v)
  then show ?thesis using assms
    by (auto simp: relate attempt_def split: if_splits)
next
  case (SetMemoryItem k v)
  then show ?thesis using assms related_items [OF assms(1)]
    by (simp add: set_memory_item_def sq_set_memory_item_def attempt_def upsert_ok select_upsert
        related_facts(1) [OF assms(1)] split: if_splits)
next
  case (SetProfile k v)
  have "stable_ok (\<lambda>_. ()) rows \<Longrightarrow> stable_ok (\<lambda>_. ()) (upsert k () v rows)" for rows
    using upsert_ok [of "\<lambda>_. ()" rows k v] by simp
  then show ?thesis using SetProfile assms by (auto simp: relate select_upsert)
next
  case (SetMemoryProject k v)
  then show ?thesis using assms
    by (auto simp: relate attempt_def upsert_ok select_upsert split: if_splits)
qed (use assms in \<open>simp_all add: relate upsert_ok select_upsert listing_refines [OF assms(1), unfolded store_defs sq_defs]
    memory_events_refine [OF assms(1), unfolded store_defs sq_defs]\<close>)

text \<open>A run of SQLite without a constraint violation is a run of the in-memory store\<close>

lemma simulate_run:
  "related s q \<Longrightarrow> Conflict \<notin> set (fst (run_ops sq_step ops q)) \<Longrightarrow>
   fst (run_ops mem_step ops s) = fst (run_ops sq_step ops q) \<and>
   related (snd (run_ops mem_step ops s)) (snd (run_ops sq_step ops q))"
proof (induction ops arbitrary: s q)
  case (Cons oper ops)
  then have "fst (sq_step oper q) \<noteq> Conflict"
    by (auto simp: case_prod_unfold Let_def)
  with simulate [OF Cons.prems(1) this]
    Cons.IH [of "snd (mem_step oper s)" "snd (sq_step oper q)"] Cons.prems(2)
  show ?case by (simp add: case_prod_unfold Let_def)
qed simp

end
