(* ===== verification/Store_Properties.thy ===== *)
theory Store_Properties
  imports Refinement Workflow_Example
begin

text \<open>
  The properties of the state stores: of racing compare-and-sets at most one wins, an
  idempotency key is claimed once, the two-table transition of a memory approval is atomic,
  SQLite answers every sequence of operations as the in-memory store does unless a constraint
  is violated, and the places where the two stores differ.
\<close>

section \<open>Both stores as one contract\<close>

interpretation jobs_agree: two_tables store_ok get_job set_job jb_status transition_job
  sq_ok sq_get_job sq_set_job sq_transition_job
  by unfold_locales

interpretation approvals_agree: two_tables store_ok get_approval set_approval ap_status
  transition_approval sq_ok sq_get_approval sq_set_approval sq_transition_approval
  by unfold_locales

interpretation tasks_agree: two_tables store_ok get_delegation_task set_delegation_task dt_status
  transition_delegation_task sq_ok sq_get_task sq_set_task sq_transition_task
  by unfold_locales

section \<open>Races\<close>

text \<open>Writers that run one after the other, each expecting the statuses it read before\<close>

definition race :: "('v \<Rightarrow> 't \<Rightarrow> bool \<times> 't) \<Rightarrow> 'v list \<Rightarrow> 't \<Rightarrow> bool list \<times> 't" where
  "race f vs t = foldl (\<lambda>(bs, u) v. let (b, u') = f v u in (bs @ [b], u')) ([], t) vs"

lemma race_cas_all:
  "race (sq_transition_task k E) vs q = sq_task_table.cas_all k E vs q"
  "race (transition_approval k F) ws s = mem_approvals.cas_all k F ws s"
  by (simp_all add: race_def sq_task_table.cas_all_def mem_approvals.cas_all_def)

text \<open>C14: of any number of processes that move the same task of the SQLite database away from
  the same expected statuses, at most one succeeds; when one does, the stored task is the one it
  wrote, and when none does the stored task is unchanged.\<close>

theorem task_race_has_one_winner:
  assumes "sq_ok q" and "\<forall>v\<in>set vs. dt_status v \<notin> set E"
  shows "length (filter (\<lambda>b. b) (fst (race (sq_transition_task k E) vs q))) = 0 \<and>
      sq_get_task k (snd (race (sq_transition_task k E) vs q)) = sq_get_task k q \<or>
    length (filter (\<lambda>b. b) (fst (race (sq_transition_task k E) vs q))) = 1 \<and>
      (\<exists>v\<in>set vs. sq_get_task k (snd (race (sq_transition_task k E) vs q)) = Some v)"
  using sq_task_table.cas_at_most_one [OF assms(1)] assms(2) by (simp add: race_cas_all)

definition demo_db :: sq_store where
  "demo_db = sq_set_task ''task_5'' (demo_task\<lparr>dt_status := D_assigned\<rparr>) empty_db"

lemma empty_db_ok: "sq_ok empty_db" and empty_related: "related empty_store empty_db"
  using related_empty by (simp_all add: related_def)

lemma demo_db_ok: "sq_ok demo_db"
  unfolding demo_db_def by (rule sq_task_table.put_inv [OF empty_db_ok])

theorem task_race_has_one_winner_witness:
  "length (filter (\<lambda>b. b) (fst (race (sq_transition_task ''task_5'' [D_assigned])
      [demo_task, demo_task] demo_db))) = 1"
proof -
  have "dt_status demo_task = D_promoted" by code_simp
  then have "\<forall>v\<in>set [demo_task, demo_task]. dt_status v \<notin> set [D_assigned]" by simp
  from task_race_has_one_winner [OF demo_db_ok this, of "''task_5''"]
  have "length (filter (\<lambda>b. b) (fst (race (sq_transition_task ''task_5'' [D_assigned])
      [demo_task, demo_task] demo_db))) = 0 \<or> ?thesis" by blast
  moreover have "fst (race (sq_transition_task ''task_5'' [D_assigned]) [demo_task, demo_task] demo_db) =
      [True, False]"
    by code_simp
  ultimately show ?thesis by simp
qed

text \<open>an idempotency key whose claim is not recorded as failed is claimed at most once: the
  second caller receives the first caller's record and the store is unchanged. Both stores
  agree, SQLite included.\<close>

theorem claimed_once:
  assumes "id_status v \<noteq> Id_failed" and "fst (claim_idempotency k v s) = None"
  shows "claim_idempotency k w (snd (claim_idempotency k v s)) =
    (Some v, snd (claim_idempotency k v s))"
  using assms by (auto simp: claim_idempotency_def split: option.splits if_splits)

theorem claimed_once_witness:
  "fst (claim_idempotency ''k'' \<lparr>id_status = Id_running, id_job_id = ''b'', id_change_set_checksum = []\<rparr>
      (snd (claim_idempotency ''k''
         \<lparr>id_status = Id_running, id_job_id = ''a'', id_change_set_checksum = []\<rparr> empty_store))) =
   Some \<lparr>id_status = Id_running, id_job_id = ''a'', id_change_set_checksum = []\<rparr>"
  by (subst claimed_once) (simp_all add: claim_idempotency_def empty_store_def)

text \<open>C25: deciding a memory approval moves the approval and the memory item together or not at
  all: when SQLite answers true both had an expected status and both now read back as written,
  and in every other case, an integrity error included, the database is the one before.\<close>

theorem memory_approval_is_atomic:
  assumes "sq_ok q"
  shows "(case sq_transition_memory_approval ak mk aexp mexp av mv q of
      Inl e \<Rightarrow> snd (sq_step (TransitionMemoryApproval ak mk aexp mexp av mv) q) = q
    | Inr (ok, q') \<Rightarrow>
        if ok then
          (\<exists>a m. sq_get_approval ak q = Some a \<and> ap_status a \<in> set aexp \<and>
             sq_get_memory_item mk q = Some m \<and> mi_status m \<in> set mexp) \<and>
          sq_get_approval ak q' = Some av \<and> sq_get_memory_item mk q' = Some mv
        else q' = q)"
proof -
  have a: "stable_ok ap_status (sq_approvals q)" and m: "stable_ok mi_status (sq_memory_items q)"
    using assms by (simp_all add: sq_ok_def)
  show ?thesis
    using update_where_cas [OF a, where k = ak and E = aexp and v = av] update_where_cas [OF m, where k = mk and E = mexp and v = mv]
    by (auto simp: sq_transition_memory_approval_def attempt_answer_def sq_get_approval_def
        sq_get_memory_item_def split: sum.split prod.split if_splits)
qed

definition demo_item :: mitem where
  "demo_item = \<lparr>mi_memory_id = ''m'', mi_scope = ''repo:r'', mi_type = MT_outcome,
     mi_status = M_proposed, mi_title = ''t'', mi_body = ''b'', mi_confidence = Mc_observed,
     mi_source = \<lparr>sr_kind = ''job'', sr_ref = ''j'', sr_freshness = None, sr_resolved = True\<rparr>,
     mi_author_kind = Ak_worker, mi_author_id = ''w'', mi_aliases = [], mi_tags = [],
     mi_approval_id = None, mi_repo_id = Some ''r'', mi_project_id = None, mi_low_value = False,
     mi_created_at = ''1'', mi_reviewed_at = None, mi_expires_at = None,
     mi_superseded_by = None, mi_deleted_at = None\<rparr>"

definition demo_approval :: approval_rec where
  "demo_approval = \<lparr>ap_approval_id = ''a'', ap_subject_kind = Some Sk_memory,
     ap_subject_id = Some ''m'', ap_job_id = None, ap_plan_id = None, ap_step_capability = None,
     ap_skill = None, ap_provider = None, ap_reason = [], ap_risk_level = 1,
     ap_status = Ap_pending, ap_created_at = ''1'', ap_updated_at = ''1'', ap_decided_by = None,
     ap_note = [], ap_promotion = None, ap_recovery = None\<rparr>"

definition demo_memory_db :: sq_store where
  "demo_memory_db = sq_set_approval ''a'' demo_approval
     (empty_db\<lparr>sq_memory_items := upsert ''m'' M_proposed demo_item []\<rparr>)"

lemma demo_memory_db_ok: "sq_ok demo_memory_db"
  unfolding demo_memory_db_def
  by (rule sq_approval_table.put_inv)
    (use empty_db_ok in \<open>simp add: sq_ok_def empty_db_def upsert_def stable_ok_def demo_item_def\<close>)

theorem memory_approval_is_atomic_witness:
  "(case sq_transition_memory_approval ''a'' ''m'' [Ap_pending] [M_proposed]
        (demo_approval\<lparr>ap_status := Ap_approved\<rparr>) (demo_item\<lparr>mi_status := M_active\<rparr>) demo_memory_db of
      Inl e \<Rightarrow> False
    | Inr (ok, q') \<Rightarrow> ok \<and> sq_get_memory_item ''m'' q' = Some (demo_item\<lparr>mi_status := M_active\<rparr>))"
proof -
  have "fst (projr (sq_transition_memory_approval ''a'' ''m'' [Ap_pending] [M_proposed]
      (demo_approval\<lparr>ap_status := Ap_approved\<rparr>) (demo_item\<lparr>mi_status := M_active\<rparr>) demo_memory_db)) \<and>
    \<not> isl (sq_transition_memory_approval ''a'' ''m'' [Ap_pending] [M_proposed]
      (demo_approval\<lparr>ap_status := Ap_approved\<rparr>) (demo_item\<lparr>mi_status := M_active\<rparr>) demo_memory_db)"
    by code_simp
  with memory_approval_is_atomic [OF demo_memory_db_ok, of "''a''" "''m''" "[Ap_pending]" "[M_proposed]"
      "demo_approval\<lparr>ap_status := Ap_approved\<rparr>" "demo_item\<lparr>mi_status := M_active\<rparr>"]
  show ?thesis by (auto split: sum.splits prod.splits)
qed

section \<open>Refinement\<close>

text \<open>C13: SQLite implements the in-memory store: started empty, any sequence of the operations
  in \<open>store_op\<close> returns the same results from both, as long as no constraint of the schema is
  violated: those on jobs, job events, artifacts, approvals, a registry that is not empty, plans,
  idempotency keys, delegation tasks, their events and records, executor profiles, AI records,
  memory items with their events, and projects. Deleting a memory item and the text search are
  not among them; after a deletion the stores differ (\<open>purge_drops_history\<close>).\<close>

theorem sqlite_refines_memory:
  assumes "Conflict \<notin> set (fst (run_ops sq_step ops empty_db))"
  shows "fst (run_ops mem_step ops empty_store) = fst (run_ops sq_step ops empty_db)"
  using simulate_run [OF empty_related assms] by blast

definition demo_ops :: "store_op list" where
  "demo_ops = [SetTask ''task_5'' (demo_task\<lparr>dt_status := D_assigned\<rparr>),
     AppendTaskEvent ''task_5'' (hd demo_events), TransitionTask ''task_5'' [D_assigned] demo_task,
     TransitionTask ''task_5'' [D_assigned] demo_task, GetTask ''task_5'', GetTaskEvents ''task_5'']"

theorem sqlite_refines_memory_witness:
  "fst (run_ops mem_step demo_ops empty_store) =
     [Done, Done, Answer True, Answer False, ATask (Some demo_task), ATaskEvents [hd demo_events]]"
proof -
  have "fst (run_ops sq_step demo_ops empty_db) =
     [Done, Done, Answer True, Answer False, ATask (Some demo_task), ATaskEvents [hd demo_events]]"
    by code_simp
  with sqlite_refines_memory [of demo_ops] show ?thesis by simp
qed

section \<open>Where the stores differ\<close>

text \<open>purging a memory item deletes its audit trail from SQLite, through the cascade of the
  foreign key, while the in-memory store keeps it, so that the same purge leaves a different
  history behind depending on the backend.\<close>

theorem purge_drops_history:
  "sq_get_memory_events (Some (c # cs)) (snd (sq_delete_memory_item (c # cs) q)) = [] \<and>
   get_memory_events (Some (c # cs)) (snd (delete_memory_item (c # cs) s)) =
     get_memory_events (Some (c # cs)) s"
  by (simp add: sq_get_memory_events_def sq_delete_memory_item_def log_select_def
      get_memory_events_def delete_memory_item_def)

text \<open>SQLite refuses a memory item exactly when two of its aliases, or two of its tags,
  become equal once lowercased and stripped; the in-memory store accepts every item and reads
  it back.\<close>

theorem similar_aliases_are_refused:
  "isl (sq_set_memory_item k v q) =
      (\<not> (distinct (map (\<lambda>a. strip (lower a)) (mi_aliases v)) \<and>
          distinct (map (\<lambda>a. strip (lower a)) (mi_tags v)))) \<and>
   get_memory_item k (set_memory_item k v s) = Some v"
proof -
  have "normalized = (\<lambda>a. strip (lower a))" by (rule ext) (rule normalized_def)
  then show ?thesis
    by (auto simp: sq_set_memory_item_def sync_memory_index_def set_memory_item_def
        get_memory_item_def)
qed

end
