(* ===== verification/Memory.thy ===== *)
theory Memory
  imports Memory_Text Delegation
begin

text \<open>
  \<open>MemoryService\<close> of \<open>canto/core/memory.py\<close>, every method in the order of the source: status,
  proposals, approvals, the bounded activation by the orchestrator, transitions, supersession,
  purge, projects, recall, context packs, retention, export and the audit trail. The methods
  that change the store are state-exception programs; those that only read are functions of the
  store.
\<close>

section \<open>Tables\<close>

primrec LEGAL_TRANSITIONS :: "mstatus \<Rightarrow> mstatus list" where
  "LEGAL_TRANSITIONS M_observed = [M_proposed, M_expired, M_deleted]"
| "LEGAL_TRANSITIONS M_proposed = [M_active, M_rejected, M_expired, M_deleted]"
| "LEGAL_TRANSITIONS M_active = [M_superseded, M_expired, M_deleted]"
| "LEGAL_TRANSITIONS M_superseded = [M_deleted]"
| "LEGAL_TRANSITIONS M_expired = [M_deleted]"
| "LEGAL_TRANSITIONS M_rejected = [M_deleted]"
| "LEGAL_TRANSITIONS M_deleted = []"

text \<open>Items and tokens of each context-pack profile\<close>

definition BUDGETS :: "(string, pack_profile \<times> int \<times> int) dict" where
  "BUDGETS = [(''startup'', Pk_startup, 12, 2500),
              (''resolve-reference'', Pk_resolve_reference, 5, 750),
              (''review'', Pk_review, 20, 4000),
              (''planning'', Pk_planning, 24, 5000)]"

section \<open>Shared steps\<close>

definition ensure_no_secret :: "env \<Rightarrow> json \<Rightarrow> unit run" where
  "ensure_no_secret E v =
     (let text = (case v of JStr s \<Rightarrow> s | _ \<Rightarrow> dumps (e_float E) v) in
      require (\<not> secret_like text) MemoryServiceError
        ''Memory content was rejected because it contains secret-like material'')"

definition memory_event ::
  "env \<Rightarrow> string \<Rightarrow> string \<Rightarrow> actor_kind \<Rightarrow> string \<Rightarrow> jobj \<Rightarrow> unit run" where
  "memory_event E memory_id event_type kind actor payload =
     thenM (ensure_no_secret E (JObj payload))
     (bindM (fresh E ''memory_event_'') (\<lambda>event_id.
      bindM (utc_now E) (\<lambda>now.
      on_store (append_memory_event memory_id
        \<lparr>me_event_id = event_id, me_memory_id = memory_id, me_event_type = event_type,
         me_actor_kind = kind, me_actor_id = actor, me_payload = payload,
         me_created_at = now\<rparr>))))"

text \<open>\<open>_now()\<close>: the instant of the clock whose text \<open>utc_now\<close> writes\<close>

definition now_instant :: "env \<Rightarrow> int run" where
  "now_instant E =
     bindM (utc_now E) (\<lambda>t.
     optM (fromisoformat (replace_char CHR ''Z'' ''+00:00'' t)) (Exc ValueError t))"

definition parse_time_run :: "string \<Rightarrow> int option run" where
  "parse_time_run v = optM (parse_time v) (Exc ValueError (''Invalid isoformat string: '' @ v))"

definition get_memory :: "string \<Rightarrow> mitem run" where
  "get_memory k =
     bindM (from_store (get_memory_item k)) (\<lambda>v.
     optM v (Exc MemoryServiceError (''Unknown memory item: '' @ k)))"

section \<open>Reading\<close>

record memory_status =
  mst_available :: bool
  mst_items :: nat
  mst_active :: nat
  mst_proposed :: nat
  mst_projects :: nat

definition status_of :: "mem_store \<Rightarrow> memory_status" where
  "status_of s =
     (let items = list_memory_items s in
      \<lparr>mst_available = True, mst_items = length items,
       mst_active = length (filter (\<lambda>i. mi_status i = M_active) items),
       mst_proposed = length (filter (\<lambda>i. mi_status i = M_proposed) items),
       mst_projects = length (list_memory_projects s)\<rparr>)"

definition hidden_statuses :: "mstatus list" where
  "hidden_statuses = [M_rejected, M_expired, M_superseded, M_deleted]"

definition memory_list :: "mstatus list option \<Rightarrow> mem_store \<Rightarrow> mitem list" where
  "memory_list statuses s =
     (case statuses of
        None \<Rightarrow> filter (\<lambda>i. mi_status i \<notin> set hidden_statuses) (list_memory_items s)
      | Some ss \<Rightarrow> filter (\<lambda>i. mi_status i \<in> set ss) (list_memory_items s))"

text \<open>\<open>names & other_names\<close>: the title and the aliases, lowercased and stripped\<close>

definition memory_names :: "mitem \<Rightarrow> string list" where
  "memory_names m = map (\<lambda>n. strip (lower n)) (mi_title m # mi_aliases m)"

section \<open>Proposals\<close>

definition is_hex :: "char \<Rightarrow> bool" where
  "is_hex c \<longleftrightarrow>
     is_digit c \<or> (CHR ''a'' \<le> c \<and> c \<le> CHR ''f'') \<or> (CHR ''A'' \<le> c \<and> c \<le> CHR ''F'')"

definition commit_id :: "string \<Rightarrow> bool" where
  "commit_id ref \<longleftrightarrow> 7 \<le> length ref \<and> length ref \<le> 64 \<and> list_all is_hex ref"

text \<open>The record lists that hold the executor sessions, launches and results of the tasks\<close>

definition delegated_type :: "string \<Rightarrow> rtype option" where
  "delegated_type kind =
     (if kind = ''executor_session'' then Some T_sessions
      else if kind = ''executor_launch'' then Some T_launches
      else if kind = ''delegation_result'' then Some T_results else None)"

definition source_exists :: "string \<Rightarrow> string \<Rightarrow> mem_store \<Rightarrow> bool" where
  "source_exists kind ref s =
     (if kind = ''job'' then get_job ref s \<noteq> None
      else if kind = ''plan'' then get_plan ref s \<noteq> None
      else if kind = ''approval'' then get_approval ref s \<noteq> None
      else if kind = ''delegation_task'' then get_delegation_task ref s \<noteq> None
      else (case delegated_type kind of
              Some ty \<Rightarrow>
                \<exists>t\<in>set (list_delegation_tasks s).
                  \<exists>r\<in>set (get_delegation_records (dt_task_id t) ty s). record_id_of r = ref
            | None \<Rightarrow>
                if kind = ''artifact''
                then (case partition_at '':'' ref of
                        (job_id, found, name) \<Rightarrow>
                          found \<and> get_job job_id s \<noteq> None \<and>
                          (\<exists>a\<in>set (get_artifacts job_id s). dget a ''name'' = Some (JStr name)))
                else True))"

definition validate_source :: "string \<Rightarrow> string \<Rightarrow> unit run" where
  "validate_source kind ref =
     bindM (from_store (source_exists kind ref)) (\<lambda>known.
     thenM (require known MemoryServiceError (''Unknown '' @ kind @ '' source reference: '' @ ref))
     (thenM (require (\<not> (kind = ''repository_path'' \<and> is_absolute ref)) MemoryServiceError
               ''Repository path source references must be relative'')
     (require (\<not> (kind = ''commit'' \<and> \<not> commit_id ref)) MemoryServiceError
        ''Commit source references must be Git object IDs'')))"

text \<open>Other active items of the same scope that share a name but not the body\<close>

definition conflicts_of :: "mitem \<Rightarrow> mem_store \<Rightarrow> string list" where
  "conflicts_of item s =
     map mi_memory_id (filter (\<lambda>other.
         mi_memory_id other \<noteq> mi_memory_id item \<and> mi_scope other = mi_scope item \<and>
         mi_status other = M_active \<and>
         (\<exists>n\<in>set (memory_names item). n \<in> set (memory_names other)) \<and>
         strip (mi_body item) \<noteq> strip (mi_body other)) (list_memory_items s))"

definition record_conflicts :: "env \<Rightarrow> mitem \<Rightarrow> unit run" where
  "record_conflicts E item =
     bindM (from_store (conflicts_of item)) (\<lambda>conflicts.
     if conflicts \<noteq> []
     then memory_event E (mi_memory_id item) ''conflict_detected'' Ak_system ''memory-service''
            [(''conflicts_with'', JList (map JStr (sort conflicts)))]
     else retM ())"

primrec scope_error_str :: "scope_error \<Rightarrow> string" where
  "scope_error_str Repo_scope_mismatch = ''Repository scope must match repo_id''"
| "scope_error_str Project_scope_mismatch = ''Project scope must match project_id''"
| "scope_error_str Global_not_terminology = ''Global scope is limited to terminology''"
| "scope_error_str (Unsupported_scope s) = ''Unsupported memory scope: '' @ s"

text \<open>The keyword arguments of \<open>propose\<close>\<close>

record proposal =
  pp_scope :: string
  pp_type :: mtype
  pp_title :: string
  pp_body :: string
  pp_source_kind :: string
  pp_source_ref :: string
  pp_author_kind :: actor_kind
  pp_author_id :: string
  pp_confidence :: mconfidence
  pp_aliases :: "string list"
  pp_tags :: "string list"
  pp_freshness :: "string option"
  pp_observed :: bool
  pp_low_value :: bool
  pp_auto_activate :: bool
  pp_activation_policy :: "activation_policy option"

text \<open>\<open>sorted(set(xs), key=str.casefold)\<close>\<close>

definition casefold_set :: "string list \<Rightarrow> string list" where
  "casefold_set xs = sort_key lower (remdups xs)"

definition scope_part :: "string \<Rightarrow> string \<Rightarrow> string option" where
  "scope_part p scope = (if startswith scope p then Some (removeprefix p scope) else None)"

definition build_item :: "proposal \<Rightarrow> string \<Rightarrow> string \<Rightarrow> mitem" where
  "build_item p memory_id created =
     \<lparr>mi_memory_id = memory_id, mi_scope = pp_scope p, mi_type = pp_type p,
      mi_status = (if pp_observed p then M_observed else M_proposed),
      mi_title = strip (pp_title p), mi_body = strip (pp_body p),
      mi_confidence = pp_confidence p,
      mi_source = \<lparr>sr_kind = pp_source_kind p, sr_ref = pp_source_ref p,
                   sr_freshness = pp_freshness p, sr_resolved = True\<rparr>,
      mi_author_kind = pp_author_kind p, mi_author_id = pp_author_id p,
      mi_aliases = casefold_set (pp_aliases p), mi_tags = casefold_set (pp_tags p),
      mi_approval_id = None, mi_repo_id = scope_part ''repo:'' (pp_scope p),
      mi_project_id = scope_part ''project:'' (pp_scope p), mi_low_value = pp_low_value p,
      mi_created_at = created, mi_reviewed_at = None, mi_expires_at = None,
      mi_superseded_by = None, mi_deleted_at = None\<rparr>"

section \<open>Approvals\<close>

definition request_approval :: "env \<Rightarrow> string \<Rightarrow> string \<Rightarrow> actor_kind \<Rightarrow> approval_rec run" where
  "request_approval E memory_id requested_by kind =
     bindM (get_memory memory_id) (\<lambda>item.
     thenM (require (mi_status item = M_proposed) MemoryServiceError
              ''Only proposed memory can request approval'')
     (bindM (from_store (\<lambda>s. case mi_approval_id item of
                             Some (c # cs) \<Rightarrow> get_approval (c # cs) s | _ \<Rightarrow> None)) (\<lambda>old.
      case old of
        Some a \<Rightarrow> retM a
      | None \<Rightarrow>
          bindM (utc_now E) (\<lambda>now.
          bindM (fresh E ''approval_'') (\<lambda>approval_id.
          let approval = \<lparr>ap_approval_id = approval_id, ap_subject_kind = Some Sk_memory,
                ap_subject_id = Some (mi_memory_id item), ap_job_id = None, ap_plan_id = None,
                ap_step_capability = None, ap_skill = None, ap_provider = None,
                ap_reason = ''Activate memory: '' @ mi_title item, ap_risk_level = 1,
                ap_status = Ap_pending, ap_created_at = now, ap_updated_at = now,
                ap_decided_by = None, ap_note = ''Requested by '' @ requested_by,
                ap_promotion = None, ap_recovery = None\<rparr> in
          thenM (on_store (set_approval approval_id approval))
          (bindM (ask_store (transition_memory_item (mi_memory_id item) [M_proposed]
                    (item\<lparr>mi_approval_id := Some approval_id\<rparr>))) (\<lambda>ok.
           thenM (require ok MemoryServiceError
                    ''Memory proposal changed while requesting approval'')
           (thenM (memory_event E (mi_memory_id item) ''approval_requested'' kind requested_by
                     [(''approval_id'', JStr approval_id)])
           (retM approval)))))))))"

primrec approval_status_str :: "approval_status \<Rightarrow> string" where
  "approval_status_str Ap_pending = ''pending''"
| "approval_status_str Ap_approved = ''approved''"
| "approval_status_str Ap_rejected = ''rejected''"

definition decide_approval ::
  "env \<Rightarrow> string \<Rightarrow> bool \<Rightarrow> string \<Rightarrow> string \<Rightarrow> actor_kind \<Rightarrow> mitem run" where
  "decide_approval E approval_id approve actor note kind =
     bindM (from_store (get_approval approval_id)) (\<lambda>raw.
     bindM (optM raw (Exc MemoryServiceError (''Unknown approval: '' @ approval_id))) (\<lambda>approval.
     thenM (require (ap_subject_kind approval = Some Sk_memory \<and> given (ap_subject_id approval))
              MemoryServiceError ''Approval is not for memory'')
     (thenM (require (ap_status approval = Ap_pending) MemoryServiceError
               (''Approval is already '' @ approval_status_str (ap_status approval)))
     (bindM (get_memory (the (ap_subject_id approval))) (\<lambda>item.
      thenM (require (mi_status item = M_proposed \<and> mi_approval_id item = Some approval_id)
               MemoryServiceError ''Memory proposal is not awaiting this approval'')
      (bindM (utc_now E) (\<lambda>decided_at.
       bindM (utc_now E) (\<lambda>reviewed_at.
       let decided = approval\<lparr>ap_status := (if approve then Ap_approved else Ap_rejected),
             ap_updated_at := decided_at, ap_decided_by := Some actor, ap_note := note\<rparr>;
           updated = item\<lparr>mi_status := (if approve then M_active else M_rejected),
             mi_reviewed_at := Some reviewed_at\<rparr> in
       bindM (ask_store (transition_memory_approval approval_id (mi_memory_id item)
                [Ap_pending] [M_proposed] decided updated)) (\<lambda>ok.
       thenM (require ok MemoryServiceError ''Approval or memory proposal changed concurrently'')
       (thenM (memory_event E (mi_memory_id item) (if approve then ''activated'' else ''rejected'')
                 kind actor [(''approval_id'', JStr approval_id), (''note'', JStr note)])
       (retM updated)))))))))))"

section \<open>Bounded activation by the orchestrator\<close>

definition governed_kinds :: "string list" where
  "governed_kinds = [''job'', ''plan'', ''approval'', ''delegation_task'', ''executor_session'',
     ''executor_launch'', ''delegation_result'', ''artifact'', ''commit'']"

definition source_is_governed :: "string \<Rightarrow> string \<Rightarrow> bool" where
  "source_is_governed kind ref \<longleftrightarrow>
     kind \<in> set governed_kinds \<or> (kind = ''repository_path'' \<and> \<not> is_absolute ref)"

text \<open>Whether an event of the audit trail counts against a limit: an activation by this
  orchestrator, of today when \<open>today_only\<close>, of an item that still exists and has the given
  source when one is given\<close>

definition counts_event ::
  "string \<Rightarrow> string option \<Rightarrow> int option \<Rightarrow> mevent \<Rightarrow> bool run" where
  "counts_event marker source_ref today event =
     (if me_event_type event \<noteq> ''activated'' \<or> me_actor_id event \<noteq> marker then retM False
      else
        bindM (case today of
                 None \<Rightarrow> retM True
               | Some day \<Rightarrow>
                   bindM (parse_time_run (me_created_at event)) (\<lambda>created.
                   retM (case created of None \<Rightarrow> False | Some t \<Rightarrow> t div micros_per_day = day)))
          (\<lambda>in_range.
           if \<not> in_range then retM False
           else
             (case source_ref of
                None \<Rightarrow> retM True
              | Some ref \<Rightarrow>
                  from_store (\<lambda>s. me_memory_id event \<noteq> [] \<and>
                    (case get_memory_item (me_memory_id event) s of
                       None \<Rightarrow> False | Some m \<Rightarrow> sr_ref (mi_source m) = ref)))))"

definition orchestrator_of :: "string \<Rightarrow> string" where
  "orchestrator_of i = ''orchestrator:'' @ i"

definition decision_count :: "env \<Rightarrow> string \<Rightarrow> string option \<Rightarrow> bool \<Rightarrow> nat run" where
  "decision_count E orchestrator_id source_ref today_only =
     bindM (now_instant E) (\<lambda>now.
     bindM (from_store (get_memory_events None)) (\<lambda>events.
     bindM (mapM (counts_event (orchestrator_of orchestrator_id) source_ref
                    (if today_only then Some (now div micros_per_day) else None)) events) (\<lambda>bs.
     retM (length (filter id bs)))))"

definition aliases_allowed :: "activation_policy \<Rightarrow> mitem \<Rightarrow> bool" where
  "aliases_allowed p item \<longleftrightarrow>
     av_allow_non_conflicting_aliases p \<and> mi_type item = MT_terminology \<and>
     mi_aliases item \<noteq> [] \<and> mi_confidence item \<in> {Mc_supported, Mc_verified}"

definition scope_kind :: "mitem \<Rightarrow> string" where
  "scope_kind item = fst (partition_at '':'' (mi_scope item))"

text \<open>The checks that need no count: the reason of the first that fails\<close>

definition activation_refusal :: "activation_policy \<Rightarrow> mitem \<Rightarrow> mevent list \<Rightarrow> string option" where
  "activation_refusal p item events =
     (if av_mode p \<noteq> Am_bounded_orchestrator
      then Some ''policy mode requires Developer approval''
      else if mi_status item \<noteq> M_proposed
      then Some (''memory status is '' @ mstatus_str (mi_status item))
      else if scope_kind item \<notin> set (av_auto_activate_scopes p)
      then Some (''scope '' @ mi_scope item @ '' requires Developer approval'')
      else if av_require_distinct_proposer_and_approver p \<and>
              mi_author_id item = orchestrator_of (av_orchestrator_id p)
      then Some ''proposer and Orchestrator approver are the same''
      else if mi_type item \<notin> set (av_auto_activate_types p) \<and> \<not> aliases_allowed p item
      then Some (''type '' @ mtype_str (mi_type item) @ '' requires Developer approval'')
      else if av_require_governed_source p \<and>
              \<not> source_is_governed (sr_kind (mi_source item)) (sr_ref (mi_source item))
      then Some (''source '' @ sr_kind (mi_source item) @ '' is not governed'')
      else if av_require_no_conflicts p \<and>
              (\<exists>e\<in>set events. me_event_type e = ''conflict_detected'')
      then Some ''conflict detected''
      else None)"

definition activation_allowed ::
  "env \<Rightarrow> mitem \<Rightarrow> activation_policy \<Rightarrow> (bool \<times> string \<times> jobj) run" where
  "activation_allowed E item p =
     bindM (from_store (get_memory_events (Some (mi_memory_id item)))) (\<lambda>events.
     case activation_refusal p item events of
       Some reason \<Rightarrow> retM (False, reason, [])
     | None \<Rightarrow>
         bindM (decision_count E (av_orchestrator_id p) (Some (sr_ref (mi_source item))) False) (\<lambda>n.
         if int n \<ge> av_max_auto_activations_per_task p
         then retM (False, ''per-task auto-activation limit reached'', [])
         else
           bindM (decision_count E (av_orchestrator_id p) None True) (\<lambda>d.
           if int d \<ge> av_max_auto_activations_per_day p
           then retM (False, ''daily auto-activation limit reached'', [])
           else retM (True, ''bounded Orchestrator policy passed'',
                  [(''scope'', JStr (mi_scope item)), (''type'', JStr (mtype_str (mi_type item))),
                   (''source_kind'', JStr (sr_kind (mi_source item))),
                   (''source_ref'', JStr (sr_ref (mi_source item))),
                   (''aliases_allowed'', JBool (aliases_allowed p item))]))))"

definition activate_by_orchestrator ::
  "env \<Rightarrow> string \<Rightarrow> activation_policy option \<Rightarrow> mitem option run" where
  "activate_by_orchestrator E memory_id policy =
     (let p = (case policy of None \<Rightarrow> default_activation_policy | Some p \<Rightarrow> p);
          who = orchestrator_of (av_orchestrator_id p) in
      bindM (get_memory memory_id) (\<lambda>item.
      bindM (activation_allowed E item p) (\<lambda>(allowed, reason, evidence).
      if \<not> allowed then
        thenM (memory_event E (mi_memory_id item) ''orchestrator_activation_skipped'' Ak_system
                 ''memory-service'' [(''reason'', JStr reason), (''policy'', policy_json p)])
        (retM None)
      else
        bindM (request_approval E (mi_memory_id item) who Ak_system) (\<lambda>approval.
        bindM (decide_approval E (ap_approval_id approval) True who
                 (dumps (e_float E) (JObj [(''policy'', JStr ''bounded_orchestrator''),
                    (''reason'', JStr reason), (''evidence'', JObj evidence)])) Ak_system) (\<lambda>active.
        retM (Some active))))))"

definition propose :: "env \<Rightarrow> proposal \<Rightarrow> mitem run" where
  "propose E p =
     thenM (ensure_no_secret E (JObj [(''title'', JStr (pp_title p)), (''body'', JStr (pp_body p)),
              (''source_ref'', JStr (pp_source_ref p))]))
     (thenM (validate_source (pp_source_kind p) (pp_source_ref p))
     (bindM (from_store (\<lambda>s. case scope_part ''project:'' (pp_scope p) of
          Some (c # cs) \<Rightarrow> get_memory_project (c # cs) s \<noteq> None | _ \<Rightarrow> True)) (\<lambda>known.
      thenM (require known MemoryServiceError
               (''Unknown memory project: '' @ removeprefix ''project:'' (pp_scope p)))
      (bindM (fresh E ''memory_'') (\<lambda>memory_id.
       bindM (utc_now E) (\<lambda>created.
       bindM (case validate_scope_identity (build_item p memory_id created) of
                Inl e \<Rightarrow> raise ValidationError (scope_error_str e) | Inr m \<Rightarrow> retM m) (\<lambda>item.
       thenM (on_store (set_memory_item (mi_memory_id item) item))
       (thenM (memory_event E (mi_memory_id item) (if pp_observed p then ''observed'' else ''proposed'')
                 (pp_author_kind p) (pp_author_id p) [])
       (thenM (record_conflicts E item)
       (if pp_auto_activate p \<and> mi_status item = M_proposed then
          bindM (activate_by_orchestrator E (mi_memory_id item) (pp_activation_policy p)) (\<lambda>activated.
          retM (case activated of None \<Rightarrow> item | Some a \<Rightarrow> a))
        else retM item))))))))))"

section \<open>Transitions\<close>

definition memory_transition :: "env \<Rightarrow> string \<Rightarrow> mstatus \<Rightarrow> string \<Rightarrow> string \<Rightarrow> mitem run" where
  "memory_transition E memory_id target actor reason =
     bindM (get_memory memory_id) (\<lambda>item.
     thenM (require (target \<in> set (LEGAL_TRANSITIONS (mi_status item))) MemoryServiceError
              (''Illegal memory transition: '' @ mstatus_str (mi_status item) @ '' -> '' @
               mstatus_str target))
     (bindM (if target = M_deleted then bindM (utc_now E) (\<lambda>t. retM (Some t))
             else retM (mi_deleted_at item)) (\<lambda>deleted_at.
      let updated = item\<lparr>mi_status := target, mi_deleted_at := deleted_at\<rparr> in
      bindM (ask_store (transition_memory_item memory_id [mi_status item] updated)) (\<lambda>ok.
      thenM (require ok MemoryServiceError ''Memory item changed concurrently'')
      (thenM (memory_event E memory_id (mstatus_str target) Ak_developer actor
                [(''reason'', JStr reason)])
      (retM updated))))))"

definition supersede :: "env \<Rightarrow> string \<Rightarrow> string \<Rightarrow> string \<Rightarrow> mitem run" where
  "supersede E old_id replacement_id actor =
     bindM (get_memory old_id) (\<lambda>old.
     bindM (get_memory replacement_id) (\<lambda>replacement.
     thenM (require (mi_status old = M_active \<and> mi_status replacement = M_active)
              MemoryServiceError ''Supersession requires active old and replacement memory'')
     (let updated = old\<lparr>mi_status := M_superseded, mi_superseded_by := Some replacement_id\<rparr> in
      bindM (ask_store (transition_memory_item old_id [M_active] updated)) (\<lambda>ok.
      thenM (require ok MemoryServiceError ''Memory item changed concurrently'')
      (thenM (memory_event E old_id ''superseded'' Ak_developer actor
                [(''replacement_id'', JStr replacement_id)])
      (retM updated))))))"

definition purge :: "env \<Rightarrow> string \<Rightarrow> string \<Rightarrow> string \<Rightarrow> unit run" where
  "purge E memory_id actor reason =
     thenM (require (strip reason \<noteq> []) MemoryServiceError ''Purge requires a reason'')
     (bindM (get_memory memory_id) (\<lambda>item.
      thenM (memory_event E memory_id ''purged'' Ak_developer actor
               [(''reason'', JStr reason), (''title'', JStr (mi_title item))])
      (bindM (ask_store (delete_memory_item memory_id)) (\<lambda>ok.
       require ok MemoryServiceError (''Unknown memory item: '' @ memory_id)))))"

section \<open>Projects\<close>

definition create_project :: "env \<Rightarrow> string \<Rightarrow> string \<Rightarrow> mproject run" where
  "create_project E label created_by =
     bindM (fresh E ''project_'') (\<lambda>project_id.
     bindM (utc_now E) (\<lambda>created.
     bindM (utc_now E) (\<lambda>updated.
     let project = \<lparr>mp_project_id = project_id, mp_label = strip label,
           mp_created_by = created_by, mp_repository_ids = [], mp_created_at = created,
           mp_updated_at = updated\<rparr> in
     thenM (on_store (set_memory_project project_id project)) (retM project))))"

definition get_project :: "string \<Rightarrow> mproject run" where
  "get_project k =
     bindM (from_store (get_memory_project k)) (\<lambda>v.
     optM v (Exc MemoryServiceError (''Unknown memory project: '' @ k)))"

definition link_repository :: "env \<Rightarrow> string \<Rightarrow> string \<Rightarrow> mproject run" where
  "link_repository E project_id repo_id =
     bindM (get_project project_id) (\<lambda>project.
     bindM (utc_now E) (\<lambda>now.
     let updated = project\<lparr>mp_repository_ids := sorted_set (mp_repository_ids project @ [repo_id]),
           mp_updated_at := now\<rparr> in
     thenM (on_store (set_memory_project project_id updated)) (retM updated)))"

definition unlink_repository :: "env \<Rightarrow> string \<Rightarrow> string \<Rightarrow> mproject run" where
  "unlink_repository E project_id repo_id =
     bindM (get_project project_id) (\<lambda>project.
     bindM (utc_now E) (\<lambda>now.
     let updated = project\<lparr>mp_repository_ids :=
             filter (\<lambda>v. v \<noteq> repo_id) (mp_repository_ids project), mp_updated_at := now\<rparr> in
     thenM (on_store (set_memory_project project_id updated)) (retM updated)))"

text \<open>\<open>sorted(set(requested) & eligible)\<close>\<close>

definition allowed_scopes :: "string \<Rightarrow> string list \<Rightarrow> mem_store \<Rightarrow> string list" where
  "allowed_scopes repo_id requested s =
     (let eligible = [''repo:'' @ repo_id, ''global:terminology''] @
            map (\<lambda>p. ''project:'' @ mp_project_id p)
              (filter (\<lambda>p. repo_id \<in> set (mp_repository_ids p)) (list_memory_projects s)) in
      sorted_set (filter (\<lambda>r. r \<in> set eligible) requested))"

section \<open>Recall\<close>

definition item_text :: "env \<Rightarrow> mitem \<Rightarrow> string" where
  "item_text E m = lower (dumps (e_float E) (mitem_json m))"

text \<open>\<open>MemoryStateStore.search_memory_items\<close>\<close>

definition search_memory_items :: "env \<Rightarrow> string \<Rightarrow> mem_store \<Rightarrow> mitem list" where
  "search_memory_items E query s =
     (let terms = query_terms query in
      filter (\<lambda>m. terms = [] \<or> (\<exists>t\<in>set terms. contains t (item_text E m))) (list_memory_items s))"

definition haystack :: "mitem \<Rightarrow> string" where
  "haystack m = lower (join '' '' ([mi_title m, mi_body m] @ mi_aliases m @ mi_tags m))"

definition score :: "string list \<Rightarrow> mitem \<Rightarrow> nat" where
  "score terms m =
     sum_list (map (\<lambda>t. if contains t (lower (mi_title m)) then 3 else 1)
       (filter (\<lambda>t. contains t (haystack m)) terms))"

definition recallable :: "string list \<Rightarrow> mtype list \<Rightarrow> bool \<Rightarrow> mitem \<Rightarrow> bool" where
  "recallable scopes types include_observations m \<longleftrightarrow>
     mi_scope m \<in> set scopes \<and> (types = [] \<or> mi_type m \<in> set types) \<and>
     (mi_status m = M_active \<or> (include_observations \<and> mi_status m = M_observed))"

text \<open>By decreasing score, then by identifier\<close>

definition ranked ::
  "string list \<Rightarrow> string list \<Rightarrow> mtype list \<Rightarrow> bool \<Rightarrow> mitem list \<Rightarrow> mitem list" where
  "ranked terms scopes types include_observations items =
     map snd (sort_key (\<lambda>(n, m). (- int n, mi_memory_id m))
       (map (\<lambda>m. (score terms m, m))
         (filter (\<lambda>m. recallable scopes types include_observations m \<and>
            (terms = [] \<or> score terms m \<noteq> 0)) items)))"

definition item_cost :: "mitem \<Rightarrow> nat" where
  "item_cost m = estimate_tokens (mi_title m @ CHR 0x0A # mi_body m)"

text \<open>An item that does not fit is skipped, and the scan goes on\<close>

fun fit_budget :: "int \<Rightarrow> int \<Rightarrow> mitem list \<Rightarrow> mitem list \<Rightarrow> nat \<Rightarrow> mitem list \<times> nat" where
  "fit_budget max_items max_tokens [] selected tokens = (selected, tokens)"
| "fit_budget max_items max_tokens (m # ms) selected tokens =
     (if int (length selected) \<ge> max_items \<or> int (tokens + item_cost m) > max_tokens
      then fit_budget max_items max_tokens ms selected tokens
      else fit_budget max_items max_tokens ms (selected @ [m]) (tokens + item_cost m))"

definition recall ::
  "env \<Rightarrow> string \<Rightarrow> string list \<Rightarrow> mtype list \<Rightarrow> int \<Rightarrow> int \<Rightarrow> bool \<Rightarrow> mem_store \<Rightarrow> recall_result" where
  "recall E query scopes types max_items max_tokens include_observations s =
     (let rank = ranked (query_terms query) scopes types include_observations
                   (search_memory_items E query s) in
      case fit_budget max_items max_tokens rank [] 0 of
        (selected, tokens) \<Rightarrow> \<lparr>rr_items = selected, rr_estimated_tokens = tokens,
                              rr_truncated = (length selected < length rank)\<rparr>)"

definition resolve :: "string \<Rightarrow> string list \<Rightarrow> mem_store \<Rightarrow> recall_result" where
  "resolve reference scopes s =
     (let normalized = strip (lower reference);
          candidates = filter (\<lambda>m. mi_scope m \<in> set scopes \<and> mi_status m = M_active \<and>
                         normalized \<in> set (memory_names m)) (list_memory_items s) in
      \<lparr>rr_items = sort_key mi_memory_id candidates,
       rr_estimated_tokens = sum_list (map (\<lambda>m. estimate_tokens (mi_title m @ mi_body m)) candidates),
       rr_truncated = False\<rparr>)"

primrec section_of :: "mtype \<Rightarrow> string" where
  "section_of MT_terminology = ''glossary''"
| "section_of MT_decision = ''decisions''"
| "section_of MT_constraint = ''constraints''"
| "section_of MT_outcome = ''outcomes''"
| "section_of MT_known_trap = ''known_traps''"
| "section_of MT_open_question = ''open_questions''"
| "section_of MT_preference = ''source_pointers''"
| "section_of MT_fact = ''source_pointers''"
| "section_of MT_observation = ''source_pointers''"
| "section_of MT_summary = ''source_pointers''"
| "section_of MT_source_pointer = ''source_pointers''"

definition sections_of :: "mitem list \<Rightarrow> (string, mitem list) dict" where
  "sections_of items = foldl (\<lambda>d m. lappend (section_of (mi_type m)) m d) [] items"

definition memory_pack ::
  "env \<Rightarrow> string \<Rightarrow> string list \<Rightarrow> string \<Rightarrow> mem_store \<Rightarrow> exc + context_pack" where
  "memory_pack E profile scopes query s =
     (case dget BUDGETS profile of
        None \<Rightarrow> Inl (Exc MemoryServiceError (''Unknown context-pack profile: '' @ profile))
      | Some (pk, max_items, max_tokens) \<Rightarrow>
          (let result = recall E query scopes [] max_items max_tokens False s in
           Inr \<lparr>ck_profile = pk, ck_scopes = scopes, ck_sections = sections_of (rr_items result),
                ck_estimated_tokens = rr_estimated_tokens result\<rparr>))"

section \<open>Retention, export and audit\<close>

text \<open>Days an item may live\<close>

definition retention_days :: "mitem \<Rightarrow> int option" where
  "retention_days m =
     (if mi_status m = M_observed \<and> mi_low_value m then Some 7
      else if mi_status m = M_observed then Some 30
      else if mi_status m = M_proposed \<or> mi_type m = MT_summary then Some 90 else None)"

definition retain_item :: "env \<Rightarrow> string \<Rightarrow> int \<Rightarrow> mitem \<Rightarrow> string option run" where
  "retain_item E actor now m =
     bindM (parse_time_run (mi_created_at m)) (\<lambda>created.
     let age = now - (case created of None \<Rightarrow> now | Some t \<Rightarrow> t) in
     if (case retention_days m of None \<Rightarrow> True | Some d \<Rightarrow> age < d * micros_per_day) then retM None
     else
       bindM (from_store (\<lambda>s. case mi_approval_id m of
                Some (c # cs) \<Rightarrow> if mi_status m = M_proposed then get_approval (c # cs) s else None
              | _ \<Rightarrow> None)) (\<lambda>raw.
       if (case raw of None \<Rightarrow> False | Some a \<Rightarrow> ap_status a = Ap_pending) then
         bindM (utc_now E) (\<lambda>decided_at.
         let approval = (the raw)\<lparr>ap_status := Ap_rejected, ap_updated_at := decided_at,
               ap_decided_by := Some ''system'', ap_note := ''Expired by memory retention policy''\<rparr> in
         bindM (ask_store (transition_memory_approval (ap_approval_id approval) (mi_memory_id m)
                  [Ap_pending] [M_proposed] approval (m\<lparr>mi_status := M_expired\<rparr>))) (\<lambda>ok.
         if \<not> ok then retM None
         else thenM (memory_event E (mi_memory_id m) ''expired'' Ak_system actor
                       [(''reason'', JStr ''retention policy'')])
                (retM (Some (mi_memory_id m)))))
       else
         thenM (memory_transition E (mi_memory_id m) M_expired actor ''retention policy'')
         (retM (Some (mi_memory_id m)))))"

definition run_retention :: "env \<Rightarrow> string \<Rightarrow> string list run" where
  "run_retention E actor =
     bindM (now_instant E) (\<lambda>now.
     bindM (from_store (memory_list (Some [M_observed, M_proposed, M_active]))) (\<lambda>items.
     bindM (mapM (retain_item E actor now) items) (\<lambda>expired.
     retM (List.map_filter id expired))))"

definition export_items :: "bool \<Rightarrow> mem_store \<Rightarrow> mitem list" where
  "export_items include_deleted s =
     (let items = list_memory_items s in
      sort_key mi_memory_id
        (if include_deleted then items else filter (\<lambda>m. mi_status m \<noteq> M_deleted) items))"

definition audit :: "string option \<Rightarrow> mem_store \<Rightarrow> mevent list" where
  "audit memory_id s = get_memory_events memory_id s"

end
