(* ===== verification/Memory_Workflow.thy ===== *)
theory Memory_Workflow
  imports Memory Repository
begin

text \<open>
  The memory commands of \<open>canto/cli.py\<close> that change the store, with the arguments they fix, the
  memory branch of \<open>JobService.approve\<close> and \<open>reject\<close>, and the step relation they span.
\<close>

section \<open>Commands\<close>

definition cli_propose ::
  "env \<Rightarrow> string \<Rightarrow> mtype \<Rightarrow> string \<Rightarrow> string \<Rightarrow> string \<Rightarrow> string \<Rightarrow> mconfidence \<Rightarrow> string list \<Rightarrow>
   string list \<Rightarrow> mitem run" where
  "cli_propose E scope ty title body source_kind source_ref confidence aliases tags =
     propose E \<lparr>pp_scope = scope, pp_type = ty, pp_title = title, pp_body = body,
       pp_source_kind = source_kind, pp_source_ref = source_ref, pp_author_kind = Ak_developer,
       pp_author_id = ''cli'', pp_confidence = confidence, pp_aliases = aliases, pp_tags = tags,
       pp_freshness = None, pp_observed = False, pp_low_value = False,
       pp_auto_activate = True, pp_activation_policy = None\<rparr>"

definition attach_observation ::
  "env \<Rightarrow> string \<Rightarrow> string \<Rightarrow> string \<Rightarrow> string \<Rightarrow> string \<Rightarrow> mitem run" where
  "attach_observation E source_kind source_ref scope title body =
     propose E \<lparr>pp_scope = scope, pp_type = MT_observation, pp_title = title, pp_body = body,
       pp_source_kind = source_kind, pp_source_ref = source_ref, pp_author_kind = Ak_worker,
       pp_author_id = ''cli'', pp_confidence = Mc_observed, pp_aliases = [], pp_tags = [],
       pp_freshness = None, pp_observed = True, pp_low_value = False,
       pp_auto_activate = True, pp_activation_policy = None\<rparr>"

definition attach_outcome ::
  "env \<Rightarrow> string \<Rightarrow> string \<Rightarrow> string \<Rightarrow> string \<Rightarrow> string \<Rightarrow> mitem run" where
  "attach_outcome E source_kind source_ref scope title body =
     propose E \<lparr>pp_scope = scope, pp_type = MT_outcome, pp_title = title, pp_body = body,
       pp_source_kind = source_kind, pp_source_ref = source_ref, pp_author_kind = Ak_worker,
       pp_author_id = ''cli'', pp_confidence = Mc_supported, pp_aliases = [], pp_tags = [],
       pp_freshness = None, pp_observed = False, pp_low_value = False,
       pp_auto_activate = True, pp_activation_policy = None\<rparr>"

definition cli_link :: "env \<Rightarrow> string \<Rightarrow> string \<Rightarrow> mproject run" where
  "cli_link E project_id repository =
     bindM (load_repository E repository) (\<lambda>config.
     link_repository E project_id (cf_repo_id config))"

definition cli_unlink :: "env \<Rightarrow> string \<Rightarrow> string \<Rightarrow> mproject run" where
  "cli_unlink E project_id repository =
     bindM (load_repository E repository) (\<lambda>config.
     unlink_repository E project_id (cf_repo_id config))"

text \<open>The scopes a query may read: the repository's own, the global terminology and the named
  projects, as far as the repository belongs to them\<close>

definition memory_scopes :: "env \<Rightarrow> string \<Rightarrow> string list \<Rightarrow> string list run" where
  "memory_scopes E repository projects =
     bindM (load_repository E repository) (\<lambda>config.
     from_store (allowed_scopes (cf_repo_id config)
       ([''global:terminology'', ''repo:'' @ cf_repo_id config] @
        map (\<lambda>p. ''project:'' @ p) projects)))"

definition cli_recall ::
  "env \<Rightarrow> string \<Rightarrow> string \<Rightarrow> string list \<Rightarrow> mtype list \<Rightarrow> int \<Rightarrow> int \<Rightarrow> recall_result run" where
  "cli_recall E query repository projects types max_items max_tokens =
     bindM (memory_scopes E repository projects) (\<lambda>scopes.
     from_store (recall E query scopes types max_items max_tokens False))"

definition cli_resolve :: "env \<Rightarrow> string \<Rightarrow> string \<Rightarrow> string list \<Rightarrow> recall_result run" where
  "cli_resolve E reference repository projects =
     bindM (memory_scopes E repository projects) (\<lambda>scopes. from_store (resolve reference scopes))"

definition cli_context_pack ::
  "env \<Rightarrow> string \<Rightarrow> string \<Rightarrow> string \<Rightarrow> string list \<Rightarrow> context_pack run" where
  "cli_context_pack E repository profile query projects =
     bindM (memory_scopes E repository projects) (\<lambda>scopes.
     bindM (from_store (memory_pack E profile scopes query)) liftM)"

text \<open>\<open>JobService.approve\<close> and \<open>reject\<close> up to the memory branch; \<open>None\<close> means that the approval
  is not for memory and the service goes on with it\<close>

definition decide_subject :: "env \<Rightarrow> bool \<Rightarrow> string \<Rightarrow> string \<Rightarrow> string \<Rightarrow> mitem option run" where
  "decide_subject E approve approval_id who note =
     bindM (from_store (get_approval approval_id)) (\<lambda>raw.
     bindM (optM raw (Exc JobError (''Unknown approval: '' @ approval_id))) (\<lambda>approval.
     thenM (require (ap_status approval = Ap_pending) JobError
              (''Approval is already '' @ approval_status_str (ap_status approval)))
     (if ap_subject_kind approval = Some Sk_memory then
        bindM (tryM (decide_approval E approval_id approve who note Ak_developer)
          (\<lambda>e. if exc_cls e = MemoryServiceError then raise JobError (exc_str e) else raiseM e))
          (\<lambda>m. retM (Some m))
      else retM None)))"

section \<open>Steps\<close>

datatype memory_call =
    Propose_item string mtype string string string string mconfidence "string list" "string list"
  | Attach_observation string string string string string
  | Attach_outcome string string string string string
  | Request_approval string
  | Decide bool string string
  | Supersede string string
  | Expire string string
  | Delete_item string string
  | Purge string string
  | Retain
  | Create_project string
  | Link string string
  | Unlink string string

primrec run_memory :: "env \<Rightarrow> memory_call \<Rightarrow> unit run" where
  "run_memory E (Propose_item scope ty title body kind ref conf aliases tags) =
     ignore (cli_propose E scope ty title body kind ref conf aliases tags)"
| "run_memory E (Attach_observation kind ref scope title body) =
     ignore (attach_observation E kind ref scope title body)"
| "run_memory E (Attach_outcome kind ref scope title body) =
     ignore (attach_outcome E kind ref scope title body)"
| "run_memory E (Request_approval k) = ignore (request_approval E k ''cli'' Ak_developer)"
| "run_memory E (Decide ok a note) = ignore (decide_subject E ok a ''cantor'' note)"
| "run_memory E (Supersede a b) = ignore (supersede E a b ''cli'')"
| "run_memory E (Expire k reason) = ignore (memory_transition E k M_expired ''cli'' reason)"
| "run_memory E (Delete_item k reason) =
     ignore (memory_transition E k M_deleted ''cli'' reason)"
| "run_memory E (Purge k reason) = purge E k ''cli'' reason"
| "run_memory E Retain = ignore (run_retention E ''system'')"
| "run_memory E (Create_project label) = ignore (create_project E label ''cli'')"
| "run_memory E (Link p repo) = ignore (cli_link E p repo)"
| "run_memory E (Unlink p repo) = ignore (cli_unlink E p repo)"

inductive memory_step :: "env \<Rightarrow> sys \<Rightarrow> sys \<Rightarrow> bool" for E where
  call: "memory_step E s (snd (run_memory E c s))"
| outside: "memory_step E s (s\<lparr>sy_fs := f\<rparr>)"

inductive_cases memory_stepE [elim]: "memory_step E s t"

definition blank :: "fsys \<Rightarrow> sys" where
  "blank f = \<lparr>sy_store = empty_store, sy_fs = f, sy_tick = 0\<rparr>"

end
