(* ===== verification/Memory_Proofs.thy ===== *)
theory Memory_Proofs
  imports Memory_Workflow
begin

text \<open>
  What every memory command keeps: the items and approvals on record carry identifiers that were
  drawn from the clock of fresh names, an active or superseded item has an approved approval
  that names it, the content of an item never changes, and its status moves along
  \<open>LEGAL_TRANSITIONS\<close>.
\<close>

abbreviation item_at :: "string \<Rightarrow> sys \<Rightarrow> mitem option" where
  "item_at k s \<equiv> get_memory_item k (sy_store s)"

abbreviation approval_at :: "string \<Rightarrow> sys \<Rightarrow> approval_rec option" where
  "approval_at a s \<equiv> get_approval a (sy_store s)"

section \<open>The invariant and the order\<close>

text \<open>Identifiers drawn before tick \<open>n\<close>\<close>

definition drawn :: "env \<Rightarrow> nat \<Rightarrow> string \<Rightarrow> string \<Rightarrow> bool" where
  "drawn E n p k \<longleftrightarrow> (\<exists>i<n. k = p @ e_uuid E i)"

lemma drawn_mono: "drawn E n p k \<Longrightarrow> n \<le> n' \<Longrightarrow> drawn E n' p k"
  unfolding drawn_def using order_less_le_trans by blast

lemma drawn_fresh: "inj (e_uuid E) \<Longrightarrow> \<not> drawn E n p (p @ e_uuid E n)"
  by (auto simp: drawn_def dest: injD)

lemma drawn_new: "i < n \<Longrightarrow> drawn E n p (p @ e_uuid E i)"
  by (auto simp: drawn_def)

definition approved :: "mitem \<Rightarrow> mem_store \<Rightarrow> bool" where
  "approved m st \<longleftrightarrow> (\<exists>a ap. mi_approval_id m = Some a \<and> get_approval a st = Some ap \<and>
     ap_status ap = Ap_approved \<and> ap_subject_kind ap = Some Sk_memory \<and>
     ap_subject_id ap = Some (mi_memory_id m))"

definition memory_ok :: "env \<Rightarrow> sys \<Rightarrow> bool" where
  "memory_ok E s \<longleftrightarrow>
     (\<forall>k m. item_at k s = Some m \<longrightarrow> mi_memory_id m = k \<and> drawn E (sy_tick s) ''memory_'' k \<and>
        (mi_status m \<in> {M_active, M_superseded} \<longrightarrow> approved m (sy_store s))) \<and>
     (\<forall>a ap. approval_at a s = Some ap \<longrightarrow> drawn E (sy_tick s) ''approval_'' a) \<and>
     distinct (map fst (st_memory_items (sy_store s)))"

text \<open>What a proposal fixes\<close>

definition content where
  "content m = (mi_memory_id m, mi_scope m, mi_type m, mi_title m, mi_body m, mi_confidence m,
     mi_source m, mi_author_kind m, mi_author_id m, mi_aliases m, mi_tags m, mi_created_at m)"

inductive leads_to :: "mstatus \<Rightarrow> mstatus \<Rightarrow> bool" where
  stays: "leads_to a a"
| moves: "leads_to a b \<Longrightarrow> c \<in> set (LEGAL_TRANSITIONS b) \<Longrightarrow> leads_to a c"

inductive_simps leads_from_rejected: "leads_to M_rejected b"

lemma leads_trans: "leads_to b c \<Longrightarrow> leads_to a b \<Longrightarrow> leads_to a c"
  by (induction rule: leads_to.induct) (auto intro: leads_to.intros)

lemma leads_one: "b \<in> set (LEGAL_TRANSITIONS a) \<Longrightarrow> leads_to a b"
  using leads_to.intros by blast

definition evolved :: "env \<Rightarrow> sys \<Rightarrow> sys \<Rightarrow> bool" where
  "evolved E s t \<longleftrightarrow> sy_tick s \<le> sy_tick t \<and>
     (\<forall>k m'. item_at k t = Some m' \<longrightarrow> drawn E (sy_tick s) ''memory_'' k \<longrightarrow>
        (\<exists>m. item_at k s = Some m \<and> content m' = content m \<and> leads_to (mi_status m) (mi_status m')))"

definition good :: "env \<Rightarrow> sys \<Rightarrow> sys \<Rightarrow> bool" where
  "good E s t \<longleftrightarrow> memory_ok E t \<and> evolved E s t"

lemma evolved_refl [simp]: "evolved E s s"
  by (auto simp: evolved_def intro: leads_to.stays)

lemma evolvedD:
  assumes "evolved E s t" and "item_at k t = Some m'" and "drawn E (sy_tick s) ''memory_'' k"
  obtains m where "item_at k s = Some m" "content m' = content m"
    "leads_to (mi_status m) (mi_status m')"
  using assms unfolding evolved_def by blast

lemma evolved_tick: "evolved E s t \<Longrightarrow> sy_tick s \<le> sy_tick t"
  by (simp add: evolved_def)

lemma evolved_trans:
  assumes st: "evolved E s t" and tu: "evolved E t u"
  shows "evolved E s u"
  unfolding evolved_def
proof (intro conjI allI impI)
  show "sy_tick s \<le> sy_tick u"
    using st tu by (meson evolved_tick order_trans)
next
  fix k m'
  assume u: "item_at k u = Some m'" and k: "drawn E (sy_tick s) ''memory_'' k"
  have k': "drawn E (sy_tick t) ''memory_'' k"
    using k evolved_tick [OF st] by (rule drawn_mono)
  obtain m1 where 1: "item_at k t = Some m1" "content m' = content m1"
    "leads_to (mi_status m1) (mi_status m')"
    using evolvedD [OF tu u k'] by blast
  obtain m where 2: "item_at k s = Some m" "content m1 = content m"
    "leads_to (mi_status m) (mi_status m1)"
    using evolvedD [OF st 1(1) k] by blast
  have "content m' = content m" using 1(2) 2(2) by (rule trans)
  moreover have "leads_to (mi_status m) (mi_status m')" using 1(3) 2(3) by (rule leads_trans)
  ultimately show "\<exists>m. item_at k s = Some m \<and> content m' = content m \<and>
      leads_to (mi_status m) (mi_status m')"
    using 2(1) by blast
qed

lemma good_trans: "good E s t \<Longrightarrow> good E t u \<Longrightarrow> good E s u"
  unfolding good_def using evolved_trans by blast

lemma good_refl: "memory_ok E s \<Longrightarrow> good E s s"
  by (simp add: good_def)

lemma good_ok: "good E s t \<Longrightarrow> memory_ok E t"
  by (simp add: good_def)

section \<open>Changes of the state\<close>

lemma good_quiet:
  assumes "good E s0 s" and items: "st_memory_items (sy_store t) = st_memory_items (sy_store s)"
    and approvals: "st_approvals (sy_store t) = st_approvals (sy_store s)"
    and "sy_tick s \<le> sy_tick t"
  shows "good E s0 t"
proof -
  have item: "item_at k t = item_at k s" for k by (simp add: get_memory_item_def items)
  have approval: "approval_at a t = approval_at a s" for a by (simp add: get_approval_def approvals)
  have ok: "memory_ok E s" using assms(1) by (rule good_ok)
  have "approved m (sy_store t) = approved m (sy_store s)" for m
    by (simp add: approved_def approval)
  with ok assms(4) have "memory_ok E t"
    unfolding memory_ok_def by (simp add: item approval items) (blast intro: drawn_mono)
  moreover have "evolved E s t"
    using item assms(4) by (auto simp: evolved_def intro: leads_to.stays)
  ultimately show ?thesis
    using assms(1) evolved_trans unfolding good_def by blast
qed

lemma approved_set_approval:
  "approved m st \<Longrightarrow> mi_approval_id m \<noteq> Some a \<Longrightarrow> approved m (set_approval a v st)"
  by (auto simp: approved_def get_approval_def set_approval_def)

lemma good_set_approval:
  assumes "good E s0 s" and "drawn E (sy_tick s) ''approval_'' a" and "approval_at a s = None"
  shows "good E s0 (s\<lparr>sy_store := set_approval a v (sy_store s)\<rparr>)"
proof -
  have ok: "memory_ok E s" using assms(1) by (rule good_ok)
  have "approved m (set_approval a v (sy_store s))" if "approved m (sy_store s)" for m
    using that assms(3) by (intro approved_set_approval) (auto simp: approved_def)
  with ok assms(2) have "memory_ok E (s\<lparr>sy_store := set_approval a v (sy_store s)\<rparr>)"
    unfolding memory_ok_def
    by (auto simp: get_memory_item_def set_approval_def get_approval_def split: if_splits)
  moreover have "evolved E s (s\<lparr>sy_store := set_approval a v (sy_store s)\<rparr>)"
    by (auto simp: evolved_def get_memory_item_def set_approval_def intro: leads_to.stays)
  ultimately show ?thesis
    using assms(1) evolved_trans unfolding good_def by blast
qed

lemma good_set_item:
  assumes "good E s0 s" and "item_at k s = Some m" and "content m' = content m"
    and "leads_to (mi_status m) (mi_status m')"
    and "mi_status m' \<in> {M_active, M_superseded} \<Longrightarrow> approved m' (sy_store s)"
  shows "good E s0 (s\<lparr>sy_store := set_memory_item k m' (sy_store s)\<rparr>)"
proof -
  have ok: "memory_ok E s" using assms(1) by (rule good_ok)
  have same: "approved n (set_memory_item k m' (sy_store s)) = approved n (sy_store s)" for n
    by (simp add: approved_def get_approval_def set_memory_item_def)
  have "mi_memory_id m' = k"
    using ok assms(2,3) by (auto simp: memory_ok_def content_def)
  with ok assms(2,5) have "memory_ok E (s\<lparr>sy_store := set_memory_item k m' (sy_store s)\<rparr>)"
    unfolding memory_ok_def
    by (simp add: same) (auto simp: get_memory_item_def set_memory_item_def get_approval_def)
  moreover have "evolved E s (s\<lparr>sy_store := set_memory_item k m' (sy_store s)\<rparr>)"
    using assms(2-4) by (auto simp: evolved_def get_memory_item_def set_memory_item_def
        intro: leads_to.stays)
  ultimately show ?thesis
    using assms(1) evolved_trans unfolding good_def by blast
qed

lemma good_new_item:
  assumes "good E s0 s" and "item_at k s = None" and "\<not> drawn E (sy_tick s0) ''memory_'' k"
    and "drawn E (sy_tick s) ''memory_'' k" and "mi_memory_id m = k"
    and "mi_status m \<notin> {M_active, M_superseded}"
  shows "good E s0 (s\<lparr>sy_store := set_memory_item k m (sy_store s)\<rparr>)"
proof -
  have ok: "memory_ok E s" using assms(1) by (rule good_ok)
  have same: "approved n (set_memory_item k m (sy_store s)) = approved n (sy_store s)" for n
    by (simp add: approved_def get_approval_def set_memory_item_def)
  have "memory_ok E (s\<lparr>sy_store := set_memory_item k m (sy_store s)\<rparr>)"
    using ok assms(4-6) unfolding memory_ok_def
    by (simp add: same) (auto simp: get_memory_item_def set_memory_item_def get_approval_def)
  moreover have "evolved E s0 (s\<lparr>sy_store := set_memory_item k m (sy_store s)\<rparr>)"
    using assms(1,3) by (auto simp: good_def evolved_def get_memory_item_def set_memory_item_def
        split: if_splits)
  ultimately show ?thesis by (simp add: good_def)
qed

lemma good_delete_item:
  assumes "good E s0 s"
  shows "good E s0 (s\<lparr>sy_store := snd (delete_memory_item k (sy_store s))\<rparr>)"
proof -
  have ok: "memory_ok E s" using assms by (rule good_ok)
  have same: "approved n (snd (delete_memory_item k (sy_store s))) = approved n (sy_store s)" for n
    by (simp add: approved_def get_approval_def delete_memory_item_def)
  have "memory_ok E (s\<lparr>sy_store := snd (delete_memory_item k (sy_store s))\<rparr>)"
    using ok unfolding memory_ok_def
    by (simp add: same) (auto simp: get_memory_item_def delete_memory_item_def get_approval_def
        split: if_splits)
  moreover have "evolved E s (s\<lparr>sy_store := snd (delete_memory_item k (sy_store s))\<rparr>)"
    by (auto simp: evolved_def get_memory_item_def delete_memory_item_def intro: leads_to.stays
        split: if_splits)
  ultimately show ?thesis
    using assms evolved_trans unfolding good_def by blast
qed

text \<open>The two compare-and-set operations: nothing, or the update\<close>

lemma transition_item_result:
  "transition_memory_item k expected v st =
     (case get_memory_item k st of
        Some m \<Rightarrow> if mi_status m \<in> set expected then (True, set_memory_item k v st) else (False, st)
      | None \<Rightarrow> (False, st))"
  by (simp add: transition_memory_item_def get_memory_item_def set_memory_item_def
      split: option.split)

lemma transition_approval_result:
  "transition_memory_approval a k aexp mexp av mv st =
     (case (get_approval a st, get_memory_item k st) of
        (Some ap, Some m) \<Rightarrow>
          if ap_status ap \<in> set aexp \<and> mi_status m \<in> set mexp
          then (True, set_memory_item k mv (set_approval a av st)) else (False, st)
      | _ \<Rightarrow> (False, st))"
  by (simp add: transition_memory_approval_def get_memory_item_def set_memory_item_def
      get_approval_def set_approval_def split: option.split)

text \<open>A pending approval is decided together with its proposed item\<close>

lemma good_decide:
  assumes "good E s0 s" and "approval_at a s = Some ap" and "ap_status ap = Ap_pending"
    and "item_at k s = Some m" and "mi_status m = M_proposed" and "content m' = content m"
    and "mi_status m' \<in> set (LEGAL_TRANSITIONS M_proposed)"
    and "mi_status m' = M_active \<Longrightarrow> mi_approval_id m' = Some a \<and> ap_status ap' = Ap_approved \<and>
       ap_subject_kind ap' = Some Sk_memory \<and> ap_subject_id ap' = Some (mi_memory_id m')"
  shows "good E s0 (s\<lparr>sy_store := set_memory_item k m' (set_approval a ap' (sy_store s))\<rparr>)"
proof -
  let ?t = "s\<lparr>sy_store := set_approval a ap' (sy_store s)\<rparr>"
  have ok: "memory_ok E s" using assms(1) by (rule good_ok)
  have "approved n (set_approval a ap' (sy_store s))" if "approved n (sy_store s)" for n
    using that assms(2,3) by (intro approved_set_approval) (auto simp: approved_def)
  with ok assms(2) have "memory_ok E ?t"
    unfolding memory_ok_def
    by (auto simp: get_memory_item_def set_approval_def get_approval_def split: if_splits)
  moreover have "evolved E s ?t"
    by (auto simp: evolved_def get_memory_item_def set_approval_def intro: leads_to.stays)
  ultimately have "good E s0 ?t"
    using assms(1) evolved_trans unfolding good_def by blast
  then have "good E s0 (?t\<lparr>sy_store := set_memory_item k m' (sy_store ?t)\<rparr>)"
  proof (rule good_set_item)
    show "item_at k ?t = Some m" using assms(4) by (simp add: get_memory_item_def set_approval_def)
    show "content m' = content m" by fact
    show "leads_to (mi_status m) (mi_status m')" using assms(5,7) by (simp add: leads_one)
    assume "mi_status m' \<in> {M_active, M_superseded}"
    with assms(7) have "mi_status m' = M_active" by auto
    from assms(8) [OF this] show "approved m' (sy_store ?t)"
      by (simp add: approved_def get_approval_def set_approval_def)
  qed
  then show ?thesis by simp
qed

section \<open>The commands\<close>

text \<open>A program that keeps the invariant and the order, whatever it returns or raises\<close>

definition sound :: "env \<Rightarrow> 'a run \<Rightarrow> bool" where
  "sound E m \<longleftrightarrow> (\<forall>s0 s. good E s0 s \<longrightarrow> good E s0 (snd (m s)))"

named_theorems sound_intros "programs that keep the memory invariant"

lemma soundI: "(\<And>s0 s. good E s0 s \<Longrightarrow> wp m (\<lambda>_ t. good E s0 t) (\<lambda>_ t. good E s0 t) s) \<Longrightarrow> sound E m"
  unfolding sound_def using wp_sndD [where I = "good E _"] by blast

lemma soundD: "sound E m \<Longrightarrow> good E s0 s \<Longrightarrow> wp m (\<lambda>_ t. good E s0 t) (\<lambda>_ t. good E s0 t) s"
  unfolding sound_def wp_def
  by (metis (mono_tags, lifting) case_prod_beta old.sum.exhaust old.sum.simps(5,6) )

lemma sound_pure [sound_intros]:
  "sound E (retM a)" "sound E (raiseM e)" "sound E (getM f)" "sound E (guardM b e)"
  "sound E (optM v e)" "sound E (liftM r)" "sound E (raise c x)" "sound E (require b c x)"
  "sound E (from_fs g)" "sound E (from_store h)"
  by (simp_all add: sound_def sm_defs world_defs split: option.split sum.split)

lemma good_tick: "good E s0 s \<Longrightarrow> sy_tick s \<le> n \<Longrightarrow> good E s0 (s\<lparr>sy_fs := f, sy_tick := n\<rparr>)"
  by (rule good_quiet) simp_all

lemma sound_bind [sound_intros]: "sound E m \<Longrightarrow> (\<And>a. sound E (f a)) \<Longrightarrow> sound E (bindM m f)"
  unfolding sound_def bindM_def by (auto split: prod.split sum.split) (metis snd_conv)+

lemma sound_then [sound_intros]: "sound E m \<Longrightarrow> sound E n \<Longrightarrow> sound E (thenM m n)"
  by (simp add: thenM_def sound_bind)

lemma sound_try [sound_intros]: "sound E m \<Longrightarrow> (\<And>e. sound E (h e)) \<Longrightarrow> sound E (tryM m h)"
  unfolding sound_def tryM_def by (auto split: prod.split sum.split) (metis snd_conv)+

lemma sound_cases [sound_intros]:
  "sound E m \<Longrightarrow> sound E n \<Longrightarrow> sound E (if b then m else n)"
  "sound E m \<Longrightarrow> (\<And>a. sound E (f a)) \<Longrightarrow> sound E (case v of None \<Rightarrow> m | Some a \<Rightarrow> f a)"
  "(\<And>a b. sound E (g a b)) \<Longrightarrow> sound E (case w of (a, b) \<Rightarrow> g a b)"
  "(\<And>a. sound E (i a)) \<Longrightarrow> (\<And>a. sound E (j a)) \<Longrightarrow>
     sound E (case x of Inl a \<Rightarrow> i a | Inr a \<Rightarrow> j a)"
  by (simp_all split: option.split prod.split sum.split)

lemma sound_mapM [sound_intros]: "(\<And>x. sound E (f x)) \<Longrightarrow> sound E (mapM f xs)"
  by (induction xs) (simp_all add: sound_intros)

lemma sound_ignore [sound_intros]: "sound E m \<Longrightarrow> sound E (ignore m)"
  by (simp add: ignore_def sound_intros)

lemma sound_quiet:
  assumes "\<And>s. st_memory_items (sy_store (snd (m s))) = st_memory_items (sy_store s)"
    and "\<And>s. st_approvals (sy_store (snd (m s))) = st_approvals (sy_store s)"
    and "\<And>s. sy_tick s \<le> sy_tick (snd (m s))"
  shows "sound E m"
  using assms by (auto simp: sound_def intro: good_quiet)

lemma sound_world [sound_intros]:
  "sound E tick" "sound E (fresh E' p)" "sound E (utc_now E')" "sound E (on_fs g)"
  "sound E (on_store (append_memory_event k v))" "sound E (on_store (set_memory_project k w))"
  by (rule sound_quiet; simp add: world_defs sm_defs append_memory_event_def
      set_memory_project_def get_memory_item_def get_approval_def)+

lemma sound_memory_event [sound_intros]: "sound E (memory_event E' k ty kind who payload)"
  unfolding memory_event_def ensure_no_secret_def Let_def by (intro sound_intros)

lemma sound_reads [sound_intros]:
  "sound E (get_memory k)" "sound E (get_project k)" "sound E (parse_time_run v)"
  "sound E (now_instant E')" "sound E (counts_event marker ref day ev)"
  "sound E (decision_count E' who ref today)" "sound E (ensure_no_secret E' j)"
  "sound E (validate_source kind src)"
  unfolding get_memory_def get_project_def parse_time_run_def now_instant_def counts_event_def
    decision_count_def ensure_no_secret_def validate_source_def Let_def
  by (intro sound_intros)+

lemma sound_activation_allowed [sound_intros]: "sound E (activation_allowed E' m p)"
  unfolding activation_allowed_def by (intro sound_intros)

lemma sound_record_conflicts [sound_intros]: "sound E (record_conflicts E' m)"
  unfolding record_conflicts_def by (intro sound_intros)

lemma sound_projects [sound_intros]:
  "sound E (create_project E' l w)" "sound E (link_repository E' p r)"
  "sound E (unlink_repository E' p r)"
  unfolding create_project_def link_repository_def unlink_repository_def Let_def
  by (intro sound_intros)+

text \<open>Reading the item or the approval that a handler works on\<close>

lemma good_item_id: "good E s0 s \<Longrightarrow> item_at k s = Some m \<Longrightarrow> mi_memory_id m = k"
  by (auto simp: good_def memory_ok_def)

lemma fresh_unused:
  assumes "inj (e_uuid E)" and "good E s0 s"
  shows "approval_at (''approval_'' @ e_uuid E (sy_tick s)) s = None"
    and "item_at (''memory_'' @ e_uuid E (sy_tick s)) s = None"
    and "\<not> drawn E (sy_tick s0) ''memory_'' (''memory_'' @ e_uuid E (sy_tick s))"
proof -
  have ok: "memory_ok E s" using assms(2) by (rule good_ok)
  show "approval_at (''approval_'' @ e_uuid E (sy_tick s)) s = None"
    using ok drawn_fresh [OF assms(1)] unfolding memory_ok_def
    by (cases "approval_at (''approval_'' @ e_uuid E (sy_tick s)) s") blast+
  show "item_at (''memory_'' @ e_uuid E (sy_tick s)) s = None"
    using ok drawn_fresh [OF assms(1)] unfolding memory_ok_def
    by (cases "item_at (''memory_'' @ e_uuid E (sy_tick s)) s") blast+
  have "sy_tick s0 \<le> sy_tick s" using assms(2) by (simp add: good_def evolved_def)
  with drawn_fresh [OF assms(1)] show
    "\<not> drawn E (sy_tick s0) ''memory_'' (''memory_'' @ e_uuid E (sy_tick s))"
    using drawn_mono by blast
qed

text \<open>A handler that updates the item it has read: same content, a legal move, and then sound\<close>

definition may_become :: "mitem \<Rightarrow> mitem \<Rightarrow> bool" where
  "may_become m v \<longleftrightarrow> content v = content m \<and> leads_to (mi_status m) (mi_status v) \<and>
     (mi_status v \<in> {M_active, M_superseded} \<longrightarrow>
        mi_status m \<in> {M_active, M_superseded} \<and> mi_approval_id v = mi_approval_id m)"

lemma good_update:
  assumes "good E s0 s" and "item_at k s = Some m" and "mi_status m \<in> set ss \<Longrightarrow> may_become m v"
  shows "good E s0 (s\<lparr>sy_store := snd (transition_memory_item k ss v (sy_store s))\<rparr>)"
proof (cases "mi_status m \<in> set ss")
  case True
  then have v: "may_become m v" by (rule assms(3))
  have "approved v (sy_store s)" if "mi_status v \<in> {M_active, M_superseded}"
  proof -
    have m: "mi_status m \<in> {M_active, M_superseded}" "mi_approval_id v = mi_approval_id m"
      "mi_memory_id v = mi_memory_id m"
      using v that by (auto simp: may_become_def content_def)
    with assms(1,2) have "approved m (sy_store s)"
      unfolding good_def memory_ok_def by blast
    with m(2,3) show ?thesis by (simp add: approved_def)
  qed
  with assms(1,2) v have "good E s0 (s\<lparr>sy_store := set_memory_item k v (sy_store s)\<rparr>)"
    by (intro good_set_item) (auto simp: may_become_def)
  with assms(2) True show ?thesis by (simp add: transition_item_result)
next
  case False
  with assms(1,2) show ?thesis by (simp add: transition_item_result)
qed

text \<open>One handler, step by step: a run from \<open>s\<close> ends in a good state\<close>

definition goes :: "env \<Rightarrow> sys \<Rightarrow> 'a run \<Rightarrow> sys \<Rightarrow> bool" where
  "goes E s0 m s \<longleftrightarrow> wp m (\<lambda>_ t. good E s0 t) (\<lambda>_ t. good E s0 t) s"

lemma soundI': "(\<And>s0 s. good E s0 s \<Longrightarrow> goes E s0 m s) \<Longrightarrow> sound E m"
  by (rule soundI) (simp add: goes_def)

lemma goes_sound: "sound E m \<Longrightarrow> good E s0 s \<Longrightarrow> goes E s0 m s"
  unfolding goes_def by (rule soundD)

lemma goes_bind: "sound E m \<Longrightarrow> good E s0 s \<Longrightarrow> (\<And>a t. good E s0 t \<Longrightarrow> goes E s0 (f a) t) \<Longrightarrow>
    goes E s0 (bindM m f) s"
  unfolding goes_def wp_bind by (rule wp_conseq [OF soundD]) auto

lemma goes_get_memory:
  "good E s0 s \<Longrightarrow> (\<And>m. item_at k s = Some m \<Longrightarrow> goes E s0 (f m) s) \<Longrightarrow>
     goes E s0 (bindM (get_memory k) f) s"
  by (cases "item_at k s") (simp_all add: goes_def get_memory_def wp_eqs)

lemma goes_from_store: "goes E s0 (f (g (sy_store s))) s \<Longrightarrow> goes E s0 (bindM (from_store g) f) s"
  by (simp add: goes_def wp_bind wp_from_store)

lemma goes_opt:
  "good E s0 s \<Longrightarrow> (\<And>a. v = Some a \<Longrightarrow> goes E s0 (f a) s) \<Longrightarrow> goes E s0 (bindM (optM v e) f) s"
  by (cases v) (simp_all add: goes_def wp_eqs)

lemma goes_require:
  "good E s0 s \<Longrightarrow> (b \<Longrightarrow> goes E s0 m s) \<Longrightarrow> goes E s0 (thenM (require b c x) m) s"
  by (simp add: goes_def wp_then wp_require)

lemma goes_now:
  "goes E s0 (f (e_now E' (sy_tick s))) (s\<lparr>sy_tick := Suc (sy_tick s)\<rparr>) \<Longrightarrow>
     goes E s0 (bindM (utc_now E') f) s"
  by (simp add: goes_def wp_bind wp_utc_now)

lemma goes_fresh:
  "goes E s0 (f (p @ e_uuid E' (sy_tick s))) (s\<lparr>sy_tick := Suc (sy_tick s)\<rparr>) \<Longrightarrow>
     goes E s0 (bindM (fresh E' p) f) s"
  by (simp add: goes_def wp_bind wp_fresh)

lemma goes_on_store:
  "goes E s0 m (s\<lparr>sy_store := g (sy_store s)\<rparr>) \<Longrightarrow> goes E s0 (thenM (on_store g) m) s"
  by (simp add: goes_def wp_then wp_on_store)

lemma goes_update:
  assumes "good E s0 s" and "item_at k s = Some m" and "mi_status m \<in> set ss \<Longrightarrow> may_become m v"
    and "\<And>b. sound E (f b)"
  shows "goes E s0 (bindM (ask_store (transition_memory_item k ss v)) f) s"
  using soundD [OF assms(4) good_update [OF assms(1-3)]]
  by (simp add: goes_def wp_bind wp_ask_store case_prod_unfold)

lemma goes_decide:
  assumes "good E s0 s"
    and "\<And>ap m. approval_at a s = Some ap \<Longrightarrow> item_at k s = Some m \<Longrightarrow> content v = content m"
    and "mi_status v \<in> set (LEGAL_TRANSITIONS M_proposed)"
    and "mi_status v = M_active \<Longrightarrow> mi_approval_id v = Some a \<and> ap_status av = Ap_approved \<and>
       ap_subject_kind av = Some Sk_memory \<and> ap_subject_id av = Some (mi_memory_id v)"
    and "\<And>b. sound E (f b)"
  shows "goes E s0 (bindM (ask_store (transition_memory_approval a k [Ap_pending] [M_proposed] av v)) f) s"
proof -
  have "good E s0 (s\<lparr>sy_store := snd (transition_memory_approval a k [Ap_pending] [M_proposed] av v
      (sy_store s))\<rparr>)"
  proof -
    have "good E s0 (s\<lparr>sy_store := set_memory_item k v (set_approval a av (sy_store s))\<rparr>)"
      if "approval_at a s = Some ap" "ap_status ap = Ap_pending" "item_at k s = Some m"
        "mi_status m = M_proposed" for ap m
      by (rule good_decide [OF assms(1) that assms(2) [OF that(1,3)] assms(3,4)])
    with assms(1) show ?thesis
      by (auto simp: transition_approval_result split: option.split)
  qed
  from soundD [OF assms(5) this] show ?thesis
    by (simp add: goes_def wp_bind wp_ask_store case_prod_unfold)
qed

lemma good_later: "good E s0 s \<Longrightarrow> good E s0 (s\<lparr>sy_tick := Suc (sy_tick s)\<rparr>)"
  by (erule good_quiet) simp_all

text \<open>A step that leaves items and approvals alone\<close>

definition quiet :: "'a run \<Rightarrow> bool" where
  "quiet m \<longleftrightarrow> (\<forall>s. st_memory_items (sy_store (snd (m s))) = st_memory_items (sy_store s) \<and>
     st_approvals (sy_store (snd (m s))) = st_approvals (sy_store s) \<and>
     sy_tick s \<le> sy_tick (snd (m s)))"

lemma quiet_world:
  "quiet (retM a)" "quiet (raise c x)" "quiet (require b c x)" "quiet (utc_now E')"
  "quiet (fresh E' p)" "quiet (from_store h)" "quiet (optM v e)"
  by (simp_all add: quiet_def sm_defs world_defs split: option.split)

lemma quiet_bind: "quiet m \<Longrightarrow> (\<And>a. quiet (f a)) \<Longrightarrow> quiet (bindM m f)"
  unfolding quiet_def bindM_def
  by (auto split: prod.split sum.split) (metis order_trans snd_conv)+

lemma quiet_cases:
  "quiet m \<Longrightarrow> quiet n \<Longrightarrow> quiet (if b then m else n)"
  "quiet m \<Longrightarrow> (\<And>a. quiet (f a)) \<Longrightarrow> quiet (case v of None \<Rightarrow> m | Some a \<Rightarrow> f a)"
  by (simp_all split: option.split)

lemma quiet_mapM: "(\<And>x. quiet (f x)) \<Longrightarrow> quiet (mapM f xs)"
  by (induction xs) (simp_all add: quiet_world quiet_bind)

lemmas quiet_intros = quiet_world quiet_bind quiet_cases quiet_mapM

lemma goes_quiet:
  assumes "good E s0 s" and "quiet m"
    and "\<And>a t. good E s0 t \<Longrightarrow> (\<And>k. item_at k t = item_at k s) \<Longrightarrow>
      (\<And>k. approval_at k t = approval_at k s) \<Longrightarrow> goes E s0 (f a) t"
  shows "goes E s0 (bindM m f) s"
proof -
  obtain r t where m: "m s = (r, t)" by (cases "m s")
  with assms(2) have t: "st_memory_items (sy_store t) = st_memory_items (sy_store s)"
    "st_approvals (sy_store t) = st_approvals (sy_store s)" "sy_tick s \<le> sy_tick t"
    unfolding quiet_def by (metis snd_conv)+
  have same: "item_at k t = item_at k s" "approval_at k t = approval_at k s" for k
    by (simp_all add: get_memory_item_def get_approval_def t)
  have "good E s0 t" by (rule good_quiet [OF assms(1) t])
  with assms(3) [OF this same] m show ?thesis
    by (cases r) (simp_all add: goes_def wp_def bindM_def)
qed

lemma sound_transition [sound_intros]:
  assumes "target \<notin> {M_active, M_superseded}"
  shows "sound E (memory_transition E' k target actor reason)"
proof (rule soundI')
  fix s0 s assume g: "good E s0 s"
  show "goes E s0 (memory_transition E' k target actor reason) s"
    unfolding memory_transition_def Let_def
  proof (intro goes_get_memory [OF g] goes_require [OF g])
    fix m assume m: "item_at k s = Some m" and l: "target \<in> set (LEGAL_TRANSITIONS (mi_status m))"
    show "goes E s0 (bindM (if target = M_deleted then bindM (utc_now E') (\<lambda>t. retM (Some t))
            else retM (mi_deleted_at m)) (\<lambda>deleted_at.
        bindM (ask_store (transition_memory_item k [mi_status m]
            (m\<lparr>mi_status := target, mi_deleted_at := deleted_at\<rparr>))) (\<lambda>ok.
        thenM (require ok MemoryServiceError ''Memory item changed concurrently'')
        (thenM (memory_event E' k (mstatus_str target) Ak_developer actor [(''reason'', JStr reason)])
        (retM (m\<lparr>mi_status := target, mi_deleted_at := deleted_at\<rparr>)))))) s"
    proof (rule goes_quiet [OF g])
      fix d t assume "good E s0 t" and t: "\<And>k. item_at k t = item_at k s"
      then show "goes E s0 (bindM (ask_store (transition_memory_item k [mi_status m]
            (m\<lparr>mi_status := target, mi_deleted_at := d\<rparr>))) (\<lambda>ok.
        thenM (require ok MemoryServiceError ''Memory item changed concurrently'')
        (thenM (memory_event E' k (mstatus_str target) Ak_developer actor [(''reason'', JStr reason)])
        (retM (m\<lparr>mi_status := target, mi_deleted_at := d\<rparr>))))) t"
        using m l assms by (intro goes_update [where m = m] sound_intros)
          (auto simp: may_become_def content_def leads_one)
    qed (intro quiet_intros)
  qed
qed

lemma goes_option:
  "(v = None \<Longrightarrow> goes E s0 m s) \<Longrightarrow> (\<And>a. v = Some a \<Longrightarrow> goes E s0 (f a) s) \<Longrightarrow>
     goes E s0 (case v of None \<Rightarrow> m | Some a \<Rightarrow> f a) s"
  by (cases v) simp_all

lemma goes_if:
  "(b \<Longrightarrow> goes E s0 m s) \<Longrightarrow> (\<not> b \<Longrightarrow> goes E s0 n s) \<Longrightarrow> goes E s0 (if b then m else n) s"
  by simp

lemma sound_supersede [sound_intros]: "sound E (supersede E' a b who)"
proof (rule soundI')
  fix s0 s assume g: "good E s0 s"
  show "goes E s0 (supersede E' a b who) s"
    unfolding supersede_def Let_def
    by (intro goes_get_memory [OF g] goes_require [OF g]; rule goes_update [OF g], assumption)
      (auto simp: may_become_def content_def leads_one intro!: sound_intros)
qed

lemma sound_purge [sound_intros]: "sound E (purge E' k who reason)"
proof -
  have "sound E (ask_store (delete_memory_item k))"
    using good_delete_item by (simp add: sound_def ask_store_def case_prod_unfold)
  then show ?thesis unfolding purge_def by (intro sound_intros)
qed

lemma sound_request_approval:
  assumes "inj (e_uuid E)"
  shows "sound E (request_approval E k who kind)"
proof (rule soundI')
  fix s0 s assume g: "good E s0 s"
  let ?s = "s\<lparr>sy_tick := Suc (sy_tick s)\<rparr>"
  let ?id = "''approval_'' @ e_uuid E (sy_tick ?s)"
  have g1: "good E s0 ?s" using g by (rule good_later)
  then have g2: "good E s0 (?s\<lparr>sy_tick := Suc (sy_tick ?s)\<rparr>)" by (rule good_later)
  have g3: "good E s0 (?s\<lparr>sy_tick := Suc (sy_tick ?s), sy_store := set_approval ?id a (sy_store s)\<rparr>)" for a
  proof -
    have "drawn E (sy_tick (?s\<lparr>sy_tick := Suc (sy_tick ?s)\<rparr>)) ''approval_'' ?id"
      by (rule drawn_new) simp
    moreover have "approval_at ?id (?s\<lparr>sy_tick := Suc (sy_tick ?s)\<rparr>) = None"
      using fresh_unused(1) [OF assms g1] by simp
    ultimately show ?thesis using good_set_approval [OF g2, of ?id a] by simp
  qed
  have m: "item_at i (?s\<lparr>sy_tick := n, sy_store := set_approval ?id a (sy_store s)\<rparr>) = item_at i s"
    for i a n by (simp add: get_memory_item_def set_approval_def)
  show "goes E s0 (request_approval E k who kind) s"
    unfolding request_approval_def Let_def
  proof (intro goes_get_memory [OF g] goes_require [OF g] goes_from_store goes_option goes_now
      goes_fresh goes_on_store, goal_cases)
    case (1 m)
    with g m show ?case
      using g3
      by (intro goes_update [where m = m] sound_intros)
        (simp_all add: may_become_def content_def good_item_id leads_to.stays)
  next
    case (2 m a)
    with g show ?case by (intro goes_sound sound_intros)
  qed
qed

lemma sound_decide_approval [sound_intros]: "sound E (decide_approval E' a ok who note kind)"
proof (rule soundI')
  fix s0 s assume g: "good E s0 s"
  have t: "good E s0 (s\<lparr>sy_tick := Suc (Suc (sy_tick s))\<rparr>)"
    using good_later [OF good_later [OF g]] by simp
  show "goes E s0 (decide_approval E' a ok who note kind) s"
    unfolding decide_approval_def Let_def
  proof (intro goes_get_memory [OF g] goes_require [OF g] goes_from_store goes_opt [OF g] goes_now, goal_cases)
    case (1 ap m)
    then obtain i where i: "ap_subject_id ap = Some i"
      by (auto simp: given_def)
    with 1 g have m: "mi_memory_id m = i" "item_at i s = Some m"
      by (auto simp: good_item_id)
    show ?case
      using 1 t i m
      by (intro goes_decide sound_intros) (simp_all add: content_def split: if_splits)
  qed
qed

lemma sound_activate:
  assumes "inj (e_uuid E)"
  shows "sound E (activate_by_orchestrator E k p)"
  unfolding activate_by_orchestrator_def Let_def
  by (intro sound_intros sound_request_approval [OF assms])

lemma goes_then_sound: "goes E s0 m s \<Longrightarrow> sound E n \<Longrightarrow> goes E s0 (thenM m n) s"
  unfolding goes_def wp_then by (erule wp_conseq) (auto intro: soundD)

lemma validate_same: "validate_scope_identity m = Inr v \<Longrightarrow> v = m"
  by (auto simp: validate_scope_identity_def Let_def split: if_splits)

lemma goes_validated:
  "good E s0 s \<Longrightarrow> (validate_scope_identity m = Inr m \<Longrightarrow> goes E s0 (f m) s) \<Longrightarrow>
     goes E s0 (bindM (case validate_scope_identity m of
       Inl e \<Rightarrow> raise ValidationError (scope_error_str e) | Inr v \<Rightarrow> retM v) f) s"
  by (cases "validate_scope_identity m") (auto simp: goes_def wp_eqs dest: validate_same)

lemma sound_propose:
  assumes "inj (e_uuid E)"
  shows "sound E (propose E p)"
proof -
  let ?rest = "\<lambda>memory_id. bindM (utc_now E) (\<lambda>created.
       bindM (case validate_scope_identity (build_item p memory_id created) of
                Inl e \<Rightarrow> raise ValidationError (scope_error_str e) | Inr m \<Rightarrow> retM m) (\<lambda>item.
       thenM (on_store (set_memory_item (mi_memory_id item) item))
       (thenM (memory_event E (mi_memory_id item) (if pp_observed p then ''observed'' else ''proposed'')
                 (pp_author_kind p) (pp_author_id p) [])
       (thenM (record_conflicts E item)
       (if pp_auto_activate p \<and> mi_status item = M_proposed then
          bindM (activate_by_orchestrator E (mi_memory_id item) (pp_activation_policy p)) (\<lambda>activated.
          retM (case activated of None \<Rightarrow> item | Some a \<Rightarrow> a))
        else retM item)))))"
  have "sound E (bindM (fresh E ''memory_'') ?rest)"
  proof (rule soundI')
    fix s0 s assume g: "good E s0 s"
    let ?id = "''memory_'' @ e_uuid E (sy_tick s)"
    let ?t = "s\<lparr>sy_tick := Suc (Suc (sy_tick s))\<rparr>"
    have t: "good E s0 ?t" using good_later [OF good_later [OF g]] by simp
    have d: "drawn E (sy_tick ?t) ''memory_'' ?id" by (rule drawn_new) simp
    have "item_at ?id ?t = None" using fresh_unused(2) [OF assms g] by simp
    then have new: "good E s0 (?t\<lparr>sy_store := set_memory_item (mi_memory_id (build_item p ?id c))
        (build_item p ?id c) (sy_store ?t)\<rparr>)" for c
      using good_new_item [OF t _ fresh_unused(3) [OF assms g] d, of "build_item p ?id c"]
      by (simp add: build_item_def)
    show "goes E s0 (bindM (fresh E ''memory_'') ?rest) s"
      using new
      by (intro goes_fresh goes_now goes_validated goes_on_store goes_sound sound_intros
          sound_activate assms) (simp_all add: t)
  qed
  then show ?thesis
    unfolding propose_def by (intro sound_then sound_bind [where m = "from_store _"] sound_reads sound_pure)
qed

lemma sound_git [sound_intros]: "sound E (git_run E' c)"
  by (rule sound_quiet; simp add: git_run_def split: prod.split)

lemma sound_parsed [sound_intros]: "sound E (parsed w r)"
  by (simp add: parsed_def sound_intros split: sum.split)

lemma sound_repository [sound_intros]:
  "sound E (repo_git E' c a)" "sound E (git_root E' p)" "sound E (git_metadata E' p)"
  by (simp_all add: repo_git_def git_root_def git_metadata_def sound_intros)

lemma sound_find_repository [sound_intros]: "sound E (find_repository E' p)"
  by (simp add: find_repository_def sound_intros)

lemma sound_load [sound_intros]: "sound E (load_repository E' r)"
  unfolding load_repository_def
  apply (intro sound_bind sound_then sound_cases(3) sound_pure sound_find_repository)
  apply (rule sound_parsed sound_repository)+
  done

subsection \<open>Retention\<close>

text \<open>The loop works on the items it read at its start; their content is still that of the items
  on record\<close>

lemma goes_retain_item:
  assumes g: "good E s1 s" and m: "item_at (mi_memory_id m) s1 = Some m" and ok: "memory_ok E s1"
  shows "goes E s1 (retain_item E' who now m) s"
proof -
  have drawn: "drawn E (sy_tick s1) ''memory_'' (mi_memory_id m)"
    using ok m unfolding memory_ok_def by blast
  have same: "content m' = content m" if "good E s1 u" and u: "item_at (mi_memory_id m) u = Some m'" for u m'
  proof -
    have ev: "evolved E s1 u" using that(1) by (simp add: good_def)
    obtain n where "item_at (mi_memory_id m) s1 = Some n" "content m' = content n"
      by (rule evolvedD [OF ev u drawn])
    with m show ?thesis by simp
  qed
  show ?thesis
    unfolding retain_item_def Let_def
  proof (intro goes_quiet [OF g] goes_if, goal_cases)
    case 1
    show ?case unfolding parse_time_run_def by (intro quiet_intros)
  next
    case (2 created t)
    then show ?case by (intro goes_sound sound_intros)
  next
    case (3 created t)
    show ?case
    proof (intro goes_from_store goes_if goes_now, goal_cases)
      case 1
      have u: "good E s1 (t\<lparr>sy_tick := Suc (sy_tick t)\<rparr>)" using 3(1) by (rule good_later)
      show ?case
      proof (rule goes_decide [OF u], goal_cases)
        case (1 ap m')
        from same [OF u 1(2)] show ?case by (simp add: content_def)
      qed (simp_all add: sound_intros)
    next
      case 2
      with 3 show ?case by (intro goes_sound sound_intros) simp_all
    qed
  qed
qed

lemma listed_items:
  assumes "memory_ok E s" and "m \<in> set (list_memory_items (sy_store s))"
  shows "item_at (mi_memory_id m) s = Some m"
proof -
  obtain k where k: "item_at k s = Some m"
    using assms unfolding memory_ok_def list_memory_items_def get_memory_item_def
    by (auto simp: sorted_values_member)
  with assms(1) have "mi_memory_id m = k" unfolding memory_ok_def by blast
  with k show ?thesis by simp
qed

lemma wp_ret_eta: "wp (retM a) Q X = Q a"
  by (rule ext) (rule wp_ret)

lemma sound_retention [sound_intros]: "sound E (run_retention E' who)"
proof (rule soundI')
  fix s0 s assume g: "good E s0 s"
  show "goes E s0 (run_retention E' who) s"
    unfolding run_retention_def
  proof (rule goes_bind [OF _ g])
    fix now t assume t: "good E s0 t"
    then have ok: "memory_ok E t" by (rule good_ok)
    let ?items = "memory_list (Some [M_observed, M_proposed, M_active]) (sy_store t)"
    have at: "item_at (mi_memory_id m) t = Some m" if "m \<in> set ?items" for m
      using that listed_items [OF ok] by (simp add: memory_list_def)
    have "wp (mapM (retain_item E' who now) ?items) (\<lambda>_. good E t) (\<lambda>_. good E t) t"
      using goes_retain_item [OF _ at ok] good_refl [OF ok]
      by (intro wp_mapM_inv) (auto simp: goes_def)
    then have "wp (mapM (retain_item E' who now) ?items) (\<lambda>_. good E s0) (\<lambda>_. good E s0) t"
      by (rule wp_conseq) (auto intro: good_trans [OF t])
    then show "goes E s0 (bindM (from_store (memory_list (Some [M_observed, M_proposed, M_active])))
        (\<lambda>items. bindM (mapM (retain_item E' who now) items)
          (\<lambda>expired. retM (List.map_filter id expired)))) t"
      by (simp add: goes_def wp_bind wp_from_store wp_ret_eta)
  qed (intro sound_intros)
qed

subsection \<open>All commands\<close>

lemma sound_decide_subject [sound_intros]: "sound E (decide_subject E' ok a who note)"
  unfolding decide_subject_def
  by (intro sound_bind sound_then sound_cases(1) sound_try sound_pure sound_decide_approval)

lemma sound_links [sound_intros]: "sound E (cli_link E' p r)" "sound E (cli_unlink E' p r)"
  unfolding cli_link_def cli_unlink_def
  by (intro sound_bind sound_load sound_projects)+

lemma sound_command:
  assumes "inj (e_uuid E)"
  shows "sound E (run_memory E c)"
  by (cases c) (simp_all add: cli_propose_def attach_observation_def attach_outcome_def
      sound_intros sound_propose [OF assms] sound_request_approval [OF assms])

lemma memory_step_good:
  assumes "inj (e_uuid E)" and "memory_step E s t" and "memory_ok E s"
  shows "good E s t"
  using assms(2)
proof cases
  case (call c)
  with sound_command [OF assms(1), of c] good_refl [OF assms(3)]
  show ?thesis by (simp add: sound_def)
next
  case (outside f)
  have "good E s (s\<lparr>sy_fs := f\<rparr>)"
    by (rule good_quiet [OF good_refl [OF assms(3)]]) simp_all
  with outside show ?thesis by simp
qed

lemma memory_steps_good:
  assumes "inj (e_uuid E)" and "(memory_step E)\<^sup>*\<^sup>* s t" and "memory_ok E s"
  shows "good E s t"
  using assms(2)
proof induction
  case base
  show ?case by (rule good_refl [OF assms(3)])
next
  case (step t u)
  then show ?case using memory_step_good [OF assms(1) step.hyps(2) good_ok] good_trans by blast
qed

lemma memory_ok_blank: "memory_ok E (blank f)"
  by (simp add: memory_ok_def blank_def empty_store_def get_memory_item_def get_approval_def)

end
