(* ===== verification/Recall_Proofs.thy ===== *)
theory Recall_Proofs
  imports Memory "HOL-Library.Sublist"
begin

text \<open>
  Lemmas on recall: the greedy selection under a budget, substring search, and the JSON text of an
  item, which contains every query term that its title, body, aliases or tags contain.
\<close>

section \<open>The greedy selection\<close>

lemma fit_budget_spec:
  assumes "fit_budget mi mt ms sel tok = (sel', tok')"
  shows "\<exists>new. sel' = sel @ new \<and> subseq new ms \<and>
    tok' = tok + sum_list (map item_cost new) \<and>
    (new \<noteq> [] \<longrightarrow> int (length sel') \<le> mi \<and> int tok' \<le> mt)"
  using assms
proof (induction mi mt ms sel tok rule: fit_budget.induct)
  case (1 mi mt sel tok)
  then show ?case by simp
next
  case (2 mi mt m ms sel tok)
  show ?case
  proof (cases "int (length sel) \<ge> mi \<or> int (tok + item_cost m) > mt")
    case True
    with 2 show ?thesis by (simp split: if_splits) (blast intro: list_emb_Cons)
  next
    case False
    with 2 obtain new where new: "sel' = (sel @ [m]) @ new" "subseq new ms"
      "tok' = tok + item_cost m + sum_list (map item_cost new)"
      "new \<noteq> [] \<longrightarrow> int (length sel') \<le> mi \<and> int tok' \<le> mt"
      by auto
    then show ?thesis
      using False by (intro exI [of _ "m # new"]) (cases new; auto)
  qed
qed

text \<open>Nothing that would still fit is left out\<close>

lemma fit_budget_maximal:
  assumes "fit_budget mi mt ms sel tok = (sel', tok')" and "m \<in> set ms" and "m \<notin> set sel'"
  shows "int (length sel') \<ge> mi \<or> int (tok' + item_cost m) > mt"
  using assms
proof (induction mi mt ms sel tok rule: fit_budget.induct)
  case (2 mi mt x ms sel tok)
  show ?case
  proof (cases "int (length sel) \<ge> mi \<or> int (tok + item_cost x) > mt")
    case True
    then have r: "fit_budget mi mt ms sel tok = (sel', tok')" using 2(3) by auto
    from fit_budget_spec [OF r] True have "x = m \<Longrightarrow> ?thesis" by auto
    with 2 True r show ?thesis by auto
  next
    case False
    then have r: "fit_budget mi mt ms (sel @ [x]) (tok + item_cost x) = (sel', tok')"
      using 2(3) by auto
    from fit_budget_spec [OF r] have "x \<in> set sel'" by auto
    with 2 False r show ?thesis by auto
  qed
qed simp

section \<open>Query terms in the text of an item\<close>

lemma runs_all: "x \<in> set (runs P s) \<Longrightarrow> c \<in> set x \<Longrightarrow> P c"
  by (induction P s rule: runs.induct) (auto split: if_splits dest: set_takeWhileD)

lemma query_terms_chars: "t \<in> set (query_terms q) \<Longrightarrow> c \<in> set t \<Longrightarrow> term_char c"
  by (auto simp: query_terms_def dest: runs_all)

lemma query_terms_ne: "t \<in> set (query_terms q) \<Longrightarrow> t \<noteq> []"
  by (auto simp: query_terms_def)

lemma term_char_plain: "term_char (lower_char c) \<Longrightarrow> json_char c = [c]"
proof -
  have "\<forall>c::char. term_char (lower_char c) \<longrightarrow> json_char c = [c]" by code_simp
  then show "term_char (lower_char c) \<Longrightarrow> json_char c = [c]" by blast
qed

lemma term_not_space: "term_char c \<Longrightarrow> c \<noteq> CHR '' ''"
  by (auto simp: term_char_def is_digit_def less_eq_char_def)

lemma map_split:
  "map f s = a @ b \<Longrightarrow> \<exists>a' b'. s = a' @ b' \<and> map f a' = a \<and> map f b' = b"
  by (auto simp: map_eq_append_conv)

lemma contains_json_string:
  assumes "contains t (lower s)" and "\<And>c. c \<in> set t \<Longrightarrow> term_char c"
  shows "contains t (lower (json_string s))"
proof -
  from assms(1) obtain a b where "map lower_char s = a @ t @ b" by (auto simp: contains_iff lower_def)
  from map_split [OF this] obtain a' r' where r: "s = a' @ r'" "map lower_char r' = t @ b"
    by blast
  from map_split [OF r(2)] obtain t' b' where "r' = t' @ b'" and t: "map lower_char t' = t"
    by blast
  with r have s: "s = a' @ t' @ b'" by simp
  have "concat (map json_char t') = t'"
  proof -
    have "json_char c = [c]" if "c \<in> set t'" for c
      using that assms(2) t by (intro term_char_plain) auto
    then show ?thesis by (induction t') simp_all
  qed
  then have "contains t' (json_string s)"
    using contains_mid [of t' "CHR 0x22 # concat (map json_char a')"
        "concat (map json_char b') @ [CHR 0x22]"]
    by (simp add: json_string_def s)
  from contains_lower [OF this] t show ?thesis by (simp add: lower_def)
qed

lemma contains_dumps_list:
  "j \<in> set js \<Longrightarrow> contains (dumps fl j) (dumps fl (JList js))"
proof -
  assume "j \<in> set js"
  then have "dumps fl j \<in> set (dumps_list fl js)" by (induction js) auto
  from contains_append [OF contains_join [OF this, of "'', ''"], of "''[''" "'']''"]
  show ?thesis by simp
qed

lemma contains_dumps_pair:
  assumes "(k, v) \<in> set kvs"
  shows "contains (dumps fl v) (dumps fl (JObj kvs))"
proof -
  let ?p = "json_string k @ '': '' @ dumps fl v"
  have "(k, ?p) \<in> set (dumps_pairs fl kvs)" using assms by (induction kvs) auto
  then have "?p \<in> snd ` set (sort_key fst (dumps_pairs fl kvs))"
    by (metis set_sort rev_image_eqI snd_conv)
  then have "?p \<in> set (map snd (sort_key fst (dumps_pairs fl kvs)))" by simp
  from contains_append [OF contains_join [OF this, of "'', ''"], of "''{''" "''}''"]
  have "contains ?p (dumps fl (JObj kvs))" by simp
  moreover have "contains (dumps fl v) ?p"
    using contains_mid [of "dumps fl v" "json_string k @ '': ''" "[]"] by simp
  ultimately show ?thesis using contains_trans by blast
qed

text \<open>A term that occurs in the title, the body, an alias or a tag occurs in the JSON text\<close>

lemma haystack_in_text:
  assumes "t \<in> set (query_terms q)" and "contains t (haystack m)"
  shows "contains t (item_text E m)"
proof -
  have space: "CHR '' '' \<notin> set t" using query_terms_chars [OF assms(1)] term_not_space by blast
  have lower_join: "lower (join '' '' xs) = join '' '' (map lower xs)" for xs
    by (induction "'' ''" xs rule: join.induct) (simp_all add: lower_def lower_char_def less_eq_char_def)
  have "contains t (join '' '' (map lower ([mi_title m, mi_body m] @ mi_aliases m @ mi_tags m)))"
    using assms(2) unfolding haystack_def lower_join .
  from contains_joined [OF this space query_terms_ne [OF assms(1)]]
  obtain p where p: "p \<in> set ([mi_title m, mi_body m] @ mi_aliases m @ mi_tags m)" "contains t (lower p)"
    by auto
  have "contains (json_string p) (dumps (e_float E) (mitem_json m))"
  proof -
    have field: "contains (json_string p) (dumps (e_float E) (mitem_json m))"
      if "(k, v) \<in> set kvs" "mitem_json m = JObj kvs" "contains (json_string p) (dumps (e_float E) v)"
      for k v kvs
      using contains_trans [OF that(3) contains_dumps_pair [OF that(1)]] that(2) by simp
    have elem: "p \<in> set xs \<Longrightarrow> contains (json_string p) (dumps (e_float E) (JList (map JStr xs)))" for xs
      using contains_dumps_list [of "JStr p" "map JStr xs" "e_float E"] by simp
    from p(1) consider "p = mi_title m" | "p = mi_body m" | "p \<in> set (mi_aliases m)" | "p \<in> set (mi_tags m)"
      by auto
    then show ?thesis
    proof cases
      case 1
      show ?thesis by (rule field [of "''title''" "JStr p"]) (auto simp: mitem_json_def 1 contains_iff intro: exI [of _ "[]"])
    next
      case 2
      show ?thesis by (rule field [of "''body''" "JStr p"]) (auto simp: mitem_json_def 2 contains_iff intro: exI [of _ "[]"])
    next
      case 3
      show ?thesis by (rule field [of "''aliases''", OF _ _ elem [OF 3]]) (auto simp: mitem_json_def)
    next
      case 4
      show ?thesis by (rule field [of "''tags''", OF _ _ elem [OF 4]]) (auto simp: mitem_json_def)
    qed
  qed
  from contains_lower [OF this] contains_json_string [OF p(2) query_terms_chars [OF assms(1)]]
  show ?thesis unfolding item_text_def by (blast intro: contains_trans)
qed

lemma score_term: "score terms m \<noteq> 0 \<Longrightarrow> \<exists>t\<in>set terms. contains t (haystack m)"
  by (auto simp: score_def) 

lemma ranked_search:
  "ranked (query_terms q) scopes types obs (search_memory_items E q s) =
   ranked (query_terms q) scopes types obs (list_memory_items s)"
proof -
  have "(query_terms q = [] \<or> score (query_terms q) m \<noteq> 0) \<longrightarrow>
      (query_terms q = [] \<or> (\<exists>t\<in>set (query_terms q). contains t (item_text E m)))" for m
    using score_term haystack_in_text by blast
  then have "filter (\<lambda>m. recallable scopes types obs m \<and>
        (query_terms q = [] \<or> score (query_terms q) m \<noteq> 0)) (search_memory_items E q s) =
      filter (\<lambda>m. recallable scopes types obs m \<and>
        (query_terms q = [] \<or> score (query_terms q) m \<noteq> 0)) (list_memory_items s)"
    unfolding search_memory_items_def Let_def filter_filter by (intro filter_cong) auto
  then show ?thesis by (simp add: ranked_def)
qed

lemma set_ranked:
  "set (ranked terms scopes types obs items) =
     {m \<in> set items. recallable scopes types obs m \<and> (terms = [] \<or> score terms m \<noteq> 0)}"
  by (force simp: ranked_def)

end
