(* ===== verification/Memory_Properties.thy ===== *)
theory Memory_Properties
  imports Memory_Proofs Recall_Proofs
begin

text \<open>
  The properties of the memory service: what an active item has been through, what never changes,
  what recall, resolution and context packs return, the limits of the orchestrator, and three
  places where the audit trail or the memory itself is lost.
\<close>

section \<open>A concrete world\<close>

definition memory_env :: env where
  "memory_env = \<lparr>e_uuid = (\<lambda>n. replicate n CHR ''x''),
     e_now = (\<lambda>n. ''2024-05-01T10:00:00.000000Z''),
     e_git = (\<lambda>n c f. (\<lparr>px_code = 1, px_stdout = [], px_stderr = []\<rparr>, f)),
     e_exec = (\<lambda>n argv cwd i f. (Not_started [], f)),
     e_which = (\<lambda>f x. None), e_state_root = ''/h'',
     e_sha = (\<lambda>s. s), e_resolve = (\<lambda>f p. p), e_dumps = (\<lambda>n j. []), e_float = (\<lambda>r. []),
     e_loads = (\<lambda>s. None), e_shlex = (\<lambda>s. None), e_toml_repo = (\<lambda>s. Inl []),
     e_toml_policy = (\<lambda>s. Inl []), e_toml_workers = (\<lambda>s. Inl [])\<rparr>"

lemma memory_env_inj: "inj (e_uuid memory_env)"
  by (auto simp: memory_env_def inj_def dest: arg_cong [of _ _ length])

definition no_files :: fsys where
  "no_files = \<lparr>fs_files = [], fs_dirs = [], fs_links = [], fs_readonly = []\<rparr>"

definition demo_note :: string where
  "demo_note = dumps (\<lambda>r. []) (JObj [(''policy'', JStr ''bounded_orchestrator''),
     (''reason'', JStr ''bounded Orchestrator policy passed''),
     (''evidence'', JObj [(''scope'', JStr ''repo:r''), (''type'', JStr ''outcome''),
        (''source_kind'', JStr ''commit''), (''source_ref'', JStr ''abcdef0''),
        (''aliases_allowed'', JBool False)])])"

definition demo_time :: string where
  "demo_time = ''2024-05-01T10:00:00.000000Z''"

definition demo_memory :: mitem where
  "demo_memory = \<lparr>mi_memory_id = ''memory_'', mi_scope = ''repo:r'', mi_type = MT_outcome,
     mi_status = M_active, mi_title = ''tip'', mi_body = ''use it'', mi_confidence = Mc_supported,
     mi_source = \<lparr>sr_kind = ''commit'', sr_ref = ''abcdef0'', sr_freshness = None,
                  sr_resolved = True\<rparr>,
     mi_author_kind = Ak_worker, mi_author_id = ''cli'', mi_aliases = [], mi_tags = [],
     mi_approval_id = Some ''approval_xxxxxxx'', mi_repo_id = Some ''r'', mi_project_id = None,
     mi_low_value = False, mi_created_at = demo_time, mi_reviewed_at = Some demo_time,
     mi_expires_at = None, mi_superseded_by = None, mi_deleted_at = None\<rparr>"

definition demo_memory_approval :: approval_rec where
  "demo_memory_approval = \<lparr>ap_approval_id = ''approval_xxxxxxx'',
     ap_subject_kind = Some Sk_memory, ap_subject_id = Some ''memory_'', ap_job_id = None,
     ap_plan_id = None, ap_step_capability = None, ap_skill = None, ap_provider = None,
     ap_reason = ''Activate memory: tip'', ap_risk_level = 1, ap_status = Ap_approved,
     ap_created_at = demo_time, ap_updated_at = demo_time,
     ap_decided_by = Some ''orchestrator:local'', ap_note = demo_note, ap_promotion = None,
     ap_recovery = None\<rparr>"

definition demo_memory_event :: "nat \<Rightarrow> string \<Rightarrow> actor_kind \<Rightarrow> string \<Rightarrow> jobj \<Rightarrow> mevent" where
  "demo_memory_event n ty kind who payload = \<lparr>me_event_id = ''memory_event_'' @ replicate n CHR ''x'',
     me_memory_id = ''memory_'', me_event_type = ty, me_actor_kind = kind, me_actor_id = who,
     me_payload = payload, me_created_at = demo_time\<rparr>"

definition demo_active :: sys where
  "demo_active = \<lparr>sy_store = empty_store\<lparr>
       st_approvals := [(''approval_xxxxxxx'', demo_memory_approval)],
       st_memory_items := [(''memory_'', demo_memory)],
       st_memory_events := [demo_memory_event 2 ''proposed'' Ak_worker ''cli'' [],
         demo_memory_event 8 ''approval_requested'' Ak_system ''orchestrator:local''
           [(''approval_id'', JStr ''approval_xxxxxxx'')],
         demo_memory_event 12 ''activated'' Ak_system ''orchestrator:local''
           [(''approval_id'', JStr ''approval_xxxxxxx''), (''note'', JStr demo_note)]]\<rparr>,
     sy_fs = no_files, sy_tick = 14\<rparr>"

lemma demo_run:
  "snd (run_memory memory_env
     (Attach_outcome ''commit'' ''abcdef0'' ''repo:r'' ''tip'' ''use it'') (blank no_files)) = demo_active"
  by code_simp

lemma demo_active_reached: "(memory_step memory_env)\<^sup>*\<^sup>* (blank no_files) demo_active"
  using memory_step.call [of memory_env "blank no_files"] demo_run r_into_rtranclp by metis

lemma demo_active_item: "get_memory_item ''memory_'' (sy_store demo_active) = Some demo_memory"
  by (simp add: demo_active_def get_memory_item_def)

definition demo_expired :: sys where
  "demo_expired = snd (run_memory memory_env (Expire ''memory_'' ''old'') demo_active)"

lemma demo_expired_item:
  "get_memory_item ''memory_'' (sy_store demo_expired) = Some (demo_memory\<lparr>mi_status := M_expired\<rparr>)"
  by code_simp

section \<open>Approval, content and status\<close>

text \<open>C15: in every state that the commands of \<open>canto memory\<close> and the approval commands can
  reach, an active or superseded item has an approval on record that is approved and names that
  very item, when fresh identifiers do not repeat.\<close>

theorem active_memory_was_approved:
  assumes "inj (e_uuid E)" and "(memory_step E)\<^sup>*\<^sup>* (blank f) s"
    and "get_memory_item k (sy_store s) = Some m" and "mi_status m \<in> {M_active, M_superseded}"
  shows "\<exists>a ap. mi_approval_id m = Some a \<and> get_approval a (sy_store s) = Some ap \<and>
    ap_status ap = Ap_approved \<and> ap_subject_kind ap = Some Sk_memory \<and> ap_subject_id ap = Some k"
proof -
  have "memory_ok E s"
    by (rule good_ok [OF memory_steps_good [OF assms(1,2) memory_ok_blank]])
  with assms(3,4) have "mi_memory_id m = k" "approved m (sy_store s)"
    unfolding memory_ok_def by blast+
  then show ?thesis by (auto simp: approved_def)
qed

theorem active_memory_was_approved_witness:
  "\<exists>a ap. mi_approval_id demo_memory = Some a \<and> get_approval a (sy_store demo_active) = Some ap \<and>
    ap_status ap = Ap_approved \<and> ap_subject_kind ap = Some Sk_memory \<and>
    ap_subject_id ap = Some ''memory_''"
  by (rule active_memory_was_approved [OF memory_env_inj demo_active_reached demo_active_item])
    (simp add: demo_memory_def)

text \<open>C16: once proposed, what an item says never changes: no command alters its scope, type,
  title, body, confidence, source, author, aliases, tags or creation time, so that what was
  reviewed is what is recalled; and its status only moves along the table of legal transitions.\<close>

theorem memory_content_is_frozen:
  assumes "inj (e_uuid E)" and "(memory_step E)\<^sup>*\<^sup>* (blank f) s" and "(memory_step E)\<^sup>*\<^sup>* s t"
    and "get_memory_item k (sy_store s) = Some m" and "get_memory_item k (sy_store t) = Some m'"
  shows "content m' = content m \<and> leads_to (mi_status m) (mi_status m')"
proof -
  have ok: "memory_ok E s"
    by (rule good_ok [OF memory_steps_good [OF assms(1,2) memory_ok_blank]])
  then have d: "drawn E (sy_tick s) ''memory_'' k"
    using assms(4) unfolding memory_ok_def by blast
  have ev: "evolved E s t"
    using memory_steps_good [OF assms(1,3) ok] by (simp add: good_def)
  show ?thesis
    by (rule evolvedD [OF ev assms(5) d]) (use assms(4) in simp)
qed

theorem memory_content_is_frozen_witness:
  "content (demo_memory\<lparr>mi_status := M_expired\<rparr>) = content demo_memory \<and>
   leads_to M_active M_expired"
proof -
  have "(memory_step memory_env)\<^sup>*\<^sup>* demo_active demo_expired"
    unfolding demo_expired_def by (rule r_into_rtranclp) (rule memory_step.call)
  from memory_content_is_frozen [OF memory_env_inj demo_active_reached this demo_active_item
      demo_expired_item]
  show ?thesis by (simp add: demo_memory_def)
qed

section \<open>Recall\<close>

text \<open>C18: recall stays inside its budgets: at most \<open>max_items\<close> items, whose estimated tokens
  add up to the reported number and to at most \<open>max_tokens\<close>; the result is flagged as truncated
  exactly when it has fewer items than were ranked.\<close>

theorem recall_fits_budget:
  "let r = recall E query scopes types max_items max_tokens obs s in
     int (length (rr_items r)) \<le> max 0 max_items \<and>
     int (rr_estimated_tokens r) \<le> max 0 max_tokens \<and>
     rr_estimated_tokens r = sum_list (map item_cost (rr_items r)) \<and>
     rr_truncated r = (length (rr_items r) <
       length (ranked (query_terms query) scopes types obs (list_memory_items s)))"
proof -
  let ?rank = "ranked (query_terms query) scopes types obs (search_memory_items E query s)"
  obtain sel tok where r: "fit_budget max_items max_tokens ?rank [] 0 = (sel, tok)"
    by (cases "fit_budget max_items max_tokens ?rank [] 0")
  from fit_budget_spec [OF r] have "tok = sum_list (map item_cost sel)"
    "sel \<noteq> [] \<longrightarrow> int (length sel) \<le> max_items \<and> int tok \<le> max_tokens"
    by auto
  with r show ?thesis by (cases "sel = []") (auto simp: recall_def Let_def ranked_search)
qed

text \<open>recall leaves an item out only when it does not fit: an item that was ranked but not
  returned would exceed the number of items or the tokens of the budget.\<close>

theorem recall_is_maximal:
  assumes "m \<in> set (ranked (query_terms query) scopes types obs (list_memory_items s))"
    and "m \<notin> set (rr_items (recall E query scopes types max_items max_tokens obs s))"
  shows "let r = recall E query scopes types max_items max_tokens obs s in
    int (length (rr_items r)) \<ge> max_items \<or>
    int (rr_estimated_tokens r + item_cost m) > max_tokens"
proof -
  let ?rank = "ranked (query_terms query) scopes types obs (search_memory_items E query s)"
  obtain sel tok where r: "fit_budget max_items max_tokens ?rank [] 0 = (sel, tok)"
    by (cases "fit_budget max_items max_tokens ?rank [] 0")
  with assms fit_budget_maximal [OF r, of m] show ?thesis
    by (auto simp: recall_def Let_def ranked_search)
qed

theorem recall_is_maximal_witness:
  "rr_items (recall memory_env ''tip'' [''repo:r''] [] 12 1 False (sy_store demo_active)) = [] \<and>
   1 < item_cost demo_memory"
proof -
  have "list_memory_items (sy_store demo_active) = [demo_memory]"
    by (simp add: list_memory_items_def demo_active_def sorted_values_def)
  moreover have "demo_memory \<in> set (ranked (query_terms ''tip'') [''repo:r''] [] False [demo_memory])"
    by code_simp
  moreover have none: "rr_items (recall memory_env ''tip'' [''repo:r''] [] 12 1 False (sy_store demo_active)) = []"
    by code_simp
  moreover have "rr_estimated_tokens (recall memory_env ''tip'' [''repo:r''] [] 12 1 False
      (sy_store demo_active)) = 0"
    by code_simp
  ultimately show ?thesis
    using recall_is_maximal [of demo_memory "''tip''" "[''repo:r'']" "[]" False "sy_store demo_active"
        memory_env 12 1]
    by simp
qed

text \<open>C19: recall never returns an item from outside the scopes and types asked for, nor one that
  is not active (or observed, when observations are asked for), nor one that shares no term with
  a query that has terms.\<close>

theorem recall_is_scoped:
  "set (rr_items (recall E query scopes types max_items max_tokens obs s)) \<subseteq>
     {m \<in> set (list_memory_items s). mi_scope m \<in> set scopes \<and>
        (types = [] \<or> mi_type m \<in> set types) \<and>
        (mi_status m = M_active \<or> (obs \<and> mi_status m = M_observed)) \<and>
        (query_terms query = [] \<or> (\<exists>t\<in>set (query_terms query). contains t (haystack m)))}"
proof -
  let ?rank = "ranked (query_terms query) scopes types obs (search_memory_items E query s)"
  obtain sel tok where r: "fit_budget max_items max_tokens ?rank [] 0 = (sel, tok)"
    by (cases "fit_budget max_items max_tokens ?rank [] 0")
  from fit_budget_spec [OF r] have "set sel \<subseteq> set ?rank"
    by (auto dest: list_emb_set)
  then have "set sel \<subseteq> set (ranked (query_terms query) scopes types obs (list_memory_items s))"
    by (simp add: ranked_search)
  with r show ?thesis
    unfolding recall_def Let_def set_ranked recallable_def using score_term
    by (fastforce simp: ranked_search)
qed

text \<open>For text in ASCII the search of the in-memory store is only an optimisation of recall: ranking
  the items that \<open>search_memory_items\<close> preselects by looking for the query terms in their JSON text
  gives the same list as ranking all items.\<close>

theorem search_loses_nothing:
  "ranked (query_terms query) scopes types obs (search_memory_items E query s) =
   ranked (query_terms query) scopes types obs (list_memory_items s)"
  by (rule ranked_search)

text \<open>resolving a reference returns, in the order of their identifiers, exactly the active
  items of the scopes whose title or one of whose aliases equals the reference up to case and
  surrounding blanks.\<close>

theorem resolve_finds_names:
  "set (rr_items (resolve reference scopes s)) =
     {m \<in> set (list_memory_items s). mi_scope m \<in> set scopes \<and> mi_status m = M_active \<and>
        (\<exists>n\<in>set (mi_title m # mi_aliases m). strip (lower n) = strip (lower reference))} \<and>
   sorted (map mi_memory_id (rr_items (resolve reference scopes s)))"
proof
  show "set (rr_items (resolve reference scopes s)) =
     {m \<in> set (list_memory_items s). mi_scope m \<in> set scopes \<and> mi_status m = M_active \<and>
        (\<exists>n\<in>set (mi_title m # mi_aliases m). strip (lower n) = strip (lower reference))}"
    by (rule set_eqI) (simp add: resolve_def Let_def memory_names_def image_iff eq_commute)
  show "sorted (map mi_memory_id (rr_items (resolve reference scopes s)))"
    by (simp add: resolve_def Let_def)
qed

text \<open>the scopes a query may read never widen: of the scopes asked for, exactly the
  repository's own scope, the global terminology and the projects that list the repository are
  kept.\<close>

theorem scopes_never_widen:
  "set (allowed_scopes repo_id requested s) =
     {x \<in> set requested. x = ''repo:'' @ repo_id \<or> x = ''global:terminology'' \<or>
        (\<exists>p\<in>set (list_memory_projects s). repo_id \<in> set (mp_repository_ids p) \<and>
           x = ''project:'' @ mp_project_id p)}"
  by (rule set_eqI) (simp add: allowed_scopes_def Let_def image_iff Bex_def conj_ac)

lemma sections_of_snoc:
  "sections_of (ms @ [m]) = lappend (section_of (mi_type m)) m (sections_of ms)"
  by (simp add: sections_of_def)

lemma sections_of_get: "lget (sections_of ms) n = filter (\<lambda>m. section_of (mi_type m) = n) ms"
proof (induction ms rule: rev_induct)
  case Nil
  show ?case by (simp add: sections_of_def)
next
  case (snoc m ms)
  then show ?case by (auto simp: sections_of_snoc)
qed

text \<open>a context pack holds what recall returns under the budget of its profile, each item in
  the section of its type and in the order of recall; an unknown profile is an error.\<close>

theorem context_pack_sections:
  "memory_pack E profile scopes query s =
     (case dget BUDGETS profile of
        None \<Rightarrow> Inl (Exc MemoryServiceError (''Unknown context-pack profile: '' @ profile))
      | Some (pk, n, tokens) \<Rightarrow>
          let r = recall E query scopes [] n tokens False s in
          Inr \<lparr>ck_profile = pk, ck_scopes = scopes, ck_sections = sections_of (rr_items r),
               ck_estimated_tokens = rr_estimated_tokens r\<rparr>) \<and>
   (\<forall>name. lget (sections_of items) name = filter (\<lambda>m. section_of (mi_type m) = name) items)"
  by (simp add: memory_pack_def sections_of_get split: option.split)

section \<open>The limits of the orchestrator\<close>

text \<open>The activations on record by an orchestrator of items that have the given source\<close>

definition activations_for :: "string \<Rightarrow> string \<Rightarrow> mem_store \<Rightarrow> mevent list" where
  "activations_for who ref s =
     filter (\<lambda>e. me_event_type e = ''activated'' \<and> me_actor_id e = orchestrator_of who \<and>
         me_memory_id e \<noteq> [] \<and>
         (case get_memory_item (me_memory_id e) s of None \<Rightarrow> False | Some m \<Rightarrow> sr_ref (mi_source m) = ref))
       (st_memory_events s)"

lemma counts_event_source:
  "counts_event (orchestrator_of who) (Some ref) None e s =
     (Inr (me_event_type e = ''activated'' \<and> me_actor_id e = orchestrator_of who \<and>
         me_memory_id e \<noteq> [] \<and>
         (case get_memory_item (me_memory_id e) (sy_store s) of
            None \<Rightarrow> False | Some m \<Rightarrow> sr_ref (mi_source m) = ref)), s)"
  by (auto simp: counts_event_def run_eqs from_store_def split: option.split)

lemma mapM_pure: "(\<And>x. f x s = (Inr (g x), s)) \<Longrightarrow> mapM f xs s = (Inr (map g xs), s)"
  by (induction xs) (simp_all add: run_eqs)

lemma decision_count_source:
  assumes "decision_count E who (Some ref) False s = (Inr n, t)"
  shows "n = length (activations_for who ref (sy_store s)) \<and> sy_store t = sy_store s \<and>
    sy_tick t = Suc (sy_tick s)"
proof -
  obtain now u where u: "now_instant E s = (Inr now, u)" "sy_store u = sy_store s"
      "sy_tick u = Suc (sy_tick s)"
    using assms unfolding decision_count_def now_instant_def
    by (auto simp: inr_eqs utc_now_def tick_def)
  have m: "mapM (counts_event (orchestrator_of who) (Some ref) None) xs u = (Inr (map (\<lambda>e.
      me_event_type e = ''activated'' \<and> me_actor_id e = orchestrator_of who \<and> me_memory_id e \<noteq> [] \<and>
         (case get_memory_item (me_memory_id e) (sy_store u) of
            None \<Rightarrow> False | Some m \<Rightarrow> sr_ref (mi_source m) = ref)) xs), u)" for xs
    by (rule mapM_pure) (rule counts_event_source)
  show ?thesis
    using assms u m
    by (auto simp: decision_count_def run_eqs from_store_def activations_for_def get_memory_events_def
        filter_map comp_def id_def)
qed

text \<open>The activations on record by an orchestrator on a day\<close>

definition activated_on :: "string \<Rightarrow> int \<Rightarrow> mem_store \<Rightarrow> mevent list" where
  "activated_on who day s =
     filter (\<lambda>e. me_event_type e = ''activated'' \<and> me_actor_id e = orchestrator_of who \<and>
         (case parse_time (me_created_at e) of
            Some (Some t) \<Rightarrow> t div micros_per_day = day | _ \<Rightarrow> False))
       (st_memory_events s)"

lemma counts_event_day:
  assumes "counts_event (orchestrator_of who) None (Some day) e s = (Inr b, t)"
  shows "t = s \<and> b = (me_event_type e = ''activated'' \<and> me_actor_id e = orchestrator_of who \<and>
         (case parse_time (me_created_at e) of
            Some (Some t) \<Rightarrow> t div micros_per_day = day | _ \<Rightarrow> False))"
  using assms
  by (auto simp: counts_event_def parse_time_run_def inr_eqs split: if_splits option.splits)

lemma mapM_result:
  assumes "mapM f xs s = (Inr bs, t)"
    and "\<And>x u b v. f x u = (Inr b, v) \<Longrightarrow> v = u \<and> b = g x"
  shows "bs = map g xs \<and> t = s"
  using assms(1)
proof (induction xs arbitrary: s bs)
  case (Cons x xs)
  from Cons.prems obtain b bs' u where "f x s = (Inr b, u)" "mapM f xs u = (Inr bs', t)" "bs = b # bs'"
    by (auto simp: inr_eqs)
  with Cons.IH [of u bs'] assms(2) [of x s b u] show ?case by simp
qed simp

text \<open>The instant that the next reading of the clock gives\<close>

definition instant_at :: "env \<Rightarrow> nat \<Rightarrow> int option" where
  "instant_at E n = fromisoformat (replace_char CHR ''Z'' ''+00:00'' (e_now E n))"

lemma decision_count_day:
  assumes "decision_count E who None True s = (Inr n, t)"
  shows "\<exists>now. instant_at E (sy_tick s) = Some now \<and>
    n = length (activated_on who (now div micros_per_day) (sy_store s))"
proof -
  obtain now bs v where now: "instant_at E (sy_tick s) = Some now"
    and bs: "mapM (counts_event (orchestrator_of who) None (Some (now div micros_per_day)))
      (st_memory_events (sy_store s)) (s\<lparr>sy_tick := Suc (sy_tick s)\<rparr>) = (Inr bs, v)"
      "n = length (filter id bs)"
    using assms unfolding decision_count_def now_instant_def
    by (auto simp: inr_eqs utc_now_def tick_def instant_at_def get_memory_events_def)
  from mapM_result [OF bs(1) counts_event_day] bs(2) now(1) show ?thesis
    by (auto simp: activated_on_def filter_map comp_def id_def)
qed

text \<open>C17: the orchestrator activates an item on its own only when every bound of the policy
  holds: the policy is bounded, the item is proposed and in one of the policy's scopes, somebody
  else proposed it, its type (or its being a supported alias) is allowed, its source is governed,
  no conflict was recorded for it, the number of earlier activations with the same source is below
  its limit and so is the number of activations on the present day; each requirement as far as the
  policy makes it.\<close>

theorem auto_activation_bounds:
  assumes "activate_by_orchestrator E k (Some p) s = (Inr (Some m'), t)"
  shows "\<exists>m. get_memory_item k (sy_store s) = Some m \<and>
    av_mode p = Am_bounded_orchestrator \<and> mi_status m = M_proposed \<and>
    scope_kind m \<in> set (av_auto_activate_scopes p) \<and>
    (av_require_distinct_proposer_and_approver p \<longrightarrow>
       mi_author_id m \<noteq> orchestrator_of (av_orchestrator_id p)) \<and>
    (mi_type m \<in> set (av_auto_activate_types p) \<or> aliases_allowed p m) \<and>
    (av_require_governed_source p \<longrightarrow>
       source_is_governed (sr_kind (mi_source m)) (sr_ref (mi_source m))) \<and>
    (av_require_no_conflicts p \<longrightarrow>
       (\<forall>e\<in>set (audit (Some (mi_memory_id m)) (sy_store s)). me_event_type e \<noteq> ''conflict_detected'')) \<and>
    int (length (activations_for (av_orchestrator_id p) (sr_ref (mi_source m)) (sy_store s)))
      < av_max_auto_activations_per_task p \<and>
    (\<exists>now. instant_at E (Suc (sy_tick s)) = Some now \<and>
       int (length (activated_on (av_orchestrator_id p) (now div micros_per_day) (sy_store s)))
         < av_max_auto_activations_per_day p)"
proof -
  obtain m allowed reason evidence u where m: "get_memory_item k (sy_store s) = Some m"
    and a: "activation_allowed E m p s = (Inr (allowed, reason, evidence), u)" and "allowed"
    using assms
    by (auto simp: activate_by_orchestrator_def Let_def inr_eqs get_memory_def split: if_splits)
  then have refusal: "activation_refusal p m (get_memory_events (Some (mi_memory_id m)) (sy_store s)) = None"
    by (auto simp: activation_allowed_def inr_eqs split: option.splits)
  then obtain n v d w where n: "decision_count E (av_orchestrator_id p) (Some (sr_ref (mi_source m))) False s
      = (Inr n, v)" "int n < av_max_auto_activations_per_task p"
    and d: "decision_count E (av_orchestrator_id p) None True v = (Inr d, w)"
      "int d < av_max_auto_activations_per_day p"
    using a \<open>allowed\<close> by (auto simp: activation_allowed_def inr_eqs split: if_splits)
  from decision_count_source [OF n(1)] decision_count_day [OF d(1)] n(2) d(2) have
    "int (length (activations_for (av_orchestrator_id p) (sr_ref (mi_source m)) (sy_store s)))
      < av_max_auto_activations_per_task p"
    "\<exists>now. instant_at E (Suc (sy_tick s)) = Some now \<and>
       int (length (activated_on (av_orchestrator_id p) (now div micros_per_day) (sy_store s)))
         < av_max_auto_activations_per_day p"
    by auto
  with m refusal show ?thesis
    unfolding activation_refusal_def audit_def by (intro exI [of _ m]) (simp split: if_splits)
qed

definition demo_pending :: sys where
  "demo_pending = \<lparr>sy_store = empty_store\<lparr>
       st_memory_items := [(''memory_'', demo_memory\<lparr>mi_status := M_proposed, mi_approval_id := None\<rparr>)]\<rparr>,
     sy_fs = no_files, sy_tick = 4\<rparr>"

lemma demo_activates:
  "fst (activate_by_orchestrator memory_env ''memory_'' (Some default_activation_policy) demo_pending) =
     Inr (Some (demo_memory\<lparr>mi_approval_id := Some ''approval_xxxxxxx''\<rparr>))"
  by code_simp

theorem auto_activation_bounds_witness:
  "\<exists>m. get_memory_item ''memory_'' (sy_store demo_pending) = Some m \<and> mi_status m = M_proposed \<and>
     mi_type m \<in> {MT_outcome, MT_source_pointer} \<and>
     int (length (activations_for ''local'' (sr_ref (mi_source m)) (sy_store demo_pending))) < 5"
proof -
  obtain t where "activate_by_orchestrator memory_env ''memory_'' (Some default_activation_policy)
      demo_pending = (Inr (Some (demo_memory\<lparr>mi_approval_id := Some ''approval_xxxxxxx''\<rparr>)), t)"
    using demo_activates by (metis prod.collapse)
  from auto_activation_bounds [OF this] show ?thesis
    by (auto simp: default_activation_policy_def demo_pending_def get_memory_item_def
        aliases_allowed_def demo_memory_def)
qed

section \<open>Retention\<close>

text \<open>retention expires an item only when its time is over: after 7 days for an observation
  of low value, 30 for another observation, 90 for a proposal or a summary, and never for another
  active item.\<close>

theorem retention_waits:
  assumes "retain_item E actor now m s = (Inr (Some i), t)"
  shows "i = mi_memory_id m \<and>
    (\<exists>days created. retention_days m = Some days \<and> parse_time (mi_created_at m) = Some (Some created) \<and>
       days * micros_per_day \<le> now - created)"
proof -
  obtain created where c: "parse_time (mi_created_at m) = Some created"
    and due: "\<not> (case retention_days m of None \<Rightarrow> True
        | Some d \<Rightarrow> now - (case created of None \<Rightarrow> now | Some t \<Rightarrow> t) < d * micros_per_day)"
    and "i = mi_memory_id m"
    using assms by (auto simp: retain_item_def parse_time_run_def Let_def inr_eqs split: if_splits)
  then obtain d where d: "retention_days m = Some d" by (cases "retention_days m") auto
  then have "0 < d" by (auto simp: retention_days_def split: if_splits)
  with due d have "created \<noteq> None" by (cases created) (auto simp: micros_per_day_def)
  with c d due \<open>i = mi_memory_id m\<close> show ?thesis by (cases created) auto
qed

theorem retention_waits_witness:
  "\<exists>days created. retention_days (demo_memory\<lparr>mi_type := MT_summary\<rparr>) = Some days \<and>
     parse_time demo_time = Some (Some created) \<and> days * micros_per_day \<le> 64000000000000000 - created"
proof -
  have "fst (retain_item memory_env ''system'' 64000000000000000 (demo_memory\<lparr>mi_type := MT_summary\<rparr>)
      demo_active) = Inr (Some ''memory_'')"
    by code_simp
  then obtain t where "retain_item memory_env ''system'' 64000000000000000
      (demo_memory\<lparr>mi_type := MT_summary\<rparr>) demo_active = (Inr (Some ''memory_''), t)"
    by (metis prod.collapse)
  from retention_waits [OF this] show ?thesis by (simp add: demo_memory_def)
qed

section \<open>Where memory or its trail is lost\<close>

text \<open>an item may be superseded by itself: the call commits, and the memory is gone from
  recall although nothing replaces it.\<close>

theorem supersede_by_itself:
  assumes "get_memory_item k (sy_store s) = Some m" and "mi_status m = M_active"
  shows "get_memory_item k (sy_store (snd (supersede E k k actor s))) =
    Some (m\<lparr>mi_status := M_superseded, mi_superseded_by := Some k\<rparr>)"
  using assms
  by (simp add: supersede_def get_memory_def run_eqs from_store_def require_def ask_store_def Let_def
      transition_item_result memory_event_def ensure_no_secret_def fresh_def utc_now_def tick_def
      on_store_def append_memory_event_def)
    (simp add: get_memory_item_def set_memory_item_def)

theorem supersede_by_itself_witness:
  "get_memory_item ''memory_'' (sy_store (snd (supersede memory_env ''memory_'' ''memory_'' ''cli'' demo_active)))
     = Some (demo_memory\<lparr>mi_status := M_superseded, mi_superseded_by := Some ''memory_''\<rparr>)"
  by (rule supersede_by_itself [OF demo_active_item]) (simp add: demo_memory_def)

text \<open>a decision whose note looks like a secret is committed and then raises: the item is
  active and its approval is approved, but the audit trail has no event of the decision.\<close>

theorem secret_note_leaves_no_trace:
  assumes "get_approval a (sy_store s) = Some ap" and "ap_status ap = Ap_pending"
    and "ap_subject_kind ap = Some Sk_memory" and "ap_subject_id ap = Some (c # cs)"
    and "get_memory_item (c # cs) (sy_store s) = Some m" and "mi_memory_id m = c # cs"
    and "mi_status m = M_proposed" and "mi_approval_id m = Some a"
    and "secret_like (dumps (e_float E) (JObj [(''approval_id'', JStr a), (''note'', JStr note)]))"
  shows "\<exists>e t v. decide_approval E a True who note kind s = (Inl e, t) \<and>
    exc_cls e = MemoryServiceError \<and>
    get_memory_item (c # cs) (sy_store t) = Some v \<and> mi_status v = M_active \<and>
    audit None (sy_store t) = audit None (sy_store s)"
  using assms
  by (simp add: decide_approval_def get_memory_def run_eqs from_store_def require_def ask_store_def
      Let_def transition_approval_result given_def utc_now_def tick_def memory_event_def
      ensure_no_secret_def)
    (simp add: get_memory_item_def set_memory_item_def set_approval_def audit_def get_memory_events_def)

definition demo_secret :: string where
  "demo_secret = ''token=abcdefghijklmno''"

definition demo_awaiting :: sys where
  "demo_awaiting = \<lparr>sy_store = empty_store\<lparr>
       st_approvals := [(''a'', demo_memory_approval\<lparr>ap_status := Ap_pending\<rparr>)],
       st_memory_items := [(''memory_'', demo_memory\<lparr>mi_status := M_proposed,
         mi_approval_id := Some ''a''\<rparr>)]\<rparr>,
     sy_fs = no_files, sy_tick = 4\<rparr>"

lemma demo_secret_like:
  "secret_like (dumps (e_float memory_env) (JObj [(''approval_id'', JStr ''a''), (''note'', JStr demo_secret)]))"
  by code_simp

theorem secret_note_leaves_no_trace_witness:
  "\<exists>e t v. decide_approval memory_env ''a'' True ''cantor'' demo_secret Ak_developer demo_awaiting =
     (Inl e, t) \<and> get_memory_item ''memory_'' (sy_store t) = Some v \<and> mi_status v = M_active"
proof -
  have "get_approval ''a'' (sy_store demo_awaiting) = Some (demo_memory_approval\<lparr>ap_status := Ap_pending\<rparr>)"
    "get_memory_item ''memory_'' (sy_store demo_awaiting) =
       Some (demo_memory\<lparr>mi_status := M_proposed, mi_approval_id := Some ''a''\<rparr>)"
    by (simp_all add: demo_awaiting_def get_approval_def get_memory_item_def)
  from secret_note_leaves_no_trace [OF this(1) _ _ _ this(2) _ _ _ demo_secret_like]
  show ?thesis by (simp add: demo_memory_approval_def demo_memory_def) blast
qed

text \<open>purging an item gives its activation back: an activation whose item no longer exists
  does not count against the per-task limit of the orchestrator.\<close>

theorem purge_resets_limit:
  "activations_for who ref (snd (delete_memory_item k st)) =
     filter (\<lambda>e. me_memory_id e \<noteq> k) (activations_for who ref st)"
  by (auto simp: activations_for_def delete_memory_item_def get_memory_item_def filter_filter
      intro!: filter_cong)

end
