(* ===== verification/Job_Security.thy ===== *)
theory Job_Security
  imports Json_Values Repository
begin

text \<open>
  \<open>canto/core/security.py\<close>: sensitive inputs must be passed as references, and the values behind
  the references are replaced in everything a provider leaves behind. A secret that is found is
  gone from every string value; the keys of a dictionary are not searched.
\<close>

section \<open>Sensitive inputs\<close>

definition REDACTED :: string where
  "REDACTED = ''[REDACTED]''"

definition SENSITIVE_PARTS :: "string list" where
  "SENSITIVE_PARTS = [''access_key'', ''api_key'', ''credential'', ''credentials'', ''password'',
     ''private_key'', ''secret'', ''token'']"

definition is_sensitive_key :: "string \<Rightarrow> bool" where
  "is_sensitive_key key =
     (let base = removesuffix ''_ref'' key in
      \<exists>part\<in>set SENSITIVE_PARTS. base = part \<or> endswith base (''_'' @ part))"

text \<open>\<open>env:[A-Za-z_][A-Za-z0-9_]*\<close>\<close>

definition env_reference :: "string \<Rightarrow> bool" where
  "env_reference s =
     (startswith s ''env:'' \<and>
      (case drop 4 s of [] \<Rightarrow> False
       | c # cs \<Rightarrow> (is_letter c \<or> c = CHR ''_'') \<and> list_all word_char cs))"

definition lower_letter :: "char \<Rightarrow> bool" where
  "lower_letter c \<longleftrightarrow> CHR ''a'' \<le> c \<and> c \<le> CHR ''z''"

text \<open>\<open>[a-z][a-z0-9_-]{0,63}\<close>\<close>

definition vault_identifier :: "string \<Rightarrow> bool" where
  "vault_identifier s =
     (case s of [] \<Rightarrow> False
      | c # cs \<Rightarrow> lower_letter c \<and> length cs \<le> 63 \<and>
          list_all (\<lambda>x. lower_letter x \<or> is_digit x \<or> x \<in> set ''_-'') cs)"

definition vault_reference :: "string \<Rightarrow> bool" where
  "vault_reference s =
     (startswith s ''vault:'' \<and>
      (case partition_at ''/'' (drop 6 s) of (scope, found, name) \<Rightarrow>
         found \<and> vault_identifier scope \<and> vault_identifier name))"

definition reference_ok :: "json \<Rightarrow> bool" where
  "reference_ok v = (case v of JStr s \<Rightarrow> env_reference s \<or> vault_reference s | _ \<Rightarrow> False)"

fun validate_sensitive_inputs :: "string \<Rightarrow> json \<Rightarrow> exc + unit"
  and validate_items :: "string \<Rightarrow> jobj \<Rightarrow> exc + unit"
  and validate_elems :: "string \<Rightarrow> nat \<Rightarrow> json list \<Rightarrow> exc + unit" where
  "validate_sensitive_inputs path (JObj d) = validate_items path d"
| "validate_sensitive_inputs path (JList js) = validate_elems path 0 js"
| "validate_sensitive_inputs path _ = Inr ()"
| "validate_items path [] = Inr ()"
| "validate_items path ((key, v) # d) =
     (let item_path = path @ ''.'' @ key; normalized = lower key in
      bindE (if is_sensitive_key normalized
             then bindE (checkE (endswith normalized ''_ref'') SensitiveInputError
                    (''Sensitive input '' @ item_path @ '' must be passed as an *_ref field'')) (\<lambda>_.
                  checkE (reference_ok v) SensitiveInputError
                    (''Sensitive reference '' @ item_path @
                     '' must use env:VARIABLE_NAME or vault:scope/name''))
             else validate_sensitive_inputs item_path v) (\<lambda>_. validate_items path d))"
| "validate_elems path n [] = Inr ()"
| "validate_elems path n (v # js) =
     bindE (validate_sensitive_inputs (path @ ''['' @ show_nat n @ '']'') v)
       (\<lambda>_. validate_elems path (Suc n) js)"

text \<open>All pairs of a key and a value in a value, at any depth\<close>

fun exposed :: "json \<Rightarrow> (string \<times> json) list"
  and exposed_items :: "jobj \<Rightarrow> (string \<times> json) list"
  and exposed_elems :: "json list \<Rightarrow> (string \<times> json) list" where
  "exposed (JObj d) = exposed_items d"
| "exposed (JList js) = exposed_elems js"
| "exposed _ = []"
| "exposed_items [] = []"
| "exposed_items ((k, v) # d) = (k, v) # exposed v @ exposed_items d"
| "exposed_elems [] = []"
| "exposed_elems (v # js) = exposed v @ exposed_elems js"

lemma reference_no_pairs: "reference_ok v \<Longrightarrow> exposed v = []"
  by (cases v) (auto simp: reference_ok_def)

lemma validated_pairs:
  "validate_sensitive_inputs p v = Inr () \<Longrightarrow>
     list_all (\<lambda>(k, w). is_sensitive_key (lower k) \<longrightarrow>
       endswith (lower k) ''_ref'' \<and> reference_ok w) (exposed v)"
  "validate_items p d = Inr () \<Longrightarrow>
     list_all (\<lambda>(k, w). is_sensitive_key (lower k) \<longrightarrow>
       endswith (lower k) ''_ref'' \<and> reference_ok w) (exposed_items d)"
  "validate_elems p n js = Inr () \<Longrightarrow>
     list_all (\<lambda>(k, w). is_sensitive_key (lower k) \<longrightarrow>
       endswith (lower k) ''_ref'' \<and> reference_ok w) (exposed_elems js)"
  by (induction p v and p d and p n js
        rule: validate_sensitive_inputs_validate_items_validate_elems.induct)
    (auto simp: Let_def reference_no_pairs split: if_splits)

section \<open>Redaction\<close>

text \<open>\<open>s.replace(old, new)\<close> for a non-empty \<open>old\<close>: leftmost occurrences that do not overlap\<close>

function replace_all :: "string \<Rightarrow> string \<Rightarrow> string \<Rightarrow> string" where
  "replace_all old new [] = []"
| "replace_all old new (c # cs) =
     (if old \<noteq> [] \<and> startswith (c # cs) old
      then new @ replace_all old new (drop (length old) (c # cs))
      else c # replace_all old new cs)"
  by pat_completeness auto
termination
  by (relation "measure (\<lambda>(old, new, s). length s)") auto

text \<open>\<open>sorted({item for item in values if item}, key=len, reverse=True)\<close>; values of one length
  come in the order of their first occurrence, which the set leaves open\<close>

definition replacements :: "string list \<Rightarrow> string list" where
  "replacements values = sort_key (\<lambda>s. - int (length s)) (fromkeys (filter (\<lambda>s. s \<noteq> []) values))"

definition redact_text :: "string list \<Rightarrow> string \<Rightarrow> string" where
  "redact_text secrets s = foldl (\<lambda>t w. replace_all w REDACTED t) s secrets"

fun redact_sensitive :: "json \<Rightarrow> string list \<Rightarrow> json"
  and redact_items :: "jobj \<Rightarrow> string list \<Rightarrow> jobj"
  and redact_elems :: "json list \<Rightarrow> string list \<Rightarrow> json list" where
  "redact_sensitive (JStr s) secrets = JStr (redact_text (replacements secrets) s)"
| "redact_sensitive (JObj d) secrets = JObj (redact_items d (replacements secrets))"
| "redact_sensitive (JList js) secrets = JList (redact_elems js (replacements secrets))"
| "redact_sensitive v secrets = v"
| "redact_items [] secrets = []"
| "redact_items ((k, v) # d) secrets = (k, redact_sensitive v secrets) # redact_items d secrets"
| "redact_elems [] secrets = []"
| "redact_elems (v # js) secrets = redact_sensitive v secrets # redact_elems js secrets"

text \<open>The directories between a path and the root it was found from\<close>

definition below :: "fsys \<Rightarrow> string \<Rightarrow> string \<Rightarrow> bool" where
  "below f base p \<longleftrightarrow> in_parents base p \<and>
     \<not> (\<exists>a\<in>set (ancestors_upto (length (segments p)) p). in_parents base a \<and> is_symlink f a)"

text \<open>The files that \<open>root.rglob("*")\<close> finds: links to directories are not followed\<close>

definition rglob_files :: "fsys \<Rightarrow> string \<Rightarrow> string list" where
  "rglob_files f base = filter (below f base) (keys (fs_files f))"

text \<open>Files are read and written as bytes, in the order in which the values were found\<close>

definition redact_artifacts :: "string \<Rightarrow> string list \<Rightarrow> fsys \<Rightarrow> fsys" where
  "redact_artifacts base secrets f =
     f\<lparr>fs_files := map (\<lambda>(p, c).
         (p, if below f base p \<and> \<not> is_symlink f p
             then redact_text (filter (\<lambda>s. s \<noteq> []) secrets) c else c)) (fs_files f)\<rparr>"

subsection \<open>What is left\<close>

text \<open>Secrets that the mark \<open>[REDACTED]\<close> cannot reintroduce\<close>

definition redactable :: "string \<Rightarrow> bool" where
  "redactable w \<longleftrightarrow> w \<noteq> [] \<and> CHR ''['' \<notin> set w \<and> CHR '']'' \<notin> set w \<and> \<not> contains w ''REDACTED''"

lemma REDACTED_parts: "REDACTED = [] @ CHR ''['' # (''REDACTED'' @ CHR '']'' # [])"
  by (simp add: REDACTED_def)

lemma not_in_mark: "redactable w \<Longrightarrow> contains w (REDACTED @ s) \<Longrightarrow> contains w s"
proof -
  assume r: "redactable w" and c: "contains w (REDACTED @ s)"
  then have "contains w ([] @ CHR ''['' # (''REDACTED'' @ CHR '']'' # s))"
    by (simp add: REDACTED_def)
  then have "contains w [] \<or> contains w (''REDACTED'' @ CHR '']'' # s)"
    by (rule contains_around) (use r in \<open>simp add: redactable_def\<close>)
  then have "contains w (''REDACTED'' @ CHR '']'' # s)"
    using r by (auto simp: redactable_def)
  then have "contains w ''REDACTED'' \<or> contains w s"
    by (rule contains_around) (use r in \<open>simp add: redactable_def\<close>)
  then show "contains w s" using r by (simp add: redactable_def)
qed

lemma startswith_replaced:
  "startswith (replace_all old REDACTED s) p \<Longrightarrow> CHR ''['' \<notin> set p \<Longrightarrow> startswith s p"
proof (induction old REDACTED s arbitrary: p rule: replace_all.induct)
  case (2 old c cs)
  show ?case
  proof (cases "old \<noteq> [] \<and> startswith (c # cs) old")
    case True
    with 2(3,4) have "p = []" by (cases p) (simp_all add: REDACTED_def startswith_code)
    then show ?thesis by (simp add: startswith_code)
  next
    case False
    show ?thesis
    proof (cases p)
      case (Cons x q)
      with 2(3) False have "c = x" "startswith (replace_all old REDACTED cs) q"
        by (auto simp: startswith_code split: if_splits)
      with 2(2)[OF False] 2(4) Cons show ?thesis by (simp add: startswith_code)
    qed (simp add: startswith_code)
  qed
qed simp

lemma contains_drop: "contains w (drop n s) \<Longrightarrow> contains w s"
  by (metis append.right_neutral append_take_drop_id contains_append)

lemma contains_replaced:
  "redactable w \<Longrightarrow> contains w (replace_all old REDACTED s) \<Longrightarrow> contains w s"
proof (induction old REDACTED s rule: replace_all.induct)
  case (2 old c cs)
  show ?case
  proof (cases "old \<noteq> [] \<and> startswith (c # cs) old")
    case True
    then have "contains w (REDACTED @ replace_all old REDACTED (drop (length old) (c # cs)))"
      using 2(4) by simp
    from 2(1)[OF True 2(3) not_in_mark [OF 2(3) this]] show ?thesis by (rule contains_drop)
  next
    case False
    from False 2(4) have "startswith (c # replace_all old REDACTED cs) w \<or>
        contains w (replace_all old REDACTED cs)"
      by (auto split: if_splits)
    then show ?thesis
    proof
      assume a: "startswith (c # replace_all old REDACTED cs) w"
      have "startswith (replace_all old REDACTED (c # cs)) w" using a False by auto
      then have "startswith (c # cs) w"
        by (rule startswith_replaced) (use 2(3) in \<open>simp add: redactable_def\<close>)
      then show ?thesis by simp
    qed (use 2(2)[OF False 2(3)] in simp)
  qed
qed simp

lemma replaced_gone: "redactable w \<Longrightarrow> \<not> contains w (replace_all w REDACTED s)"
proof (induction w REDACTED s rule: replace_all.induct)
  case (1 old)
  then show ?case by (simp add: redactable_def)
next
  case (2 old c cs)
  show ?case
  proof (cases "old \<noteq> [] \<and> startswith (c # cs) old")
    case True
    then show ?thesis using 2(1)[OF True 2(3)] not_in_mark [OF 2(3)] by auto
  next
    case False
    have "\<not> startswith (c # replace_all old REDACTED cs) old"
    proof
      assume "startswith (c # replace_all old REDACTED cs) old"
      then have "startswith (replace_all old REDACTED (c # cs)) old" using False by auto
      then have "startswith (c # cs) old"
        by (rule startswith_replaced) (use 2(3) in \<open>simp add: redactable_def\<close>)
      with False 2(3) show False by (simp add: redactable_def)
    qed
    with False 2(2)[OF False 2(3)] show ?thesis by auto
  qed
qed

lemma redacted_subset:
  "redactable w \<Longrightarrow> contains w (redact_text secrets s) \<Longrightarrow> contains w s"
  unfolding redact_text_def
  by (induction secrets arbitrary: s) (auto dest: contains_replaced)

lemma redacted_gone:
  assumes "redactable w" and "w \<in> set secrets"
  shows "\<not> contains w (redact_text secrets s)"
proof
  assume c: "contains w (redact_text secrets s)"
  from assms(2) obtain xs ys where "secrets = xs @ w # ys" by (auto simp: in_set_conv_decomp)
  then have "redact_text secrets s =
      redact_text ys (replace_all w REDACTED (redact_text xs s))"
    by (simp add: redact_text_def)
  with c redacted_subset [OF assms(1)] replaced_gone [OF assms(1)] show False by metis
qed

lemma set_replacements: "set (replacements values) = {w \<in> set values. w \<noteq> []}"
  by (auto simp: replacements_def)

text \<open>Every string value of a JSON value\<close>

fun texts :: "json \<Rightarrow> string list"
  and item_texts :: "jobj \<Rightarrow> string list"
  and elem_texts :: "json list \<Rightarrow> string list" where
  "texts (JStr s) = [s]"
| "texts (JObj d) = item_texts d"
| "texts (JList js) = elem_texts js"
| "texts v = []"
| "item_texts [] = []"
| "item_texts ((k, v) # d) = texts v @ item_texts d"
| "elem_texts [] = []"
| "elem_texts (v # js) = texts v @ elem_texts js"

lemma redacted_texts:
  assumes w: "redactable w"
  shows "w \<in> set secrets \<Longrightarrow> list_all (\<lambda>t. \<not> contains w t) (texts (redact_sensitive v secrets))"
    and "w \<in> set secrets \<Longrightarrow> list_all (\<lambda>t. \<not> contains w t) (item_texts (redact_items d secrets))"
    and "w \<in> set secrets \<Longrightarrow> list_all (\<lambda>t. \<not> contains w t) (elem_texts (redact_elems js secrets))"
proof -
  have "w \<noteq> []" using w by (simp add: redactable_def)
  then show "w \<in> set secrets \<Longrightarrow>
      list_all (\<lambda>t. \<not> contains w t) (texts (redact_sensitive v secrets))"
    and "w \<in> set secrets \<Longrightarrow>
      list_all (\<lambda>t. \<not> contains w t) (item_texts (redact_items d secrets))"
    and "w \<in> set secrets \<Longrightarrow>
      list_all (\<lambda>t. \<not> contains w t) (elem_texts (redact_elems js secrets))"
    by (induction v secrets and d secrets and js secrets
          rule: redact_sensitive_redact_items_redact_elems.induct)
      (auto simp: redacted_gone [OF w] set_replacements)
qed

lemma redacted_file:
  assumes "redactable w" and "w \<in> set secrets"
    and "below f base p" and "\<not> is_symlink f p"
    and "dget (fs_files (redact_artifacts base secrets f)) p = Some c"
  shows "\<not> contains w c"
proof -
  have "dget (map (\<lambda>(p, c). (p, g p c)) d) p = map_option (g p) (dget d p)" for g and d :: "(string, string) dict"
    by (induction d) auto
  from this [of "\<lambda>p c. if below f base p \<and> \<not> is_symlink f p
      then redact_text (filter (\<lambda>s. s \<noteq> []) secrets) c else c" "fs_files f"]
  have "c \<in> range (redact_text (filter (\<lambda>s. s \<noteq> []) secrets))"
    using assms(3-5) by (auto simp: redact_artifacts_def)
  moreover have "w \<in> set (filter (\<lambda>s. s \<noteq> []) secrets)"
    using assms(1,2) by (auto simp: redactable_def)
  ultimately show ?thesis using redacted_gone [OF assms(1)] by auto
qed

end
