(* ===== verification/Job_World.thy ===== *)
theory Job_World
  imports Job_Policy Job_Security
begin

text \<open>
  What the job service runs on, beyond the world of the delegation and memory services: random
  bytes, environment variables, a YAML parser, installed packages, AES-GCM, and the start of a
  provider process. The outside is again an argument (\<open>job_env\<close>) about which nothing is assumed.
  \<open>Settings\<close> is the data class of \<open>canto/config.py\<close>.
\<close>

section \<open>Settings\<close>

record settings =
  set_root_dir :: string
  set_redis_url :: string
  set_host :: string
  set_port :: int
  set_provider_timeout_seconds :: int
  set_max_provider_output_bytes :: int
  set_max_provider_cpu_seconds :: int
  set_max_provider_memory_bytes :: int
  set_max_job_artifact_bytes :: int

definition skills_dir :: "settings \<Rightarrow> string" where
  "skills_dir st = path_join (set_root_dir st) ''skills''"

definition tools_dir :: "settings \<Rightarrow> string" where
  "tools_dir st = path_join (set_root_dir st) ''tools''"

definition jobs_dir :: "settings \<Rightarrow> string" where
  "jobs_dir st = path_join (path_join (set_root_dir st) ''work'') ''jobs''"

definition scaffolds_dir :: "settings \<Rightarrow> string" where
  "scaffolds_dir st = path_join (path_join (set_root_dir st) ''work'') ''scaffolds''"

section \<open>The outside\<close>

text \<open>One start of a provider: the command, its directory, the variables that are added to its
  environment, its standard input and the seconds it may take\<close>

record provider_call =
  pc_argv :: "string list"
  pc_cwd :: string
  pc_env :: "(string, string) dict"
  pc_stdin :: string
  pc_timeout :: int

record job_env =
  je_env :: env
  je_token_hex :: "nat \<Rightarrow> nat \<Rightarrow> string"
  je_token_bytes :: "nat \<Rightarrow> nat \<Rightarrow> string"
  je_getenv :: "nat \<Rightarrow> string \<Rightarrow> string option"
  je_home :: string
  je_expanduser :: "string \<Rightarrow> string"
  je_yaml :: "string \<Rightarrow> string + json"
  je_bracketed :: "string \<Rightarrow> bool"
  je_package :: "string \<Rightarrow> bool"
  je_guess_type :: "string \<Rightarrow> string option"
  je_executable :: "fsys \<Rightarrow> string \<Rightarrow> bool"
  je_python :: string
  je_encrypt :: "string \<Rightarrow> string \<Rightarrow> string \<Rightarrow> string \<Rightarrow> string"
  je_decrypt :: "string \<Rightarrow> string \<Rightarrow> string \<Rightarrow> string \<Rightarrow> string option"
  je_popen :: "nat \<Rightarrow> provider_call \<Rightarrow> fsys \<Rightarrow> exec_result \<times> fsys"

text \<open>\<open>secrets.token_hex(n)\<close>, \<open>secrets.token_bytes(n)\<close>, \<open>os.getenv(name)\<close>\<close>

definition token_hex :: "job_env \<Rightarrow> nat \<Rightarrow> string run" where
  "token_hex J n = bindM (getM (\<lambda>s. je_token_hex J (sy_tick s) n)) (\<lambda>x. thenM tick (retM x))"

definition token_bytes :: "job_env \<Rightarrow> nat \<Rightarrow> string run" where
  "token_bytes J n = bindM (getM (\<lambda>s. je_token_bytes J (sy_tick s) n)) (\<lambda>x. thenM tick (retM x))"

definition getenv :: "job_env \<Rightarrow> string \<Rightarrow> string option run" where
  "getenv J v = bindM (getM (\<lambda>s. je_getenv J (sy_tick s) v)) (\<lambda>x. thenM tick (retM x))"

definition popen :: "job_env \<Rightarrow> provider_call \<Rightarrow> exec_result run" where
  "popen J c =
     (\<lambda>s. case je_popen J (sy_tick s) c (sy_fs s) of
            (r, f) \<Rightarrow> (Inr r, s\<lparr>sy_fs := f, sy_tick := Suc (sy_tick s)\<rparr>))"

text \<open>\<open>path.read_text()\<close>: a file that is missing is an \<open>OSError\<close>\<close>

definition read_text :: "string \<Rightarrow> string run" where
  "read_text p =
     bindM (from_fs (\<lambda>f. is_file f p)) (\<lambda>ok.
     thenM (require ok OSError (''No such file or directory: '' @ quoted p))
     (from_fs (\<lambda>f. read_file f p)))"

definition resolve_path :: "job_env \<Rightarrow> string \<Rightarrow> string run" where
  "resolve_path J p = from_fs (\<lambda>f. e_resolve (je_env J) f p)"

section \<open>Weakest preconditions\<close>

lemma wp_token_hex [wp_eqs]:
  "wp (token_hex J n) Q X s = Q (je_token_hex J (sy_tick s) n) (s\<lparr>sy_tick := Suc (sy_tick s)\<rparr>)"
  by (simp add: token_hex_def wp_eqs)

lemma wp_token_bytes [wp_eqs]:
  "wp (token_bytes J n) Q X s =
     Q (je_token_bytes J (sy_tick s) n) (s\<lparr>sy_tick := Suc (sy_tick s)\<rparr>)"
  by (simp add: token_bytes_def wp_eqs)

lemma wp_getenv [wp_eqs]:
  "wp (getenv J v) Q X s = Q (je_getenv J (sy_tick s) v) (s\<lparr>sy_tick := Suc (sy_tick s)\<rparr>)"
  by (simp add: getenv_def wp_eqs)

lemma wp_popen [wp_eqs]:
  "wp (popen J c) Q X s =
     (case je_popen J (sy_tick s) c (sy_fs s) of
        (r, f) \<Rightarrow> Q r (s\<lparr>sy_fs := f, sy_tick := Suc (sy_tick s)\<rparr>))"
  by (simp add: wp_def popen_def split: prod.split)

lemma wp_read_text [wp_eqs]:
  "wp (read_text p) Q X s =
     (if is_file (sy_fs s) p then Q (read_file (sy_fs s) p) s
      else X (Exc OSError (''No such file or directory: '' @ quoted p)) s)"
  by (simp add: read_text_def wp_eqs)

lemma wp_resolve_path [wp_eqs]: "wp (resolve_path J p) Q X s = Q (e_resolve (je_env J) (sy_fs s) p) s"
  by (simp add: resolve_path_def wp_eqs)

text \<open>Operations that leave the store alone\<close>

lemma keeps_job_world [keeps_intros]:
  "keeps I (token_hex J n)" "keeps I (token_bytes J n)" "keeps I (getenv J v)"
  "keeps I (popen J c)" "keeps I (read_text p)" "keeps I (resolve_path J p)"
  by (simp_all add: keeps_def token_hex_def token_bytes_def getenv_def popen_def read_text_def
      resolve_path_def world_defs sm_defs split: prod.split)

end
