(* ===== verification/Registry.thy ===== *)
theory Registry
  imports Job_World
begin

text \<open>
  \<open>canto/core/registry.py\<close>: the skills, providers and tools of the manifests below the skill
  directories and the capability roots. The parser of YAML is a parameter. The capability
  registry is passed to the constructor as a protocol (\<open>CapabilityRootSource\<close>): it is an argument
  here too, with the modification time and size of its index file, its execution roots and its
  entries. Names that are not strings are kept as the values they are.
\<close>

section \<open>State\<close>

text \<open>The entries of the capability registry, \<open>RegistryEntry\<close> of \<open>canto/core/local_registry.py\<close>\<close>

datatype risk_name = Risk_low | Risk_medium | Risk_high

record registry_entry =
  re_name :: string
  re_version :: string
  re_installed :: bool
  re_path :: string
  re_checksum :: string
  re_risk :: risk_name

record root_source =
  rs_index_state :: "nat \<Rightarrow> fsys \<Rightarrow> (int \<times> int) option"
  rs_execution_roots :: "string list run"
  rs_entries :: "registry_entry list run"

type_synonym manifests = "(json, jobj) dict"

record reg =
  rg_skills_dir :: string
  rg_tools_dir :: string
  rg_capability_roots :: "string list"
  rg_index_state :: "(int \<times> int) option"
  rg_skills :: manifests
  rg_providers :: "(json \<times> json, jobj) dict"
  rg_tools :: manifests

definition index_state :: "root_source option \<Rightarrow> (int \<times> int) option run" where
  "index_state src =
     (case src of None \<Rightarrow> retM None
      | Some r \<Rightarrow> bindM (getM (\<lambda>s. rs_index_state r (sy_tick s) (sy_fs s))) (\<lambda>x. thenM tick (retM x)))"

section \<open>Loading manifests\<close>

text \<open>The paths of files and directories, as a glob sees them\<close>

definition all_paths :: "fsys \<Rightarrow> string list" where
  "all_paths f = keys (fs_files f) @ fs_dirs f"

text \<open>\<open>sorted(base.glob("*/.../name"))\<close> where \<open>between\<close> gives the literal or free (\<open>None\<close>)
  segments\<close>

fun matches_segments :: "string option list \<Rightarrow> string list \<Rightarrow> bool" where
  "matches_segments [] [] = True"
| "matches_segments (p # ps) (x # xs) = ((p = None \<or> p = Some x) \<and> matches_segments ps xs)"
| "matches_segments _ _ = False"

definition glob :: "fsys \<Rightarrow> string \<Rightarrow> string option list \<Rightarrow> string list" where
  "glob f base pattern =
     sort_key segments (filter (\<lambda>p. is_relative_to p base \<and>
       matches_segments pattern (drop (length (segments base)) (segments p))) (remdups (all_paths f)))"

definition load_yaml :: "job_env \<Rightarrow> string \<Rightarrow> jobj run" where
  "load_yaml J path =
     bindM (from_fs (\<lambda>f. if is_file f path then Some (read_file f path) else None)) (\<lambda>text.
     bindM (liftM (case text of
              None \<Rightarrow> Inl (Exc RegistryError (''Cannot load manifest '' @ path @ '': unreadable''))
            | Some t \<Rightarrow> (case je_yaml J t of
                Inl m \<Rightarrow> Inl (Exc RegistryError (''Cannot load manifest '' @ path @ '': '' @ m))
              | Inr (JObj d) \<Rightarrow>
                  bindE (checkE (truth (get_null d ''name'')) RegistryError
                    (''Manifest '' @ path @ '' must be a mapping with a name'')) (\<lambda>_. Inr d)
              | Inr v \<Rightarrow> Inl (Exc RegistryError
                  (''Manifest '' @ path @ '' must be a mapping with a name''))))) (\<lambda>d.
     bindM (resolve_path J path) (\<lambda>r. retM (dset ''_manifest_path'' (JStr r) d))))"

text \<open>A name as it appears in a message\<close>

definition name_text :: "job_env \<Rightarrow> json \<Rightarrow> string" where
  "name_text J v = py_str (e_float (je_env J)) v"

definition add_named ::
  "job_env \<Rightarrow> string \<Rightarrow> string \<Rightarrow> manifests \<Rightarrow> manifests run" where
  "add_named J what path seen =
     bindM (load_yaml J path) (\<lambda>m.
     bindM (liftM (bindE (item m ''name'') hashed)) (\<lambda>name.
     thenM (require (dget seen name = None) RegistryError
              (''Duplicate '' @ what @ '' '' @ name_text J name @ '' from '' @ path))
     (retM (dset name m seen))))"

definition add_provider ::
  "job_env \<Rightarrow> string \<Rightarrow> manifests \<Rightarrow> (json \<times> json, jobj) dict \<Rightarrow> (json \<times> json, jobj) dict run" where
  "add_provider J path skills seen =
     bindM (load_yaml J path) (\<lambda>m.
     thenM (tryM (liftM (bindE (validate_runner_contract m)
                           (\<lambda>_. validate_write_contract (e_float (je_env J)) m)))
              (\<lambda>e. if exc_cls e \<in> {RunnerContractError, WriteContractError}
                   then raise RegistryError (''Invalid provider '' @ path @ '': '' @ exc_str e)
                   else raiseM e))
     (bindM (liftM (hashed (get_or m ''skill'' (JStr [])))) (\<lambda>skill.
      bindM (liftM (bindE (item m ''name'') hashed)) (\<lambda>name.
      thenM (require (dget skills skill \<noteq> None) RegistryError
               (''Provider '' @ path @ '' refers to unknown skill '' @ name_text J skill))
      (thenM (require (dget seen (skill, name) = None) RegistryError
               (''Duplicate provider '' @ name_text J skill @ ''.'' @ name_text J name @ '' from '' @
                path))
      (retM (dset (skill, name) m seen)))))))"

primrec foldM :: "('a \<Rightarrow> 'x \<Rightarrow> 'a run) \<Rightarrow> 'a \<Rightarrow> 'x list \<Rightarrow> 'a run" where
  "foldM f a [] = retM a"
| "foldM f a (x # xs) = bindM (f a x) (\<lambda>b. foldM f b xs)"

type_synonym loaded = "manifests \<times> (json \<times> json, jobj) dict \<times> manifests"

definition load_root :: "job_env \<Rightarrow> loaded \<Rightarrow> string \<times> string \<Rightarrow> loaded run" where
  "load_root J = (\<lambda>(skills, providers, tools) (sdir, tdir).
     bindM (from_fs (\<lambda>f. glob f sdir [None, Some ''skill.yaml''])) (\<lambda>paths.
     bindM (foldM (\<lambda>seen p. add_named J ''skill'' p seen) skills paths) (\<lambda>skills.
     bindM (from_fs (\<lambda>f. glob f sdir
              [None, Some ''providers'', None, Some ''provider.yaml''])) (\<lambda>paths.
     bindM (foldM (\<lambda>seen p. add_provider J p skills seen) providers paths) (\<lambda>providers.
     bindM (from_fs (\<lambda>f. glob f tdir [None, Some ''tool.yaml''])) (\<lambda>paths.
     bindM (foldM (\<lambda>seen p. add_named J ''tool'' p seen) tools paths) (\<lambda>tools.
     retM (skills, providers, tools))))))))"

text \<open>Every provider that a skill declares must be installed\<close>

definition check_declared ::
  "job_env \<Rightarrow> (json \<times> json, jobj) dict \<Rightarrow> json \<times> jobj \<Rightarrow> unit run" where
  "check_declared J providers = (\<lambda>(skill, manifest).
     bindM (liftM (as_set (get_or manifest ''providers'' (JList [])))) (\<lambda>declared.
     let missing = filter (\<lambda>p. (skill, p) \<notin> set (keys providers)) (remdups declared) in
     if missing = [] then retM ()
     else bindM (liftM (sort_values missing)) (\<lambda>names.
       raise RegistryError (''Skill '' @ name_text J skill @ '' declares missing providers: '' @
         py_str (e_float (je_env J)) (JList names)))))"

definition reload :: "job_env \<Rightarrow> reg \<Rightarrow> reg run" where
  "reload J r =
     bindM (foldM (load_root J) ([], [], [])
       ((rg_skills_dir r, rg_tools_dir r) #
        map (\<lambda>p. (path_join p ''skills'', path_join p ''tools'')) (rg_capability_roots r)))
       (\<lambda>(skills, providers, tools).
     thenM (forM (check_declared J providers) skills)
     (retM (r\<lparr>rg_skills := skills, rg_providers := providers, rg_tools := tools\<rparr>)))"

definition resolved_roots :: "job_env \<Rightarrow> string list \<Rightarrow> string list run" where
  "resolved_roots J roots = mapM (resolve_path J) roots"

text \<open>The constructor\<close>

definition new_registry ::
  "job_env \<Rightarrow> string \<Rightarrow> string \<Rightarrow> string list \<Rightarrow> root_source option \<Rightarrow> reg run" where
  "new_registry J sdir tdir roots src =
     bindM (resolve_path J sdir) (\<lambda>sdir.
     bindM (resolve_path J tdir) (\<lambda>tdir.
     bindM (case src of Some r \<Rightarrow> rs_execution_roots r | None \<Rightarrow> retM roots) (\<lambda>roots.
     bindM (resolved_roots J roots) (\<lambda>roots.
     bindM (index_state src) (\<lambda>state.
     reload J \<lparr>rg_skills_dir = sdir, rg_tools_dir = tdir, rg_capability_roots = roots,
       rg_index_state = state, rg_skills = [], rg_providers = [], rg_tools = []\<rparr>)))))"

text \<open>When the index file has changed since the last load, everything is loaded again; a load
  that fails leaves the registry as it was\<close>

definition refresh_if_changed :: "job_env \<Rightarrow> root_source option \<Rightarrow> reg \<Rightarrow> (bool \<times> reg) run" where
  "refresh_if_changed J src r =
     (case src of
        None \<Rightarrow> retM (False, r)
      | Some source \<Rightarrow>
          bindM (index_state src) (\<lambda>state.
          if state = rg_index_state r then retM (False, r)
          else bindM (rs_execution_roots source) (\<lambda>roots.
               bindM (resolved_roots J roots) (\<lambda>roots.
               bindM (reload J (r\<lparr>rg_capability_roots := roots\<rparr>)) (\<lambda>r.
               retM (True, r\<lparr>rg_index_state := state\<rparr>))))))"

section \<open>Reading\<close>

definition public :: "jobj \<Rightarrow> jobj" where
  "public m = ddel ''_manifest_path'' m"

text \<open>\<open>sorted(d.items())\<close>: by name, when all names are strings\<close>

definition sorted_manifests :: "manifests \<Rightarrow> exc + manifests" where
  "sorted_manifests d =
     bindE (sort_values (keys d)) (\<lambda>names. Inr (map (\<lambda>n. (n, the (dget d n))) names))"

definition string_of :: "json \<Rightarrow> string" where
  "string_of v = (case v of JStr s \<Rightarrow> s | _ \<Rightarrow> [])"

definition sorted_providers ::
  "(json \<times> json, jobj) dict \<Rightarrow> exc + (json \<times> json, jobj) dict" where
  "sorted_providers d =
     (if length d \<le> 1 \<or> list_all (\<lambda>((a, b), _). is_str a \<and> is_str b) d
      then Inr (sort_key (\<lambda>((a, b), _). [string_of a, string_of b]) d)
      else Inl (Exc TypeError (quoted ''<'' @ '' not supported between instances'')))"

definition providers_of :: "reg \<Rightarrow> json \<Rightarrow> json list" where
  "providers_of r name = map snd (filter (\<lambda>k. fst k = name) (keys (rg_providers r)))"

text \<open>\<open>snapshot\<close> without its own refresh\<close>

definition snapshot :: "reg \<Rightarrow> exc + jobj" where
  "snapshot r =
     bindE (sorted_manifests (rg_skills r)) (\<lambda>skills.
     bindE (mapE (\<lambda>(name, m). bindE (sort_values (providers_of r name)) (\<lambda>ps.
              Inr (JObj (dset ''providers'' (JList ps) (public m))))) skills) (\<lambda>skill_items.
     bindE (sorted_providers (rg_providers r)) (\<lambda>providers.
     bindE (sorted_manifests (rg_tools r)) (\<lambda>tools.
     Inr [(''skills'', JList skill_items),
          (''providers'', JList (map (\<lambda>(_, m). JObj (public m)) providers)),
          (''tools'', JList (map (\<lambda>(_, m). JObj (public m)) tools))]))))"

definition get_skill :: "reg \<Rightarrow> string \<Rightarrow> exc + jobj option" where
  "get_skill r name =
     (case dget (rg_skills r) (JStr name) of
        None \<Rightarrow> Inr None
      | Some m \<Rightarrow> bindE (sorted_providers (rg_providers r)) (\<lambda>ps.
          Inr (Some (dset ''provider_manifests''
            (JList (map (\<lambda>(_, p). JObj (public p)) (filter (\<lambda>(k, _). fst k = JStr name) ps)))
            (public m)))))"

text \<open>\<open>self.providers.get((skill, provider))\<close>, which \<open>provider_internal\<close> returns after a refresh\<close>

definition find_provider :: "reg \<Rightarrow> string \<Rightarrow> string \<Rightarrow> jobj option" where
  "find_provider r skill provider = dget (rg_providers r) (JStr skill, JStr provider)"

definition get_provider :: "reg \<Rightarrow> string \<Rightarrow> string \<Rightarrow> jobj option" where
  "get_provider r skill provider = map_option public (find_provider r skill provider)"

definition find_tool :: "reg \<Rightarrow> json \<Rightarrow> jobj option" where
  "find_tool r name = dget (rg_tools r) name"

section \<open>What a loaded registry satisfies\<close>

text \<open>Every provider has passed both contracts, carries its name, belongs to a skill that is
  installed, and knows where its manifest is\<close>

definition provider_ok :: "job_env \<Rightarrow> json \<times> json \<Rightarrow> jobj \<Rightarrow> bool" where
  "provider_ok J k p \<longleftrightarrow>
     validate_runner_contract p = Inr () \<and>
     validate_write_contract (e_float (je_env J)) p = Inr () \<and>
     get_or p ''skill'' (JStr []) = fst k \<and> dget p ''name'' = Some (snd k) \<and>
     (\<exists>path. dget p ''_manifest_path'' = Some (JStr path))"

definition registry_ok :: "job_env \<Rightarrow> reg \<Rightarrow> bool" where
  "registry_ok J r \<longleftrightarrow>
     (\<forall>k p. dget (rg_providers r) k = Some p \<longrightarrow>
        provider_ok J k p \<and> dget (rg_skills r) (fst k) \<noteq> None)"

lemma hashed_Inr: "hashed v = Inr w \<Longrightarrow> w = v"
  by (auto simp: hashed_def split: if_splits)

lemma item_Inr [simp]: "item d k = Inr v \<longleftrightarrow> dget d k = Some v"
  by (auto simp: item_def split: option.splits)

lemma wp_foldM_inv:
  assumes "\<And>a x s. P a \<Longrightarrow> wp (f a x) (\<lambda>b _. P b) (\<lambda>_ _. True) s"
  shows "P a \<Longrightarrow> wp (foldM f a xs) (\<lambda>b _. P b) (\<lambda>_ _. True) s"
proof (induction xs arbitrary: a s)
  case (Cons x xs)
  show ?case
    unfolding foldM.simps wp_bind
    by (rule wp_conseq [OF assms [OF Cons.prems]]) (use Cons.IH in auto)
qed (simp add: wp_eqs)

lemma wp_load_yaml:
  "wp (load_yaml J path) (\<lambda>m _. \<exists>r. dget m ''_manifest_path'' = Some (JStr r)) (\<lambda>_ _. True) s"
  unfolding load_yaml_def wp_eqs by (simp split: sum.split)

lemma wp_True: "(\<And>a t. Q a t) \<Longrightarrow> wp m Q (\<lambda>_ _. True) s"
  by (auto simp: wp_def split: prod.split sum.split)

lemma wp_add_provider:
  "wp (add_provider J path skills seen)
     (\<lambda>t _. \<exists>k p. t = dset k p seen \<and> provider_ok J k p \<and> dget skills (fst k) \<noteq> None)
     (\<lambda>_ _. True) s"
proof -
  have "wp (thenM (tryM (liftM (bindE (validate_runner_contract m)
                           (\<lambda>_. validate_write_contract (e_float (je_env J)) m))) h)
     (bindM (liftM (hashed (get_or m ''skill'' (JStr [])))) (\<lambda>skill.
      bindM (liftM (bindE (item m ''name'') hashed)) (\<lambda>name.
      thenM (require (dget skills skill \<noteq> None) RegistryError (e1 skill))
      (thenM (require (dget seen (skill, name) = None) RegistryError (e2 skill name))
      (retM (dset (skill, name) m seen)))))))
     (\<lambda>t _. \<exists>k p. t = dset k p seen \<and> provider_ok J k p \<and> dget skills (fst k) \<noteq> None)
     (\<lambda>_ _. True) t"
    if m: "\<exists>r. dget m ''_manifest_path'' = Some (JStr r)"
      and h: "\<And>e Q X s. wp (h e) Q (\<lambda>_ _. True) s"
    for m t e1 e2 and h :: "exc \<Rightarrow> unit run"
  proof -
    have "\<exists>c d p. dset (a, b) m seen = dset (c, d) p seen \<and> provider_ok J (c, d) p \<and>
        (\<exists>y. dget skills c = Some y)"
      if "validate_runner_contract m = Inr ()" "dget m ''name'' = Some n" "hashed n = Inr b"
        "hashed (get_or m ''skill'' (JStr [])) = Inr a"
        "validate_write_contract (e_float (je_env J)) m = Inr ()" "dget skills a = Some y"
      for a b n y
      using that m hashed_Inr [OF that(3)] hashed_Inr [OF that(4)]
      by (intro exI [of _ a] exI [of _ b] exI [of _ m]) (simp add: provider_ok_def)
    then show ?thesis
      unfolding wp_eqs
      by (auto simp: h bindE_def item_def split: sum.split if_split option.split)
  qed
  note step = this
  show ?thesis
    unfolding add_provider_def wp_bind
    by (rule wp_conseq [OF wp_load_yaml])
      (rule step; (simp add: wp_eqs)?; assumption?)+
qed

definition loaded_ok :: "job_env \<Rightarrow> manifests \<Rightarrow> (json \<times> json, jobj) dict \<Rightarrow> bool" where
  "loaded_ok J skills providers \<longleftrightarrow>
     (\<forall>k p. dget providers k = Some p \<longrightarrow> provider_ok J k p \<and> dget skills (fst k) \<noteq> None)"

lemma wp_add_named:
  "wp (add_named J what path seen) (\<lambda>t _. \<exists>n m. t = dset n m seen) (\<lambda>_ _. True) s"
  unfolding add_named_def wp_bind
  by (rule wp_True) (auto simp: wp_eqs split: sum.split)

lemma wp_load_root:
  assumes "loaded_ok J skills providers"
  shows "wp (load_root J (skills, providers, tools) d)
    (\<lambda>l _. loaded_ok J (fst l) (fst (snd l))) (\<lambda>_ _. True) s"
proof -
  obtain sdir tdir where d: "d = (sdir, tdir)" by force
  have skills: "wp (foldM (\<lambda>seen p. add_named J w p seen) skills paths)
      (\<lambda>t _. loaded_ok J t providers) (\<lambda>_ _. True) s" for paths s w
  proof (rule wp_foldM_inv [where P = "\<lambda>t. loaded_ok J t providers"])
    show "wp (add_named J w p t) (\<lambda>u _. loaded_ok J u providers) (\<lambda>_ _. True) s"
      if "loaded_ok J t providers" for t p s
      by (rule wp_conseq [OF wp_add_named]) (use that in \<open>auto simp: loaded_ok_def\<close>)
  qed (rule assms)
  have providers: "wp (foldM (\<lambda>seen p. add_provider J p sk seen) providers paths)
      (\<lambda>t _. loaded_ok J sk t) (\<lambda>_ _. True) s" if "loaded_ok J sk providers" for paths s sk
  proof (rule wp_foldM_inv [where P = "loaded_ok J sk"])
    show "wp (add_provider J p sk t) (\<lambda>u _. loaded_ok J sk u) (\<lambda>_ _. True) s"
      if "loaded_ok J sk t" for t p s
      by (rule wp_conseq [OF wp_add_provider])
        (use that in \<open>auto simp: loaded_ok_def split: if_splits\<close>)
  qed (rule that)
  show ?thesis
    unfolding load_root_def d prod.case wp_bind wp_from_fs wp_ret
    apply (rule wp_conseq [OF skills])
     apply (rule wp_conseq [OF providers], assumption)
      apply (rule wp_True)
      apply simp_all
    done
qed

lemma wp_reload: "wp (reload J r) (\<lambda>t _. registry_ok J t) (\<lambda>_ _. True) s"
proof -
  have step: "wp (load_root J l d) (\<lambda>l _. loaded_ok J (fst l) (fst (snd l))) (\<lambda>_ _. True) s"
    if "loaded_ok J (fst l) (fst (snd l))" for l d s
    using wp_load_root [of J "fst l" "fst (snd l)" "snd (snd l)" d s] that by simp
  show ?thesis
    unfolding reload_def wp_bind
    apply (rule wp_conseq [OF wp_foldM_inv [where P = "\<lambda>l. loaded_ok J (fst l) (fst (snd l))", OF step]])
       apply assumption
      apply (simp add: loaded_ok_def)
     apply (clarsimp simp: wp_then wp_ret)
     apply (rule wp_True)
     apply (simp add: wp_ret registry_ok_def loaded_ok_def)
    apply simp
    done
qed

text \<open>A refresh keeps the contracts, whether it reloads or not\<close>

lemma wp_refresh:
  assumes "registry_ok J r"
  shows "wp (refresh_if_changed J src r) (\<lambda>t _. registry_ok J (snd t)) (\<lambda>_ _. True) s"
proof (cases src)
  case None
  then show ?thesis using assms by (simp add: refresh_if_changed_def wp_eqs)
next
  case (Some source)
  have load: "wp (reload J t) (\<lambda>u _. registry_ok J (u\<lparr>rg_index_state := st\<rparr>)) (\<lambda>_ _. True) s"
    for t st s
    by (rule wp_conseq [OF wp_reload]) (simp_all add: registry_ok_def)
  show ?thesis
    unfolding refresh_if_changed_def Some option.case wp_bind wp_if wp_ret snd_conv
    by (rule wp_True) (simp add: assms, intro impI wp_True load)
qed

end
