(* ===== verification/Vault.thy ===== *)
theory Vault
  imports Job_World
begin

text \<open>
  \<open>canto/core/credentials.py\<close>: the vault, one encrypted file per credential, and the resolution of
  references in the inputs of a job. AES-GCM is a parameter; base64 is the standard alphabet with
  padding. File modes are not modelled. A vault is given by its root directory.
\<close>

section \<open>Base64\<close>

definition b64_char :: "nat \<Rightarrow> char" where
  "b64_char n =
     (if n < 26 then char_of (65 + n) else if n < 52 then char_of (71 + n)
      else if n < 62 then char_of (n - 4) else if n = 62 then CHR ''+'' else CHR ''/'')"

definition b64_value :: "char \<Rightarrow> nat option" where
  "b64_value c =
     (let k = of_char c in
      if CHR ''A'' \<le> c \<and> c \<le> CHR ''Z'' then Some (k - 65)
      else if CHR ''a'' \<le> c \<and> c \<le> CHR ''z'' then Some (k - 71)
      else if CHR ''0'' \<le> c \<and> c \<le> CHR ''9'' then Some (k + 4)
      else if c = CHR ''+'' then Some 62 else if c = CHR ''/'' then Some 63 else None)"

fun b64encode :: "string \<Rightarrow> string" where
  "b64encode [] = []"
| "b64encode [a] =
     (let x = of_char a in [b64_char (x div 4), b64_char (x mod 4 * 16), CHR ''='', CHR ''=''])"
| "b64encode [a, b] =
     (let x = of_char a; y = of_char b in
      [b64_char (x div 4), b64_char (x mod 4 * 16 + y div 16), b64_char (y mod 16 * 4), CHR ''=''])"
| "b64encode (a # b # c # cs) =
     (let x = of_char a; y = of_char b; z = of_char c in
      [b64_char (x div 4), b64_char (x mod 4 * 16 + y div 16),
       b64_char (y mod 16 * 4 + z div 64), b64_char (z mod 64)] @ b64encode cs)"

text \<open>\<open>b64decode(s, validate=True)\<close>; \<open>None\<close> is the \<open>binascii.Error\<close>\<close>

fun b64decode :: "string \<Rightarrow> string option" where
  "b64decode [] = Some []"
| "b64decode (p # q # r # t # cs) =
     (case (b64_value p, b64_value q) of
        (Some i, Some j) \<Rightarrow>
          if r = CHR ''='' \<and> t = CHR ''='' \<and> cs = [] then Some [char_of (i * 4 + j div 16)]
          else (case b64_value r of
                  None \<Rightarrow> None
                | Some k \<Rightarrow>
                    if t = CHR ''='' \<and> cs = []
                    then Some [char_of (i * 4 + j div 16), char_of (j mod 16 * 16 + k div 4)]
                    else (case (b64_value t, b64decode cs) of
                            (Some l, Some rest) \<Rightarrow>
                              Some (char_of (i * 4 + j div 16) # char_of (j mod 16 * 16 + k div 4) #
                                    char_of (k mod 4 * 64 + l) # rest)
                          | _ \<Rightarrow> None))
      | _ \<Rightarrow> None)"
| "b64decode _ = None"

lemma of_char_bound: "of_char c < (256 :: nat)"
  by (metis of_char_mod_256 mod_less_divisor zero_less_numeral)

lemma b64_value_char: "n < 64 \<Longrightarrow> b64_value (b64_char n) = Some n"
  by (auto simp: b64_char_def b64_value_def less_eq_char_def Let_def)

lemma b64_char_pad: "n < 64 \<Longrightarrow> b64_char n \<noteq> CHR ''=''"
proof
  assume "n < 64" and "b64_char n = CHR ''=''"
  then have "of_char (b64_char n) = (of_char CHR ''='' :: nat)" by simp
  then show False using \<open>n < 64\<close> by (auto simp: b64_char_def split: if_splits)
qed

lemma decode_groups:
  assumes "i < 64" and "j < 64"
  shows "b64decode [b64_char i, b64_char j, CHR ''='', CHR ''=''] =
      Some [char_of (i * 4 + j div 16)]"
    and "k < 64 \<Longrightarrow> b64decode [b64_char i, b64_char j, b64_char k, CHR ''=''] =
      Some [char_of (i * 4 + j div 16), char_of (j mod 16 * 16 + k div 4)]"
    and "k < 64 \<Longrightarrow> l < 64 \<Longrightarrow> b64decode cs = Some rest \<Longrightarrow>
      b64decode ([b64_char i, b64_char j, b64_char k, b64_char l] @ cs) =
      Some (char_of (i * 4 + j div 16) # char_of (j mod 16 * 16 + k div 4) #
            char_of (k mod 4 * 64 + l) # rest)"
proof -
  note v = b64_value_char [OF assms(1)] b64_value_char [OF assms(2)]
  show "b64decode [b64_char i, b64_char j, CHR ''='', CHR ''=''] = Some [char_of (i * 4 + j div 16)]"
    unfolding b64decode.simps v by simp
  show "b64decode [b64_char i, b64_char j, b64_char k, CHR ''=''] =
      Some [char_of (i * 4 + j div 16), char_of (j mod 16 * 16 + k div 4)]" if "k < 64"
    unfolding b64decode.simps v b64_value_char [OF that] using b64_char_pad [OF that] by simp
  show "b64decode ([b64_char i, b64_char j, b64_char k, b64_char l] @ cs) =
      Some (char_of (i * 4 + j div 16) # char_of (j mod 16 * 16 + k div 4) #
            char_of (k mod 4 * 64 + l) # rest)"
    if "k < 64" "l < 64" "b64decode cs = Some rest"
    unfolding append_Cons append_Nil b64decode.simps v b64_value_char [OF that(1)]
      b64_value_char [OF that(2)] that(3)
    using b64_char_pad [OF that(1)] b64_char_pad [OF that(2)] by simp
qed

lemma join_parts:
  fixes a r q :: nat
  assumes "r < q"
  shows "(a * q + r) div q = a" and "(a * q + r) mod q = r"
  using assms by simp_all

lemma byte_parts:
  fixes x :: nat
  assumes "x < 256"
  shows "x div 4 < 64" "x mod 4 \<le> 3" "x div 16 < 16" "x mod 16 \<le> 15" "x div 64 < 4" "x mod 64 < 64"
  using assms by (auto simp: less_mult_imp_div_less less_Suc_eq_le [symmetric])

lemma b64_roundtrip: "b64decode (b64encode s) = Some s"
proof (induction s rule: b64encode.induct)
  case (2 a)
  define x :: nat where "x = of_char a"
  have x: "x < 256" unfolding x_def by (rule of_char_bound)
  note p = byte_parts [OF x]
  have "x mod 4 * 16 < 64" using p(2) by linarith
  moreover have "x div 4 * 4 + x mod 4 * 16 div 16 = x" by simp
  ultimately show ?case
    unfolding b64encode.simps Let_def x_def [symmetric]
    using decode_groups(1)[OF p(1), of "x mod 4 * 16"] by (simp add: x_def del: b64decode.simps)
next
  case (3 a b)
  define x y :: nat where "x = of_char a" and "y = of_char b"
  have x: "x < 256" and y: "y < 256" unfolding x_def y_def by (rule of_char_bound)+
  note p = byte_parts [OF x] and q = byte_parts [OF y]
  have l: "x mod 4 * 16 + y div 16 < 64" "y mod 16 * 4 < 64" using p(2) q(3,4) by linarith+
  have "x div 4 * 4 + (x mod 4 * 16 + y div 16) div 16 = x"
    unfolding join_parts [OF q(3)] by simp
  moreover have "(x mod 4 * 16 + y div 16) mod 16 * 16 + y mod 16 * 4 div 4 = y"
    unfolding join_parts [OF q(3)] by simp
  ultimately show ?case
    unfolding b64encode.simps Let_def x_def [symmetric] y_def [symmetric]
      decode_groups(2)[OF p(1) l] by (simp only: x_def y_def char_of_char)
next
  case (4 a b c cs)
  define x y z :: nat where "x = of_char a" and "y = of_char b" and "z = of_char c"
  have x: "x < 256" and y: "y < 256" and z: "z < 256"
    unfolding x_def y_def z_def by (rule of_char_bound)+
  note p = byte_parts [OF x] and q = byte_parts [OF y] and r = byte_parts [OF z]
  have l: "x mod 4 * 16 + y div 16 < 64" "y mod 16 * 4 + z div 64 < 64"
    using p(2) q(3,4) r(5) by linarith+
  have "x div 4 * 4 + (x mod 4 * 16 + y div 16) div 16 = x"
    unfolding join_parts [OF q(3)] by simp
  moreover have "(x mod 4 * 16 + y div 16) mod 16 * 16 + (y mod 16 * 4 + z div 64) div 4 = y"
    unfolding join_parts [OF q(3)] join_parts [OF r(5)] by simp
  moreover have "(y mod 16 * 4 + z div 64) mod 4 * 64 + z mod 64 = z"
    unfolding join_parts [OF r(5)] by simp
  ultimately show ?case
    unfolding b64encode.simps Let_def x_def [symmetric] y_def [symmetric] z_def [symmetric]
    using decode_groups(3)[OF p(1) l(1) l(2) r(6) 4]
    by (simp add: x_def y_def z_def del: b64decode.simps)
qed simp

section \<open>Paths and the master key\<close>

definition key_path :: "string \<Rightarrow> string" where
  "key_path vault = path_join vault ''master.key''"

definition records_dir :: "string \<Rightarrow> string" where
  "records_dir vault = path_join vault ''records''"

text \<open>\<open>self.records_dir / f"{scope}--{name}.json"\<close>\<close>

definition record_path :: "string \<Rightarrow> string \<Rightarrow> string \<Rightarrow> string" where
  "record_path vault scope name = path_join (records_dir vault) (scope @ ''--'' @ name @ ''.json'')"

definition temporary_path :: "string \<Rightarrow> string \<Rightarrow> string \<Rightarrow> string" where
  "temporary_path vault scope name = path_join (records_dir vault) (scope @ ''--'' @ name @ ''.tmp'')"

definition vault_initialize :: "job_env \<Rightarrow> string \<Rightarrow> unit run" where
  "vault_initialize J vault =
     thenM (on_fs (make_dirs vault)) (thenM (on_fs (make_dirs (records_dir vault)))
     (bindM (from_fs (\<lambda>f. path_exists f (key_path vault))) (\<lambda>ex.
      if ex then retM ()
      else bindM (token_bytes J 32) (\<lambda>key. on_fs (write_file (key_path vault) key)))))"

definition vault_key :: "job_env \<Rightarrow> string \<Rightarrow> string run" where
  "vault_key J vault =
     thenM (vault_initialize J vault)
     (bindM (read_text (key_path vault)) (\<lambda>key.
      thenM (require (length key = 32) CredentialError ''Credential vault master key is invalid'')
      (retM key)))"

definition validate_identifier :: "string \<Rightarrow> string \<Rightarrow> exc + unit" where
  "validate_identifier v label =
     checkE (vault_identifier v) CredentialError
       (''Credential '' @ label @ '' must start with a lowercase letter and use '' @
        ''lowercase letters, numbers, underscores, or hyphens'')"

definition vault_path :: "string \<Rightarrow> string \<Rightarrow> string \<Rightarrow> exc + string" where
  "vault_path vault scope name =
     bindE (validate_identifier scope ''scope'') (\<lambda>_.
     bindE (validate_identifier name ''name'') (\<lambda>_. Inr (record_path vault scope name)))"

definition credential_ref :: "string \<Rightarrow> string \<Rightarrow> string" where
  "credential_ref scope name = ''vault:'' @ scope @ ''/'' @ name"

text \<open>\<open>CredentialVault.local()\<close>\<close>

definition local_vault :: "job_env \<Rightarrow> string run" where
  "local_vault J =
     bindM (getenv J ''CANTO_HOME'') (\<lambda>h.
     let home = (case h of Some p \<Rightarrow> p | None \<Rightarrow> path_join (je_home J) ''.canto'') in
     resolve_path J (je_expanduser J (path_join home ''vault'')))"

section \<open>Operations\<close>

definition vault_record :: "int \<Rightarrow> string \<Rightarrow> string \<Rightarrow> string \<Rightarrow> string \<Rightarrow> jobj" where
  "vault_record generation scope name nonce ciphertext =
     [(''version'', JInt 1), (''generation'', JInt generation), (''scope'', JStr scope),
      (''name'', JStr name), (''nonce'', JStr (b64encode nonce)),
      (''ciphertext'', JStr (b64encode ciphertext))]"

text \<open>\<open>json.loads(text)\<close>, then \<open>.get("generation", 1)\<close> as a number, plus one\<close>

definition next_generation :: "job_env \<Rightarrow> string \<Rightarrow> exc + int" where
  "next_generation J text =
     (case e_loads (je_env J) text of
        None \<Rightarrow> Inl (Exc ValueError ''invalid JSON'')
      | Some v \<Rightarrow> bindE (as_dict v) (\<lambda>d.
          bindE (int_of_json (get_or d ''generation'' (JInt 1))) (\<lambda>g. Inr (g + 1))))"

definition vault_set :: "job_env \<Rightarrow> string \<Rightarrow> string \<Rightarrow> string \<Rightarrow> string \<Rightarrow> string run" where
  "vault_set J vault scope name v =
     thenM (require (v \<noteq> []) CredentialError ''Credential value cannot be empty'')
     (bindM (liftM (vault_path vault scope name)) (\<lambda>path.
      bindM (vault_key J vault) (\<lambda>key.
      bindM (token_bytes J 12) (\<lambda>nonce.
      let ciphertext = je_encrypt J key nonce v (scope @ ''/'' @ name) in
      bindM (from_fs (\<lambda>f. is_file f path)) (\<lambda>ex.
      bindM (if ex then
               tryM (bindM (read_text path) (\<lambda>text. liftM (next_generation J text)))
                 (\<lambda>e. if exc_cls e \<in> {OSError, TypeError, ValueError}
                      then raise CredentialError (''Existing credential record '' @
                             credential_ref scope name @ '' is invalid'')
                      else raiseM e)
             else retM 1) (\<lambda>generation.
      thenM (on_fs (\<lambda>f. let tmp = temporary_path vault scope name;
                           text = json_text (e_float (je_env J)) spaced True
                             (JObj (vault_record generation scope name nonce ciphertext)) in
               f\<lparr>fs_files := dset path text (ddel tmp (fs_files f))\<rparr>))
      (retM (credential_ref scope name))))))))"

definition known_credential :: "string \<Rightarrow> string \<Rightarrow> string \<Rightarrow> string run" where
  "known_credential vault scope name =
     bindM (liftM (vault_path vault scope name)) (\<lambda>path.
     bindM (from_fs (\<lambda>f. is_file f path)) (\<lambda>ex.
     thenM (require ex CredentialError (''Unknown credential: '' @ credential_ref scope name))
     (retM path)))"

definition vault_rotate :: "job_env \<Rightarrow> string \<Rightarrow> string \<Rightarrow> string \<Rightarrow> string \<Rightarrow> string run" where
  "vault_rotate J vault scope name v =
     thenM (ignore (known_credential vault scope name)) (vault_set J vault scope name v)"

definition vault_generation :: "job_env \<Rightarrow> string \<Rightarrow> string \<Rightarrow> string \<Rightarrow> int run" where
  "vault_generation J vault scope name =
     bindM (known_credential vault scope name) (\<lambda>path.
     tryM (bindM (read_text path) (\<lambda>text.
           liftM (case e_loads (je_env J) text of
                    None \<Rightarrow> Inl (Exc ValueError ''invalid JSON'')
                  | Some v \<Rightarrow> bindE (index v ''generation'') int_of_json)))
       (\<lambda>e. if exc_cls e \<in> {OSError, KeyError, TypeError, ValueError}
            then raise CredentialError (''Credential record '' @ credential_ref scope name @
                   '' is invalid'')
            else raiseM e))"

text \<open>\<open>base64.b64decode(record[key], validate=True)\<close>\<close>

definition decoded :: "json \<Rightarrow> string \<Rightarrow> exc + string" where
  "decoded record key =
     bindE (index record key) (\<lambda>v.
     case v of
       JStr s \<Rightarrow> (case b64decode s of Some t \<Rightarrow> Inr t
                  | None \<Rightarrow> Inl (Exc ValueError ''invalid base64''))
     | _ \<Rightarrow> Inl (Exc TypeError ''argument should be a bytes-like object or ASCII string''))"

text \<open>Any exception on the way, \<open>InvalidTag\<close> included, is the same error\<close>

definition vault_get :: "job_env \<Rightarrow> string \<Rightarrow> string \<Rightarrow> string \<Rightarrow> string run" where
  "vault_get J vault scope name =
     bindM (known_credential vault scope name) (\<lambda>path.
     tryM
       (bindM (read_text path) (\<lambda>text.
        bindM (optM (e_loads (je_env J) text) (Exc ValueError ''invalid JSON'')) (\<lambda>record.
        bindM (liftM (decoded record ''nonce'')) (\<lambda>nonce.
        bindM (liftM (decoded record ''ciphertext'')) (\<lambda>ciphertext.
        bindM (vault_key J vault) (\<lambda>key.
        optM (je_decrypt J key nonce ciphertext (scope @ ''/'' @ name))
          (Exc ValueError ''invalid tag'')))))))
       (\<lambda>e. raise CredentialError (''Credential record '' @ credential_ref scope name @
              '' cannot be decrypted'')))"

definition vault_delete :: "string \<Rightarrow> string \<Rightarrow> string \<Rightarrow> unit run" where
  "vault_delete vault scope name =
     bindM (known_credential vault scope name) (\<lambda>path.
     on_fs (\<lambda>f. f\<lparr>fs_files := ddel path (fs_files f)\<rparr>))"

text \<open>The files of a directory whose names end in a suffix, in the order of their names\<close>

definition files_in :: "fsys \<Rightarrow> string \<Rightarrow> string \<Rightarrow> string list" where
  "files_in f dir suffix =
     sort_key path_name (filter (\<lambda>p. path_parent p = as_posix dir \<and> endswith p suffix)
       (keys (fs_files f)))"

definition listed_record :: "job_env \<Rightarrow> string \<Rightarrow> string list run" where
  "listed_record J path =
     tryM (bindM (read_text path) (\<lambda>text.
           bindM (optM (e_loads (je_env J) text) (Exc ValueError ''invalid JSON'')) (\<lambda>record.
           bindM (liftM (index record ''scope'')) (\<lambda>scope.
           bindM (liftM (index record ''name'')) (\<lambda>name.
           retM [credential_ref (py_str (e_float (je_env J)) scope)
                   (py_str (e_float (je_env J)) name)])))))
       (\<lambda>e. if exc_cls e \<in> {OSError, KeyError, ValueError} then retM [] else raiseM e)"

definition vault_list :: "job_env \<Rightarrow> string \<Rightarrow> string list run" where
  "vault_list J vault =
     bindM (from_fs (\<lambda>f. is_dir f (records_dir vault))) (\<lambda>ex.
     if \<not> ex then retM []
     else bindM (from_fs (\<lambda>f. files_in f (records_dir vault) ''.json'')) (\<lambda>paths.
          bindM (mapM (listed_record J) paths) (\<lambda>found. retM (concat found))))"

section \<open>References\<close>

definition resolve_reference :: "job_env \<Rightarrow> string \<Rightarrow> string \<Rightarrow> string run" where
  "resolve_reference J vault reference =
     (if startswith reference ''env:''
      then let variable = removeprefix ''env:'' reference in
           bindM (getenv J variable) (\<lambda>v.
           optM v (Exc CredentialError (''Environment credential is not set: '' @ variable)))
      else if vault_reference reference
      then (case partition_at ''/'' (drop 6 reference) of
              (scope, _, name) \<Rightarrow> vault_get J vault scope name)
      else raise CredentialError (''Unsupported credential reference: '' @ reference))"

text \<open>The value with its references resolved, and the references and secrets in the order in
  which they were found\<close>

fun resolve_inputs :: "job_env \<Rightarrow> string \<Rightarrow> string option \<Rightarrow> json \<Rightarrow> (json \<times> string list) run"
  and resolve_items :: "job_env \<Rightarrow> string \<Rightarrow> jobj \<Rightarrow> (jobj \<times> string list) run"
  and resolve_elems :: "job_env \<Rightarrow> string \<Rightarrow> json list \<Rightarrow> (json list \<times> string list) run" where
  "resolve_inputs J vault key (JObj d) =
     bindM (resolve_items J vault d) (\<lambda>(e, found). retM (JObj e, found))"
| "resolve_inputs J vault key (JList js) =
     bindM (resolve_elems J vault js) (\<lambda>(ks, found). retM (JList ks, found))"
| "resolve_inputs J vault key (JStr s) =
     (if given key \<and> endswith (lower (the key)) ''_ref''
      then bindM (resolve_reference J vault s) (\<lambda>secret. retM (JStr secret, [s, secret]))
      else retM (JStr s, []))"
| "resolve_inputs J vault key v = retM (v, [])"
| "resolve_items J vault [] = retM ([], [])"
| "resolve_items J vault ((k, v) # d) =
     bindM (resolve_inputs J vault (Some k) v) (\<lambda>(w, a).
     bindM (resolve_items J vault d) (\<lambda>(e, b). retM ((k, w) # e, a @ b)))"
| "resolve_elems J vault [] = retM ([], [])"
| "resolve_elems J vault (v # js) =
     bindM (resolve_inputs J vault None v) (\<lambda>(w, a).
     bindM (resolve_elems J vault js) (\<lambda>(ks, b). retM (w # ks, a @ b)))"

definition resolve_credential_inputs ::
  "job_env \<Rightarrow> string \<Rightarrow> jobj \<Rightarrow> (jobj \<times> string list) run" where
  "resolve_credential_inputs J vault inputs = resolve_items J vault inputs"

end
