(* ===== verification/Runner.thy ===== *)
theory Runner
  imports Registry Vault
begin

text \<open>
  What happens around one provider process: \<open>canto/core/dependencies.py\<close>, \<open>canto/core/artifacts.py\<close>
  and \<open>canto/core/runner.py\<close>. The process itself is a call of the outside that may change every
  file. A \<open>RunnerError\<close> carries details beside its message.
\<close>

section \<open>Dependencies\<close>

text \<open>\<open>manifest.get("dependencies", {}).get(kind, [])\<close> of every manifest, as a set of names\<close>

definition needed :: "string \<Rightarrow> jobj list \<Rightarrow> exc + json list" where
  "needed kind manifests =
     bindE (mapE (\<lambda>m. bindE (as_dict (get_or m ''dependencies'' (JObj []))) (\<lambda>d.
              as_set (get_or d kind (JList [])))) manifests) (\<lambda>vs.
     sort_values (remdups (concat vs)))"

definition plan_item :: "job_env \<Rightarrow> string \<Rightarrow> string \<Rightarrow> bool \<Rightarrow> json \<Rightarrow> json" where
  "plan_item J kind command approval name = JObj
     [(''type'', JStr kind), (''command'', JStr (command @ name_text J name)),
      (''approval_required'', JBool approval)]"

definition check_dependencies :: "job_env \<Rightarrow> jobj list \<Rightarrow> fsys \<Rightarrow> exc + jobj" where
  "check_dependencies J manifests f =
     bindE (needed ''system'' manifests) (\<lambda>system.
     bindE (needed ''python'' manifests) (\<lambda>python.
     bindE (checkE (list_all is_str (system @ python)) TypeError ''expected str'') (\<lambda>_.
     let missing_system = filter (\<lambda>n. e_which (je_env J) f (string_of n) = None) system;
         missing_python = filter (\<lambda>n. \<not> je_package J (string_of n)) python in
     Inr [(''status'', JStr (if missing_system = [] \<and> missing_python = [] then ''ready''
                             else ''not_ready'')),
          (''missing'', JObj [(''system'', JList missing_system), (''python'', JList missing_python)]),
          (''install_plan'', JList
             (map (plan_item J ''python'' ''python -m pip install '' False) missing_python @
              map (plan_item J ''system'' ''sudo apt install '' True) missing_system))])))"

section \<open>Artifacts\<close>

definition contained_path :: "job_env \<Rightarrow> fsys \<Rightarrow> string \<Rightarrow> string \<Rightarrow> exc + string" where
  "contained_path J f base relative =
     (let base = e_resolve (je_env J) f base;
          candidate = e_resolve (je_env J) f (path_join base relative) in
      bindE (checkE (candidate = base \<or> in_parents base candidate) ArtifactError
               (''Artifact path escapes job directory: '' @ relative)) (\<lambda>_. Inr candidate))"

text \<open>\<open>path.suffix\<close>: from the last dot of the name, unless it begins or ends the name\<close>

definition path_suffix :: "string \<Rightarrow> string" where
  "path_suffix p =
     (let name = path_name p; parts = split_on CHR ''.'' name; ext = last parts in
      if length parts < 2 \<or> ext = [] \<or> list_all (\<lambda>q. q = []) (butlast parts) then []
      else CHR ''.'' # ext)"

definition mime_type :: "job_env \<Rightarrow> string \<Rightarrow> string" where
  "mime_type J path =
     (case dget [(''.json'', ''application/json''), (''.md'', ''text/markdown''),
                 (''.py'', ''text/x-python''), (''.yaml'', ''application/yaml''),
                 (''.yml'', ''application/yaml''), (''.txt'', ''text/plain'')]
            (lower (path_suffix path)) of
        Some t \<Rightarrow> t
      | None \<Rightarrow> if given (je_guess_type J (path_name path)) then the (je_guess_type J (path_name path))
                else ''application/octet-stream'')"

definition artifact_json :: "string \<Rightarrow> string \<Rightarrow> string \<Rightarrow> string \<Rightarrow> nat \<Rightarrow> jobj" where
  "artifact_json name path relative mime bytes =
     [(''name'', JStr name), (''path'', JStr path), (''relative_path'', JStr relative),
      (''mime_type'', JStr mime), (''size_bytes'', JInt (int bytes))]"

text \<open>One declared output: nothing when it has no path\<close>

definition collect_artifact ::
  "job_env \<Rightarrow> fsys \<Rightarrow> string \<Rightarrow> string \<times> json \<Rightarrow> exc + jobj list" where
  "collect_artifact J f dir = (\<lambda>(name, declaration).
     bindE (as_dict declaration) (\<lambda>d.
     case get_null d ''path'' of
       JStr relative \<Rightarrow>
         if relative = [] then Inr []
         else bindE (contained_path J f dir relative) (\<lambda>path.
              bindE (checkE (is_file f path) ArtifactError
                (''Declared artifact was not produced: '' @ name @ '' ('' @ relative @ '')'')) (\<lambda>_.
              Inr [artifact_json name path relative (mime_type J path) (length (read_file f path))]))
     | v \<Rightarrow> if truth v then Inl (Exc TypeError ''unsupported operand type(s) for /'') else Inr []))"

definition collect_artifacts :: "job_env \<Rightarrow> string \<Rightarrow> json \<Rightarrow> fsys \<Rightarrow> exc + jobj list" where
  "collect_artifacts J dir outputs f =
     bindE (as_dict outputs) (\<lambda>outputs.
     bindE (mapE (collect_artifact J f dir) outputs) (\<lambda>found. Inr (concat found)))"

definition max_read :: nat where
  "max_read = 2000000"

definition read_artifact :: "jobj \<Rightarrow> fsys \<Rightarrow> exc + jobj" where
  "read_artifact artifact f =
     bindE (item artifact ''path'') (\<lambda>p.
     let path = string_of p in
     bindE (checkE (is_file f path) ArtifactError ''Artifact file no longer exists'') (\<lambda>_.
     let mime = string_of (get_or artifact ''mime_type'' (JStr [])) in
     Inr (if max_read < length (read_file f path)
          then dset ''message''
                 (JStr ''Artifact is too large to read through the v1 API'')
                 (dset ''content'' JNull artifact)
          else if \<not> (startswith mime ''text/'' \<or>
                      mime \<in> {''application/json'', ''application/yaml'', ''text/x-python''})
          then dset ''message'' (JStr ''Binary artifact content is not returned in v1'')
                 (dset ''content'' JNull artifact)
          else dset ''content'' (JStr (read_file f path)) artifact)))"

section \<open>Limits and egress\<close>

datatype runner_exc = Runner_error (rx_message: string) (rx_details: jobj) | Other_exc exc

text \<open>An operation whose exceptions are not runner errors\<close>

definition plainly :: "'a run \<Rightarrow> (sys, runner_exc, 'a) sm" where
  "plainly m = (\<lambda>s. case m s of (Inl e, t) \<Rightarrow> (Inl (Other_exc e), t) | (Inr a, t) \<Rightarrow> (Inr a, t))"

lemma wp_plainly [wp_eqs]: "wp (plainly m) Q X s = wp m Q (\<lambda>e. X (Other_exc e)) s"
  by (simp add: wp_def plainly_def split: prod.split sum.split)

record limits =
  lm_wall_seconds :: int
  lm_cpu_seconds :: int
  lm_memory_bytes :: int
  lm_artifact_bytes :: int
  lm_output_bytes :: int

definition other :: "exc + 'a \<Rightarrow> runner_exc + 'a" where
  "other r = (case r of Inl e \<Rightarrow> Inl (Other_exc e) | Inr a \<Rightarrow> Inr a)"

definition bounded :: "jobj \<Rightarrow> string \<Rightarrow> int \<Rightarrow> runner_exc + int" where
  "bounded requested name upper =
     (case get_or requested name (JInt upper) of
        JInt v \<Rightarrow>
          if 0 < v then Inr (min v upper)
          else Inl (Runner_error (''Provider limit '' @ name @ '' must be a positive integer'') [])
      | _ \<Rightarrow> Inl (Runner_error (''Provider limit '' @ name @ '' must be a positive integer'') []))"

definition effective_limits :: "jobj \<Rightarrow> settings \<Rightarrow> runner_exc + limits" where
  "effective_limits provider st =
     bindE (if has_key provider ''limits'' then other (as_dict (get_null provider ''limits''))
            else Inr []) (\<lambda>requested.
     bindE (bounded requested ''wall_seconds'' (set_provider_timeout_seconds st)) (\<lambda>wall.
     bindE (bounded requested ''cpu_seconds'' (set_max_provider_cpu_seconds st)) (\<lambda>cpu.
     bindE (bounded requested ''memory_bytes'' (set_max_provider_memory_bytes st)) (\<lambda>memory.
     bindE (bounded requested ''artifact_bytes'' (set_max_job_artifact_bytes st)) (\<lambda>artifact.
     Inr \<lparr>lm_wall_seconds = wall, lm_cpu_seconds = cpu, lm_memory_bytes = memory,
          lm_artifact_bytes = artifact, lm_output_bytes = set_max_provider_output_bytes st\<rparr>)))))"

definition limits_json :: "limits \<Rightarrow> jobj" where
  "limits_json l =
     [(''wall_seconds'', JInt (lm_wall_seconds l)), (''cpu_seconds'', JInt (lm_cpu_seconds l)),
      (''memory_bytes'', JInt (lm_memory_bytes l)), (''artifact_bytes'', JInt (lm_artifact_bytes l)),
      (''output_bytes'', JInt (lm_output_bytes l))]"

definition get_dict :: "jobj \<Rightarrow> string \<Rightarrow> exc + jobj" where
  "get_dict d k = as_dict (get_or d k (JObj []))"

definition validate_egress :: "jobj \<Rightarrow> string list \<Rightarrow> runner_exc + unit" where
  "validate_egress provider approved =
     bindE (other (get_dict provider ''permissions'')) (\<lambda>permissions.
     if truth (get_null permissions ''network_write'')
     then Inl (Runner_error ''This runtime cannot enforce network-write egress policy'' [])
     else if \<not> truth (get_null permissions ''network_read'') then Inr ()
     else bindE (other (get_dict provider ''runner'')) (\<lambda>runner.
       if get_null runner ''egress_enforcement'' \<noteq> JStr ''provider_allowlist''
       then Inl (Runner_error
              ''Network provider must declare runner.egress_enforcement=provider_allowlist'' [])
       else if approved = []
       then Inl (Runner_error ''Network provider has no approved egress domains'' [])
       else Inr ()))"

section \<open>The command line\<close>

definition raise_runner :: "string \<Rightarrow> jobj \<Rightarrow> (sys, runner_exc, 'a) sm" where
  "raise_runner m d = raiseM (Runner_error m d)"

definition need :: "bool \<Rightarrow> string \<Rightarrow> (sys, runner_exc, unit) sm" where
  "need b m = guardM b (Runner_error m [])"

definition local_entrypoint ::
  "job_env \<Rightarrow> jobj \<Rightarrow> jobj \<Rightarrow> (sys, runner_exc, string \<times> string) sm" where
  "local_entrypoint J provider runner =
     bindM (liftM (other (item provider ''_manifest_path''))) (\<lambda>manifest.
     bindM (plainly (resolve_path J (path_parent (string_of manifest)))) (\<lambda>dir.
     bindM (liftM (other (item runner ''entrypoint''))) (\<lambda>entry.
     bindM (plainly (resolve_path J (path_join dir (string_of entry)))) (\<lambda>entrypoint.
     bindM (plainly (from_fs (\<lambda>f. is_file f entrypoint))) (\<lambda>ex.
     thenM (need (path_parent entrypoint = dir \<and> ex)
              ''Provider entrypoint is missing or outside its registered directory'')
     (retM (dir, entrypoint)))))))"

definition which :: "job_env \<Rightarrow> string \<Rightarrow> (sys, runner_exc, string option) sm" where
  "which J n = plainly (from_fs (\<lambda>f. e_which (je_env J) f n))"

text \<open>The first of the candidates that is installed\<close>

primrec first_installed :: "job_env \<Rightarrow> string list \<Rightarrow> (sys, runner_exc, string option) sm" where
  "first_installed J [] = retM None"
| "first_installed J (n # ns) =
     bindM (which J n) (\<lambda>p. if n \<noteq> [] \<and> given p then retM p else first_installed J ns)"

definition container_command ::
  "string \<Rightarrow> string \<Rightarrow> string \<Rightarrow> string \<Rightarrow> limits \<Rightarrow> string list \<Rightarrow> string list" where
  "container_command runtime artifacts dir img l command =
     [runtime, ''run'', ''--rm'', ''-i'', ''--memory'', show_int (lm_memory_bytes l), ''--cpus'',
      ''1'', ''-v'', artifacts @ '':/artifacts'', ''-v'', dir @ '':/provider:ro'', ''-e'',
      ''CANTO_ARTIFACT_DIR=/artifacts'', img] @ command"

definition runtime_command ::
  "job_env \<Rightarrow> jobj \<Rightarrow> string \<Rightarrow> limits \<Rightarrow>
   (sys, runner_exc, string list \<times> string \<times> string) sm" where
  "runtime_command J provider artifact_dir l =
     bindM (liftM (other (bindE (item provider ''runner'') as_dict))) (\<lambda>runner.
     bindM (liftM (other (item runner ''type''))) (\<lambda>runtime.
     bindM (plainly (resolve_path J artifact_dir)) (\<lambda>artifacts.
     if runtime \<in> JStr ` {''python'', ''node'', ''binary''} then
       bindM (local_entrypoint J provider runner) (\<lambda>(dir, entrypoint).
       if runtime = JStr ''python''
       then retM ([je_python J, entrypoint, ''/dev/stdin''], dir, artifacts)
       else if runtime = JStr ''node''
       then bindM (which J ''node'') (\<lambda>node.
            thenM (need (given node) ''Node runtime is unavailable'')
            (retM ([the node, entrypoint, ''/dev/stdin''], dir, artifacts)))
       else bindM (plainly (from_fs (\<lambda>f. je_executable J f entrypoint))) (\<lambda>ok.
            thenM (need ok ''Binary provider entrypoint is not executable'')
            (retM ([entrypoint, ''/dev/stdin''], dir, artifacts))))
     else
       bindM (first_installed J (let r = get_null runner ''runtime'' in
                if truth r then [string_of r] else [''docker'', ''podman''])) (\<lambda>found.
       thenM (need (given found) ''No supported local container runtime is available'')
       (bindM (liftM (other (item runner ''image''))) (\<lambda>img.
        bindM (plainly (exec_run (je_env J) [the found, ''image'', ''inspect'', string_of img]
                          [] None)) (\<lambda>(out, _).
        thenM (need (px_code out = 0) (''Container image is not available locally: '' @
                 string_of img @ ''. Canto does not pull images''))
        (bindM (liftM (other (item provider ''_manifest_path''))) (\<lambda>manifest.
         bindM (plainly (resolve_path J (path_parent (string_of manifest)))) (\<lambda>dir.
         bindM (liftM (other (bindE (item runner ''command'') iter))) (\<lambda>command.
         retM (container_command (the found) artifacts dir (string_of img) l
                 (map string_of command), dir, ''/artifacts'')))))))))) ))"

section \<open>One run\<close>

text \<open>\<open>text[-n:]\<close>: the whole text when \<open>n\<close> is zero\<close>

definition last_chars :: "int \<Rightarrow> string \<Rightarrow> string" where
  "last_chars n s = (if 0 < n then drop (length s - nat n) s else drop (nat (- n)) s)"

definition artifact_usage :: "fsys \<Rightarrow> string \<Rightarrow> nat" where
  "artifact_usage f dir =
     sum_list (map (\<lambda>p. length (read_file f p))
       (filter (\<lambda>p. \<not> is_symlink f p) (rglob_files f dir)))"

definition limited_command :: "string \<Rightarrow> limits \<Rightarrow> string list \<Rightarrow> string list" where
  "limited_command prlimit l command =
     [prlimit, ''--cpu='' @ show_int (lm_cpu_seconds l), ''--as='' @ show_int (lm_memory_bytes l),
      ''--fsize='' @ show_int (max (lm_artifact_bytes l) (lm_output_bytes l)), ''--''] @ command"

text \<open>What becomes of a process that has ended\<close>

definition finish_run ::
  "job_env \<Rightarrow> limits \<Rightarrow> string \<Rightarrow> string list \<Rightarrow> proc_out \<Rightarrow> fsys \<Rightarrow> runner_exc + jobj" where
  "finish_run J l artifact_dir secrets out f =
     (let n = lm_output_bytes l;
          raw_out = take (nat (n + 1)) (px_stdout out); raw_err = take (nat (n + 1)) (px_stderr out);
          stdout = redact_text (replacements secrets) (last_chars n raw_out);
          stderr = redact_text (replacements secrets) (last_chars n raw_err);
          usage = artifact_usage f artifact_dir in
      if n < int (length raw_out) \<or> n < int (length raw_err)
      then Inl (Runner_error ''Provider exceeded captured output limit'' [])
      else if px_code out \<noteq> 0
      then Inl (Runner_error (''Provider exited with status '' @ show_int (px_code out))
             [(''returncode'', JInt (px_code out)), (''stdout'', JStr stdout), (''stderr'', JStr stderr)])
      else if lm_artifact_bytes l < int usage
      then Inl (Runner_error (''Provider artifacts exceed '' @ show_int (lm_artifact_bytes l) @
                 '' byte limit'') [(''artifact_bytes'', JInt (int usage))])
      else (case e_loads (je_env J) stdout of
              None \<Rightarrow> Inl (Runner_error ''Provider stdout was not valid JSON''
                [(''stdout'', JStr stdout), (''stderr'', JStr stderr)])
            | Some v \<Rightarrow>
                let result = redact_sensitive v secrets in
                (case result of
                   JObj d \<Rightarrow>
                     if get_null d ''status'' = JStr ''completed''
                     then Inr (if stderr \<noteq> [] then dset ''stderr'' (JStr stderr) d else d)
                     else Inl (Runner_error ''Provider returned an invalid completion result''
                            [(''result'', result), (''stderr'', JStr stderr)])
                 | _ \<Rightarrow> Inl (Runner_error ''Provider returned an invalid completion result''
                          [(''result'', result), (''stderr'', JStr stderr)]))))"

definition run_provider ::
  "job_env \<Rightarrow> settings \<Rightarrow> jobj \<Rightarrow> jobj \<Rightarrow> string list \<Rightarrow> string \<Rightarrow> string list \<Rightarrow>
   (sys, runner_exc, jobj) sm" where
  "run_provider J st provider payload approved artifact_dir secrets =
     bindM (liftM (effective_limits provider st)) (\<lambda>l.
     thenM (liftM (validate_egress provider approved))
     (bindM (runtime_command J provider artifact_dir l) (\<lambda>(command, dir, artifacts).
      bindM (which J ''prlimit'') (\<lambda>prlimit.
      thenM (need (given prlimit) ''prlimit is required to enforce local runtime limits'')
      (bindM (plainly (popen J
          \<lparr>pc_argv = limited_command (the prlimit) l command, pc_cwd = dir,
           pc_env = [(''CANTO_ARTIFACT_DIR'', artifacts),
                     (''CANTO_APPROVED_DOMAINS'', join '','' approved)],
           pc_stdin = json_text (e_float (je_env J)) spaced False (JObj payload),
           pc_timeout = lm_wall_seconds l\<rparr>)) (\<lambda>r.
       case r of
         Not_started m \<Rightarrow> raiseM (Other_exc (Exc OSError m))
       | Timed_out out \<Rightarrow> raise_runner (''Provider exceeded '' @ show_int (lm_wall_seconds l) @
                            ''s timeout'') []
       | Finished out \<Rightarrow>
           bindM (plainly (from_fs (finish_run J l artifact_dir secrets out))) liftM))))))"

section \<open>Bounds\<close>

lemma bounded_bounds:
  "bounded d n c = Inr v \<Longrightarrow> v \<le> c \<and> (0 < c \<longrightarrow> 0 < v)"
  by (auto simp: bounded_def split: json.splits if_splits)

lemma limits_bounded:
  assumes "effective_limits provider st = Inr l"
  shows "lm_wall_seconds l \<le> set_provider_timeout_seconds st"
    and "lm_cpu_seconds l \<le> set_max_provider_cpu_seconds st"
    and "lm_memory_bytes l \<le> set_max_provider_memory_bytes st"
    and "lm_artifact_bytes l \<le> set_max_job_artifact_bytes st"
    and "lm_output_bytes l = set_max_provider_output_bytes st"
  using assms by (auto simp: effective_limits_def dest!: bounded_bounds)

lemma artifact_json_path: "dget (artifact_json n p r m k) ''path'' = Some (JStr p)"
  by (simp add: artifact_json_def)

lemma contained_path_Inr:
  "contained_path J f dir rel = Inr path \<Longrightarrow>
     path = e_resolve (je_env J) f dir \<or> in_parents (e_resolve (je_env J) f dir) path"
  by (auto simp: contained_path_def Let_def)

lemma collect_artifact_Inr:
  assumes "collect_artifact J f dir (name, decl) = Inr x" and "a \<in> set x"
  shows "\<exists>path rel. a = artifact_json name path rel (mime_type J path) (length (read_file f path)) \<and>
    is_file f path \<and> contained_path J f dir rel = Inr path"
proof -
  obtain d where d: "decl = JObj d"
    using assms(1) by (cases decl) (simp_all add: collect_artifact_def as_dict_def)
  obtain rel where rel: "get_null d ''path'' = JStr rel" "rel \<noteq> []"
    using assms by (cases "get_null d ''path''")
      (auto simp: collect_artifact_def as_dict_def d split: if_splits)
  obtain path where "contained_path J f dir rel = Inr path" "is_file f path"
      "x = [artifact_json name path rel (mime_type J path) (length (read_file f path))]"
    using assms(1) rel by (auto simp: collect_artifact_def as_dict_def d)
  with assms(2) show ?thesis by auto
qed

lemma collected_inside:
  assumes "collect_artifacts J dir outputs f = Inr found" and "a \<in> set found"
  shows "\<exists>path. dget a ''path'' = Some (JStr path) \<and> is_file f path \<and>
    (path = e_resolve (je_env J) f dir \<or> in_parents (e_resolve (je_env J) f dir) path)"
proof -
  obtain ds xs where m: "mapE (collect_artifact J f dir) ds = Inr xs" "found = concat xs"
    using assms(1) by (auto simp: collect_artifacts_def)
  with assms(2) obtain x where x: "x \<in> set xs" and a: "a \<in> set x" by auto
  obtain name decl where p: "collect_artifact J f dir (name, decl) = Inr x"
    using mapE_member [OF m(1) x] by auto
  from collect_artifact_Inr [OF p a] show ?thesis
    using artifact_json_path contained_path_Inr by metis
qed

text \<open>Nothing of a redactable secret is left in a result\<close>

lemma finish_run_redacted:
  assumes "finish_run J l dir secrets out f = Inr d" and "redactable w" and "w \<in> set secrets"
  shows "list_all (\<lambda>t. \<not> contains w t) (texts (JObj d))"
proof -
  have set_item: "list_all P (item_texts (dset k v d))"
    if "list_all P (item_texts d)" "list_all P (texts v)" for P k v and d :: jobj
    using that
  proof (induction d)
    case (Cons x d)
    then show ?case by (cases x) auto
  qed simp
  have err: "\<not> contains w (redact_text (replacements secrets) s)" for s
    by (rule redacted_gone [OF assms(2)]) (use assms(2,3) in \<open>simp add: set_replacements redactable_def\<close>)
  from assms(1) obtain v e where v: "redact_sensitive v secrets = JObj e"
      "d = e \<or> (\<exists>s. d = dset ''stderr'' (JStr (redact_text (replacements secrets) s)) e)"
    unfolding finish_run_def Let_def
    by (auto split: if_splits option.splits json.splits)
  have "list_all (\<lambda>t. \<not> contains w t) (item_texts e)"
    using redacted_texts(1)[OF assms(2,3), of v] v(1) by simp
  with v(2) err set_item show ?thesis by auto
qed

end
