(* ===== verification/Jobs.thy ===== *)
theory Jobs
  imports Runner Memory_Workflow
begin

text \<open>
  \<open>canto/core/jobs.py\<close>: creating a job, processing it up to its result, promoting a reviewed dry
  run to a live run, recovering a live run, and deciding approvals. The service also holds the
  registry of manifests, which is part of the state; everything else is the state of \<open>System\<close>.
  Methods that mutate a job object return the job they leave.
\<close>

section \<open>State\<close>

record jsys =
  js_sys :: sys
  js_reg :: reg

type_synonym 'a jrun = "(jsys, exc, 'a) sm"

text \<open>The fields of \<open>JobService\<close>, but the registry and the store\<close>

record service =
  jv_env :: job_env
  jv_settings :: settings
  jv_source :: "root_source option"
  jv_vault :: "string option"

definition on_sys :: "'a run \<Rightarrow> 'a jrun" where
  "on_sys m = (\<lambda>s. case m (js_sys s) of (r, t) \<Rightarrow> (r, s\<lparr>js_sys := t\<rparr>))"

lemma wp_on_sys [wp_eqs]:
  "wp (on_sys m) Q X s =
     wp m (\<lambda>a t. Q a (s\<lparr>js_sys := t\<rparr>)) (\<lambda>e t. X e (s\<lparr>js_sys := t\<rparr>)) (js_sys s)"
  by (simp add: wp_def on_sys_def split: prod.split sum.split)

definition refresh :: "service \<Rightarrow> bool jrun" where
  "refresh V =
     (\<lambda>s. case refresh_if_changed (jv_env V) (jv_source V) (js_reg s) (js_sys s) of
            (Inl e, t) \<Rightarrow> (Inl e, s\<lparr>js_sys := t\<rparr>)
          | (Inr (b, r), t) \<Rightarrow> (Inr b, s\<lparr>js_sys := t, js_reg := r\<rparr>))"

definition registry_snapshot :: "service \<Rightarrow> jobj jrun" where
  "registry_snapshot V =
     thenM (ignore (refresh V)) (bindM (getM (\<lambda>s. snapshot (js_reg s))) liftM)"

definition provider_internal :: "service \<Rightarrow> string \<Rightarrow> string \<Rightarrow> jobj option jrun" where
  "provider_internal V skill provider =
     thenM (ignore (refresh V)) (getM (\<lambda>s. find_provider (js_reg s) skill provider))"

definition refresh_registry :: "service \<Rightarrow> unit jrun" where
  "refresh_registry V =
     bindM (refresh V) (\<lambda>changed.
     if changed then bindM (registry_snapshot V) (\<lambda>r. on_sys (on_store (set_registry r)))
     else retM ())"

text \<open>The constructor; an exception while storing the snapshot is ignored\<close>

definition new_job_service :: "service \<Rightarrow> unit jrun" where
  "new_job_service V =
     thenM (on_sys (on_fs (make_dirs (jobs_dir (jv_settings V)))))
     (thenM (on_sys (on_fs (make_dirs (scaffolds_dir (jv_settings V)))))
     (tryM (bindM (registry_snapshot V) (\<lambda>r. on_sys (on_store (set_registry r)))) (\<lambda>_. retM ())))"

section \<open>Identifiers, events and saving\<close>

text \<open>\<open>_id\<close>: the date and three random bytes\<close>

definition compact_date :: "string \<Rightarrow> string" where
  "compact_date now = filter (\<lambda>c. c \<noteq> CHR ''-'') (take 10 now)"

definition job_id :: "service \<Rightarrow> string \<Rightarrow> string jrun" where
  "job_id V prefix =
     bindM (on_sys (utc_now (je_env (jv_env V)))) (\<lambda>now.
     bindM (on_sys (token_hex (jv_env V) 3)) (\<lambda>hex.
     retM (prefix @ ''_'' @ compact_date now @ ''_'' @ hex)))"

definition now :: "service \<Rightarrow> string jrun" where
  "now V = on_sys (utc_now (je_env (jv_env V)))"

definition job_event :: "service \<Rightarrow> string \<Rightarrow> string \<Rightarrow> json \<Rightarrow> jobj \<Rightarrow> unit jrun" where
  "job_event V k ty message data =
     bindM (now V) (\<lambda>t. on_sys (on_store (append_event k
       [(''timestamp'', JStr t), (''type'', JStr ty), (''message'', message), (''data'', JObj data)])))"

definition save :: "service \<Rightarrow> job_rec \<Rightarrow> job_rec jrun" where
  "save V job =
     bindM (now V) (\<lambda>t. let job = job\<lparr>jb_updated_at := t\<rparr> in
     thenM (on_sys (on_store (set_job (jb_job_id job) job))) (retM job))"

definition transition_to ::
  "service \<Rightarrow> job_rec \<Rightarrow> job_status list \<Rightarrow> job_status \<Rightarrow> (job_rec \<times> bool) jrun" where
  "transition_to V job expected st =
     bindM (now V) (\<lambda>t. let job = job\<lparr>jb_status := st, jb_updated_at := t\<rparr> in
     bindM (on_sys (ask_store (transition_job (jb_job_id job) expected job))) (\<lambda>ok. retM (job, ok)))"

definition fail :: "service \<Rightarrow> job_rec \<Rightarrow> string \<Rightarrow> string \<Rightarrow> jobj \<Rightarrow> job_rec jrun" where
  "fail V job code message details =
     bindM (save V (job\<lparr>jb_status := J_failed, jb_error := Some [(''code'', JStr code),
              (''message'', JStr message), (''details'', JObj details)]\<rparr>)) (\<lambda>job.
     thenM (job_event V (jb_job_id job) ''job_failed'' (JStr message) [(''code'', JStr code)])
     (retM job))"

definition read_job :: "string \<Rightarrow> job_rec option jrun" where
  "read_job k = on_sys (from_store (get_job k))"

definition read_approval :: "string \<Rightarrow> approval_rec option jrun" where
  "read_approval k = on_sys (from_store (get_approval k))"

text \<open>\<open>Job.model_validate(self.store.get_job(k))\<close> of a missing job\<close>

definition reread_job :: "string \<Rightarrow> job_rec jrun" where
  "reread_job k =
     bindM (read_job k) (\<lambda>j. optM j (Exc ValidationError ''Input should be a valid dictionary''))"

section \<open>Inputs\<close>

definition type_matches :: "json \<Rightarrow> json \<Rightarrow> bool" where
  "type_matches expected v =
     (if expected = JStr ''string'' then is_str v
      else if expected = JStr ''integer'' then is_int v
      else if expected = JStr ''boolean'' then is_bool v
      else if expected = JStr ''object'' then is_dict v
      else if expected = JStr ''array'' then is_list v
      else True)"

text \<open>The normalised value of one declared input, if it gets one\<close>

definition normalize_input ::
  "(rat \<Rightarrow> string) \<Rightarrow> jobj \<Rightarrow> string \<times> json \<Rightarrow> exc + jobj" where
  "normalize_input fl values = (\<lambda>(name, declaration).
     case dget values name of
       None \<Rightarrow>
         bindE (member ''default'' declaration) (\<lambda>has.
         if has then bindE (index declaration ''default'') (\<lambda>v. Inr [(name, v)])
         else bindE (as_dict declaration) (\<lambda>d.
              bindE (checkE (\<not> truth (get_null d ''required'')) JobError
                       (''Missing required input: '' @ name)) (\<lambda>_. Inr [])))
     | Some v \<Rightarrow>
         bindE (as_dict declaration) (\<lambda>d.
         bindE (hashed (get_null d ''type'')) (\<lambda>expected.
         bindE (checkE (type_matches expected v) JobError
                  (''Input '' @ name @ '' must be '' @ py_str fl expected)) (\<lambda>_.
         Inr [(name, v)]))))"

definition validate_inputs :: "(rat \<Rightarrow> string) \<Rightarrow> jobj \<Rightarrow> jobj \<Rightarrow> exc + jobj" where
  "validate_inputs fl provider values =
     bindE (as_set (get_or provider ''inputs'' (JObj []))) (\<lambda>declared.
     let unknown = filter (\<lambda>k. JStr k \<notin> set declared) (keys values) in
     bindE (checkE (unknown = []) JobError
              (''Unknown provider inputs: '' @ show_list (sort unknown))) (\<lambda>_.
     bindE (as_dict (get_or provider ''inputs'' (JObj []))) (\<lambda>declarations.
     bindE (mapE (normalize_input fl values) declarations) (\<lambda>vs. Inr (concat vs)))))"

section \<open>Provenance and snapshots\<close>

definition checksum :: "service \<Rightarrow> string \<Rightarrow> string jrun" where
  "checksum V path = on_sys (bindM (read_text path) (\<lambda>c. retM (e_sha (je_env (jv_env V)) c)))"

definition nul :: string where
  "nul = [CHR 0x00]"

definition relative_posix :: "string \<Rightarrow> string \<Rightarrow> string" where
  "relative_posix base p = join [slash] (drop (length (segments base)) (segments p))"

text \<open>The bytes that identify the directory of a built-in provider\<close>

definition provider_bytes :: "fsys \<Rightarrow> string \<Rightarrow> string" where
  "provider_bytes f dir =
     concat (map (\<lambda>p. relative_posix dir p @ nul @ read_file f p @ nul)
       (filter (\<lambda>p. ''__pycache__'' \<notin> set (segments p)) (sort_key segments (rglob_files f dir))))"

text \<open>The first installed capability whose directory holds the manifest\<close>

primrec owning_entry ::
  "service \<Rightarrow> string \<Rightarrow> registry_entry list \<Rightarrow> registry_entry option jrun" where
  "owning_entry V manifest [] = retM None"
| "owning_entry V manifest (e # es) =
     bindM (on_sys (resolve_path (jv_env V) (re_path e))) (\<lambda>p.
     if manifest = p \<or> in_parents p manifest then retM (Some e) else owning_entry V manifest es)"

definition provenance_json :: "string \<Rightarrow> string \<Rightarrow> string \<Rightarrow> jobj" where
  "provenance_json capability version check =
     [(''capability'', JStr capability), (''version'', JStr version), (''checksum'', JStr check)]"

definition provider_provenance :: "service \<Rightarrow> jobj \<Rightarrow> jobj jrun" where
  "provider_provenance V provider =
     bindM (liftM (item provider ''_manifest_path'')) (\<lambda>m.
     bindM (on_sys (resolve_path (jv_env V) (string_of m))) (\<lambda>manifest.
     bindM (case jv_source V of
              None \<Rightarrow> retM None
            | Some src \<Rightarrow> bindM (on_sys (rs_entries src)) (owning_entry V manifest)) (\<lambda>entry.
     case entry of
       Some e \<Rightarrow> retM (provenance_json (re_name e) (re_version e) (re_checksum e))
     | None \<Rightarrow>
         bindM (on_sys (from_fs (\<lambda>f. provider_bytes f (path_parent manifest)))) (\<lambda>bytes.
         retM (provenance_json ''builtin''
           (py_str (e_float (je_env (jv_env V))) (get_or provider ''version'' (JStr ''0.0.0'')))
           (e_sha (je_env (jv_env V)) bytes))))))"

definition credential_references :: "jobj \<Rightarrow> jobj \<Rightarrow> exc + jobj" where
  "credential_references provider inputs =
     bindE (get_dict provider ''write'') (\<lambda>write.
     bindE (iter (get_or write ''credential_refs'' (JList []))) (\<lambda>names.
     bindE (mapE hashed names) (\<lambda>names.
     Inr (foldl (\<lambda>d n. dset (string_of n) (the (dget inputs (string_of n))) d) []
       (filter (\<lambda>n. is_str n \<and> has_key inputs (string_of n)) names)))))"

text \<open>\<open>{item["name"]: item for item in artifacts}\<close>\<close>

definition artifact_records :: "jobj list \<Rightarrow> exc + (json, jobj) dict" where
  "artifact_records found =
     bindE (mapE (\<lambda>a. bindE (item a ''name'') hashed) found) (\<lambda>names.
     Inr (foldl (\<lambda>d (n, a). dset n a d) [] (zip names found)))"

text \<open>The path and checksum of a reviewed artifact\<close>

definition reviewed_artifact ::
  "service \<Rightarrow> jobj \<Rightarrow> (json, jobj) dict \<Rightarrow> string \<Rightarrow> jobj jrun" where
  "reviewed_artifact V artifacts records kind =
     bindM (liftM (bindE (item artifacts kind) hashed)) (\<lambda>output_name.
     bindM (optM (dget records output_name) (Exc JobError (''Dry-run job is missing '' @
              name_text (jv_env V) output_name @ '' artifact''))) (\<lambda>record.
     bindM (liftM (item record ''path'')) (\<lambda>p.
     let path = string_of p in
     bindM (on_sys (from_fs (\<lambda>f. is_file f path))) (\<lambda>ex.
     thenM (guardM ex (Exc JobError (''Dry-run '' @ kind @ '' artifact no longer exists'')))
     (bindM (on_sys (resolve_path (jv_env V) path)) (\<lambda>resolved.
      bindM (checksum V path) (\<lambda>sum.
      retM [(kind @ ''_path'', JStr resolved), (kind @ ''_checksum'', JStr sum)])))))))"

definition contract_part :: "jobj \<Rightarrow> string \<Rightarrow> exc + jobj" where
  "contract_part provider part =
     bindE (item provider ''write'') (\<lambda>w. bindE (index w part) as_dict)"

definition identity_input :: "jobj \<Rightarrow> jobj \<Rightarrow> exc + json" where
  "identity_input provider inputs =
     bindE (contract_part provider ''target'') (\<lambda>t.
     bindE (item t ''identity_input'') (\<lambda>n. item inputs (string_of n)))"

definition promotion_snapshot :: "service \<Rightarrow> job_rec \<Rightarrow> jobj \<Rightarrow> jobj jrun" where
  "promotion_snapshot V job provider =
     bindM (liftM (contract_part provider ''artifacts'')) (\<lambda>artifacts.
     bindM (bindM (on_sys (from_store (get_artifacts (jb_job_id job))))
              (\<lambda>found. liftM (artifact_records found))) (\<lambda>records.
     bindM (reviewed_artifact V artifacts records ''change_set'') (\<lambda>change_set.
     bindM (reviewed_artifact V artifacts records ''validation'') (\<lambda>validation.
     bindM (provider_provenance V provider) (\<lambda>provenance.
     bindM (liftM (identity_input provider (jb_inputs job))) (\<lambda>target.
     bindM (liftM (credential_references provider (jb_inputs job))) (\<lambda>refs.
     retM ([(''dry_run_job_id'', JStr (jb_job_id job)), (''skill'', JStr (jb_skill job)),
            (''provider'', JStr (jb_provider job)), (''provider_provenance'', JObj provenance)] @
           change_set @ validation @
           [(''target_identity'', target), (''credential_refs'', JObj refs),
            (''inputs_checksum'', JStr (e_sha (je_env (jv_env V))
               (json_text (e_float (je_env (jv_env V))) compact True
                  (JObj (jb_inputs job)))))]))))))))"

definition idempotency_record_key :: "service \<Rightarrow> job_rec \<Rightarrow> jobj \<Rightarrow> exc + string" where
  "idempotency_record_key V job provider =
     (let str = py_str (e_float (je_env (jv_env V))) in
      bindE (contract_part provider ''idempotency'') (\<lambda>idem.
      bindE (item idem ''input'') (\<lambda>key_input.
      bindE (identity_input provider (jb_inputs job)) (\<lambda>identity.
      bindE (item (jb_inputs job) (string_of key_input)) (\<lambda>key.
      Inr (join '':'' [jb_skill job, jb_provider job, str identity, str key]))))))"

definition snapshot_fields :: "string list" where
  "snapshot_fields = [''skill'', ''provider'', ''provider_provenance'', ''change_set_path'',
     ''change_set_checksum'', ''validation_path'', ''validation_checksum'', ''target_identity'',
     ''credential_refs'', ''inputs_checksum'']"

text \<open>The first field in which the current snapshot differs from the reviewed one\<close>

primrec same_fields :: "jobj \<Rightarrow> jobj \<Rightarrow> string list \<Rightarrow> exc + unit" where
  "same_fields current reviewed [] = Inr ()"
| "same_fields current reviewed (k # ks) =
     bindE (item current k) (\<lambda>a. bindE (item reviewed k) (\<lambda>b.
     bindE (checkE (py_eq a b) JobError
       (''Promotion is stale: '' @ k @ '' changed after review'')) (\<lambda>_.
     same_fields current reviewed ks)))"

definition validate_promotion ::
  "service \<Rightarrow> approval_rec \<Rightarrow> jobj \<Rightarrow> jobj \<Rightarrow> unit jrun" where
  "validate_promotion V approval provider inputs =
     bindM (optM (truthy (ap_promotion approval))
              (Exc JobError ''Live write requires a promotion approval'')) (\<lambda>reviewed.
     bindM (liftM (item reviewed ''dry_run_job_id'')) (\<lambda>dry_id.
     bindM (read_job (string_of dry_id)) (\<lambda>raw.
     bindM (optM raw (Exc JobError ''Promotion dry-run job no longer exists'')) (\<lambda>dry.
     thenM (guardM (jb_status dry = J_completed \<and> py_mode (jb_policy dry) = Mode_dry_run)
              (Exc JobError ''Promotion source must be a completed dry-run job''))
     (bindM (promotion_snapshot V dry provider) (\<lambda>current.
      thenM (liftM (same_fields current reviewed snapshot_fields))
      (guardM (dict_eq inputs (jb_inputs dry))
         (Exc JobError ''Promotion inputs differ from the reviewed dry run'')))))))) "

definition validate_recovery :: "service \<Rightarrow> approval_rec \<Rightarrow> jobj \<Rightarrow> job_rec jrun" where
  "validate_recovery V approval provider =
     bindM (optM (truthy (ap_recovery approval))
              (Exc JobError ''Recovery requires a recovery approval'')) (\<lambda>reviewed.
     bindM (liftM (item reviewed ''live_job_id'')) (\<lambda>live_id.
     bindM (read_job (string_of live_id)) (\<lambda>raw.
     bindM (optM raw (Exc JobError ''Recovery source job no longer exists'')) (\<lambda>live.
     thenM (guardM (jb_status live = J_completed \<and> py_mode (jb_policy live) = Mode_live)
              (Exc JobError ''Recovery source must be a completed live job''))
     (bindM (provider_provenance V provider) (\<lambda>provenance.
      bindM (liftM (item reviewed ''provider_provenance'')) (\<lambda>p.
      thenM (guardM (py_eq (JObj provenance) p)
               (Exc JobError ''Recovery is stale: provider provenance changed''))
      (bindM (liftM (item reviewed ''recovery_path'')) (\<lambda>rp.
       let path = string_of rp in
       bindM (on_sys (from_fs (\<lambda>f. is_file f path))) (\<lambda>ex.
       bindM (if ex then bindM (checksum V path) (\<lambda>sum.
                 bindM (liftM (item reviewed ''recovery_checksum'')) (\<lambda>c. retM (py_eq (JStr sum) c)))
              else retM False) (\<lambda>same.
       thenM (guardM same (Exc JobError ''Recovery artifact is missing or changed''))
       (retM live)))))))))))) "

section \<open>Checks around a write\<close>

text \<open>The error type of the steps that \<open>process_job\<close> guards with
  \<open>except (RunnerError, ArtifactError)\<close>\<close>

type_synonym 'a guarded = "(sys, runner_exc, 'a) sm"

definition artifact_error :: "string \<Rightarrow> runner_exc" where
  "artifact_error m = Other_exc (Exc ArtifactError m)"

definition load_artifact_json :: "service \<Rightarrow> string \<Rightarrow> string \<Rightarrow> jobj guarded" where
  "load_artifact_json V path label =
     bindM (plainly (from_fs (\<lambda>f. if is_file f path then Some (read_file f path) else None))) (\<lambda>text.
     bindM (optM (case text of None \<Rightarrow> None | Some t \<Rightarrow> e_loads (je_env (jv_env V)) t)
              (artifact_error (label @ '' artifact is not valid JSON''))) (\<lambda>v.
     optM (case v of JObj d \<Rightarrow> Some d | _ \<Rightarrow> None)
       (artifact_error (label @ '' artifact must contain a JSON object''))))"

text \<open>\<open>job.promotion[key]\<close>\<close>

definition opt_item :: "jobj option \<Rightarrow> string \<Rightarrow> exc + json" where
  "opt_item d k =
     (case d of None \<Rightarrow> Inl (Exc TypeError (quoted ''NoneType'' @ '' object is not subscriptable''))
      | Some e \<Rightarrow> item e k)"

definition pre_write_validate :: "service \<Rightarrow> job_rec \<Rightarrow> unit guarded" where
  "pre_write_validate V job =
     (case truthy (jb_recovery job) of
        Some recovery \<Rightarrow>
          bindM (liftM (other (item recovery ''recovery_path''))) (\<lambda>p.
          bindM (load_artifact_json V (string_of p) ''Recovery'') (\<lambda>d.
          guardM (get_null d ''status'' = JStr ''available'')
            (artifact_error ''Recovery artifact is not available'')))
      | None \<Rightarrow>
          bindM (liftM (other (opt_item (jb_promotion job) ''validation_path''))) (\<lambda>p.
          bindM (load_artifact_json V (string_of p) ''Pre-write validation'') (\<lambda>d.
          guardM (get_null d ''valid'' = JBool True)
            (artifact_error ''Pre-write validation did not pass''))))"

definition upper_char :: "char \<Rightarrow> char" where
  "upper_char c =
     (if CHR ''a'' \<le> c \<and> c \<le> CHR ''z'' then char_of ((of_char c :: nat) - 32) else c)"

text \<open>\<open>kind.title()\<close> of a single word\<close>

definition title_word :: "string \<Rightarrow> string" where
  "title_word s = (case s of [] \<Rightarrow> [] | c # cs \<Rightarrow> upper_char c # lower cs)"

definition load_output ::
  "service \<Rightarrow> jobj \<Rightarrow> (json, jobj) dict \<Rightarrow> string \<Rightarrow> jobj guarded" where
  "load_output V bindings records kind =
     bindM (liftM (other (bindE (item bindings kind) hashed))) (\<lambda>output_name.
     bindM (optM (dget records output_name)
              (artifact_error (''Write provider is missing '' @ kind @ '' artifact''))) (\<lambda>record.
     bindM (liftM (other (item record ''path''))) (\<lambda>p.
     load_artifact_json V (string_of p) (title_word kind))))"

definition validate_write_outputs :: "service \<Rightarrow> job_rec \<Rightarrow> jobj \<Rightarrow> jobj list \<Rightarrow> unit guarded" where
  "validate_write_outputs V job provider found =
     bindM (liftM (other (contract_part provider ''artifacts''))) (\<lambda>bindings.
     bindM (liftM (other (artifact_records found))) (\<lambda>records.
     bindM (load_output V bindings records ''validation'') (\<lambda>validation.
     thenM (guardM (get_null validation ''valid'' = JBool True)
              (artifact_error ''Write-provider validation did not pass''))
     (if py_mode (jb_policy job) \<noteq> Mode_live then retM ()
      else bindM (load_output V bindings records ''verification'') (\<lambda>verification.
           thenM (guardM (get_null verification ''status'' = JStr ''passed'')
                    (artifact_error ''Post-write verification did not pass''))
           (bindM (load_output V bindings records ''recovery'') (\<lambda>recovery.
            let expected = (if truthy (jb_recovery job) \<noteq> None then ''completed'' else ''available'') in
            guardM (get_null recovery ''status'' = JStr expected)
              (artifact_error (''Recovery artifact must have status '' @ expected)))))))))"

section \<open>Requests for approval\<close>

definition bare_approval :: "string \<Rightarrow> string \<Rightarrow> string \<Rightarrow> string \<Rightarrow> int \<Rightarrow> string \<Rightarrow> string \<Rightarrow> approval_rec" where
  "bare_approval k skill provider reason risk created updated =
     \<lparr>ap_approval_id = k, ap_subject_kind = None, ap_subject_id = None, ap_job_id = None,
      ap_plan_id = None, ap_step_capability = None, ap_skill = Some skill,
      ap_provider = Some provider, ap_reason = reason, ap_risk_level = risk,
      ap_status = Ap_pending, ap_created_at = created, ap_updated_at = updated,
      ap_decided_by = None, ap_note = [], ap_promotion = None, ap_recovery = None\<rparr>"

text \<open>\<open>Approval(approval_id=_id("approval"), ..., risk_level=int(...), created_at=utc_now(), ...)\<close>\<close>

definition new_approval ::
  "service \<Rightarrow> job_rec \<Rightarrow> string \<Rightarrow> jobj \<Rightarrow> approval_rec jrun" where
  "new_approval V job reason provider =
     bindM (job_id V ''approval'') (\<lambda>k.
     bindM (liftM (int_of_json (get_or provider ''risk_level'' (JInt 1)))) (\<lambda>risk.
     bindM (now V) (\<lambda>created. bindM (now V) (\<lambda>updated.
     retM (bare_approval k (jb_skill job) (jb_provider job) reason risk created updated)))))"

definition store_approval :: "approval_rec \<Rightarrow> unit jrun" where
  "store_approval a = on_sys (on_store (set_approval (ap_approval_id a) a))"

definition known_job :: "string \<Rightarrow> job_rec jrun" where
  "known_job k = bindM (read_job k) (\<lambda>raw. optM raw (Exc JobError (''Unknown job: '' @ k)))"

definition snapshot_text :: "service \<Rightarrow> jobj \<Rightarrow> string \<Rightarrow> exc + string" where
  "snapshot_text V d k = bindE (item d k) (\<lambda>v. Inr (name_text (jv_env V) v))"

definition promote_job :: "service \<Rightarrow> string \<Rightarrow> approval_rec jrun" where
  "promote_job V dry_run_job_id =
     bindM (known_job dry_run_job_id) (\<lambda>job.
     thenM (guardM (jb_status job = J_completed \<and> py_mode (jb_policy job) = Mode_dry_run)
              (Exc JobError ''Only a completed dry-run job can be promoted''))
     (bindM (provider_internal V (jb_skill job) (jb_provider job)) (\<lambda>found.
      bindM (optM (case found of Some p \<Rightarrow> if has_key p ''write'' then Some p else None
                               | None \<Rightarrow> None)
               (Exc JobError ''Only a declared write provider can be promoted'')) (\<lambda>provider.
      bindM (promotion_snapshot V job provider) (\<lambda>snap.
      bindM (liftM (snapshot_text V snap ''target_identity'')) (\<lambda>target.
      bindM (liftM (snapshot_text V snap ''change_set_checksum'')) (\<lambda>change.
      bindM (new_approval V job
               (''Promote reviewed change set for '' @ target @ '' ('' @ change @ '')'') provider) (\<lambda>a.
      let a = a\<lparr>ap_promotion := Some snap\<rparr> in
      thenM (store_approval a)
      (thenM (job_event V (jb_job_id job) ''promotion_requested''
                (JStr ''Live promotion approval requested.'')
                [(''approval_id'', JStr (ap_approval_id a))])
      (retM a))))))))))"

definition recover_job :: "service \<Rightarrow> string \<Rightarrow> approval_rec jrun" where
  "recover_job V live_job_id =
     bindM (known_job live_job_id) (\<lambda>job.
     thenM (guardM (jb_status job = J_completed \<and> py_mode (jb_policy job) = Mode_live)
              (Exc JobError ''Only a completed live job can be recovered''))
     (bindM (provider_internal V (jb_skill job) (jb_provider job)) (\<lambda>found.
      bindM (liftM (case found of
               None \<Rightarrow> Inl (Exc JobError ''Provider does not support automatic recovery'')
             | Some p \<Rightarrow>
                 bindE (get_dict p ''write'') (\<lambda>w.
                 bindE (get_dict w ''recovery'') (\<lambda>r.
                 bindE (hashed (get_null r ''mode'')) (\<lambda>mode.
                 bindE (checkE (mode \<in> JStr ` {''rollback'', ''compensate''}) JobError
                          ''Provider does not support automatic recovery'') (\<lambda>_. Inr p)))))) (\<lambda>provider.
      bindM (liftM (bindE (contract_part provider ''artifacts'')
                      (\<lambda>a. item a ''recovery''))) (\<lambda>recovery_name.
      bindM (on_sys (from_store (get_artifacts (jb_job_id job)))) (\<lambda>arts.
      bindM (liftM (mapE (\<lambda>a. item a ''name'') arts)) (\<lambda>names.
      bindM (optM (map_of (zip names arts) recovery_name)
               (Exc JobError ''Live job recovery artifact is unavailable'')) (\<lambda>artifact.
      bindM (liftM (item artifact ''path'')) (\<lambda>p.
      let path = string_of p in
      bindM (on_sys (from_fs (\<lambda>f. is_file f path))) (\<lambda>ex.
      thenM (guardM ex (Exc JobError ''Live job recovery artifact is unavailable''))
      (bindM (provider_provenance V provider) (\<lambda>provenance.
       bindM (on_sys (resolve_path (jv_env V) path)) (\<lambda>resolved.
       bindM (checksum V path) (\<lambda>digest.
       bindM (liftM (opt_item (jb_promotion job) ''target_identity'')) (\<lambda>target.
       bindM (new_approval V job (''Recover live job '' @ jb_job_id job @ '' for '' @
                name_text (jv_env V) target) provider) (\<lambda>a.
       let a = a\<lparr>ap_recovery := Some
             [(''live_job_id'', JStr (jb_job_id job)), (''skill'', JStr (jb_skill job)),
              (''provider'', JStr (jb_provider job)), (''provider_provenance'', JObj provenance),
              (''recovery_path'', JStr resolved), (''recovery_checksum'', JStr digest),
              (''target_identity'', target)]\<rparr> in
       thenM (store_approval a)
       (thenM (job_event V (jb_job_id job) ''recovery_requested''
                 (JStr ''Recovery approval requested.'')
                 [(''approval_id'', JStr (ap_approval_id a))])
       (retM a))))))))))))))))))"

section \<open>Creating a job\<close>

definition suggestion :: "string \<Rightarrow> jobj \<Rightarrow> json" where
  "suggestion skill inputs = JObj
     [(''skill'', JStr skill), (''provider'', JStr ''local_scaffolder''), (''inputs'', JObj inputs),
      (''requires_approval'', JBool True)]"

definition missing_capability :: "service \<Rightarrow> job_request \<Rightarrow> jobj option jrun" where
  "missing_capability V q =
     thenM (refresh_registry V)
     (getM (\<lambda>s.
        if dget (rg_skills (js_reg s)) (JStr (jr_skill q)) = None
        then Some [(''status'', JStr ''missing_skill''), (''skill'', JStr (jr_skill q)),
                   (''message'', JStr (''Skill '' @ jr_skill q @ '' is not installed.'')),
                   (''suggested_action'', suggestion ''scaffold_skill''
                      [(''skill'', JStr (jr_skill q))])]
        else if find_provider (js_reg s) (jr_skill q) (jr_provider q) = None
        then Some [(''status'', JStr ''missing_provider''), (''skill'', JStr (jr_skill q)),
                   (''provider'', JStr (jr_provider q)),
                   (''message'', JStr (''Provider '' @ jr_provider q @
                      '' is not installed for skill '' @ jr_skill q @ ''.'')),
                   (''suggested_action'', suggestion ''scaffold_provider''
                      [(''skill'', JStr (jr_skill q)), (''provider'', JStr (jr_provider q))])]
        else None))"

text \<open>The approval that a request names, which must be approved\<close>

definition linked_approval :: "string option \<Rightarrow> approval_rec option jrun" where
  "linked_approval k =
     (if \<not> given k then retM None
      else bindM (read_approval (the k)) (\<lambda>raw.
           bindM (optM raw (Exc JobError (''Unknown approval: '' @ the k))) (\<lambda>a.
           thenM (guardM (ap_status a = Ap_approved) (Exc JobError
                    (''Approval '' @ the k @ '' is '' @ approval_status_str (ap_status a))))
           (retM (Some a)))))"

text \<open>The gate of a live write\<close>

definition live_write_gate ::
  "service \<Rightarrow> job_request \<Rightarrow> jobj option \<Rightarrow> jobj \<Rightarrow> jobj \<Rightarrow> approval_rec option \<Rightarrow> unit jrun" where
  "live_write_gate V q recovery provider inputs linked =
     (if py_mode (jr_policy q) = Mode_live \<and> has_key provider ''write''
      then bindM (optM linked (Exc JobError ''Live write requires an approved dry-run promotion''))
             (\<lambda>a.
           if truthy recovery \<noteq> None
           then thenM (guardM (opt_dict_eq (ap_recovery a) recovery)
                  (Exc JobError ''Recovery does not match the approved snapshot''))
                (ignore (validate_recovery V a provider))
           else validate_promotion V a provider inputs)
      else retM ())"

definition make_job_dir :: "string \<Rightarrow> unit run" where
  "make_job_dir dir =
     bindM (from_fs (\<lambda>f. path_exists f dir)) (\<lambda>ex.
     thenM (require (\<not> ex) FileExistsError (''File exists: '' @ dir)) (on_fs (make_dirs dir)))"

definition create_job :: "service \<Rightarrow> job_request \<Rightarrow> jobj option \<Rightarrow> job_rec jrun" where
  "create_job V q recovery =
     thenM (refresh_registry V)
     (bindM (provider_internal V (jr_skill q) (jr_provider q)) (\<lambda>found.
      bindM (optM found (Exc JobError ''Requested capability is not registered'')) (\<lambda>provider.
      bindM (liftM (validate_inputs (e_float (je_env (jv_env V))) provider (jr_inputs q))) (\<lambda>inputs.
      thenM (liftM (case validate_sensitive_inputs ''inputs'' (JObj inputs) of
               Inl e \<Rightarrow> Inl (if exc_cls e = SensitiveInputError then Exc JobError (exc_str e) else e)
             | Inr u \<Rightarrow> Inr u))
      (bindM (linked_approval (jr_approval_id q)) (\<lambda>linked.
       thenM (live_write_gate V q recovery provider inputs linked)
       (bindM (job_id V ''job'') (\<lambda>k.
        bindM (on_sys (resolve_path (jv_env V) (path_join (jobs_dir (jv_settings V)) k))) (\<lambda>dir.
        thenM (on_sys (make_job_dir dir))
        (bindM (now V) (\<lambda>t.
         let job = \<lparr>jb_job_id = k, jb_status = J_queued, jb_created_at = t, jb_updated_at = t,
               jb_requested_by = jr_requested_by q, jb_skill = jr_skill q,
               jb_provider = jr_provider q, jb_goal = jr_goal q, jb_inputs = inputs,
               jb_policy = jr_policy q, jb_artifact_dir = dir, jb_result = None, jb_error = None,
               jb_requires_approval = (jr_approval_id q \<noteq> None),
               jb_approval_id = jr_approval_id q,
               jb_promotion = (case linked of None \<Rightarrow> None | Some a \<Rightarrow> ap_promotion a),
               jb_recovery = recovery\<rparr> in
         thenM (case linked of None \<Rightarrow> retM ()
                | Some a \<Rightarrow> on_sys (on_store (set_approval (the (jr_approval_id q))
                                            (a\<lparr>ap_job_id := Some k\<rparr>))))
         (bindM (save V job) (\<lambda>job.
          thenM (job_event V k ''job_created'' (JStr ''Job queued.'') [])
          (retM job)))))))))))))) "

section \<open>Processing a job\<close>

text \<open>A stage either ends the processing with a job or goes on\<close>

datatype 'a stage = Stop job_rec | Go 'a

definition stop :: "job_rec jrun \<Rightarrow> 'a stage jrun" where
  "stop m = bindM m (\<lambda>job. retM (Stop job))"

text \<open>A transition that another process has won ends with the job as it is stored\<close>

definition claim_status ::
  "service \<Rightarrow> job_rec \<Rightarrow> job_status list \<Rightarrow> job_status \<Rightarrow> job_rec stage jrun" where
  "claim_status V job expected st =
     bindM (transition_to V job expected st) (\<lambda>(job, ok).
     if ok then retM (Go job) else stop (reread_job (jb_job_id job)))"

definition find_tools :: "reg \<Rightarrow> json list \<Rightarrow> exc + (json + jobj list)" where
  "find_tools r names =
     foldr (\<lambda>n rest. bindE (hashed n) (\<lambda>n.
       case find_tool r n of
         None \<Rightarrow> Inr (Inl n)
       | Some t \<Rightarrow> bindE rest (\<lambda>x. Inr (case x of Inl m \<Rightarrow> Inl m | Inr ts \<Rightarrow> Inr (t # ts))))) names
       (Inr (Inr []))"

text \<open>What a policy that asks for an approval does\<close>

definition seek_approval ::
  "service \<Rightarrow> job_rec \<Rightarrow> jobj \<Rightarrow> string list \<Rightarrow> job_rec stage jrun" where
  "seek_approval V job provider reasons =
     (if given (jb_approval_id job)
      then bindM (read_approval (the (jb_approval_id job))) (\<lambda>approval.
           case map_option ap_status approval of
             Some Ap_approved \<Rightarrow> claim_status V job [J_checking_dependencies] J_running
           | Some Ap_rejected \<Rightarrow>
               stop (fail V job ''approval_rejected'' ''The linked approval was rejected'' [])
           | _ \<Rightarrow> stop (save V (job\<lparr>jb_status := J_waiting_for_approval,
                                    jb_requires_approval := True\<rparr>)))
      else bindM (new_approval V job (join ''; '' reasons) provider) (\<lambda>a.
           let a = a\<lparr>ap_job_id := Some (jb_job_id job)\<rparr> in
           thenM (store_approval a)
           (bindM (save V (job\<lparr>jb_status := J_waiting_for_approval, jb_requires_approval := True,
                               jb_approval_id := Some (ap_approval_id a)\<rparr>)) (\<lambda>job.
            thenM (job_event V (jb_job_id job) ''approval_requested'' (JStr (ap_reason a))
                     [(''approval_id'', JStr (ap_approval_id a))])
            (retM (Stop job))))))"

definition check_policy :: "service \<Rightarrow> job_rec \<Rightarrow> jobj \<Rightarrow> job_rec stage jrun" where
  "check_policy V job provider =
     (case evaluate_policy (je_bracketed (jv_env V)) provider (jb_inputs job) (jb_policy job) of
        Inl e \<Rightarrow> if exc_cls e = PolicyDenied
                 then stop (fail V job ''policy_denied'' (exc_str e) []) else raiseM e
      | Inr reasons \<Rightarrow>
          bindM (if reasons = [] then retM (Go job) else seek_approval V job provider reasons) (\<lambda>r.
          case r of
            Stop j \<Rightarrow> retM (Stop j)
          | Go job \<Rightarrow> if jb_status job = J_running then retM (Go job)
                      else claim_status V job [J_checking_dependencies] J_running))"

text \<open>Dependencies of the provider and its tools, then the policy\<close>

definition check_queued :: "service \<Rightarrow> job_rec \<Rightarrow> jobj \<Rightarrow> job_rec stage jrun" where
  "check_queued V job provider =
     bindM (claim_status V job [J_queued] J_checking_dependencies) (\<lambda>r.
     case r of
       Stop j \<Rightarrow> retM (Stop j)
     | Go job \<Rightarrow>
         thenM (job_event V (jb_job_id job) ''dependency_check_started''
                  (JStr ''Checking provider and tool dependencies.'') [])
         (bindM (liftM (iter (get_or provider ''tools'' (JList [])))) (\<lambda>names.
          bindM (bindM (getM (\<lambda>s. find_tools (js_reg s) names)) liftM) (\<lambda>tools.
          case tools of
            Inl n \<Rightarrow> stop (fail V job ''missing_tool''
              (''Provider requires unregistered tool '' @ name_text (jv_env V) n) [])
          | Inr ts \<Rightarrow>
              bindM (bindM (on_sys (from_fs (check_dependencies (jv_env V) (provider # ts)))) liftM) (\<lambda>deps.
              thenM (job_event V (jb_job_id job) ''dependency_check_completed''
                       (JStr ''Dependency check completed.'') deps)
              (if get_null deps ''status'' \<noteq> JStr ''ready''
               then stop (save V (job\<lparr>jb_status := J_waiting_for_dependency,
                      jb_error := Some ((''code'', JStr ''missing_dependencies'') # deps)\<rparr>))
               else check_policy V job provider))))))"

text \<open>A waiting job goes on when its approval is approved, a queued one when the checks pass\<close>

definition admit :: "service \<Rightarrow> job_rec \<Rightarrow> jobj \<Rightarrow> job_rec stage jrun" where
  "admit V job provider =
     (if jb_status job = J_waiting_for_approval
      then bindM (read_approval (case jb_approval_id job of Some k \<Rightarrow> k | None \<Rightarrow> [])) (\<lambda>approval.
           if map_option ap_status approval \<noteq> Some Ap_approved then retM (Stop job)
           else claim_status V job [J_waiting_for_approval] J_running)
      else check_queued V job provider)"

definition change_set_of :: "job_rec \<Rightarrow> exc + string" where
  "change_set_of job =
     bindE (opt_item (jb_promotion job) ''change_set_checksum'') (\<lambda>c. Inr (string_of c))"

definition idem_of :: "idem_status \<Rightarrow> job_rec \<Rightarrow> string \<Rightarrow> idem_rec" where
  "idem_of st job change =
     \<lparr>id_status = st, id_job_id = jb_job_id job, id_change_set_checksum = change\<rparr>"

definition replay :: "service \<Rightarrow> job_rec \<Rightarrow> string \<Rightarrow> job_rec jrun" where
  "replay V job original =
     thenM (on_sys (on_store (\<lambda>s. set_artifacts (jb_job_id job) (get_artifacts original s) s)))
     (bindM (save V (job\<lparr>jb_status := J_completed, jb_result := Some
              [(''status'', JStr ''completed''),
               (''summary'', JStr ''Idempotent replay returned the prior live result.''),
               (''idempotent_replay'', JBool True), (''original_job_id'', JStr original)]\<rparr>)) (\<lambda>job.
      thenM (job_event V (jb_job_id job) ''idempotent_replay''
               (JStr ''No mutation performed; prior live result returned.'')
               [(''original_job_id'', JStr original)])
      (retM job)))"

text \<open>A live write must own its idempotency key\<close>

definition claim_key ::
  "service \<Rightarrow> job_rec \<Rightarrow> jobj \<Rightarrow> (string \<times> string) option stage jrun" where
  "claim_key V job provider =
     (if py_mode (jb_policy job) = Mode_live \<and> has_key provider ''write'' \<and>
         truthy (jb_recovery job) = None
      then bindM (liftM (idempotency_record_key V job provider)) (\<lambda>key.
           bindM (liftM (change_set_of job)) (\<lambda>change.
           bindM (on_sys (ask_store (claim_idempotency key (idem_of Id_running job change)))) (\<lambda>held.
           case held of
             None \<Rightarrow> retM (Go (Some (key, change)))
           | Some e \<Rightarrow>
               if id_change_set_checksum e \<noteq> change
               then stop (fail V job ''idempotency_conflict''
                      ''Idempotency key is bound to a different change set'' [])
               else if id_status e = Id_completed then stop (replay V job (id_job_id e))
               else stop (fail V job ''idempotency_in_progress''
                      ''Another live job is using this idempotency key'' []))))
      else retM (Go None))"

definition opt_obj :: "jobj option \<Rightarrow> json" where
  "opt_obj d = (case d of None \<Rightarrow> JNull | Some e \<Rightarrow> JObj e)"

definition mode_str :: "policy_mode \<Rightarrow> string" where
  "mode_str m = (case m of Mode_dry_run \<Rightarrow> ''dry_run'' | Mode_live \<Rightarrow> ''live'')"

definition policy_obj :: "policy_rec \<Rightarrow> jobj" where
  "policy_obj p =
     [(''mode'', JStr (mode_str (py_mode p))), (''allow_network'', JBool (py_allow_network p)),
      (''allow_filesystem_write'', JBool (py_allow_filesystem_write p)),
      (''allow_destructive'', JBool (py_allow_destructive p)),
      (''approved_domains'', JList (map JStr (py_approved_domains p)))]"

definition payload_of :: "service \<Rightarrow> job_rec \<Rightarrow> jobj \<Rightarrow> fsys \<Rightarrow> jobj" where
  "payload_of V job inputs f =
     [(''job_id'', JStr (jb_job_id job)), (''skill'', JStr (jb_skill job)),
      (''provider'', JStr (jb_provider job)), (''inputs'', JObj inputs),
      (''policy'', JObj (policy_obj (jb_policy job))), (''promotion'', opt_obj (jb_promotion job)),
      (''recovery'', opt_obj (jb_recovery job)), (''artifact_dir'', JStr (jb_artifact_dir job)),
      (''canto_root'', JStr (e_resolve (je_env (jv_env V)) f (set_root_dir (jv_settings V)))),
      (''scaffolds_dir'', JStr (e_resolve (je_env (jv_env V)) f (scaffolds_dir (jv_settings V))))]"

text \<open>\<open>try: m finally: g\<close>\<close>

definition finally_do :: "('s, 'e, 'a) sm \<Rightarrow> ('s \<Rightarrow> 's) \<Rightarrow> ('s, 'e, 'a) sm" where
  "finally_do m g = (\<lambda>s. case m s of (r, t) \<Rightarrow> (r, g t))"

lemma wp_finally [wp_eqs]: "wp (finally_do m g) Q X s = wp m (\<lambda>a t. Q a (g t)) (\<lambda>e t. X e (g t)) s"
  by (simp add: wp_def finally_do_def split: prod.split sum.split)

text \<open>The guarded body: the result of the provider and its artifacts\<close>

definition run_guarded ::
  "service \<Rightarrow> job_rec \<Rightarrow> jobj \<Rightarrow> jobj \<Rightarrow> string list \<Rightarrow> (jobj \<times> jobj list) guarded" where
  "run_guarded V job provider payload secrets =
     thenM (if py_mode (jb_policy job) = Mode_live \<and> has_key provider ''write''
            then pre_write_validate V job else retM ())
     (bindM (finally_do (run_provider (jv_env V) (jv_settings V) provider payload
                          (py_approved_domains (jb_policy job)) (jb_artifact_dir job) secrets)
               (\<lambda>s. s\<lparr>sy_fs := redact_artifacts (jb_artifact_dir job) secrets (sy_fs s)\<rparr>)) (\<lambda>result.
      bindM (plainly (bindM (from_fs (collect_artifacts (jv_env V) (jb_artifact_dir job)
               (get_or provider ''outputs'' (JObj [])))) liftM)) (\<lambda>found.
      thenM (if has_key provider ''write'' then validate_write_outputs V job provider found
             else retM ())
      (retM (result, found)))))"

text \<open>\<open>except (RunnerError, ArtifactError)\<close>: the outcome, or the message and details of a failure\<close>

definition attempt :: "'a guarded \<Rightarrow> ((string \<times> jobj) + 'a) run" where
  "attempt m = (\<lambda>s. case m s of
     (Inr a, t) \<Rightarrow> (Inr (Inr a), t)
   | (Inl (Runner_error msg details), t) \<Rightarrow> (Inr (Inl (msg, details)), t)
   | (Inl (Other_exc e), t) \<Rightarrow>
       (if exc_cls e = ArtifactError then (Inr (Inl (exc_str e, [])), t) else (Inl e, t)))"

definition release_key ::
  "idem_status \<Rightarrow> job_rec \<Rightarrow> (string \<times> string) option \<Rightarrow> unit jrun" where
  "release_key st job key =
     (case key of None \<Rightarrow> retM ()
      | Some (k, change) \<Rightarrow> on_sys (on_store (set_idempotency k (idem_of st job change))))"

definition finish_job ::
  "service \<Rightarrow> job_rec \<Rightarrow> (string \<times> string) option \<Rightarrow> jobj \<Rightarrow> jobj list \<Rightarrow> job_rec jrun" where
  "finish_job V job key result found =
     thenM (on_sys (on_store (set_artifacts (jb_job_id job) found)))
     (bindM (save V (job\<lparr>jb_status := J_completed, jb_result := Some result\<rparr>)) (\<lambda>job.
      thenM (release_key Id_completed job key)
      (thenM (job_event V (jb_job_id job) ''artifacts_collected''
                (JStr (''Collected '' @ show_nat (length found) @ '' artifacts.'')) [])
      (thenM (job_event V (jb_job_id job) ''job_completed''
                (get_or result ''summary'' (JStr ''Job completed.'')) [])
      (retM job)))))"

definition vault_of :: "service \<Rightarrow> string jrun" where
  "vault_of V =
     (case jv_vault V of Some v \<Rightarrow> retM v | None \<Rightarrow> on_sys (local_vault (jv_env V)))"

text \<open>Running the provider of an admitted job\<close>

definition execute ::
  "service \<Rightarrow> job_rec \<Rightarrow> jobj \<Rightarrow> (string \<times> string) option \<Rightarrow> job_rec jrun" where
  "execute V job provider key =
     thenM (job_event V (jb_job_id job) ''provider_started''
              (JStr (''Running '' @ jb_skill job @ ''.'' @ jb_provider job @ ''.'')) [])
     (case effective_limits provider (jv_settings V) of
        Inl (Runner_error msg d) \<Rightarrow> fail V job ''invalid_runtime_limits'' msg []
      | Inl (Other_exc e) \<Rightarrow> raiseM e
      | Inr l \<Rightarrow>
          thenM (job_event V (jb_job_id job) ''runtime_limits_applied''
                   (JStr ''Provider runtime limits applied.'') (limits_json l))
          (bindM (vault_of V) (\<lambda>vault.
           bindM (tryM (bindM (on_sys (resolve_credential_inputs (jv_env V) vault (jb_inputs job)))
                          (\<lambda>r. retM (Inr r)))
                    (\<lambda>e. if exc_cls e = CredentialError then retM (Inl (exc_str e)) else raiseM e))
             (\<lambda>resolved.
           case resolved of
             Inl msg \<Rightarrow> fail V job ''credential_resolution_failed'' msg []
           | Inr (inputs, secrets) \<Rightarrow>
               bindM (on_sys (from_fs (payload_of V job inputs))) (\<lambda>payload.
               bindM (on_sys (attempt (run_guarded V job provider payload secrets))) (\<lambda>outcome.
               case outcome of
                 Inl (msg, details) \<Rightarrow>
                   thenM (release_key Id_failed job key)
                   (fail V job ''provider_failed'' msg details)
               | Inr (result, found) \<Rightarrow> finish_job V job key result found))))))"

definition process_job :: "service \<Rightarrow> string \<Rightarrow> job_rec jrun" where
  "process_job V k =
     thenM (refresh_registry V)
     (bindM (known_job k) (\<lambda>job.
      if jb_status job \<notin> {J_queued, J_waiting_for_approval} then retM job
      else bindM (provider_internal V (jb_skill job) (jb_provider job)) (\<lambda>found.
        case found of
          None \<Rightarrow> fail V job ''provider_missing'' ''Provider disappeared from the registry'' []
        | Some provider \<Rightarrow>
            bindM (admit V job provider) (\<lambda>r.
            case r of
              Stop j \<Rightarrow> retM j
            | Go job \<Rightarrow>
                let job = job\<lparr>jb_error := None\<rparr> in
                bindM (claim_key V job provider) (\<lambda>c.
                case c of
                  Stop j \<Rightarrow> retM j
                | Go key \<Rightarrow> execute V job provider key)))))"

section \<open>Decisions\<close>

datatype decision = On_job job_rec | On_approval approval_rec | On_memory mitem

definition decide_transition ::
  "service \<Rightarrow> approval_rec \<Rightarrow> approval_status \<Rightarrow> string \<Rightarrow> string \<Rightarrow> string \<Rightarrow> approval_rec jrun" where
  "decide_transition V a st k who note =
     bindM (now V) (\<lambda>t.
     let a = a\<lparr>ap_status := st, ap_updated_at := t, ap_decided_by := Some who, ap_note := note\<rparr> in
     bindM (on_sys (ask_store (transition_approval k [Ap_pending] a))) (\<lambda>ok.
     if ok then retM a
     else bindM (read_approval k) (\<lambda>current.
          raiseM (Exc JobError (''Approval is already '' @
            (case current of Some c \<Rightarrow> approval_status_str (ap_status c) | None \<Rightarrow> ''unknown''))))))"

text \<open>The source of a promotion is still what was reviewed\<close>

definition recheck_promotion :: "service \<Rightarrow> approval_rec \<Rightarrow> unit jrun" where
  "recheck_promotion V a =
     (case truthy (ap_promotion a) of
        None \<Rightarrow> retM ()
      | Some snap \<Rightarrow>
          bindM (liftM (item snap ''dry_run_job_id'')) (\<lambda>d.
          bindM (reread_job (string_of d)) (\<lambda>dry.
          bindM (provider_internal V (jb_skill dry) (jb_provider dry)) (\<lambda>found.
          bindM (optM found (Exc JobError ''Promotion provider is no longer registered'')) (\<lambda>p.
          validate_promotion V a p (jb_inputs dry))))))"

definition recheck_recovery :: "service \<Rightarrow> approval_rec \<Rightarrow> unit jrun" where
  "recheck_recovery V a =
     (case truthy (ap_recovery a) of
        None \<Rightarrow> retM ()
      | Some snap \<Rightarrow>
          bindM (liftM (item snap ''live_job_id'')) (\<lambda>d.
          bindM (read_job (string_of d)) (\<lambda>raw.
          bindM (optM raw (Exc JobError ''Recovery source job no longer exists'')) (\<lambda>live.
          bindM (provider_internal V (jb_skill live) (jb_provider live)) (\<lambda>found.
          bindM (optM found (Exc JobError ''Recovery provider is no longer registered'')) (\<lambda>p.
          ignore (validate_recovery V a p)))))))"

definition launch_promotion :: "service \<Rightarrow> approval_rec \<Rightarrow> jobj \<Rightarrow> string \<Rightarrow> job_rec jrun" where
  "launch_promotion V a snap who =
     bindM (liftM (item snap ''dry_run_job_id'')) (\<lambda>d.
     bindM (reread_job (string_of d)) (\<lambda>dry.
     bindM (create_job V \<lparr>jr_skill = jb_skill dry, jr_provider = jb_provider dry,
              jr_goal = jb_goal dry, jr_inputs = jb_inputs dry,
              jr_policy = (jb_policy dry)\<lparr>py_mode := Mode_live\<rparr>, jr_requested_by = who,
              jr_approval_id = Some (ap_approval_id a)\<rparr> None) (\<lambda>live.
     thenM (job_event V (jb_job_id dry) ''promotion_approved'' (JStr ''Live promotion approved.'')
              [(''live_job_id'', JStr (jb_job_id live))])
     (process_job V (jb_job_id live)))))"

definition launch_recovery :: "service \<Rightarrow> approval_rec \<Rightarrow> jobj \<Rightarrow> string \<Rightarrow> job_rec jrun" where
  "launch_recovery V a snap who =
     bindM (liftM (item snap ''live_job_id'')) (\<lambda>d.
     bindM (reread_job (string_of d)) (\<lambda>live.
     bindM (create_job V \<lparr>jr_skill = jb_skill live, jr_provider = jb_provider live,
              jr_goal = ''Recover '' @ jb_job_id live, jr_inputs = jb_inputs live,
              jr_policy = jb_policy live, jr_requested_by = who,
              jr_approval_id = Some (ap_approval_id a)\<rparr> (ap_recovery a)) (\<lambda>job.
     process_job V (jb_job_id job))))"

text \<open>\<open>approve\<close> and \<open>reject\<close> up to the point where the subject is known\<close>

definition pending_subject ::
  "service \<Rightarrow> bool \<Rightarrow> string \<Rightarrow> string \<Rightarrow> string \<Rightarrow> (mitem + approval_rec) jrun" where
  "pending_subject V ok k who note =
     bindM (on_sys (decide_subject (je_env (jv_env V)) ok k who note)) (\<lambda>m.
     case m of
       Some i \<Rightarrow> retM (Inl i)
     | None \<Rightarrow> bindM (read_approval k) (\<lambda>a.
         bindM (optM a (Exc JobError (''Unknown approval: '' @ k))) (\<lambda>a. retM (Inr a))))"

definition approve_job :: "service \<Rightarrow> string \<Rightarrow> string \<Rightarrow> string \<Rightarrow> decision jrun" where
  "approve_job V k who note =
     bindM (pending_subject V True k who note) (\<lambda>subject.
     case subject of
       Inl i \<Rightarrow> retM (On_memory i)
     | Inr a \<Rightarrow>
         thenM (recheck_promotion V a) (thenM (recheck_recovery V a)
         (bindM (decide_transition V a Ap_approved k who note) (\<lambda>a.
          if given (ap_job_id a)
          then thenM (job_event V (the (ap_job_id a)) ''approval_granted''
                        (JStr ''Cantor approved the job.'') [(''approved_by'', JStr who)])
               (bindM (process_job V (the (ap_job_id a))) (\<lambda>j. retM (On_job j)))
          else (case truthy (ap_promotion a) of
                  Some snap \<Rightarrow> bindM (launch_promotion V a snap who) (\<lambda>j. retM (On_job j))
                | None \<Rightarrow>
                    (case truthy (ap_recovery a) of
                       Some snap \<Rightarrow> bindM (launch_recovery V a snap who) (\<lambda>j. retM (On_job j))
                     | None \<Rightarrow> retM (On_approval a)))))))"

definition reject_job :: "service \<Rightarrow> string \<Rightarrow> string \<Rightarrow> string \<Rightarrow> decision jrun" where
  "reject_job V k who reason =
     bindM (pending_subject V False k who reason) (\<lambda>subject.
     case subject of
       Inl i \<Rightarrow> retM (On_memory i)
     | Inr a \<Rightarrow>
         bindM (decide_transition V a Ap_rejected k who reason) (\<lambda>a.
         if \<not> given (ap_job_id a) then retM (On_approval a)
         else bindM (reread_job (the (ap_job_id a))) (\<lambda>job.
              bindM (save V (job\<lparr>jb_status := J_rejected, jb_error := Some
                       [(''code'', JStr ''approval_rejected''), (''message'', JStr reason)]\<rparr>)) (\<lambda>job.
              thenM (job_event V (jb_job_id job) ''approval_rejected'' (JStr reason)
                       [(''rejected_by'', JStr who)])
              (retM (On_job job))))))"

end
