(* ===== verification/Job_Workflow.thy ===== *)
theory Job_Workflow
  imports Jobs
begin

text \<open>
  The calls that \<open>canto job\<close>, \<open>canto approve\<close>, \<open>canto reject\<close> and the HTTP routes make of the job
  service, and the step relation they span together with arbitrary changes of the file system.
\<close>

datatype job_call =
    Create_job job_request
  | Process_job string
  | Promote_job string
  | Recover_job string
  | Approve_job string string string
  | Reject_job string string string

primrec run_job :: "service \<Rightarrow> job_call \<Rightarrow> unit jrun" where
  "run_job V (Create_job q) = ignore (create_job V q None)"
| "run_job V (Process_job k) = ignore (process_job V k)"
| "run_job V (Promote_job k) = ignore (promote_job V k)"
| "run_job V (Recover_job k) = ignore (recover_job V k)"
| "run_job V (Approve_job k who note) = ignore (approve_job V k who note)"
| "run_job V (Reject_job k who reason) = ignore (reject_job V k who reason)"

inductive job_step :: "service \<Rightarrow> jsys \<Rightarrow> jsys \<Rightarrow> bool" for V where
  call: "job_step V s (snd (run_job V c s))"
| outside: "job_step V s (s\<lparr>js_sys := (js_sys s)\<lparr>sy_fs := f\<rparr>\<rparr>)"

inductive_cases job_stepE [elim]: "job_step V s t"

text \<open>The commands of the command line: a job is processed right after its creation, and a request
  for a capability that is not installed creates nothing\<close>

definition cli_job_run :: "service \<Rightarrow> job_request \<Rightarrow> (jobj + job_rec) jrun" where
  "cli_job_run V q =
     bindM (missing_capability V q) (\<lambda>missing.
     case missing of
       Some m \<Rightarrow> retM (Inl m)
     | None \<Rightarrow> bindM (create_job V q None) (\<lambda>job.
         bindM (process_job V (jb_job_id job)) (\<lambda>job. retM (Inr job))))"

definition start_jobs :: "reg \<Rightarrow> fsys \<Rightarrow> jsys" where
  "start_jobs r f = \<lparr>js_sys = blank f, js_reg = r\<rparr>"

end
