(* ===== verification/Job_Calm.thy ===== *)
theory Job_Calm
  imports Job_Workflow
begin

text \<open>
  Most steps of the job service are calm: they touch neither jobs nor approvals, whatever they do
  to files and to the other tables.
\<close>

section \<open>Calm operations\<close>

definition calm_sys :: "sys \<Rightarrow> sys \<Rightarrow> bool" where
  "calm_sys a b \<longleftrightarrow>
     st_jobs (sy_store b) = st_jobs (sy_store a) \<and>
     st_approvals (sy_store b) = st_approvals (sy_store a) \<and> sy_tick a \<le> sy_tick b"

definition here :: "sys \<Rightarrow> sys" where
  "here s = s"

text \<open>The view \<open>v\<close> finds the system in the state of a monad\<close>

definition calm :: "('s \<Rightarrow> sys) \<Rightarrow> ('s, 'e, 'a) sm \<Rightarrow> bool" where
  "calm v m \<longleftrightarrow> (\<forall>s. calm_sys (v s) (v (snd (m s))))"

named_theorems calm_intros "operations that touch neither jobs nor approvals"

lemma calm_sys_refl [simp]: "calm_sys a a"
  by (simp add: calm_sys_def)

lemma calm_sys_trans: "calm_sys a b \<Longrightarrow> calm_sys b c \<Longrightarrow> calm_sys a c"
  by (simp add: calm_sys_def)

lemma calm_pure [calm_intros]:
  "calm v (retM a)" "calm v (raiseM e)" "calm v (getM f)" "calm v (guardM b e)"
  "calm v (optM x e)" "calm v (liftM r)"
  by (simp_all add: calm_def sm_defs split: option.split sum.split)

lemma calm_bind [calm_intros]: "calm v m \<Longrightarrow> (\<And>a. calm v (f a)) \<Longrightarrow> calm v (bindM m f)"
  unfolding calm_def bindM_def
  by (fastforce split: prod.split sum.split intro: calm_sys_trans dest: spec)

lemma calm_then [calm_intros]: "calm v m \<Longrightarrow> calm v n \<Longrightarrow> calm v (thenM m n)"
  unfolding thenM_def by (intro calm_bind)

lemma calm_ignore [calm_intros]: "calm v m \<Longrightarrow> calm v (ignore m)"
  unfolding ignore_def by (intro calm_intros)

lemma calm_try [calm_intros]: "calm v m \<Longrightarrow> (\<And>e. calm v (h e)) \<Longrightarrow> calm v (tryM m h)"
  unfolding calm_def tryM_def
  by (fastforce split: prod.split sum.split intro: calm_sys_trans dest: spec)

lemma calm_finally [calm_intros]:
  "calm v m \<Longrightarrow> (\<And>s. calm_sys (v s) (v (g s))) \<Longrightarrow> calm v (finally_do m g)"
  unfolding calm_def finally_do_def
  by (fastforce split: prod.split intro: calm_sys_trans dest: spec)

lemma calm_cases [calm_intros]:
  "calm v m \<Longrightarrow> calm v n \<Longrightarrow> calm v (if b then m else n)"
  "calm v m \<Longrightarrow> (\<And>a. calm v (f a)) \<Longrightarrow> calm v (case x of None \<Rightarrow> m | Some a \<Rightarrow> f a)"
  "(\<And>a. calm v (g a)) \<Longrightarrow> (\<And>c. calm v (h c)) \<Longrightarrow> calm v (case y of Inl a \<Rightarrow> g a | Inr c \<Rightarrow> h c)"
  "(\<And>a c. calm v (k a c)) \<Longrightarrow> calm v (case z of (a, c) \<Rightarrow> k a c)"
  by (simp_all split: option.split sum.split prod.split)

lemma calm_mapM [calm_intros]: "(\<And>x. calm v (f x)) \<Longrightarrow> calm v (mapM f xs)"
  by (induction xs) (simp_all add: calm_pure calm_bind)

lemma calm_forM [calm_intros]: "(\<And>x. calm v (f x)) \<Longrightarrow> calm v (forM f xs)"
  by (induction xs) (simp_all add: calm_pure calm_then)

lemma calm_foldM [calm_intros]: "(\<And>a x. calm here (f a x)) \<Longrightarrow> calm here (foldM f a xs)"
  by (induction xs arbitrary: a) (simp_all add: calm_pure calm_bind)

lemma calm_world [calm_intros]:
  "calm here (raise c m)" "calm here (require b c m)" "calm here tick" "calm here (fresh E p)"
  "calm here (utc_now E)" "calm here (git_run E g)" "calm here (exec_run E argv cwd input)"
  "calm here (on_fs h)" "calm here (from_fs k)" "calm here (from_store l)"
  "calm here (token_hex J n)" "calm here (token_bytes J n)" "calm here (getenv J x)"
  "calm here (popen J pc)" "calm here (read_text p)" "calm here (resolve_path J p)"
  by (simp_all add: calm_def here_def calm_sys_def token_hex_def token_bytes_def getenv_def popen_def
      read_text_def resolve_path_def world_defs sm_defs split: prod.split)

lemma calm_on_store:
  "(\<And>s. st_jobs (g s) = st_jobs s \<and> st_approvals (g s) = st_approvals s) \<Longrightarrow> calm here (on_store g)"
  by (simp add: calm_def here_def calm_sys_def on_store_def updM_def)

lemma calm_ask_store:
  "(\<And>s. st_jobs (snd (g s)) = st_jobs s \<and> st_approvals (snd (g s)) = st_approvals s) \<Longrightarrow>
     calm here (ask_store g)"
  by (simp add: calm_def here_def calm_sys_def ask_store_def split: prod.split) (metis snd_conv)

lemma calm_store_ops [calm_intros]:
  "calm here (on_store (set_registry r))" "calm here (on_store (append_event k e))"
  "calm here (on_store (set_artifacts k as))" "calm here (on_store (set_idempotency k i))"
  "calm here (on_store (\<lambda>s. set_artifacts k (get_artifacts x s) s))"
  "calm here (ask_store (claim_idempotency k i))"
  by (rule calm_on_store calm_ask_store;
      simp add: set_registry_def append_event_def set_artifacts_def set_idempotency_def
        claim_idempotency_def split: option.split)+

lemma calm_on_sys [calm_intros]: "calm here m \<Longrightarrow> calm js_sys (on_sys m)"
  by (simp add: calm_def here_def on_sys_def split: prod.split) (metis snd_conv)

lemma calm_plainly [calm_intros]: "calm here m \<Longrightarrow> calm here (plainly m)"
  unfolding calm_def here_def plainly_def by (auto split: prod.split sum.split) (metis snd_conv)+

lemma calm_attempt [calm_intros]: "calm here m \<Longrightarrow> calm here (attempt m)"
  unfolding calm_def here_def attempt_def
  by (auto split: prod.split sum.split runner_exc.split) (metis snd_conv)+

section \<open>The components below the service are calm\<close>

text \<open>The capability registry that the service was given only reads\<close>

definition source_calm :: "service \<Rightarrow> bool" where
  "source_calm V \<longleftrightarrow>
     (case jv_source V of None \<Rightarrow> True
      | Some r \<Rightarrow> calm here (rs_execution_roots r) \<and> calm here (rs_entries r))"

lemma calm_vault_key [calm_intros]: "calm here (vault_key J v)"
  unfolding vault_key_def vault_initialize_def by (intro calm_intros)

lemma calm_vault_get [calm_intros]: "calm here (vault_get J v a b)"
  unfolding vault_get_def known_credential_def by (intro calm_intros)

lemma calm_resolve_reference [calm_intros]: "calm here (resolve_reference J v r)"
  unfolding resolve_reference_def Let_def by (intro calm_intros)

lemma calm_resolve_inputs:
  "calm here (resolve_inputs J v k x)" "calm here (resolve_items J v d)" "calm here (resolve_elems J v xs)"
  by (induction J v k x and J v d and J v xs rule: resolve_inputs_resolve_items_resolve_elems.induct)
    (auto intro!: calm_intros)

lemma calm_resolve_credentials [calm_intros]: "calm here (resolve_credential_inputs J v inputs)"
  unfolding resolve_credential_inputs_def by (rule calm_resolve_inputs)

lemma calm_local_vault [calm_intros]: "calm here (local_vault J)"
  unfolding local_vault_def Let_def by (intro calm_intros)

lemma calm_load_yaml [calm_intros]: "calm here (load_yaml J p)"
  unfolding load_yaml_def by (intro calm_intros)

lemma calm_add_named [calm_intros]: "calm here (add_named J w p seen)"
  unfolding add_named_def by (intro calm_intros)

lemma calm_add_provider [calm_intros]: "calm here (add_provider J p skills seen)"
  unfolding add_provider_def by (intro calm_intros)

lemma calm_load_root [calm_intros]: "calm here (load_root J l d)"
proof -
  obtain skills providers tools sdir tdir where ld: "l = (skills, providers, tools)" "d = (sdir, tdir)"
    by (metis prod.exhaust)
  show ?thesis unfolding load_root_def ld prod.case by (intro calm_intros)
qed

lemma calm_check_declared [calm_intros]: "calm here (check_declared J ps x)"
  unfolding check_declared_def Let_def by (cases x) (simp only: prod.case, intro calm_intros)

lemma calm_reload [calm_intros]: "calm here (reload J r)"
  unfolding reload_def by (intro calm_intros)

lemma calm_index_state [calm_intros]: "calm here (index_state src)"
  unfolding index_state_def by (intro calm_intros)

lemma calm_refresh_if_changed:
  "source_calm V \<Longrightarrow> calm here (refresh_if_changed (jv_env V) (jv_source V) r)"
  unfolding refresh_if_changed_def resolved_roots_def source_calm_def
  by (cases "jv_source V") (auto intro!: calm_intros)

lemma calm_run_provider [calm_intros]: "calm here (run_provider J st p pl ap dir secrets)"
proof -
  have "calm here (first_installed J ns)" for ns
    by (induction ns) (auto simp: which_def intro!: calm_intros)
  moreover have "calm here (raise_runner m d)" for m d
    unfolding raise_runner_def by (intro calm_intros)
  ultimately show ?thesis
    unfolding run_provider_def runtime_command_def local_entrypoint_def which_def need_def Let_def
    by (intro calm_intros; (simp split: exec_result.split)?; (intro conjI allI impI)?;
        (intro calm_intros)?; assumption?)
qed

section \<open>Calm steps of the service\<close>

lemma calm_refresh [calm_intros]: "source_calm V \<Longrightarrow> calm js_sys (refresh V)"
proof -
  assume "source_calm V"
  then have c: "calm here (refresh_if_changed (jv_env V) (jv_source V) r)" for r
    by (rule calm_refresh_if_changed)
  show ?thesis
    unfolding calm_def
  proof
    fix s
    show "calm_sys (js_sys s) (js_sys (snd (refresh V s)))"
      using c [of "js_reg s"] unfolding calm_def here_def refresh_def
      by (auto split: prod.split sum.split) (metis snd_conv)+
  qed
qed

lemma calm_provider_internal [calm_intros]: "source_calm V \<Longrightarrow> calm js_sys (provider_internal V a b)"
  unfolding provider_internal_def by (intro calm_intros)

lemma calm_refresh_registry [calm_intros]: "source_calm V \<Longrightarrow> calm js_sys (refresh_registry V)"
  unfolding refresh_registry_def registry_snapshot_def by (intro calm_intros)

lemma calm_now [calm_intros]: "calm js_sys (now V)"
  unfolding now_def by (intro calm_intros)

lemma calm_job_event [calm_intros]: "calm js_sys (job_event V k ty m d)"
  unfolding job_event_def by (intro calm_intros)

lemma calm_job_id [calm_intros]: "calm js_sys (job_id V p)"
  unfolding job_id_def by (intro calm_intros)

lemma calm_reads [calm_intros]:
  "calm js_sys (read_job k)" "calm js_sys (read_approval k)" "calm js_sys (reread_job k)"
  "calm js_sys (known_job k)" "calm js_sys (linked_approval x)" "calm js_sys (checksum V p)"
  unfolding read_job_def read_approval_def reread_job_def known_job_def linked_approval_def
    checksum_def
  by (intro calm_intros)+

lemma calm_owning_entry [calm_intros]: "calm js_sys (owning_entry V m es)"
proof (induction es)
  case (Cons e es)
  show ?case unfolding owning_entry.simps by (intro calm_intros Cons)
qed (simp add: calm_pure)

lemma calm_provider_provenance [calm_intros]:
  assumes "source_calm V"
  shows "calm js_sys (provider_provenance V p)"
proof -
  have src: "calm js_sys (case jv_source V of None \<Rightarrow> retM None
      | Some src \<Rightarrow> bindM (on_sys (rs_entries src)) (owning_entry V m))" for m
    using assms by (cases "jv_source V") (auto simp: source_calm_def intro!: calm_intros)
  show ?thesis
    unfolding provider_provenance_def
    apply (rule calm_bind, rule calm_pure)
    apply (rule calm_bind, intro calm_intros)
    apply (rule calm_bind, rule src)
    apply (intro calm_intros)
    done
qed

lemma calm_reviewed_artifact [calm_intros]: "calm js_sys (reviewed_artifact V a r k)"
  unfolding reviewed_artifact_def Let_def by (intro calm_intros)

lemma calm_snapshots [calm_intros]:
  assumes "source_calm V"
  shows "calm js_sys (promotion_snapshot V job p)" "calm js_sys (validate_promotion V a p i)"
    "calm js_sys (validate_recovery V a p)"
proof -
  show c: "calm js_sys (promotion_snapshot V job p)" for job p
    unfolding promotion_snapshot_def by (intro calm_intros assms)
  show "calm js_sys (validate_promotion V a p i)"
    unfolding validate_promotion_def by (intro calm_intros c)
  show "calm js_sys (validate_recovery V a p)"
    unfolding validate_recovery_def Let_def by (intro calm_intros assms)
qed

lemma calm_live_write_gate [calm_intros]:
  "source_calm V \<Longrightarrow> calm js_sys (live_write_gate V q r p i l)"
  unfolding live_write_gate_def by (intro calm_intros)

lemma calm_new_approval [calm_intros]: "calm js_sys (new_approval V job r p)"
  unfolding new_approval_def by (intro calm_intros)

lemma calm_rechecks [calm_intros]:
  assumes "source_calm V"
  shows "calm js_sys (recheck_promotion V a)" and "calm js_sys (recheck_recovery V a)"
  unfolding recheck_promotion_def recheck_recovery_def by (intro calm_intros assms)+

lemma calm_run_guarded [calm_intros]: "calm here (run_guarded V job p pl secrets)"
proof -
  have load: "calm here (load_artifact_json V path label)" for path label
    unfolding load_artifact_json_def by (intro calm_intros)
  have "calm here (pre_write_validate V job)"
    unfolding pre_write_validate_def by (intro calm_intros load)
  moreover have "calm here (validate_write_outputs V job p found)" for found
    unfolding validate_write_outputs_def load_output_def Let_def by (intro calm_intros load)
  ultimately show ?thesis
    unfolding run_guarded_def
    by (intro calm_intros) (simp_all add: calm_sys_def here_def)
qed

lemma calm_misc [calm_intros]:
  "calm js_sys (release_key st job key)" "calm js_sys (vault_of V)"
  unfolding release_key_def vault_of_def by (intro calm_intros)+

end
