(* ===== verification/Job_Proofs.thy ===== *)
theory Job_Proofs
  imports Job_Calm
begin

text \<open>
  What every call of the job service keeps. The steps that are not calm act on a job that is theirs
  to move: it is not finished and no pending approval waits for it. From this follows that a job
  that has completed, was rejected or cancelled never changes again, and that a failed job changes
  only when the approval it was waiting for is rejected afterwards.
\<close>

section \<open>The invariant and the order\<close>

definition finished :: "job_rec \<Rightarrow> bool" where
  "finished j \<longleftrightarrow> jb_status j \<in> {J_completed, J_failed, J_cancelled, J_rejected}"

abbreviation job_at :: "string \<Rightarrow> jsys \<Rightarrow> job_rec option" where
  "job_at k s \<equiv> get_job k (sy_store (js_sys s))"

abbreviation approval_of :: "string \<Rightarrow> jsys \<Rightarrow> approval_rec option" where
  "approval_of k s \<equiv> get_approval k (sy_store (js_sys s))"

definition id_at :: "service \<Rightarrow> string \<Rightarrow> nat \<Rightarrow> string" where
  "id_at V prefix n = prefix @ ''_'' @ compact_date (e_now (je_env (jv_env V)) n) @ ''_'' @
     je_token_hex (jv_env V) (Suc n) 3"

text \<open>A pending approval that names a job\<close>

definition awaits :: "jsys \<Rightarrow> string \<Rightarrow> string \<Rightarrow> bool" where
  "awaits s ak k \<longleftrightarrow>
     (\<exists>a. approval_of ak s = Some a \<and> ap_status a = Ap_pending \<and> ap_job_id a = Some k \<and> k \<noteq> [])"

definition jobs_ok :: "service \<Rightarrow> jsys \<Rightarrow> bool" where
  "jobs_ok V s \<longleftrightarrow>
     (\<forall>k j. job_at k s = Some j \<longrightarrow>
        jb_job_id j = k \<and> (\<exists>n. n < sy_tick (js_sys s) \<and> k = id_at V ''job'' n)) \<and>
     (\<forall>ak a. approval_of ak s = Some a \<longrightarrow> ap_subject_kind a \<noteq> Some Sk_memory) \<and>
     (\<forall>ak k. awaits s ak k \<longrightarrow>
        (\<exists>j. job_at k s = Some j \<and> jb_status j \<in> {J_waiting_for_approval, J_failed} \<and>
             jb_approval_id j = Some ak))"

definition onward :: "jsys \<Rightarrow> jsys \<Rightarrow> bool" where
  "onward s t \<longleftrightarrow> sy_tick (js_sys s) \<le> sy_tick (js_sys t) \<and>
     (\<forall>k j. job_at k s = Some j \<and> finished j \<longrightarrow>
        job_at k t = Some j \<or>
        (jb_status j = J_failed \<and> (\<exists>i. job_at k t = Some i \<and> jb_status i = J_rejected)))"

text \<open>Where a call that began in \<open>s0\<close> may stop\<close>

definition fine :: "service \<Rightarrow> jsys \<Rightarrow> jsys \<Rightarrow> bool" where
  "fine V s0 s \<longleftrightarrow> jobs_ok V s \<and> onward s0 s"

text \<open>The job \<open>k\<close> is in hand: on record, not finished, and nobody waits for it\<close>

definition in_hand :: "service \<Rightarrow> jsys \<Rightarrow> string \<Rightarrow> jsys \<Rightarrow> bool" where
  "in_hand V s0 k s \<longleftrightarrow> fine V s0 s \<and>
     (\<exists>j. job_at k s = Some j \<and> \<not> finished j) \<and> (\<forall>ak. \<not> awaits s ak k)"

lemma onward_refl [simp]: "onward s s"
  by (simp add: onward_def)

lemma onward_trans: "onward a b \<Longrightarrow> onward b c \<Longrightarrow> onward a c"
proof -
  assume ab: "onward a b" and bc: "onward b c"
  have "job_at k c = Some j \<or>
      (jb_status j = J_failed \<and> (\<exists>i. job_at k c = Some i \<and> jb_status i = J_rejected))"
    if j: "job_at k a = Some j" "finished j" for k j
  proof (cases "job_at k b = Some j")
    case True
    with j(2) bc show ?thesis unfolding onward_def by blast
  next
    case False
    with ab j obtain i where i: "jb_status j = J_failed" "job_at k b = Some i" "jb_status i = J_rejected"
      unfolding onward_def by blast
    then have "finished i" by (simp add: finished_def)
    with bc i have "job_at k c = Some i" unfolding onward_def by force
    with i show ?thesis by blast
  qed
  with ab bc show ?thesis unfolding onward_def by (meson order_trans)
qed

lemma in_hand_fine: "in_hand V s0 k s \<Longrightarrow> fine V s0 s"
  by (simp add: in_hand_def)

lemma calm_sys_fine:
  assumes "calm_sys (js_sys s) (js_sys t)"
  shows "fine V s0 s \<Longrightarrow> fine V s0 t" and "in_hand V s0 k s \<Longrightarrow> in_hand V s0 k t"
proof -
  have j: "job_at k t = job_at k s" and a: "approval_of k t = approval_of k s" for k
    using assms by (simp_all add: calm_sys_def get_job_def get_approval_def)
  have le: "sy_tick (js_sys s) \<le> sy_tick (js_sys t)" using assms by (simp add: calm_sys_def)
  have w: "awaits t ak k = awaits s ak k" for ak k by (simp add: awaits_def a)
  have ok: "jobs_ok V s \<Longrightarrow> jobs_ok V t"
    unfolding jobs_ok_def j a w using le order_less_le_trans by blast
  show f: "fine V s0 s \<Longrightarrow> fine V s0 t"
    unfolding fine_def onward_def j using ok le by auto
  then show "in_hand V s0 k s \<Longrightarrow> in_hand V s0 k t"
    unfolding in_hand_def j w by blast
qed

lemma wp_calm:
  assumes "calm js_sys m"
  shows "fine V s0 s \<Longrightarrow> wp m (\<lambda>_. fine V s0) (\<lambda>_. fine V s0) s"
    and "in_hand V s0 k s \<Longrightarrow> wp m (\<lambda>_. in_hand V s0 k) (\<lambda>_. in_hand V s0 k) s"
proof -
  have c: "calm_sys (js_sys s) (js_sys (snd (m s)))" using assms by (simp add: calm_def)
  show "fine V s0 s \<Longrightarrow> wp m (\<lambda>_. fine V s0) (\<lambda>_. fine V s0) s"
    using calm_sys_fine(1)[OF c] by (auto simp: wp_def split: prod.split sum.split)
  show "in_hand V s0 k s \<Longrightarrow> wp m (\<lambda>_. in_hand V s0 k) (\<lambda>_. in_hand V s0 k) s"
    using calm_sys_fine(2)[OF c] by (auto simp: wp_def split: prod.split sum.split)
qed

lemma bind_calm:
  assumes "calm js_sys m"
  shows "fine V s0 s \<Longrightarrow> (\<And>a t. fine V s0 t \<Longrightarrow> wp (f a) Q (\<lambda>_. fine V s0) t) \<Longrightarrow>
      wp (bindM m f) Q (\<lambda>_. fine V s0) s"
    and "in_hand V s0 k s \<Longrightarrow> (\<And>a t. in_hand V s0 k t \<Longrightarrow> wp (f a) Q (\<lambda>_. fine V s0) t) \<Longrightarrow>
      wp (bindM m f) Q (\<lambda>_. fine V s0) s"
  unfolding wp_bind
  by (rule wp_conseq [OF wp_calm(1)[OF assms]]; blast)
    (rule wp_conseq [OF wp_calm(2)[OF assms]]; blast intro: in_hand_fine)

lemma then_calm:
  assumes "calm js_sys m"
  shows "fine V s0 s \<Longrightarrow> (\<And>t. fine V s0 t \<Longrightarrow> wp n Q (\<lambda>_. fine V s0) t) \<Longrightarrow>
      wp (thenM m n) Q (\<lambda>_. fine V s0) s"
    and "in_hand V s0 k s \<Longrightarrow> (\<And>t. in_hand V s0 k t \<Longrightarrow> wp n Q (\<lambda>_. fine V s0) t) \<Longrightarrow>
      wp (thenM m n) Q (\<lambda>_. fine V s0) s"
  unfolding thenM_def by (rule bind_calm [OF assms]; blast)+

section \<open>Changing a job\<close>

text \<open>What the store holds after the job in hand was written\<close>

lemma put_job:
  assumes "in_hand V s0 k s" and "job_at k t = Some job" and "jb_job_id job = k"
    and "\<And>l. l \<noteq> k \<Longrightarrow> job_at l t = job_at l s" and "\<And>ak. approval_of ak t = approval_of ak s"
    and "sy_tick (js_sys s) \<le> sy_tick (js_sys t)"
  shows "fine V s0 t" and "\<not> awaits t ak k" and "\<not> finished job \<Longrightarrow> in_hand V s0 k t"
proof -
  have w: "awaits t ak l = awaits s ak l" for ak l by (simp add: awaits_def assms(5))
  have nw: "\<not> awaits s ak k" for ak using assms(1) by (simp add: in_hand_def)
  then show "\<not> awaits t ak k" by (simp add: w)
  obtain j where j: "job_at k s = Some j" "\<not> finished j" and ok: "jobs_ok V s" and on: "onward s0 s"
    using assms(1) by (auto simp: in_hand_def fine_def)
  have "\<exists>n. n < sy_tick (js_sys t) \<and> l = id_at V ''job'' n" if "job_at l s = Some x" for l x
    using ok that assms(6) order_less_le_trans unfolding jobs_ok_def by blast
  moreover have "jb_job_id x = l" if "job_at l t = Some x" for l x
    using ok that assms(2-4) by (cases "l = k") (auto simp: jobs_ok_def)
  ultimately have "\<forall>l x. job_at l t = Some x \<longrightarrow>
      jb_job_id x = l \<and> (\<exists>n. n < sy_tick (js_sys t) \<and> l = id_at V ''job'' n)"
    using assms(4) j(1) by metis
  moreover have "\<forall>ak l. awaits t ak l \<longrightarrow> (\<exists>x. job_at l t = Some x \<and>
      jb_status x \<in> {J_waiting_for_approval, J_failed} \<and> jb_approval_id x = Some ak)"
  proof (intro allI impI)
    fix ak l assume a: "awaits t ak l"
    with nw w have "l \<noteq> k" by metis
    with a assms(4) w ok show "\<exists>x. job_at l t = Some x \<and> jb_status x \<in> {J_waiting_for_approval, J_failed} \<and>
        jb_approval_id x = Some ak"
      unfolding jobs_ok_def by metis
  qed
  moreover have "\<forall>ak a. approval_of ak t = Some a \<longrightarrow> ap_subject_kind a \<noteq> Some Sk_memory"
    using ok assms(5) unfolding jobs_ok_def by simp
  ultimately have "jobs_ok V t" unfolding jobs_ok_def by blast
  moreover have "onward s t"
    unfolding onward_def using assms(4,6) j by (metis option.inject)
  ultimately show f: "fine V s0 t" using onward_trans [OF on] by (simp add: fine_def)
  show "\<not> finished job \<Longrightarrow> in_hand V s0 k t"
    using f assms(2) nw w by (auto simp: in_hand_def)
qed

lemma store_job_at:
  "job_at k (s\<lparr>js_sys := t\<lparr>sy_store := set_job l job (sy_store u)\<rparr>\<rparr>) =
     (if k = l then Some job else get_job k (sy_store u))"
  "approval_of a (s\<lparr>js_sys := t\<lparr>sy_store := set_job l job (sy_store u)\<rparr>\<rparr>) =
     get_approval a (sy_store u)"
  by (simp_all add: get_job_def set_job_def get_approval_def)

lemma wp_now [wp_eqs]:
  "wp (now V) Q X s =
     Q (e_now (je_env (jv_env V)) (sy_tick (js_sys s)))
       (s\<lparr>js_sys := (js_sys s)\<lparr>sy_tick := Suc (sy_tick (js_sys s))\<rparr>\<rparr>)"
  by (simp add: now_def wp_eqs)

lemma wp_save:
  assumes "in_hand V s0 (jb_job_id job) s"
    and "\<And>j t. fine V s0 t \<Longrightarrow> (\<not> finished job \<Longrightarrow> in_hand V s0 (jb_job_id job) t) \<Longrightarrow>
      jb_job_id j = jb_job_id job \<Longrightarrow> jb_status j = jb_status job \<Longrightarrow> Q j t"
  shows "wp (save V job) Q X s"
proof -
  define j where "j = job\<lparr>jb_updated_at := e_now (je_env (jv_env V)) (sy_tick (js_sys s))\<rparr>"
  let ?t = "s\<lparr>js_sys := (js_sys s)\<lparr>sy_tick := Suc (sy_tick (js_sys s)),
      sy_store := set_job (jb_job_id j) j (sy_store (js_sys s))\<rparr>\<rparr>"
  have i: "jb_job_id j = jb_job_id job" "jb_status j = jb_status job" "finished j = finished job"
    by (simp_all add: j_def finished_def)
  have f: "job_at (jb_job_id job) ?t = Some j" "jb_job_id j = jb_job_id job"
    "\<And>l. l \<noteq> jb_job_id job \<Longrightarrow> job_at l ?t = job_at l s"
    "\<And>ak. approval_of ak ?t = approval_of ak s" "sy_tick (js_sys s) \<le> sy_tick (js_sys ?t)"
    by (simp_all add: i get_job_def set_job_def get_approval_def)
  have "Q j ?t"
    using put_job(1,3)[OF assms(1) f] i by (intro assms(2)) auto
  then show ?thesis
    unfolding save_def Let_def wp_bind wp_now wp_then wp_on_sys wp_on_store wp_ret
    by (simp add: j_def)
qed

text \<open>A job whose provider is gone fails even while an approval is pending\<close>

lemma put_failed:
  assumes "fine V s0 s" and "job_at k s = Some j" and "\<not> finished j"
    and "job_at k t = Some job" and "jb_job_id job = k" and "jb_status job = J_failed"
    and "jb_approval_id job = jb_approval_id j"
    and "\<And>l. l \<noteq> k \<Longrightarrow> job_at l t = job_at l s" and "\<And>ak. approval_of ak t = approval_of ak s"
    and "sy_tick (js_sys s) \<le> sy_tick (js_sys t)"
  shows "fine V s0 t"
proof -
  have ok: "jobs_ok V s" and on: "onward s0 s" using assms(1) by (simp_all add: fine_def)
  have w: "awaits t ak l = awaits s ak l" for ak l by (simp add: awaits_def assms(9))
  have "\<exists>n. n < sy_tick (js_sys t) \<and> l = id_at V ''job'' n" if "job_at l s = Some x" for l x
    using ok that assms(10) order_less_le_trans unfolding jobs_ok_def by blast
  moreover have "jb_job_id x = l" if "job_at l t = Some x" for l x
    using ok that assms(4,5,8) by (cases "l = k") (auto simp: jobs_ok_def)
  ultimately have "\<forall>l x. job_at l t = Some x \<longrightarrow>
      jb_job_id x = l \<and> (\<exists>n. n < sy_tick (js_sys t) \<and> l = id_at V ''job'' n)"
    using assms(2,8) by metis
  moreover have "\<exists>x. job_at l t = Some x \<and> jb_status x \<in> {J_waiting_for_approval, J_failed} \<and>
        jb_approval_id x = Some ak" if "awaits t ak l" for ak l
  proof (cases "l = k")
    case True
    with that w ok assms(2) have "jb_approval_id j = Some ak"
      unfolding jobs_ok_def by (metis option.inject)
    with True assms(4,6,7) show ?thesis by simp
  next
    case False
    with that w ok assms(8) show ?thesis unfolding jobs_ok_def by metis
  qed
  moreover have "\<forall>ak a. approval_of ak t = Some a \<longrightarrow> ap_subject_kind a \<noteq> Some Sk_memory"
    using ok assms(9) unfolding jobs_ok_def by simp
  ultimately have "jobs_ok V t" unfolding jobs_ok_def by blast
  moreover have "onward s t"
    unfolding onward_def using assms(2,3,8,10) by (metis option.inject)
  ultimately show ?thesis using onward_trans [OF on] by (simp add: fine_def)
qed

lemma wp_fail:
  assumes "in_hand V s0 (jb_job_id job) s"
  shows "wp (fail V job code msg d) (\<lambda>_. fine V s0) (\<lambda>_. fine V s0) s"
  unfolding fail_def wp_bind
  apply (rule wp_save [where ?s0.0 = s0])
   apply (simp add: assms)
  apply (rule then_calm(1)[OF calm_job_event])
   apply assumption
  apply (simp add: wp_ret)
  done

lemma wp_transition_to:
  assumes "in_hand V s0 (jb_job_id job) s" and "st \<notin> {J_completed, J_failed, J_cancelled, J_rejected}"
  shows "wp (transition_to V job expected st)
    (\<lambda>p t. in_hand V s0 (jb_job_id job) t \<and> jb_job_id (fst p) = jb_job_id job \<and>
       jb_status (fst p) = st) X s"
proof -
  have nf: "\<not> finished (job\<lparr>jb_status := st, jb_updated_at := u\<rparr>)" for u
    using assms(2) by (simp add: finished_def)
  let ?s = "s\<lparr>js_sys := (js_sys s)\<lparr>sy_tick := Suc (sy_tick (js_sys s))\<rparr>\<rparr>"
  have same: "in_hand V s0 (jb_job_id job) ?s"
    by (rule calm_sys_fine(2)[OF _ assms(1)]) (simp add: calm_sys_def)
  show ?thesis
    unfolding transition_to_def Let_def wp_bind wp_now wp_on_sys wp_ask_store
    apply (simp add: transition_job_def split: option.split if_split)
    apply (intro conjI impI allI)
      apply (simp add: wp_ret same)
     apply (simp add: wp_ret same)
    apply (simp add: wp_ret)
    apply (rule put_job(3)[OF assms(1) _ _ _ _ _ nf])
        apply (auto simp: get_job_def get_approval_def)
    done
qed

section \<open>Changing an approval\<close>

lemma put_approval:
  assumes "fine V s0 s" and "\<And>k. job_at k t = job_at k s"
    and "approval_of ak t = Some a" and "\<And>l. l \<noteq> ak \<Longrightarrow> approval_of l t = approval_of l s"
    and "ap_subject_kind a \<noteq> Some Sk_memory" and "ap_status a = Ap_pending \<Longrightarrow> ap_job_id a = None"
    and "sy_tick (js_sys s) \<le> sy_tick (js_sys t)"
  shows "fine V s0 t" and "in_hand V s0 k s \<Longrightarrow> in_hand V s0 k t"
proof -
  have w: "awaits t l k \<Longrightarrow> awaits s l k" for l k
    using assms(3,4,6) by (cases "l = ak") (auto simp: awaits_def)
  have ok: "jobs_ok V s" using assms(1) by (simp add: fine_def)
  have "\<forall>l x. job_at l t = Some x \<longrightarrow>
      jb_job_id x = l \<and> (\<exists>n. n < sy_tick (js_sys t) \<and> l = id_at V ''job'' n)"
    using ok assms(7) order_less_le_trans unfolding jobs_ok_def assms(2) by blast
  moreover have "\<forall>l x. approval_of l t = Some x \<longrightarrow> ap_subject_kind x \<noteq> Some Sk_memory"
    using ok assms(3,4,5) unfolding jobs_ok_def by (metis option.inject)
  moreover have "\<forall>l k. awaits t l k \<longrightarrow> (\<exists>x. job_at k t = Some x \<and>
      jb_status x \<in> {J_waiting_for_approval, J_failed} \<and> jb_approval_id x = Some l)"
    using ok w unfolding jobs_ok_def assms(2) by blast
  ultimately have "jobs_ok V t" unfolding jobs_ok_def by blast
  moreover have "onward s0 t"
    using assms(1,7) unfolding fine_def onward_def assms(2) by auto
  ultimately show f: "fine V s0 t" by (simp add: fine_def)
  show "in_hand V s0 k s \<Longrightarrow> in_hand V s0 k t"
    using f w unfolding in_hand_def assms(2) by blast
qed

lemma wp_store_approval:
  assumes "fine V s0 s" and "ap_subject_kind a \<noteq> Some Sk_memory"
    and "ap_status a = Ap_pending \<Longrightarrow> ap_job_id a = None"
  shows "wp (store_approval a) (\<lambda>_. fine V s0) X s"
  unfolding store_approval_def wp_on_sys wp_on_store
  by (rule put_approval(1)[OF assms(1), of _ "ap_approval_id a" a])
    (auto simp: assms get_job_def set_approval_def get_approval_def)

text \<open>A job that starts to wait and the approval it waits for\<close>

lemma put_waiting:
  assumes "in_hand V s0 k s" and "job_at k t = Some job" and "jb_job_id job = k"
    and "jb_status job = J_waiting_for_approval" and "jb_approval_id job = Some ak"
    and "approval_of ak t = Some a" and "ap_subject_kind a \<noteq> Some Sk_memory" and "ap_job_id a = Some k"
    and "\<And>l. l \<noteq> k \<Longrightarrow> job_at l t = job_at l s"
    and "\<And>l. l \<noteq> ak \<Longrightarrow> approval_of l t = approval_of l s"
    and "sy_tick (js_sys s) \<le> sy_tick (js_sys t)"
  shows "fine V s0 t"
proof -
  obtain j where j: "job_at k s = Some j" "\<not> finished j" and ok: "jobs_ok V s" and on: "onward s0 s"
    and nw: "\<And>ak. \<not> awaits s ak k"
    using assms(1) by (auto simp: in_hand_def fine_def)
  have "\<exists>n. n < sy_tick (js_sys t) \<and> l = id_at V ''job'' n" if "job_at l s = Some x" for l x
    using ok that assms(11) order_less_le_trans unfolding jobs_ok_def by blast
  moreover have "jb_job_id x = l" if "job_at l t = Some x" for l x
    using ok that assms(2,3,9) by (cases "l = k") (auto simp: jobs_ok_def)
  ultimately have "\<forall>l x. job_at l t = Some x \<longrightarrow>
      jb_job_id x = l \<and> (\<exists>n. n < sy_tick (js_sys t) \<and> l = id_at V ''job'' n)"
    using assms(9) j(1) by metis
  moreover have "\<forall>l m. awaits t l m \<longrightarrow> (\<exists>x. job_at m t = Some x \<and>
      jb_status x \<in> {J_waiting_for_approval, J_failed} \<and> jb_approval_id x = Some l)"
  proof (intro allI impI)
    fix l m assume a: "awaits t l m"
    show "\<exists>x. job_at m t = Some x \<and> jb_status x \<in> {J_waiting_for_approval, J_failed} \<and> jb_approval_id x = Some l"
    proof (cases "l = ak")
      case True
      with a assms(6,8) have "m = k" by (simp add: awaits_def)
      with True assms(2,4,5) show ?thesis by simp
    next
      case False
      with a assms(10) have b: "awaits s l m" by (simp add: awaits_def)
      with nw have "m \<noteq> k" by blast
      with b assms(9) ok show ?thesis unfolding jobs_ok_def by metis
    qed
  qed
  moreover have "\<forall>l x. approval_of l t = Some x \<longrightarrow> ap_subject_kind x \<noteq> Some Sk_memory"
    using ok assms(6,7,10) unfolding jobs_ok_def by (metis option.inject)
  ultimately have "jobs_ok V t" unfolding jobs_ok_def by blast
  moreover have "onward s t"
    unfolding onward_def using assms(9,11) j by (metis option.inject)
  ultimately show ?thesis using onward_trans [OF on] by (simp add: fine_def)
qed

section \<open>Processing\<close>

text \<open>What a stage leaves: the job still in hand, or a place where the call may stop\<close>

definition staged :: "service \<Rightarrow> jsys \<Rightarrow> string \<Rightarrow> job_rec stage \<Rightarrow> jsys \<Rightarrow> bool" where
  "staged V s0 k r t =
     (case r of Stop j \<Rightarrow> fine V s0 t
      | Go j \<Rightarrow> in_hand V s0 k t \<and> jb_job_id j = k \<and> \<not> finished j)"

lemma wp_stop:
  assumes "wp m (\<lambda>_. fine V s0) (\<lambda>_. fine V s0) s"
  shows "wp (stop m) (staged V s0 k) (\<lambda>_. fine V s0) s"
  unfolding stop_def wp_bind
  by (rule wp_conseq [OF assms]) (simp_all add: wp_ret staged_def)

lemma wp_fail_stage:
  "in_hand V s0 (jb_job_id job) s \<Longrightarrow>
     wp (stop (fail V job code msg d)) (staged V s0 k) (\<lambda>_. fine V s0) s"
  by (rule wp_stop [OF wp_fail])

lemma wp_save_stop:
  assumes "in_hand V s0 (jb_job_id job) s"
  shows "wp (stop (save V job)) (staged V s0 k) (\<lambda>_. fine V s0) s"
  by (rule wp_stop) (rule wp_save [OF assms])

lemma wp_claim_status:
  assumes "in_hand V s0 (jb_job_id job) s" and "st \<notin> {J_completed, J_failed, J_cancelled, J_rejected}"
  shows "wp (claim_status V job expected st) (staged V s0 (jb_job_id job)) (\<lambda>_. fine V s0) s"
  unfolding claim_status_def wp_bind
proof (rule wp_conseq [OF wp_transition_to [OF assms]])
  fix p :: "job_rec \<times> bool" and t :: jsys
  assume h: "in_hand V s0 (jb_job_id job) t \<and> jb_job_id (fst p) = jb_job_id job \<and>
    jb_status (fst p) = st"
  have "wp (stop (reread_job (jb_job_id (fst p)))) (staged V s0 (jb_job_id job)) (\<lambda>_. fine V s0) t"
    by (rule wp_stop) (rule wp_calm(1)[OF calm_reads(3) in_hand_fine [OF conjunct1 [OF h]]])
  with h assms(2)
  show "wp (case p of (job, ok) \<Rightarrow> if ok then retM (Go job) else stop (reread_job (jb_job_id job)))
      (staged V s0 (jb_job_id job)) (\<lambda>_. fine V s0) t"
    by (cases p) (simp add: wp_ret staged_def finished_def)
qed simp

lemma wp_save_waiting:
  assumes "in_hand V s0 k s" and "ap_subject_kind a \<noteq> Some Sk_memory" and "ap_job_id a = Some k"
    and "jb_job_id job = k" and "jb_status job = J_waiting_for_approval"
    and "jb_approval_id job = Some (ap_approval_id a)"
  shows "wp (save V job) (\<lambda>_. fine V s0) X
    (s\<lparr>js_sys := (js_sys s)\<lparr>sy_store := set_approval (ap_approval_id a) a (sy_store (js_sys s))\<rparr>\<rparr>)"
proof -
  define j where "j = job\<lparr>jb_updated_at := e_now (je_env (jv_env V)) (sy_tick (js_sys s))\<rparr>"
  let ?t = "s\<lparr>js_sys := (js_sys s)\<lparr>sy_tick := Suc (sy_tick (js_sys s)), sy_store :=
      set_job k j (set_approval (ap_approval_id a) a (sy_store (js_sys s)))\<rparr>\<rparr>"
  have f: "job_at k ?t = Some j" "jb_job_id j = k" "jb_status j = J_waiting_for_approval"
    "jb_approval_id j = Some (ap_approval_id a)" "approval_of (ap_approval_id a) ?t = Some a"
    by (simp_all add: j_def assms get_job_def set_job_def get_approval_def set_approval_def)
  have g: "\<And>l. l \<noteq> k \<Longrightarrow> job_at l ?t = job_at l s"
    "\<And>l. l \<noteq> ap_approval_id a \<Longrightarrow> approval_of l ?t = approval_of l s"
    "sy_tick (js_sys s) \<le> sy_tick (js_sys ?t)"
    by (simp_all add: get_job_def set_job_def get_approval_def set_approval_def)
  have "fine V s0 ?t" by (rule put_waiting [OF assms(1) f assms(2,3) g])
  then show ?thesis
    unfolding save_def Let_def wp_bind wp_now wp_then wp_on_sys wp_on_store wp_ret
    by (simp add: j_def assms(4))
qed

lemma wp_seek_approval:
  assumes "in_hand V s0 (jb_job_id job) s" and "jb_job_id job \<noteq> []"
  shows "wp (seek_approval V job provider reasons) (staged V s0 (jb_job_id job)) (\<lambda>_. fine V s0) s"
proof (cases "given (jb_approval_id job)")
  case True
  show ?thesis
    unfolding seek_approval_def if_P [OF True]
    apply (rule bind_calm(2)[OF calm_reads(2) assms(1)])
    apply (simp split: option.split approval_status.split)
    apply (intro conjI allI impI)
       apply (rule wp_save_stop, simp)
      apply (rule wp_save_stop, simp)
     apply (rule wp_claim_status; simp)
    apply (rule wp_fail_stage, simp)
    done
next
  case False
  let ?k = "jb_job_id job"
  show ?thesis
    unfolding seek_approval_def if_not_P [OF False] Let_def wp_bind
  proof (rule wp_conseq [where Q = "\<lambda>a t. in_hand V s0 ?k t \<and> ap_subject_kind a = None" and
        E = "\<lambda>_. fine V s0"])
    show "wp (new_approval V job (join ''; '' reasons) provider)
       (\<lambda>a t. in_hand V s0 ?k t \<and> ap_subject_kind a = None) (\<lambda>_. fine V s0) s"
      unfolding new_approval_def
      by (rule bind_calm(2)[OF calm_job_id assms(1)], rule bind_calm(2)[OF calm_pure(6)], assumption,
          (rule bind_calm(2)[OF calm_now], assumption)+)
        (simp add: wp_ret bare_approval_def)
  next
    fix a :: approval_rec and t :: jsys
    assume a: "in_hand V s0 ?k t \<and> ap_subject_kind a = None"
    define a' where "a' = a\<lparr>ap_job_id := Some ?k\<rparr>"
    have "wp (save V (job\<lparr>jb_status := J_waiting_for_approval, jb_requires_approval := True,
            jb_approval_id := Some (ap_approval_id a')\<rparr>)) (\<lambda>_. fine V s0) (\<lambda>_. fine V s0)
          (t\<lparr>js_sys := (js_sys t)\<lparr>sy_store := set_approval (ap_approval_id a') a' (sy_store (js_sys t))\<rparr>\<rparr>)"
      by (rule wp_save_waiting [of V s0 ?k]) (use a in \<open>simp_all add: a'_def\<close>)
    note saved = this
    show "wp (thenM (store_approval (a\<lparr>ap_job_id := Some ?k\<rparr>))
         (bindM (save V (job\<lparr>jb_status := J_waiting_for_approval, jb_requires_approval := True,
              jb_approval_id := Some (ap_approval_id (a\<lparr>ap_job_id := Some ?k\<rparr>))\<rparr>))
           (\<lambda>job. thenM (job_event V (jb_job_id job) ''approval_requested''
                (JStr (ap_reason (a\<lparr>ap_job_id := Some ?k\<rparr>)))
                [(''approval_id'', JStr (ap_approval_id (a\<lparr>ap_job_id := Some ?k\<rparr>)))])
              (retM (Stop job)))))
        (staged V s0 ?k) (\<lambda>_. fine V s0) t"
      unfolding a'_def [symmetric] wp_then store_approval_def wp_on_sys wp_on_store wp_bind
      apply (rule wp_conseq [OF saved])
       apply (rule wp_conseq [OF wp_calm(1)[OF calm_job_event]])
         apply assumption
        apply (simp_all add: wp_ret staged_def)
      done
  qed simp
qed

lemma wp_check_policy:
  assumes "in_hand V s0 (jb_job_id job) s" and "jb_job_id job \<noteq> []" and "\<not> finished job"
  shows "wp (check_policy V job provider) (staged V s0 (jb_job_id job)) (\<lambda>_. fine V s0) s"
proof (cases "evaluate_policy (je_bracketed (jv_env V)) provider (jb_inputs job) (jb_policy job)")
  case (Inl e)
  then show ?thesis
    using assms(1) by (simp add: check_policy_def wp_raise wp_fail_stage in_hand_fine)
next
  case (Inr reasons)
  have "wp (if reasons = [] then retM (Go job) else seek_approval V job provider reasons)
      (staged V s0 (jb_job_id job)) (\<lambda>_. fine V s0) s"
    using assms wp_seek_approval [OF assms(1,2)] by (simp add: wp_ret staged_def)
  then show ?thesis
    unfolding check_policy_def Inr sum.case wp_bind
  proof (rule wp_conseq)
    fix r and t :: jsys
    assume r: "staged V s0 (jb_job_id job) r t"
    show "wp (case r of Stop j \<Rightarrow> retM (Stop j)
        | Go job \<Rightarrow> if jb_status job = J_running then retM (Go job)
                   else claim_status V job [J_checking_dependencies] J_running)
        (staged V s0 (jb_job_id job)) (\<lambda>_. fine V s0) t"
    proof (cases r)
      case (Go j)
      with r have h: "in_hand V s0 (jb_job_id j) t" "jb_job_id j = jb_job_id job" "\<not> finished j"
        by (auto simp: staged_def)
      from wp_claim_status [OF h(1), of J_running] h Go show ?thesis
        by (simp add: wp_ret staged_def)
    qed (use r in \<open>simp add: wp_ret staged_def\<close>)
  qed
qed

lemma wp_check_queued:
  assumes "in_hand V s0 (jb_job_id job) s" and "jb_job_id job \<noteq> []"
  shows "wp (check_queued V job provider) (staged V s0 (jb_job_id job)) (\<lambda>_. fine V s0) s"
  unfolding check_queued_def wp_bind
proof (rule wp_conseq [OF wp_claim_status [OF assms(1), of J_checking_dependencies]])
  fix r and t :: jsys
  assume r: "staged V s0 (jb_job_id job) r t"
  show "wp (case r of Stop j \<Rightarrow> retM (Stop j)
     | Go job \<Rightarrow>
         thenM (job_event V (jb_job_id job) ''dependency_check_started''
                  (JStr ''Checking provider and tool dependencies.'') [])
         (bindM (liftM (iter (get_or provider ''tools'' (JList [])))) (\<lambda>names.
          bindM (bindM (getM (\<lambda>s. find_tools (js_reg s) names)) liftM) (\<lambda>tools.
          case tools of
            Inl n \<Rightarrow> stop (fail V job ''missing_tool''
              (''Provider requires unregistered tool '' @ name_text (jv_env V) n) [])
          | Inr ts \<Rightarrow>
              bindM (bindM (on_sys (from_fs (check_dependencies (jv_env V) (provider # ts)))) liftM) (\<lambda>deps.
              thenM (job_event V (jb_job_id job) ''dependency_check_completed''
                       (JStr ''Dependency check completed.'') deps)
              (if get_null deps ''status'' \<noteq> JStr ''ready''
               then stop (save V (job\<lparr>jb_status := J_waiting_for_dependency,
                      jb_error := Some ((''code'', JStr ''missing_dependencies'') # deps)\<rparr>))
               else check_policy V job provider))))))
     (staged V s0 (jb_job_id job)) (\<lambda>_. fine V s0) t"
  proof (cases r)
    case (Stop j)
    with r show ?thesis by (simp add: wp_ret staged_def)
  next
    case (Go j)
    with r have h: "in_hand V s0 (jb_job_id j) t" and k: "jb_job_id j = jb_job_id job" "\<not> finished j"
      by (auto simp: staged_def)
    note assms(2) [folded k(1)]
    note rest = wp_check_policy [OF _ this k(2)] wp_fail_stage wp_save_stop
    show ?thesis
      unfolding Go stage.case k(1) [symmetric]
      apply (rule then_calm(2)[OF calm_job_event h])
      apply (rule bind_calm(2)[OF calm_pure(6)], assumption)
      apply (rule bind_calm(2)[OF calm_bind [OF calm_pure(3) calm_pure(6)]], assumption)
      subgoal for t1 names t2 tools t3
        apply (cases tools)
         apply (simp add: rest)
        apply (simp only: sum.case)
        apply (rule bind_calm(2)[OF calm_bind [OF calm_on_sys [OF calm_world(9)] calm_pure(6)]], assumption)
        apply (rule then_calm(2)[OF calm_job_event], assumption)
        apply (simp add: rest)
        done
      done
  qed
qed (use assms in simp_all)

definition found_job :: "service \<Rightarrow> jsys \<Rightarrow> job_rec \<Rightarrow> jsys \<Rightarrow> bool" where
  "found_job V s0 job s \<longleftrightarrow> fine V s0 s \<and> job_at (jb_job_id job) s = Some job"

lemma found_calm:
  assumes "calm js_sys m" and "found_job V s0 job s"
  shows "wp m (\<lambda>_. found_job V s0 job) (\<lambda>_. fine V s0) s"
proof -
  have c: "calm_sys (js_sys s) (js_sys (snd (m s)))" using assms(1) by (simp add: calm_def)
  then have "job_at k (snd (m s)) = job_at k s" for k by (simp add: calm_sys_def get_job_def)
  with calm_sys_fine(1)[OF c] assms(2) show ?thesis
    by (auto simp: wp_def found_job_def split: prod.split sum.split)
qed

lemma found_id: "found_job V s0 job s \<Longrightarrow> jb_job_id job \<noteq> []"
proof -
  assume "found_job V s0 job s"
  then obtain n where "jb_job_id job = id_at V ''job'' n"
    unfolding found_job_def fine_def jobs_ok_def by blast
  then show ?thesis by (simp add: id_at_def)
qed

lemma found_in_hand:
  assumes "found_job V s0 job s" and "\<not> finished job" and "\<And>ak. \<not> awaits s ak (jb_job_id job)"
  shows "in_hand V s0 (jb_job_id job) s"
  using assms by (auto simp: found_job_def in_hand_def)

lemma found_awaited:
  "found_job V s0 job s \<Longrightarrow> awaits s ak (jb_job_id job) \<Longrightarrow>
     jb_status job \<in> {J_waiting_for_approval, J_failed} \<and> jb_approval_id job = Some ak"
  unfolding found_job_def fine_def jobs_ok_def by (metis option.inject)

lemma wp_admit:
  assumes "found_job V s0 job s" and "jb_status job \<in> {J_queued, J_waiting_for_approval}"
  shows "wp (admit V job provider) (staged V s0 (jb_job_id job)) (\<lambda>_. fine V s0) s"
proof (cases "jb_status job = J_waiting_for_approval")
  case True
  let ?key = "case jb_approval_id job of Some k \<Rightarrow> k | None \<Rightarrow> []"
  show ?thesis
  proof (cases "map_option ap_status (approval_of ?key s) = Some Ap_approved")
    case app: True
    have "\<not> awaits s ak (jb_job_id job)" for ak
    proof
      assume a: "awaits s ak (jb_job_id job)"
      with found_awaited [OF assms(1)] have "jb_approval_id job = Some ak" by blast
      with a app show False by (auto simp: awaits_def)
    qed
    then have "in_hand V s0 (jb_job_id job) s"
      using found_in_hand [OF assms(1)] True by (simp add: finished_def)
    from wp_claim_status [OF this, of J_running "[J_waiting_for_approval]"] show ?thesis
      using True app
      by (auto simp: admit_def read_approval_def wp_bind wp_on_sys wp_from_store)
  next
    case False
    with True assms(1) show ?thesis
      by (simp add: admit_def read_approval_def wp_bind wp_on_sys wp_from_store wp_ret staged_def
          found_job_def)
  qed
next
  case False
  with assms(2) have q: "jb_status job = J_queued" by simp
  have "in_hand V s0 (jb_job_id job) s"
    by (rule found_in_hand [OF assms(1)]) (use found_awaited [OF assms(1)] q in \<open>auto simp: finished_def\<close>)
  with q found_id [OF assms(1)] show ?thesis by (simp add: admit_def wp_check_queued)
qed

definition keyed :: "service \<Rightarrow> jsys \<Rightarrow> string \<Rightarrow> 'a stage \<Rightarrow> jsys \<Rightarrow> bool" where
  "keyed V s0 k r t = (case r of Stop j \<Rightarrow> fine V s0 t | Go key \<Rightarrow> in_hand V s0 k t)"

lemma wp_stop_keyed:
  assumes "wp m (\<lambda>_. fine V s0) (\<lambda>_. fine V s0) s"
  shows "wp (stop m) (keyed V s0 k) (\<lambda>_. fine V s0) s"
  unfolding stop_def wp_bind
  by (rule wp_conseq [OF assms]) (simp_all add: wp_ret keyed_def)

lemma wp_save_event:
  assumes "in_hand V s0 (jb_job_id job) s"
  shows "wp (bindM (save V job) (\<lambda>job. thenM (job_event V (f job) ty m d) (retM job)))
    (\<lambda>_. fine V s0) (\<lambda>_. fine V s0) s"
  unfolding wp_bind
  apply (rule wp_save [OF assms])
  apply (rule then_calm(1)[OF calm_job_event], assumption)
  apply (simp add: wp_ret)
  done

lemma wp_claim_key:
  assumes "in_hand V s0 (jb_job_id job) s"
  shows "wp (claim_key V job provider) (keyed V s0 (jb_job_id job)) (\<lambda>_. fine V s0) s"
proof -
  have replay: "wp (replay V job orig) (\<lambda>_. fine V s0) (\<lambda>_. fine V s0) t"
    if "in_hand V s0 (jb_job_id job) t" for orig t
    unfolding replay_def
    by (rule then_calm(2)[OF _ that], intro calm_intros) (rule wp_save_event, simp)
  have ends: "wp (stop (fail V job c m d)) (keyed V s0 (jb_job_id job)) (\<lambda>_. fine V s0) t"
    "wp (stop (replay V job orig)) (keyed V s0 (jb_job_id job)) (\<lambda>_. fine V s0) t"
    if "in_hand V s0 (jb_job_id job) t" for c m d orig t
    by (rule wp_stop_keyed, rule wp_fail [OF that], rule wp_stop_keyed, rule replay [OF that])
  have go: "wp (retM (Go x)) (keyed V s0 (jb_job_id job)) (\<lambda>_. fine V s0) t"
    if "in_hand V s0 (jb_job_id job) t" for x t
    using that by (simp add: wp_ret keyed_def)
  show ?thesis
    unfolding claim_key_def
    apply (simp only: wp_if)
    apply (intro conjI impI if_bool_eq_conj [THEN iffD2])
     apply (rule bind_calm(2)[OF calm_pure(6) assms])
     apply (rule bind_calm(2)[OF calm_pure(6)], assumption)
     apply (rule bind_calm(2), intro calm_intros, assumption)
     apply (simp split: option.split add: ends go)
    apply (simp add: go assms)
    done
qed

lemma wp_finish_job:
  assumes "in_hand V s0 (jb_job_id job) s"
  shows "wp (finish_job V job key result found) (\<lambda>_. fine V s0) (\<lambda>_. fine V s0) s"
  unfolding finish_job_def
  apply (rule then_calm(2)[OF _ assms], intro calm_intros)
  unfolding wp_bind
  apply (rule wp_save, simp)
  apply (rule then_calm(1), intro calm_intros, assumption)
  apply (rule then_calm(1)[OF calm_job_event], assumption)
  apply (rule then_calm(1)[OF calm_job_event], assumption)
  apply (simp add: wp_ret)
  done

lemma wp_execute:
  assumes h: "in_hand V s0 (jb_job_id job) s"
  shows "wp (execute V job provider key) (\<lambda>_. fine V s0) (\<lambda>_. fine V s0) s"
  unfolding execute_def
proof (rule then_calm(2)[OF calm_job_event h], goal_cases)
  case (1 t)
  show ?case
  proof (cases "effective_limits provider (jv_settings V)")
    case (Inl e)
    with 1 show ?thesis
      by (cases e) (simp_all add: wp_fail wp_raise in_hand_fine)
  next
    case (Inr l)
    show ?thesis
      unfolding Inr sum.case
      apply (rule then_calm(2)[OF calm_job_event 1])
      apply (rule bind_calm(2), intro calm_intros, assumption)
      apply (rule bind_calm(2), intro calm_intros, assumption)
      subgoal for t1 vault t2 resolved t3
        apply (cases resolved)
         apply (simp add: wp_fail)
        apply (simp only: sum.case)
        subgoal for x
          apply (cases x)
          apply (simp only: prod.case)
          apply (rule bind_calm(2), intro calm_intros, assumption)
          apply (rule bind_calm(2), intro calm_intros, assumption)
          subgoal for inputs secrets payload t4 outcome t5
            apply (cases outcome)
             apply (simp only: sum.case)
             apply (simp split: prod.split)
             apply (intro allI impI)
             apply (rule then_calm(2), intro calm_intros, assumption)
             apply (simp add: wp_fail)
            apply (simp split: prod.split add: wp_finish_job)
            done
          done
        done
      done
  qed
qed

lemma wp_provider_missing:
  assumes "found_job V s0 job s" and "\<not> finished job"
  shows "wp (fail V job code msg d) (\<lambda>_. fine V s0) (\<lambda>_. fine V s0) s"
proof -
  define j where "j = job\<lparr>jb_status := J_failed, jb_error := Some [(''code'', JStr code),
      (''message'', JStr msg), (''details'', JObj d)],
      jb_updated_at := e_now (je_env (jv_env V)) (sy_tick (js_sys s))\<rparr>"
  let ?t = "s\<lparr>js_sys := (js_sys s)\<lparr>sy_tick := Suc (sy_tick (js_sys s)),
      sy_store := set_job (jb_job_id j) j (sy_store (js_sys s))\<rparr>\<rparr>"
  have f: "job_at (jb_job_id job) s = Some job" "fine V s0 s"
    using assms(1) by (simp_all add: found_job_def)
  have "fine V s0 ?t"
    by (rule put_failed [OF f(2,1) assms(2), of _ j])
      (simp_all add: j_def get_job_def set_job_def get_approval_def)
  from wp_calm(1)[OF calm_job_event this] show ?thesis
    unfolding fail_def save_def Let_def wp_bind wp_now wp_then wp_on_sys wp_on_store wp_ret
    by (simp add: j_def)
qed

lemma wp_provided:
  assumes "found_job V s0 job s" and "jb_status job \<in> {J_queued, J_waiting_for_approval}"
  shows "wp (case found of
          None \<Rightarrow> fail V job ''provider_missing'' ''Provider disappeared from the registry'' []
        | Some provider \<Rightarrow>
            bindM (admit V job provider) (\<lambda>r.
            case r of
              Stop j \<Rightarrow> retM j
            | Go job \<Rightarrow>
                let job = job\<lparr>jb_error := None\<rparr> in
                bindM (claim_key V job provider) (\<lambda>c.
                case c of
                  Stop j \<Rightarrow> retM j
                | Go key \<Rightarrow> execute V job provider key)))
        (\<lambda>_. fine V s0) (\<lambda>_. fine V s0) s"
proof (cases found)
  case None
  with assms show ?thesis by (auto simp: finished_def intro: wp_provider_missing)
next
  case (Some provider)
  show ?thesis
    unfolding Some option.case wp_bind
  proof (rule wp_conseq [OF wp_admit [OF assms]])
    fix r and t :: jsys
    assume r: "staged V s0 (jb_job_id job) r t"
    show "wp (case r of Stop j \<Rightarrow> retM j
            | Go job \<Rightarrow> let job = job\<lparr>jb_error := None\<rparr> in
                bindM (claim_key V job provider) (\<lambda>c.
                case c of Stop j \<Rightarrow> retM j | Go key \<Rightarrow> execute V job provider key))
        (\<lambda>_. fine V s0) (\<lambda>_. fine V s0) t"
    proof (cases r)
      case (Go j)
      with r have h: "in_hand V s0 (jb_job_id (j\<lparr>jb_error := None\<rparr>)) t" by (simp add: staged_def)
      show ?thesis
        unfolding Go stage.case Let_def wp_bind
        by (rule wp_conseq [OF wp_claim_key [OF h]])
          (auto simp: keyed_def wp_ret intro: wp_execute split: stage.splits)
    qed (use r in \<open>simp add: wp_ret staged_def\<close>)
  qed simp
qed

lemma wp_process_job:
  assumes "source_calm V" and "fine V s0 s"
  shows "wp (process_job V k) (\<lambda>_. fine V s0) (\<lambda>_. fine V s0) s"
  unfolding process_job_def
proof (rule then_calm(1)[OF calm_refresh_registry [OF assms(1)] assms(2)], goal_cases)
  case (1 t)
  have known: "wp (known_job k) (\<lambda>job. found_job V s0 job) (\<lambda>_. fine V s0) t"
    using 1 by (auto simp: known_job_def read_job_def wp_eqs found_job_def fine_def jobs_ok_def
        split: option.split)
  show ?case
    unfolding wp_bind
  proof (rule wp_conseq [OF known])
    fix job and u :: jsys
    assume u: "found_job V s0 job u"
    show "wp (if jb_status job \<notin> {J_queued, J_waiting_for_approval} then retM job
      else bindM (provider_internal V (jb_skill job) (jb_provider job)) (\<lambda>found.
        case found of
          None \<Rightarrow> fail V job ''provider_missing'' ''Provider disappeared from the registry'' []
        | Some provider \<Rightarrow>
            bindM (admit V job provider) (\<lambda>r.
            case r of
              Stop j \<Rightarrow> retM j
            | Go job \<Rightarrow>
                let job = job\<lparr>jb_error := None\<rparr> in
                bindM (claim_key V job provider) (\<lambda>c.
                case c of
                  Stop j \<Rightarrow> retM j
                | Go key \<Rightarrow> execute V job provider key))))
      (\<lambda>_. fine V s0) (\<lambda>_. fine V s0) u"
    proof (cases "jb_status job \<in> {J_queued, J_waiting_for_approval}")
      case False
      with u show ?thesis by (simp add: wp_ret found_job_def)
    next
      case True
      note cont = wp_provided [OF _ True]
      from True show ?thesis
        by (simp add: wp_bind)
          (rule wp_conseq [OF found_calm [OF calm_provider_internal [OF assms(1)] u]];
            simp add: cont [unfolded wp_bind])
    qed
  qed simp
qed

lemma bind_rule:
  "wp m R (\<lambda>_. fine V s0) s \<Longrightarrow> (\<And>a t. R a t \<Longrightarrow> wp (f a) Q (\<lambda>_. fine V s0) t) \<Longrightarrow>
     wp (bindM m f) Q (\<lambda>_. fine V s0) s"
  unfolding wp_bind by (erule wp_conseq) auto

lemma then_rule:
  "wp m R (\<lambda>_. fine V s0) s \<Longrightarrow> (\<And>a t. R a t \<Longrightarrow> wp n Q (\<lambda>_. fine V s0) t) \<Longrightarrow>
     wp (thenM m n) Q (\<lambda>_. fine V s0) s"
  unfolding thenM_def by (erule bind_rule)

lemma ret_fine: "fine V s0 s \<Longrightarrow> wp (retM x) (\<lambda>_. fine V s0) X s"
  by (simp add: wp_ret)

section \<open>Creating a job\<close>

definition ids_differ :: "service \<Rightarrow> bool" where
  "ids_differ V \<longleftrightarrow> inj (id_at V ''job'')"

text \<open>The identifier \<open>k\<close> was drawn and is not in use\<close>

definition unused :: "service \<Rightarrow> jsys \<Rightarrow> string \<Rightarrow> jsys \<Rightarrow> bool" where
  "unused V s0 k s \<longleftrightarrow> fine V s0 s \<and> job_at k s = None \<and>
     (\<exists>n. n < sy_tick (js_sys s) \<and> k = id_at V ''job'' n)"

lemma unused_fine: "unused V s0 k s \<Longrightarrow> fine V s0 s"
  by (simp add: unused_def)

lemma unused_calm_sys:
  "calm_sys (js_sys s) (js_sys t) \<Longrightarrow> unused V s0 k s \<Longrightarrow> unused V s0 k t"
  using calm_sys_fine(1)[of s t V s0] order_less_le_trans
  unfolding unused_def calm_sys_def get_job_def by fastforce

lemma bind_unused:
  assumes "calm js_sys m" and "unused V s0 k s"
    and "\<And>a t. unused V s0 k t \<Longrightarrow> wp (f a) Q (\<lambda>_. fine V s0) t"
  shows "wp (bindM m f) Q (\<lambda>_. fine V s0) s"
proof -
  have c: "calm_sys (js_sys s) (js_sys (snd (m s)))" using assms(1) by (simp add: calm_def)
  from unused_calm_sys [OF c assms(2)] assms(3) show ?thesis
    by (auto simp: wp_bind wp_def [of m] dest: unused_fine split: prod.split sum.split)
qed

lemma then_unused:
  "calm js_sys m \<Longrightarrow> unused V s0 k s \<Longrightarrow>
     (\<And>t. unused V s0 k t \<Longrightarrow> wp n Q (\<lambda>_. fine V s0) t) \<Longrightarrow> wp (thenM m n) Q (\<lambda>_. fine V s0) s"
  unfolding thenM_def by (rule bind_unused)

lemma wp_job_id:
  assumes "ids_differ V" and "fine V s0 s"
  shows "wp (job_id V ''job'') (\<lambda>k. unused V s0 k) (\<lambda>_. fine V s0) s"
proof -
  let ?n = "sy_tick (js_sys s)"
  let ?t = "s\<lparr>js_sys := (js_sys s)\<lparr>sy_tick := Suc (Suc ?n)\<rparr>\<rparr>"
  have ok: "jobs_ok V s" using assms(2) by (simp add: fine_def)
  have "job_at (id_at V ''job'' ?n) s = None"
  proof (rule ccontr)
    assume "job_at (id_at V ''job'' ?n) s \<noteq> None"
    then obtain m where "m < ?n" "id_at V ''job'' ?n = id_at V ''job'' m"
      using ok unfolding jobs_ok_def by blast
    with assms(1) show False unfolding ids_differ_def by (auto dest: injD)
  qed
  moreover have "fine V s0 ?t" by (rule calm_sys_fine(1)[OF _ assms(2)]) (simp add: calm_sys_def)
  ultimately have "unused V s0 (id_at V ''job'' ?n) ?t"
    unfolding unused_def by (auto intro!: exI [of _ ?n])
  then show ?thesis
    by (simp add: job_id_def wp_eqs id_at_def)
qed

lemma put_new:
  assumes "unused V s0 k s" and "job_at k t = Some job" and "jb_job_id job = k"
    and "\<And>l. l \<noteq> k \<Longrightarrow> job_at l t = job_at l s" and "\<And>ak. approval_of ak t = approval_of ak s"
    and "sy_tick (js_sys s) \<le> sy_tick (js_sys t)"
  shows "fine V s0 t"
proof -
  obtain n where ok: "jobs_ok V s" and on: "onward s0 s" and none: "job_at k s = None"
    and n: "n < sy_tick (js_sys s)" "k = id_at V ''job'' n"
    using assms(1) unfolding unused_def fine_def by blast
  have w: "awaits t ak l = awaits s ak l" for ak l by (simp add: awaits_def assms(5))
  have "jb_job_id x = l \<and> (\<exists>n. n < sy_tick (js_sys t) \<and> l = id_at V ''job'' n)"
    if "job_at l t = Some x" for l x
  proof (cases "l = k")
    case True
    with that assms(2,3,6) n show ?thesis by (metis option.inject order_less_le_trans)
  next
    case False
    with that assms(4) have "job_at l s = Some x" by simp
    with ok assms(6) order_less_le_trans show ?thesis unfolding jobs_ok_def by blast
  qed
  moreover have "\<exists>x. job_at l t = Some x \<and> jb_status x \<in> {J_waiting_for_approval, J_failed} \<and>
        jb_approval_id x = Some ak" if "awaits t ak l" for ak l
    using that w ok none assms(4) unfolding jobs_ok_def by (metis option.distinct(1))
  moreover have "\<forall>ak a. approval_of ak t = Some a \<longrightarrow> ap_subject_kind a \<noteq> Some Sk_memory"
    using ok assms(5) unfolding jobs_ok_def by simp
  ultimately have "jobs_ok V t" unfolding jobs_ok_def by blast
  moreover have "onward s t"
    unfolding onward_def using assms(4,6) none by (metis option.distinct(1))
  ultimately show ?thesis using onward_trans [OF on] by (simp add: fine_def)
qed

lemma wp_save_new:
  assumes "unused V s0 (jb_job_id job) s"
  shows "wp (save V job) (\<lambda>j t. fine V s0 t) X s"
proof -
  define j where "j = job\<lparr>jb_updated_at := e_now (je_env (jv_env V)) (sy_tick (js_sys s))\<rparr>"
  let ?t = "s\<lparr>js_sys := (js_sys s)\<lparr>sy_tick := Suc (sy_tick (js_sys s)),
      sy_store := set_job (jb_job_id job) j (sy_store (js_sys s))\<rparr>\<rparr>"
  have "fine V s0 ?t"
    by (rule put_new [OF assms, of _ j])
      (simp_all add: j_def get_job_def set_job_def get_approval_def)
  then show ?thesis
    unfolding save_def Let_def wp_bind wp_now wp_then wp_on_sys wp_on_store wp_ret
    by (simp add: j_def)
qed

lemma wp_linked_approval:
  assumes "fine V s0 s"
  shows "wp (linked_approval k) (\<lambda>l t. fine V s0 t \<and> (\<forall>a. l = Some a \<longrightarrow>
      ap_status a = Ap_approved \<and> ap_subject_kind a \<noteq> Some Sk_memory)) (\<lambda>_. fine V s0) s"
  using assms
  by (auto simp: linked_approval_def read_approval_def wp_eqs fine_def jobs_ok_def
      split: option.split)

lemma unused_put_approval:
  assumes "unused V s0 k s" and "ap_status a = Ap_approved" and "ap_subject_kind a \<noteq> Some Sk_memory"
  shows "wp (on_sys (on_store (set_approval ak a))) (\<lambda>_. unused V s0 k) X s"
proof -
  let ?t = "s\<lparr>js_sys := (js_sys s)\<lparr>sy_store := set_approval ak a (sy_store (js_sys s))\<rparr>\<rparr>"
  have "fine V s0 ?t"
    by (rule put_approval(1)[of V s0 s _ ak a])
      (use assms in \<open>auto simp: unused_def get_job_def set_approval_def get_approval_def\<close>)
  with assms(1) show ?thesis
    unfolding wp_on_sys wp_on_store by (auto simp: unused_def get_job_def set_approval_def)
qed

lemma wp_create_tail:
  assumes "unused V s0 k s" and "jb_job_id job = k"
    and "\<And>a. linked = Some a \<Longrightarrow> ap_status a = Ap_approved \<and> ap_subject_kind a \<noteq> Some Sk_memory"
  shows "wp (thenM (case linked of None \<Rightarrow> retM ()
                | Some a \<Rightarrow> on_sys (on_store (set_approval ak (a\<lparr>ap_job_id := Some k\<rparr>))))
         (bindM (save V job) (\<lambda>j. thenM (job_event V k ty m d) (retM j))))
      (\<lambda>_. fine V s0) (\<lambda>_. fine V s0) s"
proof (rule then_rule)
  show "wp (case linked of None \<Rightarrow> retM ()
      | Some a \<Rightarrow> on_sys (on_store (set_approval ak (a\<lparr>ap_job_id := Some k\<rparr>))))
      (\<lambda>_. unused V s0 k) (\<lambda>_. fine V s0) s"
    using assms by (cases linked) (auto simp: wp_ret intro: unused_put_approval)
  fix t :: jsys
  assume "unused V s0 k t"
  with assms(2) show "wp (bindM (save V job) (\<lambda>j. thenM (job_event V k ty m d) (retM j)))
      (\<lambda>_. fine V s0) (\<lambda>_. fine V s0) t"
    by (intro bind_rule [OF wp_save_new] then_calm(1)[OF calm_job_event] ret_fine) simp_all
qed

lemma wp_create_job:
  assumes "source_calm V" and "ids_differ V" and "fine V s0 s"
  shows "wp (create_job V q r) (\<lambda>_. fine V s0) (\<lambda>_. fine V s0) s"
  unfolding create_job_def
  apply (rule then_calm(1)[OF calm_refresh_registry [OF assms(1)] assms(3)])
  apply (rule bind_calm(1)[OF calm_provider_internal [OF assms(1)]], assumption)
  apply (rule bind_calm(1)[OF calm_pure(5)], assumption)
  apply (rule bind_calm(1)[OF calm_pure(6)], assumption)
  apply (rule then_calm(1)[OF calm_pure(6)], assumption)
  apply (rule bind_rule [OF wp_linked_approval], assumption)
  apply (elim conjE)
  apply (rule then_calm(1)[OF calm_live_write_gate [OF assms(1)]], assumption)
  apply (rule bind_rule [OF wp_job_id [OF assms(2)]], assumption)
  apply (rule bind_unused, intro calm_intros, assumption)
  apply (rule then_unused)
    apply (unfold make_job_dir_def, intro calm_intros)[1]
   apply assumption
  apply (rule bind_unused [OF calm_now], assumption)
  unfolding Let_def
  apply (rule wp_create_tail; simp)
  done

section \<open>Approvals\<close>

lemma wp_new_approval:
  assumes "fine V s0 s"
  shows "wp (new_approval V job reason p) (\<lambda>a t. fine V s0 t \<and> ap_subject_kind a = None \<and>
    ap_job_id a = None) (\<lambda>_. fine V s0) s"
  unfolding new_approval_def
  by (rule bind_calm(1)[OF calm_job_id assms], rule bind_calm(1)[OF calm_pure(6)], assumption,
      (rule bind_calm(1)[OF calm_now], assumption)+)
    (simp add: wp_ret bare_approval_def)

lemma wp_request:
  assumes "fine V s0 s" and "ap_subject_kind a = None" and "ap_job_id a = None"
  shows "wp (thenM (store_approval a) (thenM (job_event V k ty m d) (retM x)))
    (\<lambda>_. fine V s0) (\<lambda>_. fine V s0) s"
  by (intro then_rule [OF wp_store_approval [OF assms(1)]] then_calm(1)[OF calm_job_event] ret_fine)
    (use assms in simp_all)

lemma wp_promote_job:
  assumes "source_calm V" and "fine V s0 s"
  shows "wp (promote_job V k) (\<lambda>_. fine V s0) (\<lambda>_. fine V s0) s"
  unfolding promote_job_def Let_def
  apply (rule bind_calm(1)[OF calm_reads(4) assms(2)])
  apply (rule then_calm(1)[OF calm_pure(4)], assumption)
  apply (rule bind_calm(1)[OF calm_provider_internal [OF assms(1)]], assumption)
  apply (rule bind_calm(1)[OF calm_pure(5)], assumption)
  apply (rule bind_calm(1)[OF calm_snapshots(1)[OF assms(1)]], assumption)
  apply (rule bind_calm(1)[OF calm_pure(6)], assumption)
  apply (rule bind_calm(1)[OF calm_pure(6)], assumption)
  apply (rule bind_rule [OF wp_new_approval], assumption)
  apply (elim conjE)
  apply (rule wp_request; simp)
  done

lemma wp_recover_job:
  assumes "source_calm V" and "fine V s0 s"
  shows "wp (recover_job V k) (\<lambda>_. fine V s0) (\<lambda>_. fine V s0) s"
  unfolding recover_job_def Let_def
  apply (rule bind_calm(1)[OF calm_reads(4) assms(2)])
  apply (rule then_calm(1)[OF calm_pure(4)], assumption)
  apply (rule bind_calm(1)[OF calm_provider_internal [OF assms(1)]], assumption)
  apply (rule bind_calm(1)[OF calm_pure(6)], assumption)
  apply (rule bind_calm(1)[OF calm_pure(6)], assumption)
  apply (rule bind_calm(1)[OF calm_on_sys [OF calm_world(10)]], assumption)
  apply (rule bind_calm(1)[OF calm_pure(6)], assumption)
  apply (rule bind_calm(1)[OF calm_pure(5)], assumption)
  apply (rule bind_calm(1)[OF calm_pure(6)], assumption)
  apply (rule bind_calm(1)[OF calm_on_sys [OF calm_world(9)]], assumption)
  apply (rule then_calm(1)[OF calm_pure(4)], assumption)
  apply (rule bind_calm(1)[OF calm_provider_provenance [OF assms(1)]], assumption)
  apply (rule bind_calm(1)[OF calm_on_sys [OF calm_world(16)]], assumption)
  apply (rule bind_calm(1)[OF calm_reads(6)], assumption)
  apply (rule bind_calm(1)[OF calm_pure(6)], assumption)
  apply (rule bind_rule [OF wp_new_approval], assumption)
  apply (elim conjE)
  apply (rule wp_request; simp)
  done

text \<open>The subject of a decision is a pending approval; nothing has happened yet\<close>

lemma wp_pending_subject:
  assumes "fine V s0 s"
  shows "wp (pending_subject V ok k who note)
    (\<lambda>r t. t = s \<and> (\<exists>a. r = Inr a \<and> approval_of k s = Some a \<and> ap_status a = Ap_pending \<and>
       ap_subject_kind a \<noteq> Some Sk_memory)) (\<lambda>_. fine V s0) s"
proof -
  have nm: "ap_subject_kind a \<noteq> Some Sk_memory" if "approval_of k s = Some a" for a
    using assms that unfolding fine_def jobs_ok_def by blast
  show ?thesis
    using assms nm
    by (auto simp: pending_subject_def decide_subject_def read_approval_def wp_eqs
        split: option.split)
qed

lemma wp_decide_transition:
  assumes "fine V s0 s" and "ap_subject_kind a \<noteq> Some Sk_memory" and "st \<noteq> Ap_pending"
  shows "wp (decide_transition V a st k who note)
    (\<lambda>b t. fine V s0 t \<and> ap_job_id b = ap_job_id a \<and> ap_promotion b = ap_promotion a \<and>
       ap_recovery b = ap_recovery a \<and> (\<forall>l. job_at l t = job_at l s) \<and>
       approval_of k t = Some b \<and> ap_status b = st \<and>
       (\<forall>l. l \<noteq> k \<longrightarrow> approval_of l t = approval_of l s)) (\<lambda>_. fine V s0) s"
proof -
  define b where "b = a\<lparr>ap_status := st,
      ap_updated_at := e_now (je_env (jv_env V)) (sy_tick (js_sys s)),
      ap_decided_by := Some who, ap_note := note\<rparr>"
  let ?t = "s\<lparr>js_sys := (js_sys s)\<lparr>sy_tick := Suc (sy_tick (js_sys s)),
      sy_store := set_approval k b (sy_store (js_sys s))\<rparr>\<rparr>"
  have done_: "fine V s0 ?t"
    by (rule put_approval(1)[OF assms(1), of _ k b])
      (use assms in \<open>auto simp: b_def get_job_def set_approval_def get_approval_def\<close>)
  have "calm_sys (js_sys s) ((js_sys s)\<lparr>sy_tick := Suc (sy_tick (js_sys s))\<rparr>)"
    by (simp add: calm_sys_def)
  then have ticked: "fine V s0 (s\<lparr>js_sys := (js_sys s)\<lparr>sy_tick := Suc (sy_tick (js_sys s))\<rparr>\<rparr>)"
    using calm_sys_fine(1)[OF _ assms(1)] by simp
  have eq: "transition_approval k [Ap_pending] b st' =
      (case get_approval k st' of None \<Rightarrow> (False, st')
       | Some c \<Rightarrow> if ap_status c = Ap_pending then (True, set_approval k b st') else (False, st'))" for st'
    by (simp add: transition_approval_def set_approval_def get_approval_def split: option.split)
  show ?thesis
    unfolding decide_transition_def Let_def wp_bind wp_now wp_on_sys wp_ask_store b_def [symmetric] eq
    using done_ ticked
    by (auto simp: wp_eqs read_approval_def b_def get_job_def set_approval_def get_approval_def
        split: option.split)
qed

lemma wp_launch_promotion:
  assumes "source_calm V" and "ids_differ V" and "fine V s0 s"
  shows "wp (launch_promotion V a snap who) (\<lambda>_. fine V s0) (\<lambda>_. fine V s0) s"
  unfolding launch_promotion_def
  apply (rule bind_calm(1)[OF calm_pure(6) assms(3)])
  apply (rule bind_calm(1)[OF calm_reads(3)], assumption)
  apply (rule bind_rule [OF wp_create_job [OF assms(1,2)]], assumption)
  apply (rule then_calm(1)[OF calm_job_event], assumption)
  apply (rule wp_process_job [OF assms(1)], assumption)
  done

lemma wp_launch_recovery:
  assumes "source_calm V" and "ids_differ V" and "fine V s0 s"
  shows "wp (launch_recovery V a snap who) (\<lambda>_. fine V s0) (\<lambda>_. fine V s0) s"
  unfolding launch_recovery_def
  apply (rule bind_calm(1)[OF calm_pure(6) assms(3)])
  apply (rule bind_calm(1)[OF calm_reads(3)], assumption)
  apply (rule bind_rule [OF wp_create_job [OF assms(1,2)]], assumption)
  apply (rule wp_process_job [OF assms(1)], assumption)
  done

lemma on_job_fine:
  assumes "wp m (\<lambda>_. fine V s0) (\<lambda>_. fine V s0) s"
  shows "wp (bindM m (\<lambda>j. retM (f j))) (\<lambda>_. fine V s0) (\<lambda>_. fine V s0) s"
  by (rule bind_rule [OF assms]) (rule ret_fine)

lemma wp_approve_job:
  assumes "source_calm V" and "ids_differ V" and "fine V s0 s"
  shows "wp (approve_job V k who note) (\<lambda>_. fine V s0) (\<lambda>_. fine V s0) s"
  unfolding approve_job_def
proof (rule bind_rule [OF wp_pending_subject [OF assms(3)]], elim conjE exE, goal_cases)
  case (1 r t a)
  note [simp] = 1(1,2)
  show ?case
    unfolding 1(2) sum.case 1(1)
    apply (rule then_calm(1)[OF calm_rechecks(1)[OF assms(1)] assms(3)])
    apply (rule then_calm(1)[OF calm_rechecks(2)[OF assms(1)]], assumption)
    apply (rule bind_rule [OF wp_decide_transition], assumption)
      apply (simp add: 1)
     apply simp
    apply (elim conjE)
    subgoal for u v b w
      apply (cases "given (ap_job_id b)")
       apply (simp only: if_True)
       apply (rule then_calm(1)[OF calm_job_event], assumption)
       apply (rule on_job_fine [OF wp_process_job [OF assms(1)]], assumption)
      apply (simp only: if_False)
      apply (cases "truthy (ap_promotion b)"; cases "truthy (ap_recovery b)")
         apply (simp_all only: option.case)
         apply (rule ret_fine, assumption)
        apply (rule on_job_fine [OF wp_launch_recovery [OF assms(1,2)]], assumption)
       apply (rule on_job_fine [OF wp_launch_promotion [OF assms(1,2)]], assumption)+
      done
    done
qed

text \<open>A rejection may turn a failed job into a rejected one\<close>

lemma put_rejected:
  assumes "fine V s0 s" and "job_at k s = Some j" and "jb_status j \<in> {J_waiting_for_approval, J_failed}"
    and "\<And>ak. \<not> awaits s ak k"
    and "job_at k t = Some job" and "jb_job_id job = k" and "jb_status job = J_rejected"
    and "\<And>l. l \<noteq> k \<Longrightarrow> job_at l t = job_at l s" and "\<And>ak. approval_of ak t = approval_of ak s"
    and "sy_tick (js_sys s) \<le> sy_tick (js_sys t)"
  shows "fine V s0 t"
proof -
  have ok: "jobs_ok V s" and on: "onward s0 s" using assms(1) by (simp_all add: fine_def)
  have w: "awaits t ak l = awaits s ak l" for ak l by (simp add: awaits_def assms(9))
  have "\<exists>n. n < sy_tick (js_sys t) \<and> l = id_at V ''job'' n" if "job_at l s = Some x" for l x
    using ok that assms(10) order_less_le_trans unfolding jobs_ok_def by blast
  moreover have "jb_job_id x = l" if "job_at l t = Some x" for l x
    using ok that assms(5,6,8) by (cases "l = k") (auto simp: jobs_ok_def)
  ultimately have "\<forall>l x. job_at l t = Some x \<longrightarrow>
      jb_job_id x = l \<and> (\<exists>n. n < sy_tick (js_sys t) \<and> l = id_at V ''job'' n)"
    using assms(2,8) by metis
  moreover have "\<exists>x. job_at l t = Some x \<and> jb_status x \<in> {J_waiting_for_approval, J_failed} \<and>
        jb_approval_id x = Some ak" if "awaits t ak l" for ak l
    using that w assms(4,8) ok unfolding jobs_ok_def by metis
  moreover have "\<forall>ak a. approval_of ak t = Some a \<longrightarrow> ap_subject_kind a \<noteq> Some Sk_memory"
    using ok assms(9) unfolding jobs_ok_def by simp
  ultimately have "jobs_ok V t" unfolding jobs_ok_def by blast
  moreover have "onward s t"
    unfolding onward_def
  proof (intro conjI allI impI assms(10))
    fix l x assume x: "job_at l s = Some x \<and> finished x"
    show "job_at l t = Some x \<or>
        (jb_status x = J_failed \<and> (\<exists>i. job_at l t = Some i \<and> jb_status i = J_rejected))"
    proof (cases "l = k")
      case True
      with x assms(2,3) have "x = j" "jb_status j = J_failed" by (auto simp: finished_def)
      with True assms(5,7) show ?thesis by blast
    qed (use x assms(8) in simp)
  qed
  ultimately show ?thesis using onward_trans [OF on] by (simp add: fine_def)
qed

lemma wp_reject_job:
  assumes "fine V s0 s"
  shows "wp (reject_job V k who reason) (\<lambda>_. fine V s0) (\<lambda>_. fine V s0) s"
  unfolding reject_job_def
proof (rule bind_rule [OF wp_pending_subject [OF assms]], elim conjE exE, goal_cases)
  case (1 r t a)
  show ?case
    unfolding 1(2) sum.case 1(1)
  proof (rule bind_rule [OF wp_decide_transition [OF assms 1(5)]], simp, elim conjE, goal_cases)
    case (1 b u)
    note b = this
    show ?case
    proof (cases "given (ap_job_id b)")
      case False
      with b show ?thesis by (simp add: wp_ret)
    next
      case True
      then obtain l where l: "ap_job_id b = Some l" "l \<noteq> []" by (auto simp: given_def)
      have aw: "awaits s k l"
        using 1 l \<open>approval_of k s = Some a\<close> \<open>ap_status a = Ap_pending\<close> by (simp add: awaits_def)
      have ok: "jobs_ok V s" using assms by (simp add: fine_def)
      obtain j where j: "job_at l s = Some j" "jb_status j \<in> {J_waiting_for_approval, J_failed}"
          "jb_approval_id j = Some k"
        using ok aw unfolding jobs_ok_def by blast
      have id: "jb_job_id j = l" using ok j(1) unfolding jobs_ok_def by blast
      have ju: "job_at l u = Some j" using b j(1) by simp
      have na: "\<not> awaits u ak l" for ak
      proof
        assume w: "awaits u ak l"
        then have "ak \<noteq> k" using b by (auto simp: awaits_def)
        then have "awaits s ak l" using w b by (simp add: awaits_def)
        then have "jb_approval_id j = Some ak" using ok j(1) unfolding jobs_ok_def by force
        with j(3) \<open>ak \<noteq> k\<close> show False by simp
      qed
      define j' where "j' = j\<lparr>jb_status := J_rejected, jb_error := Some
          [(''code'', JStr ''approval_rejected''), (''message'', JStr reason)],
          jb_updated_at := e_now (je_env (jv_env V)) (sy_tick (js_sys u))\<rparr>"
      let ?t = "u\<lparr>js_sys := (js_sys u)\<lparr>sy_tick := Suc (sy_tick (js_sys u)),
          sy_store := set_job l j' (sy_store (js_sys u))\<rparr>\<rparr>"
      have "fine V s0 ?t"
        by (rule put_rejected [of V s0 u l j _ j'])
          (use b ju j(2) na id in \<open>simp_all add: j'_def get_job_def set_job_def get_approval_def\<close>)
      then have "wp (job_event V l ty m d) (\<lambda>_. wp (retM x) (\<lambda>_. fine V s0) (\<lambda>_. fine V s0))
          (\<lambda>_. fine V s0) ?t" for ty m d and x :: decision
        by (intro wp_conseq [OF wp_calm(1)[OF calm_job_event]]) (simp_all add: wp_ret)
      with ju True l show ?thesis
        by (simp add: reread_job_def read_job_def wp_eqs save_def j'_def id Let_def)
    qed
  qed
qed

section \<open>Every step\<close>

lemma wp_run_job:
  assumes "source_calm V" and "ids_differ V" and "fine V s0 s"
  shows "wp (run_job V c) (\<lambda>_. fine V s0) (\<lambda>_. fine V s0) s"
  by (cases c)
    (simp_all add: wp_ignore wp_create_job wp_process_job wp_promote_job wp_recover_job
      wp_approve_job wp_reject_job assms)

lemma job_step_onward:
  assumes "source_calm V" and "ids_differ V" and "job_step V s t" and "jobs_ok V s"
  shows "jobs_ok V t \<and> onward s t"
  using assms(3)
proof cases
  case (call c)
  have "fine V s s" using assms(4) by (simp add: fine_def)
  from wp_sndD [OF wp_run_job [OF assms(1,2) this]] show ?thesis
    unfolding call fine_def .
next
  case (outside f)
  have "fine V s s" using assms(4) by (simp add: fine_def)
  from calm_sys_fine(1)[OF _ this, of t] show ?thesis
    unfolding outside by (simp add: calm_sys_def fine_def)
qed

lemma job_steps_onward:
  assumes "source_calm V" and "ids_differ V" and "(job_step V)\<^sup>*\<^sup>* s t" and "jobs_ok V s"
  shows "jobs_ok V t \<and> onward s t"
  using assms(3)
proof (induction rule: rtranclp_induct)
  case base
  then show ?case by (simp add: assms(4))
next
  case (step t u)
  then show ?case
    using job_step_onward [OF assms(1,2) step.hyps(2)] onward_trans by blast
qed

lemma jobs_ok_start: "jobs_ok V (start_jobs r f)"
  by (simp add: jobs_ok_def start_jobs_def blank_def awaits_def get_job_def get_approval_def
      empty_store_def)

end
