(* ===== verification/Job_Reviews.thy ===== *)
theory Job_Reviews
  imports Job_Proofs
begin

text \<open>
  What the checks of the job service guarantee when they let a job pass: the source of a promotion
  is what was reviewed, a live write has an approved review, and a job that starts to run was
  allowed by its policy or by an approval.
\<close>

section \<open>Operations that keep an observation\<close>

definition steady :: "('s \<Rightarrow> 'x) \<Rightarrow> ('s, 'e, 'a) sm \<Rightarrow> bool" where
  "steady g m \<longleftrightarrow> (\<forall>s. g (snd (m s)) = g s)"

named_theorems steady_intros "operations that keep an observation of the state"

lemma steady_pure [steady_intros]:
  "steady g (retM a)" "steady g (raiseM e)" "steady g (getM f)" "steady g (guardM b e)"
  "steady g (optM x e)" "steady g (liftM r)"
  by (simp_all add: steady_def sm_defs split: option.split sum.split)

lemma steady_bind [steady_intros]:
  "steady g m \<Longrightarrow> (\<And>a. steady g (f a)) \<Longrightarrow> steady g (bindM m f)"
  unfolding steady_def bindM_def by (auto split: prod.split sum.split) (metis snd_conv)+

lemma steady_then [steady_intros]: "steady g m \<Longrightarrow> steady g n \<Longrightarrow> steady g (thenM m n)"
  unfolding thenM_def by (intro steady_bind)

lemma steady_ignore [steady_intros]: "steady g m \<Longrightarrow> steady g (ignore m)"
  unfolding ignore_def by (intro steady_intros)

lemma steady_cases [steady_intros]:
  "steady g m \<Longrightarrow> steady g n \<Longrightarrow> steady g (if b then m else n)"
  "steady g m \<Longrightarrow> (\<And>a. steady g (f a)) \<Longrightarrow> steady g (case x of None \<Rightarrow> m | Some a \<Rightarrow> f a)"
  by (simp_all split: option.split)

lemma bind_steady:
  assumes "steady g m" and "g s = x" and "\<And>a t. g t = x \<Longrightarrow> wp (f a) Q (\<lambda>_ _. True) t"
  shows "wp (bindM m f) Q (\<lambda>_ _. True) s"
proof -
  have "g (snd (m s)) = x" using assms(1,2) by (simp add: steady_def)
  then show ?thesis using assms(3) by (auto simp: wp_bind wp_def [of m] split: prod.split sum.split)
qed

lemma then_steady:
  "steady g m \<Longrightarrow> g s = x \<Longrightarrow> (\<And>t. g t = x \<Longrightarrow> wp n Q (\<lambda>_ _. True) t) \<Longrightarrow>
     wp (thenM m n) Q (\<lambda>_ _. True) s"
  unfolding thenM_def by (rule bind_steady)

text \<open>The manifests, the jobs and the approvals\<close>

definition view :: "jsys \<Rightarrow> reg \<times> (string, job_rec) dict \<times> (string, approval_rec) dict" where
  "view s = (js_reg s, st_jobs (sy_store (js_sys s)), st_approvals (sy_store (js_sys s)))"

definition approvals :: "jsys \<Rightarrow> (string, approval_rec) dict" where
  "approvals s = st_approvals (sy_store (js_sys s))"

lemma view_eqD:
  assumes "view t = view s"
  shows "js_reg t = js_reg s" and "job_at k t = job_at k s" and "approval_of k t = approval_of k s"
  using assms by (simp_all add: view_def get_job_def get_approval_def)

lemma approvals_eqD: "approvals t = approvals s \<Longrightarrow> approval_of k t = approval_of k s"
  by (simp add: approvals_def get_approval_def)

lemma steady_on_sys: "steady js_reg (on_sys m)"
  by (simp add: steady_def on_sys_def split: prod.split)

lemma calm_steady: "calm js_sys m \<Longrightarrow> steady js_reg m \<Longrightarrow> steady view m"
  by (simp add: steady_def calm_def calm_sys_def view_def)

lemma calm_approvals [steady_intros]: "calm js_sys m \<Longrightarrow> steady approvals m"
  by (simp add: steady_def calm_def calm_sys_def approvals_def)

lemma steady_reg_reads [steady_intros]:
  "steady js_reg (on_sys m)" "steady js_reg (read_job k)" "steady js_reg (read_approval k)"
  "steady js_reg (checksum V p)" "steady js_reg (now V)" "steady js_reg (job_id V p)"
  "steady js_reg (job_event V k ty msg d)"
  unfolding read_job_def read_approval_def checksum_def now_def job_id_def job_event_def
  by (intro steady_intros steady_on_sys)+

lemma steady_owning_entry [steady_intros]: "steady js_reg (owning_entry V m es)"
  by (induction es) (simp_all add: steady_intros)

lemma steady_provenance [steady_intros]: "steady js_reg (provider_provenance V p)"
  unfolding provider_provenance_def by (intro steady_intros)

lemma steady_snapshots [steady_intros]:
  "steady js_reg (reviewed_artifact V a r k)" "steady js_reg (validate_recovery V ap p)"
  unfolding reviewed_artifact_def validate_recovery_def Let_def by (intro steady_intros)+

lemma steady_promotion [steady_intros]:
  "steady js_reg (promotion_snapshot V job p)" "steady js_reg (validate_promotion V ap p i)"
proof -
  show c: "steady js_reg (promotion_snapshot V job p)" for job
    unfolding promotion_snapshot_def by (intro steady_intros)
  show "steady js_reg (validate_promotion V ap p i)"
    unfolding validate_promotion_def by (intro steady_intros c)
qed

section \<open>Reviews\<close>

text \<open>The dry run that an approval reviews, as it is on record\<close>

definition reviewed_job :: "approval_rec \<Rightarrow> jsys \<Rightarrow> job_rec \<Rightarrow> bool" where
  "reviewed_job a s dry \<longleftrightarrow>
     (\<exists>snap d. ap_promotion a = Some snap \<and> dget snap ''dry_run_job_id'' = Some d \<and>
        job_at (string_of d) s = Some dry \<and> jb_status dry = J_completed \<and>
        py_mode (jb_policy dry) = Mode_dry_run)"

text \<open>The file at a path is the one whose checksum the snapshot of the approval holds\<close>

definition reviewed_file :: "service \<Rightarrow> approval_rec \<Rightarrow> fsys \<Rightarrow> string \<Rightarrow> bool" where
  "reviewed_file V a f path \<longleftrightarrow> is_file f path \<and>
     (\<exists>snap. ap_promotion a = Some snap \<and>
        dget snap ''change_set_checksum'' = Some (JStr (e_sha (je_env (jv_env V)) (read_file f path))))"

lemma truthy_Some: "truthy x = Some d \<longleftrightarrow> x = Some d \<and> d \<noteq> []"
  by (auto simp: truthy_def split: option.splits list.splits)

lemma wp_reviewed_artifact:
  "wp (reviewed_artifact V arts records kind)
     (\<lambda>d _. \<exists>path resolved. is_file (sy_fs (js_sys s)) path \<and>
        d = [(kind @ ''_path'', JStr resolved), (kind @ ''_checksum'',
               JStr (e_sha (je_env (jv_env V)) (read_file (sy_fs (js_sys s)) path)))])
     (\<lambda>_ _. True) s"
  unfolding reviewed_artifact_def Let_def checksum_def
  by (auto simp: wp_eqs split: sum.split option.split)

lemma wp_promotion_snapshot:
  "wp (promotion_snapshot V job p)
     (\<lambda>d _. \<exists>path. is_file (sy_fs (js_sys s)) path \<and> dget d ''change_set_checksum'' =
        Some (JStr (e_sha (je_env (jv_env V)) (read_file (sy_fs (js_sys s)) path))))
     (\<lambda>_ _. True) s"
  unfolding promotion_snapshot_def wp_bind wp_lift wp_on_sys wp_from_store
  apply (simp split: sum.split, intro allI impI)
  apply (rule wp_conseq [OF wp_reviewed_artifact])
   apply (elim exE conjE, simp)
   apply (rule wp_True)+
   apply (auto simp: wp_eqs split: sum.split)
  done

lemma same_fieldsD:
  "same_fields current reviewed ks = Inr () \<Longrightarrow> k \<in> set ks \<Longrightarrow>
     \<exists>a b. dget current k = Some a \<and> dget reviewed k = Some b \<and> py_eq a b"
  by (induction ks) auto

lemma wp_validate_promotion:
  "wp (validate_promotion V a p inputs)
     (\<lambda>_ _. \<exists>dry path. reviewed_job a s dry \<and> dict_eq inputs (jb_inputs dry) \<and>
        reviewed_file V a (sy_fs (js_sys s)) path)
     (\<lambda>_ _. True) s"
proof -
  have same: "dget snap ''change_set_checksum'' = Some (JStr c)"
    if "same_fields cur snap snapshot_fields = Inr ()" "dget cur ''change_set_checksum'' = Some (JStr c)"
    for cur snap c
    using same_fieldsD [OF that(1), of "''change_set_checksum''"] that(2)
    by (auto simp: snapshot_fields_def)
  show ?thesis
    unfolding validate_promotion_def read_job_def wp_bind wp_then wp_opt wp_lift wp_on_sys
      wp_from_store wp_guard
    apply (simp add: truthy_Some split: sum.split option.split, intro allI impI conjI)
    apply (rule wp_conseq [OF wp_promotion_snapshot])
      apply (clarsimp simp: reviewed_job_def reviewed_file_def split: sum.split)
      apply (blast dest: same)
     apply simp
    apply (rule wp_True)
    apply simp
    done
qed

text \<open>The recovery that an approval reviews\<close>

definition reviewed_recovery :: "approval_rec \<Rightarrow> jsys \<Rightarrow> job_rec \<Rightarrow> bool" where
  "reviewed_recovery a s live \<longleftrightarrow>
     (\<exists>snap d. ap_recovery a = Some snap \<and> dget snap ''live_job_id'' = Some d \<and>
        job_at (string_of d) s = Some live \<and> jb_status live = J_completed \<and>
        py_mode (jb_policy live) = Mode_live)"

lemma wp_validate_recovery:
  "wp (validate_recovery V a p) (\<lambda>live _. reviewed_recovery a s live) (\<lambda>_ _. True) s"
  unfolding validate_recovery_def read_job_def wp_bind wp_then wp_opt wp_lift wp_on_sys
      wp_from_store wp_guard
  apply (simp add: truthy_Some split: sum.split option.split, intro allI impI conjI)
  apply (rule wp_True)
  apply (auto simp: Let_def wp_eqs checksum_def reviewed_recovery_def split: sum.split)
  done

section \<open>The gate of a live write\<close>

lemma wp_linked:
  "wp (linked_approval k)
     (\<lambda>r t. t = s \<and> (\<forall>a. r = Some a \<longrightarrow> given k \<and> approval_of (the k) s = Some a \<and>
        ap_status a = Ap_approved)) (\<lambda>_ _. True) s"
  by (auto simp: linked_approval_def read_approval_def wp_eqs split: option.split)

definition reviewed :: "approval_rec \<Rightarrow> jobj option \<Rightarrow> jobj \<Rightarrow> jsys \<Rightarrow> bool" where
  "reviewed a recovery inputs s \<longleftrightarrow>
     (if truthy recovery = None
      then \<exists>dry. reviewed_job a s dry \<and> dict_eq inputs (jb_inputs dry)
      else opt_dict_eq (ap_recovery a) recovery \<and> (\<exists>live. reviewed_recovery a s live))"

lemma wp_live_write_gate:
  "wp (live_write_gate V q recovery p inputs linked)
     (\<lambda>_ _. py_mode (jr_policy q) = Mode_live \<and> has_key p ''write'' \<longrightarrow>
        (\<exists>a. linked = Some a \<and> reviewed a recovery inputs s)) (\<lambda>_ _. True) s"
proof -
  have p: "wp (validate_promotion V a p inputs) (\<lambda>_ _. reviewed a recovery inputs s) (\<lambda>_ _. True) s"
    if "truthy recovery = None" for a
    by (rule wp_conseq [OF wp_validate_promotion]) (use that in \<open>auto simp: reviewed_def\<close>)
  have r: "wp (validate_recovery V a p) (\<lambda>_ _. reviewed a recovery inputs s) (\<lambda>_ _. True) s"
    if "opt_dict_eq (ap_recovery a) recovery" "truthy recovery \<noteq> None" for a
    by (rule wp_conseq [OF wp_validate_recovery]) (use that in \<open>auto simp: reviewed_def\<close>)
  show ?thesis
    unfolding live_write_gate_def
    by (cases linked) (auto simp: wp_eqs p r)
qed

lemma steady_gate [steady_intros]:
  "steady js_reg (linked_approval k)" "steady js_reg (live_write_gate V q recovery p i l)"
  unfolding linked_approval_def live_write_gate_def by (intro steady_intros)+

text \<open>Jobs and approvals alone\<close>

definition records :: "jsys \<Rightarrow> (string, job_rec) dict \<times> (string, approval_rec) dict" where
  "records s = (st_jobs (sy_store (js_sys s)), st_approvals (sy_store (js_sys s)))"

lemma calm_records: "calm js_sys m \<Longrightarrow> steady records m"
  by (simp add: steady_def calm_def calm_sys_def records_def)

lemma reviewed_records:
  assumes "records t = records s"
  shows "reviewed a recovery inputs t = reviewed a recovery inputs s"
    and "approval_of k t = approval_of k s"
proof -
  have j: "job_at l t = job_at l s" for l using assms by (simp add: records_def get_job_def)
  show "reviewed a recovery inputs t = reviewed a recovery inputs s"
    unfolding reviewed_def reviewed_job_def reviewed_recovery_def by (simp only: j)
  show "approval_of k t = approval_of k s"
    using assms by (simp add: records_def get_approval_def)
qed

text \<open>What a job that was created has passed\<close>

definition create_checked :: "job_request \<Rightarrow> jobj option \<Rightarrow> jobj \<Rightarrow> jsys \<Rightarrow> reg \<Rightarrow> bool" where
  "create_checked q recovery inputs s r \<longleftrightarrow>
     validate_sensitive_inputs ''inputs'' (JObj inputs) = Inr () \<and>
     (\<exists>p. find_provider r (jr_skill q) (jr_provider q) = Some p \<and>
        (py_mode (jr_policy q) = Mode_live \<and> has_key p ''write'' \<longrightarrow>
         (\<exists>k a. jr_approval_id q = Some k \<and> approval_of k s = Some a \<and> ap_status a = Ap_approved \<and>
            reviewed a recovery inputs s)))"

lemma wp_create_end:
  assumes "js_reg s = r" and "\<And>j. jb_inputs j = jb_inputs job \<Longrightarrow> Q j"
  shows "wp (thenM (case linked of None \<Rightarrow> retM ()
                | Some a \<Rightarrow> on_sys (on_store (h a)))
         (bindM (save V job) (\<lambda>job. thenM (job_event V k ty m ev) (retM job))))
     (\<lambda>j t. Q j \<and> js_reg t = r) (\<lambda>_ _. True) s"
  apply (rule then_steady [of js_reg], intro steady_intros, rule assms(1))
  apply (simp add: save_def job_event_def wp_eqs Let_def assms(2))
  done

lemma wp_provider_internal:
  assumes "source_calm V" and "records s = x"
  shows "wp (provider_internal V a b) (\<lambda>r t. r = find_provider (js_reg t) a b \<and> records t = x)
    (\<lambda>_ _. True) s"
proof -
  have "steady records (ignore (refresh V))"
    by (rule calm_records, intro calm_intros, rule assms(1))
  then show ?thesis
    unfolding provider_internal_def by (rule then_steady) (simp_all add: assms(2) wp_get)
qed

lemma create_checkedI:
  assumes r: "records t = records s" and v: "validate_sensitive_inputs ''inputs'' (JObj inputs) = Inr ()"
    and p: "find_provider r (jr_skill q) (jr_provider q) = Some p"
    and l: "\<forall>a. l = Some a \<longrightarrow> given (jr_approval_id q) \<and>
      approval_of (the (jr_approval_id q)) t = Some a \<and> ap_status a = Ap_approved"
    and g: "py_mode (jr_policy q) = Mode_live \<and> has_key p ''write'' \<longrightarrow>
      (\<exists>a. l = Some a \<and> reviewed a recovery inputs t)"
  shows "create_checked q recovery inputs s r"
proof -
  have "\<exists>k. jr_approval_id q = Some k" if "given (jr_approval_id q)"
    using that by (cases "jr_approval_id q") (simp_all add: given_def)
  with l g have "py_mode (jr_policy q) = Mode_live \<and> has_key p ''write'' \<longrightarrow>
      (\<exists>k a. jr_approval_id q = Some k \<and> approval_of k s = Some a \<and> ap_status a = Ap_approved \<and>
         reviewed a recovery inputs s)"
    unfolding reviewed_records [OF r] by (metis option.sel)
  with v p show ?thesis unfolding create_checked_def by blast
qed

lemma wp_create_rest:
  assumes "js_reg s = r" and "\<And>j t. jb_inputs j = inputs \<Longrightarrow> js_reg t = r \<Longrightarrow> Q j t"
    and "\<And>k dir t. jb_inputs (jb k dir t) = inputs"
  shows "wp (bindM (job_id V ''job'') (\<lambda>k.
        bindM (on_sys (resolve_path J (d k))) (\<lambda>dir.
        thenM (on_sys (make_job_dir dir))
        (bindM (now V) (\<lambda>t.
         thenM (case linked of None \<Rightarrow> retM ()
                | Some a \<Rightarrow> on_sys (on_store (h k a)))
         (bindM (save V (jb k dir t)) (\<lambda>job.
          thenM (job_event V k ty m ev) (retM job))))))))
     Q (\<lambda>_ _. True) s"
  apply (rule bind_steady [of js_reg], intro steady_intros, rule assms(1))
  apply (rule bind_steady [of js_reg], intro steady_intros, assumption)
  apply (rule then_steady [of js_reg], intro steady_intros, assumption)
  apply (rule bind_steady [of js_reg], intro steady_intros, assumption)
  apply (rule wp_conseq)
    apply (rule wp_create_end [where Q = "\<lambda>j. jb_inputs j = inputs"], assumption)
    apply (simp_all add: assms)
  done

lemma wp_and_steady:
  "wp m Q (\<lambda>_ _. True) s \<Longrightarrow> steady g m \<Longrightarrow> wp m (\<lambda>a t. Q a t \<and> g t = g s) (\<lambda>_ _. True) s"
  by (auto simp: wp_def steady_def split: prod.split sum.split) (metis snd_conv)

lemma wp_create_checked:
  assumes "source_calm V"
  shows "wp (create_job V q recovery) (\<lambda>j t. create_checked q recovery (jb_inputs j) s (js_reg t))
    (\<lambda>_ _. True) s"
  unfolding create_job_def
  apply (rule then_steady [OF calm_records [OF calm_refresh_registry [OF assms]] refl])
  apply (subst wp_bind)
  apply (rule wp_conseq [OF wp_provider_internal [OF assms]], assumption)
   apply (elim conjE)
   apply (simp only: wp_bind wp_then wp_opt wp_lift)
   apply (simp split: option.split sum.split, intro allI impI)
   apply (rule wp_conseq [OF wp_linked])
    apply (elim conjE, hypsubst)
    apply (subst wp_then)
    apply (rule wp_conseq [OF wp_and_steady [OF wp_live_write_gate steady_gate(2)]])
     apply (elim conjE)
     apply (rule wp_create_rest, assumption)
      apply (simp only:, rule create_checkedI; simp)
     apply simp_all
  done

section \<open>Admission\<close>

text \<open>The policy found nothing to ask, or the approval that the job names is approved\<close>

definition allowed :: "service \<Rightarrow> job_rec \<Rightarrow> jobj \<Rightarrow> jsys \<Rightarrow> bool" where
  "allowed V job p s \<longleftrightarrow>
     evaluate_policy (je_bracketed (jv_env V)) p (jb_inputs job) (jb_policy job) = Inr [] \<or>
     (\<exists>a. approval_of (case jb_approval_id job of Some k \<Rightarrow> k | None \<Rightarrow> []) s = Some a \<and>
        ap_status a = Ap_approved)"

lemma steady_transition_to [steady_intros]: "steady approvals (transition_to V job ex st)"
proof -
  have t: "steady approvals (on_sys (ask_store (transition_job k ex j)))" for k j
    by (simp add: steady_def approvals_def on_sys_def ask_store_def transition_job_def
        split: prod.split option.split)
  show ?thesis
    unfolding transition_to_def Let_def
    by (rule steady_bind [OF calm_approvals [OF calm_now]] steady_bind [OF t] steady_pure)+
qed

lemma wp_stop_go: "wp (stop m) (\<lambda>r _. \<forall>j. r = Go j \<longrightarrow> P j) (\<lambda>_ _. True) s"
  unfolding stop_def wp_bind by (rule wp_True) (simp add: wp_ret)

lemma wp_claim_go:
  "wp (claim_status V job ex st)
     (\<lambda>r t. \<forall>j. r = Go j \<longrightarrow> approvals t = approvals s \<and> (\<exists>u. j = job\<lparr>jb_status := st, jb_updated_at := u\<rparr>))
     (\<lambda>_ _. True) s"
proof -
  have "wp (transition_to V job ex st)
     (\<lambda>p t. (\<exists>u. fst p = job\<lparr>jb_status := st, jb_updated_at := u\<rparr>) \<and> approvals t = approvals s)
     (\<lambda>_ _. True) s"
    by (rule wp_and_steady [OF _ steady_transition_to])
      (auto simp: transition_to_def Let_def wp_eqs split: prod.split)
  then show ?thesis
    unfolding claim_status_def wp_bind
    by (rule wp_conseq) (auto simp: wp_eqs stop_def intro: wp_True split: prod.split)
qed

lemma wp_claim_allowed:
  assumes "allowed V job p s"
  shows "wp (claim_status V job ex J_running)
     (\<lambda>r _. \<forall>j. r = Go j \<longrightarrow> jb_status j = J_running \<and> allowed V job p s) (\<lambda>_ _. True) s"
  by (rule wp_conseq [OF wp_claim_go]) (auto simp: assms)

lemma wp_seek_go:
  "wp (seek_approval V job p rs)
     (\<lambda>r _. \<forall>j. r = Go j \<longrightarrow> jb_status j = J_running \<and> allowed V job p s) (\<lambda>_ _. True) s"
proof (cases "given (jb_approval_id job)")
  case True
  then obtain k where k: "jb_approval_id job = Some k" by (auto simp: given_def)
  show ?thesis
  proof (cases "map_option ap_status (approval_of k s) = Some Ap_approved")
    case ok: True
    then have "allowed V job p s" using k by (auto simp: allowed_def)
    from wp_claim_allowed [OF this] ok show ?thesis
      using True k by (auto simp: seek_approval_def read_approval_def wp_eqs)
  next
    case False
    have stopped: "wp (case map_option ap_status x of
             Some Ap_approved \<Rightarrow> claim_status V job [J_checking_dependencies] J_running
           | Some Ap_rejected \<Rightarrow> stop m | _ \<Rightarrow> stop n)
        (\<lambda>r _. \<forall>j. r = Go j \<longrightarrow> Q j) (\<lambda>_ _. True) s"
      if "map_option ap_status x \<noteq> Some Ap_approved" for x m n Q
      using that by (auto split: option.split approval_status.split intro: wp_stop_go)
    show ?thesis
      using True k stopped [OF False] by (simp add: seek_approval_def read_approval_def wp_eqs)
  qed
next
  case False
  show ?thesis
    unfolding seek_approval_def Let_def if_not_P [OF False] wp_bind
    by (rule wp_True)
      (simp add: store_approval_def save_def job_event_def Let_def wp_eqs)
qed

lemma wp_check_policy_go:
  "wp (check_policy V job p)
     (\<lambda>r _. \<forall>j. r = Go j \<longrightarrow> jb_status j = J_running \<and> allowed V job p s) (\<lambda>_ _. True) s"
proof (cases "evaluate_policy (je_bracketed (jv_env V)) p (jb_inputs job) (jb_policy job)")
  case (Inl e)
  then show ?thesis by (simp add: check_policy_def wp_if wp_raise wp_stop_go)
next
  case (Inr reasons)
  show ?thesis
  proof (cases "reasons = []")
    case True
    with Inr have "allowed V job p s" by (simp add: allowed_def)
    from wp_claim_allowed [OF this] this show ?thesis
      using Inr True by (simp add: check_policy_def wp_bind wp_ret wp_if)
  next
    case False
    show ?thesis
      using Inr False unfolding check_policy_def
      by (simp add: wp_bind)
        (rule wp_conseq [OF wp_seek_go], auto simp: wp_eqs split: stage.split)
  qed
qed

lemma allowed_eq:
  assumes "approvals t = approvals s" and "jb_inputs j = jb_inputs job"
    and "jb_policy j = jb_policy job" and "jb_approval_id j = jb_approval_id job"
  shows "allowed V j p t = allowed V job p s"
  using approvals_eqD [OF assms(1)] assms(2-4) by (simp add: allowed_def)

lemma wp_check_queued_go:
  "wp (check_queued V job p)
     (\<lambda>r _. \<forall>j. r = Go j \<longrightarrow> jb_status j = J_running \<and> allowed V job p s) (\<lambda>_ _. True) s"
proof -
  have policy: "wp (check_policy V (job\<lparr>jb_status := st, jb_updated_at := u\<rparr>) p)
      (\<lambda>r _. \<forall>j. r = Go j \<longrightarrow> jb_status j = J_running \<and> allowed V job p s) (\<lambda>_ _. True) t"
    if "approvals t = approvals s" for t st u
    by (rule wp_conseq [OF wp_check_policy_go])
      (use that allowed_eq [of t s "job\<lparr>jb_status := st, jb_updated_at := u\<rparr>" job V p] in simp_all)
  have event: "wp (job_event V k ty m d) (\<lambda>_ t. approvals t = approvals u) (\<lambda>_ _. True) u"
    for k ty m d u
    by (rule wp_conseq [OF wp_and_steady [where Q = "\<lambda>_ _. True", OF wp_True calm_approvals [OF calm_job_event]]]) simp_all
  show ?thesis
    unfolding check_queued_def
    apply (subst wp_bind)
    apply (rule wp_conseq [OF wp_claim_go])
     apply (split stage.split, intro conjI allI impI)
      apply (simp add: wp_ret)
     apply (elim allE impE, assumption, elim conjE exE, hypsubst)
     apply (subst wp_then)
     apply (rule wp_conseq [OF event])
      apply (simp only: wp_bind wp_lift wp_get wp_on_sys wp_from_fs)
      apply (auto simp: wp_stop_go wp_then wp_if split: sum.split intro: wp_conseq [OF event] policy)
    apply (simp only: wp_bind wp_lift wp_on_sys wp_from_fs wp_then wp_if)
    apply (auto simp: wp_stop_go split: sum.split intro!: wp_conseq [OF event] intro: policy)
    done
qed

lemma wp_admit_go:
  "wp (admit V job p)
     (\<lambda>r _. \<forall>j. r = Go j \<longrightarrow> jb_status j = J_running \<and> allowed V job p s) (\<lambda>_ _. True) s"
proof (cases "jb_status job = J_waiting_for_approval")
  case True
  have "wp (claim_status V job ex J_running)
     (\<lambda>r _. \<forall>j. r = Go j \<longrightarrow> jb_status j = J_running \<and> allowed V job p s) (\<lambda>_ _. True) s"
    if "approval_of (case jb_approval_id job of Some k \<Rightarrow> k | None \<Rightarrow> []) s = Some a"
      "ap_status a = Ap_approved" for a ex
    by (rule wp_claim_allowed) (use that in \<open>auto simp: allowed_def\<close>)
  with True show ?thesis
    by (auto simp: admit_def read_approval_def wp_eqs)
next
  case False
  then show ?thesis by (simp add: admit_def wp_check_queued_go)
qed

end
