(* ===== verification/Job_Promotions.thy ===== *)
theory Job_Promotions
  imports Job_Reviews
begin

text \<open>
  What the check of a promotion compares: the snapshot that was approved with one that is taken
  again, field by field.
\<close>

section \<open>The parts of a snapshot\<close>

text \<open>A value of the approved snapshot is the value of the new one\<close>

definition held :: "jobj \<Rightarrow> string \<Rightarrow> json \<Rightarrow> bool" where
  "held snap k v \<longleftrightarrow> (\<exists>w. dget snap k = Some w \<and> py_eq v w)"

lemma held_JStr [simp]: "held snap k (JStr x) \<longleftrightarrow> dget snap k = Some (JStr x)"
  by (auto simp: held_def)

text \<open>The file that the dry run recorded for a kind of artifact is still there, and its resolved
  path and its checksum are those of the snapshot\<close>

definition unchanged_output ::
  "service \<Rightarrow> jsys \<Rightarrow> job_rec \<Rightarrow> jobj \<Rightarrow> jobj \<Rightarrow> string \<Rightarrow> bool" where
  "unchanged_output V s dry p snap kind \<longleftrightarrow>
     (\<exists>arts known name record path.
        contract_part p ''artifacts'' = Inr arts \<and>
        artifact_records (get_artifacts (jb_job_id dry) (sy_store (js_sys s))) = Inr known \<and>
        dget arts kind = Some name \<and> dget known name = Some record \<and>
        dget record ''path'' = Some path \<and>
        is_file (sy_fs (js_sys s)) (string_of path) \<and>
        dget snap (kind @ ''_path'') =
          Some (JStr (e_resolve (je_env (jv_env V)) (sy_fs (js_sys s)) (string_of path))) \<and>
        dget snap (kind @ ''_checksum'') =
          Some (JStr (e_sha (je_env (jv_env V)) (read_file (sy_fs (js_sys s)) (string_of path)))))"

lemma wp_artifact_kept:
  assumes "contract_part p ''artifacts'' = Inr arts"
    and "artifact_records (get_artifacts (jb_job_id dry) (sy_store (js_sys s))) = Inr known"
    and "kind @ ''_path'' \<noteq> kind @ ''_checksum''"
  shows "wp (reviewed_artifact V arts known kind)
     (\<lambda>d t. t = s \<and> map fst d = [kind @ ''_path'', kind @ ''_checksum''] \<and>
        unchanged_output V s dry p d kind) (\<lambda>_ _. True) s"
  unfolding reviewed_artifact_def Let_def checksum_def resolve_path_def
  using assms
  by (auto simp: wp_eqs unchanged_output_def split: sum.split option.split dest!: hashed_Inr)

definition snapshot_of :: "service \<Rightarrow> jsys \<Rightarrow> job_rec \<Rightarrow> jobj \<Rightarrow> jobj \<Rightarrow> bool" where
  "snapshot_of V s dry p snap \<longleftrightarrow>
     held snap ''skill'' (JStr (jb_skill dry)) \<and> held snap ''provider'' (JStr (jb_provider dry)) \<and>
     (\<exists>prov. fst (provider_provenance V p s) = Inr prov \<and>
        held snap ''provider_provenance'' (JObj prov)) \<and>
     unchanged_output V s dry p snap ''change_set'' \<and>
     unchanged_output V s dry p snap ''validation'' \<and>
     (\<exists>target. identity_input p (jb_inputs dry) = Inr target \<and> held snap ''target_identity'' target) \<and>
     (\<exists>refs. credential_references p (jb_inputs dry) = Inr refs \<and>
        held snap ''credential_refs'' (JObj refs)) \<and>
     held snap ''inputs_checksum'' (JStr (e_sha (je_env (jv_env V))
       (json_text (e_float (je_env (jv_env V))) compact True (JObj (jb_inputs dry)))))"

lemma same_held:
  "same_fields cur snap ks = Inr () \<Longrightarrow> dget cur k = Some v \<Longrightarrow> k \<in> set ks \<Longrightarrow> held snap k v"
  unfolding held_def by (drule (1) same_fieldsD) auto

lemma unchanged_same:
  assumes "same_fields cur snap snapshot_fields = Inr ()" "unchanged_output V s dry p cur kind"
    and "kind @ ''_path'' \<in> set snapshot_fields" "kind @ ''_checksum'' \<in> set snapshot_fields"
  shows "unchanged_output V s dry p snap kind"
proof -
  have "dget snap k = Some (JStr x)"
    if "dget cur k = Some (JStr x)" "k \<in> set snapshot_fields" for k x
    using same_held [OF assms(1) that] by simp
  note kept = this [OF _ assms(3)] this [OF _ assms(4)]
  show ?thesis
    using assms(2) unfolding unchanged_output_def by (elim exE conjE) (drule kept, drule kept, blast)
qed

lemma unchanged_part:
  assumes "unchanged_output V s dry p d kind"
    and "dget e (kind @ ''_path'') = dget d (kind @ ''_path'')"
    and "dget e (kind @ ''_checksum'') = dget d (kind @ ''_checksum'')"
  shows "unchanged_output V s dry p e kind"
  using assms unfolding unchanged_output_def by simp

lemma wp_snapshot_of:
  "wp (promotion_snapshot V dry p)
     (\<lambda>cur t. \<forall>snap. same_fields cur snap snapshot_fields = Inr () \<longrightarrow> snapshot_of V s dry p snap)
     (\<lambda>_ _. True) s"
proof -
  have all: "snapshot_of V s dry p snap"
    if same: "same_fields [(''dry_run_job_id'', i), (''skill'', JStr (jb_skill dry)),
            (''provider'', JStr (jb_provider dry)), (''provider_provenance'', JObj prov),
            (''change_set_path'', c1), (''change_set_checksum'', c2),
            (''validation_path'', v1), (''validation_checksum'', v2),
            (''target_identity'', target), (''credential_refs'', JObj refs),
            (''inputs_checksum'', JStr (e_sha (je_env (jv_env V))
               (json_text (e_float (je_env (jv_env V))) compact True (JObj (jb_inputs dry)))))]
           snap snapshot_fields = Inr ()"
      and prov: "provider_provenance V p s = (Inr prov, u)"
      and parts: "identity_input p (jb_inputs dry) = Inr target"
      "credential_references p (jb_inputs dry) = Inr refs"
      and outputs: "unchanged_output V s dry p
        [(''change_set_path'', c1), (''change_set_checksum'', c2)] ''change_set''"
      "unchanged_output V s dry p
        [(''validation_path'', v1), (''validation_checksum'', v2)] ''validation''"
    for i prov c1 c2 v1 v2 target refs snap u
    unfolding snapshot_of_def
    by (intro conjI exI [of _ prov] exI [of _ target] exI [of _ refs] parts same_held [OF same]
        unchanged_same [OF same unchanged_part [OF outputs(1)]]
        unchanged_same [OF same unchanged_part [OF outputs(2)]])
      (simp_all add: prov snapshot_fields_def del: json_text.simps)
  show ?thesis
    unfolding promotion_snapshot_def wp_bind wp_lift wp_on_sys wp_from_store
    apply (simp split: sum.split del: json_text.simps, intro allI impI)
    apply (rule wp_conseq [OF wp_artifact_kept], assumption, assumption, simp)
     apply (elim conjE, hypsubst)
     apply (rule wp_conseq [OF wp_artifact_kept], assumption, assumption, simp)
      apply (elim conjE, hypsubst)
      apply (auto simp: wp_def wp_eqs simp del: json_text.simps split: prod.split sum.split intro: all)
    done
qed

lemma wp_promotion_unchanged:
  "wp (validate_promotion V a p inputs)
     (\<lambda>_ _. \<exists>snap d dry. ap_promotion a = Some snap \<and> dget snap ''dry_run_job_id'' = Some d \<and>
        job_at (string_of d) s = Some dry \<and> jb_status dry = J_completed \<and>
        py_mode (jb_policy dry) = Mode_dry_run \<and> dict_eq inputs (jb_inputs dry) \<and>
        snapshot_of V s dry p snap)
     (\<lambda>_ _. True) s"
  unfolding validate_promotion_def read_job_def wp_bind wp_then wp_opt wp_lift wp_on_sys
      wp_from_store wp_guard
  apply (simp add: truthy_Some split: sum.split option.split, intro allI impI conjI)
  apply (rule wp_conseq [OF wp_snapshot_of])
    apply (simp split: sum.split)
   apply simp
  apply (rule wp_True)
  apply simp
  done

section \<open>What a write contract contains\<close>

definition write_contract :: "jobj \<Rightarrow> bool" where
  "write_contract p \<longleftrightarrow>
     (\<exists>w runner modes target scope identity refs artifacts idem key recovery mode inputs permissions.
        dget p ''write'' = Some (JObj w) \<and> dget p ''runner'' = Some (JObj runner) \<and>
        dget w ''modes'' = Some (JList modes) \<and> {JStr ''dry_run'', JStr ''live''} \<subseteq> set modes \<and>
        dget w ''target'' = Some (JObj target) \<and> dget target ''scope'' = Some (JStr scope) \<and>
        dget target ''identity_input'' = Some (JStr identity) \<and>
        inputs = get_or p ''inputs'' (JObj []) \<and> member identity inputs = Inr True \<and>
        get_or w ''credential_refs'' (JList []) = JList refs \<and>
        (\<forall>v\<in>set refs. \<exists>n. v = JStr n \<and> endswith n ''_ref'' \<and> member n inputs = Inr True) \<and>
        dget w ''artifacts'' = Some (JObj artifacts) \<and>
        (\<forall>n\<in>set REQUIRED_ARTIFACTS. dget artifacts n \<noteq> None) \<and>
        (\<forall>v\<in>snd ` set artifacts. declared_output (get_or p ''outputs'' (JObj [])) v = Inr True) \<and>
        dget w ''idempotency'' = Some (JObj idem) \<and> dget idem ''required'' = Some (JBool True) \<and>
        dget idem ''input'' = Some (JStr key) \<and> member key inputs = Inr True \<and>
        dget w ''recovery'' = Some (JObj recovery) \<and> dget recovery ''mode'' = Some (JStr mode) \<and>
        mode \<in> set RECOVERY_MODES \<and>
        permissions = get_or p ''permissions'' (JObj []) \<and>
        member ''production_access'' permissions = Inr True \<and>
        member ''destructive'' permissions = Inr True)"

lemma case_JObj_Inr:
  "(case v of JObj d \<Rightarrow> f d | _ \<Rightarrow> Inl e) = Inr x \<longleftrightarrow> (\<exists>d. v = JObj d \<and> f d = Inr x)"
  "(case v of JObj d \<Rightarrow> f' d | _ \<Rightarrow> Inr False) = Inr True \<longleftrightarrow> (\<exists>d. v = JObj d \<and> f' d = Inr True)"
  by (cases v; simp)+

lemma case_JList_Inr:
  "(case v of JList d \<Rightarrow> g d | _ \<Rightarrow> checkE False c m) = Inr () \<longleftrightarrow> (\<exists>d. v = JList d \<and> g d = Inr ())"
  "(case v of JList d \<Rightarrow> g' d | _ \<Rightarrow> Inr True) = Inr False \<longleftrightarrow> (\<exists>d. v = JList d \<and> g' d = Inr False)"
  by (cases v; simp add: checkE_def)+

lemma names_input_Inr:
  "names_input v inputs = Inr True \<longleftrightarrow> (\<exists>s. v = JStr s \<and> member s inputs = Inr True)"
  by (cases v) (simp_all add: names_input_def)

lemma get_null_is: "get_null d k = v \<Longrightarrow> v \<noteq> JNull \<Longrightarrow> dget d k = Some v"
  by (auto simp: get_null_def get_or_def split: option.splits)

lemma get_null_iff:
  "get_null d k = JObj o' \<longleftrightarrow> dget d k = Some (JObj o')"
  "get_null d k = JList l \<longleftrightarrow> dget d k = Some (JList l)"
  "get_null d k = JStr x \<longleftrightarrow> dget d k = Some (JStr x)"
  "get_null d k = JBool b \<longleftrightarrow> dget d k = Some (JBool b)"
  by (auto simp: get_null_def get_or_def split: option.splits)

lemma mapE_hashed: "mapE hashed vs = Inr ws \<Longrightarrow> ws = vs"
  by (induction vs arbitrary: ws) (auto dest: hashed_Inr)

lemma anyE_False: "anyE f vs = Inr False \<Longrightarrow> v \<in> set vs \<Longrightarrow> f v = Inr False"
  by (induction vs) (auto split: if_splits)

lemma declared_all:
  assumes "mapE (\<lambda>v. bindE (g v) (\<lambda>b. Inr (if b then [] else [v]))) vs = Inr wss" "concat wss = []" "v \<in> set vs"
  shows "g v = Inr True"
  using assms by (induction vs arbitrary: wss) (auto split: if_splits)

lemma validated_contract:
  assumes "validate_write_contract fl p = Inr ()" and "dget p ''write'' = Some w" and "w \<noteq> JNull"
  shows "write_contract p"
proof -
  have "\<exists>contract. w = JObj contract"
    using assms unfolding validate_write_contract_def Let_def get_null_def get_or_def
    by (cases w) auto
  then obtain contract where w: "w = JObj contract" ..
  have c: "get_null p ''write'' = JObj contract" using assms(2) w by (simp add: get_null_def get_or_def)
  have refs: "\<exists>n. v = JStr n \<and> endswith n ''_ref'' \<and> member n i = Inr True"
    if "(case v of JStr s \<Rightarrow> if endswith s ''_ref'' then bindE (member s i) (\<lambda>b. Inr (\<not> b)) else Inr True
         | _ \<Rightarrow> Inr True) = Inr False" for v i
    using that by (cases v) (auto split: if_splits)
  show ?thesis
    using assms(1) unfolding validate_write_contract_def Let_def c json.case
    apply (simp add: case_JObj_Inr case_JList_Inr names_input_Inr)
    apply (elim exE conjE)
    subgoal premises prems for ms target modes ok bad artifacts wss idem ok' rec b b'
    proof -
      have runner: "\<exists>r. dget p ''runner'' = Some (JObj r)"
        using prems(1) get_null_is [of p "''runner''", OF refl]
        by (cases "get_null p ''runner''") (simp_all add: is_dict_def)
      have ms: "modes = ms" by (rule mapE_hashed [OF prems(4)])
      have scope: "\<exists>x. dget target ''scope'' = Some (JStr x)"
        using prems(5) get_null_is [of target "''scope''", OF refl]
        by (cases "get_null target ''scope''") (simp_all add: is_str_def)
      from prems(8,9) obtain identity where identity: "get_null target ''identity_input'' = JStr identity"
          "member identity (get_or p ''inputs'' (JObj [])) = Inr True"
        by (auto simp: names_input_Inr)
      from prems(10,11) obtain rs where rs: "get_or contract ''credential_refs'' (JList []) = JList rs"
          "\<And>v. v \<in> set rs \<Longrightarrow>
             \<exists>n. v = JStr n \<and> endswith n ''_ref'' \<and> member n (get_or p ''inputs'' (JObj [])) = Inr True"
        by (auto simp: case_JList_Inr intro!: refs dest: anyE_False)
      have required: "\<forall>n\<in>set REQUIRED_ARTIFACTS. dget artifacts n \<noteq> None"
        using prems(13) by (auto simp: filter_empty_conv has_key_def)
      have "concat wss = []" using prems(15) by (auto split: if_splits)
      then have declared: "\<forall>v\<in>snd ` set artifacts. declared_output (get_or p ''outputs'' (JObj [])) v = Inr True"
        using declared_all [OF prems(14)] by auto
      from prems(18,19) obtain key where key: "get_null idem ''input'' = JStr key"
          "member key (get_or p ''inputs'' (JObj [])) = Inr True"
        by (auto simp: names_input_Inr)
      from prems(20,21) obtain recovery mode where recovery: "get_null contract ''recovery'' = JObj recovery"
          "get_null recovery ''mode'' = JStr mode" "mode \<in> set RECOVERY_MODES"
        by (auto simp: case_JObj_Inr dest: hashed_Inr [THEN sym])
      have w': "dget p ''write'' = Some (JObj contract)" using assms(2) w by simp
      from runner scope obtain r sc where r: "dget p ''runner'' = Some (JObj r)"
        and sc: "dget target ''scope'' = Some (JStr sc)" by blast
      note facts = w' r sc required declared rs(1) recovery(3) identity(2) key(2)
        prems(2,3,12,16,17) [unfolded get_null_iff] identity(1) [unfolded get_null_iff]
        key(1) [unfolded get_null_iff] recovery(1,2) [unfolded get_null_iff]
      have more: "{JStr ''dry_run'', JStr ''live''} \<subseteq> set ms"
        "member ''production_access'' (get_or p ''permissions'' (JObj [])) = Inr True"
        "member ''destructive'' (get_or p ''permissions'' (JObj [])) = Inr True"
        "\<forall>v\<in>set rs. \<exists>n. v = JStr n \<and> endswith n ''_ref'' \<and>
           member n (get_or p ''inputs'' (JObj [])) = Inr True"
        using prems(6,7,22-25) ms rs(2) by auto
      show ?thesis
        unfolding write_contract_def
        by (rule exI [of _ contract], rule exI [of _ r], rule exI [of _ ms], rule exI [of _ target],
            rule exI [of _ sc], rule exI [of _ identity], rule exI [of _ rs], rule exI [of _ artifacts],
            rule exI [of _ idem], rule exI [of _ key], rule exI [of _ recovery], rule exI [of _ mode],
            rule exI, rule exI, intro conjI; (rule facts more refl)?)
    qed
    done
qed

end
