(* ===== verification/Vault_Proofs.thy ===== *)
theory Vault_Proofs
  imports Vault
begin

text \<open>
  What is stored in the vault can be read again.
\<close>

section \<open>Storing and reading\<close>

lemma last_path_join:
  assumes "slash \<notin> set b" and "b \<noteq> []" and "b \<noteq> ''.''"
  shows "last (path_join a b) = last b"
proof -
  have "\<not> is_absolute b"
    using assms(1,2) by (cases b) (auto simp: is_absolute_def startswith_iff)
  moreover have "segments (a @ [slash] @ b) = segments a @ [b]"
    using assms by (simp add: segments_def split_on_parts split_on_no_sep)
  moreover have "last (join [slash] (segments a @ [b])) = last b \<and> join [slash] (segments a @ [b]) \<noteq> []"
    using assms(2) by (cases "segments a = []") (simp_all add: join_append)
  ultimately show ?thesis
    by (simp add: path_join_def as_posix_def)
qed

text \<open>The text of a stored record\<close>

definition record_text :: "job_env \<Rightarrow> jobj \<Rightarrow> string" where
  "record_text J d = json_text (e_float (je_env J)) spaced True (JObj d)"

text \<open>What the vault holds after a credential was stored\<close>

definition holds ::
  "job_env \<Rightarrow> string \<Rightarrow> string \<Rightarrow> string \<Rightarrow> string \<Rightarrow> sys \<Rightarrow> int \<Rightarrow> string \<Rightarrow> string \<Rightarrow> bool" where
  "holds J vault scope name v t g n c \<longleftrightarrow>
     (\<exists>k. dget (fs_files (sy_fs t)) (key_path vault) = Some k \<and> length k = 32 \<and>
        c = je_encrypt J k n v (scope @ ''/'' @ name)) \<and>
     vault_path vault scope name = Inr (record_path vault scope name) \<and>
     dget (fs_files (sy_fs t)) (record_path vault scope name) =
       Some (record_text J (vault_record g scope name n c))"

lemma endpoints_differ:
  assumes "vault_path vault scope name = Inr p"
  shows "p = record_path vault scope name" and "p \<noteq> key_path vault"
    and "p \<noteq> temporary_path vault scope name" and "key_path vault \<noteq> temporary_path vault scope name"
proof -
  have v: "vault_identifier scope" "vault_identifier name" and p: "p = record_path vault scope name"
    using assms by (auto simp: vault_path_def validate_identifier_def)
  have no: "slash \<notin> set s" if "vault_identifier s" for s
    using that by (auto simp: vault_identifier_def lower_letter_def is_digit_def slash_def list_all_iff
        split: list.splits)
  have ext: "last (path_join x (scope @ ''--'' @ name @ e)) = last e"
    if "slash \<notin> set e" "e \<noteq> []" for e x
    using last_path_join [of "scope @ ''--'' @ name @ e" x] no [OF v(1)] no [OF v(2)] that
    by (cases scope) (auto simp: slash_def)
  have r: "last p = CHR ''n''" and t: "last (temporary_path vault scope name) = CHR ''p''"
    unfolding p record_path_def temporary_path_def
    using ext [of "''.json''" "records_dir vault"] ext [of "''.tmp''" "records_dir vault"]
    by (simp_all add: slash_def)
  have k: "last (key_path vault) = CHR ''y''"
    using last_path_join [of "''master.key''" vault] by (simp add: key_path_def slash_def)
  show "p = record_path vault scope name" by (rule p)
  show "p \<noteq> key_path vault" using r k by auto
  show "p \<noteq> temporary_path vault scope name" using r t by auto
  show "key_path vault \<noteq> temporary_path vault scope name" using k t by auto
qed

lemma wp_vault_key:
  "wp (vault_key J vault)
     (\<lambda>k t. length k = 32 \<and> dget (fs_files (sy_fs t)) (key_path vault) = Some k \<and>
        (\<forall>p. p \<noteq> key_path vault \<longrightarrow> dget (fs_files (sy_fs t)) p = dget (fs_files (sy_fs s)) p))
     (\<lambda>_ _. True) s"
  by (auto simp: vault_key_def vault_initialize_def wp_eqs is_file_def read_file_def make_dirs_def
      write_file_def path_exists_def)

text \<open>The generation of the record that \<open>vault_set\<close> writes over a record in a file\<close>

definition generation_after :: "job_env \<Rightarrow> string \<Rightarrow> string \<Rightarrow> string \<Rightarrow> fsys \<Rightarrow> int \<Rightarrow> bool" where
  "generation_after J vault scope name f g \<longleftrightarrow>
     (case dget (fs_files f) (record_path vault scope name) of
        None \<Rightarrow> g = 1
      | Some text \<Rightarrow> next_generation J text = Inr g)"

lemma wp_vault_set:
  "wp (vault_set J vault scope name v)
     (\<lambda>ref t. ref = credential_ref scope name \<and> v \<noteq> [] \<and>
        (\<exists>g. generation_after J vault scope name (sy_fs s) g \<and>
           holds J vault scope name v t g (je_token_bytes J (sy_tick t - 1) 12)
           (je_encrypt J (read_file (sy_fs t) (key_path vault)) (je_token_bytes J (sy_tick t - 1) 12)
              v (scope @ ''/'' @ name))))
     (\<lambda>_ _. True) s"
proof -
  have after: "wp (thenM (on_fs (\<lambda>f. f\<lparr>fs_files := dset p (record_text J (vault_record g scope name n c))
         (ddel (temporary_path vault scope name) (fs_files f))\<rparr>)) (retM ref))
      (\<lambda>ref' t. ref' = ref \<and> sy_tick t = sy_tick u \<and> read_file (sy_fs t) (key_path vault) = k \<and>
         holds J vault scope name v t g n (je_encrypt J k n v (scope @ ''/'' @ name))) (\<lambda>_ _. True) u"
    if "vault_path vault scope name = Inr p" "length k = 32"
      "dget (fs_files (sy_fs u)) (key_path vault) = Some k"
      "c = je_encrypt J k n v (scope @ ''/'' @ name)" for p k g n c u ref
    using that endpoints_differ [OF that(1)]
    by (auto simp: wp_eqs holds_def read_file_def)
  note after = after [unfolded record_text_def]
  have gen: "wp (if is_file (sy_fs u) p
        then tryM (bindM (read_text p) (\<lambda>text. liftM (next_generation J text)))
          (\<lambda>e. if exc_cls e \<in> C then raise c m else raiseM e) else retM 1)
      (\<lambda>g t. t = u \<and> (case dget (fs_files (sy_fs u)) p of None \<Rightarrow> g = 1
         | Some text \<Rightarrow> next_generation J text = Inr g)) (\<lambda>_ _. True) u" for p C c m u
    by (simp add: wp_eqs is_file_def read_file_def split: sum.split option.split)
  have same: "generation_after J vault scope name (sy_fs s) g"
    if "vault_path vault scope name = Inr p"
      "\<forall>p. p \<noteq> key_path vault \<longrightarrow> dget (fs_files (sy_fs u)) p = dget (fs_files (sy_fs s)) p"
      "case dget (fs_files (sy_fs u)) p of None \<Rightarrow> g = 1 | Some text \<Rightarrow> next_generation J text = Inr g"
    for p u g
    using that endpoints_differ(1,2) [OF that(1)] by (simp add: generation_after_def)
  show ?thesis
    unfolding vault_set_def Let_def
    apply (simp only: wp_bind wp_then wp_require wp_lift)
    apply (simp only: wp_bind [symmetric] wp_then [symmetric] split: if_split sum.split)
    apply (intro allI impI conjI TrueI)
    apply (subst wp_bind)
    apply (rule wp_conseq [OF wp_vault_key])
     apply (simp only: wp_bind wp_token_bytes wp_from_fs)
     apply (rule wp_conseq [OF gen])
      apply (elim conjE, hypsubst)
      apply (rule wp_conseq [OF after], assumption, assumption)
         apply (simp_all add: same del: json_text.simps)
     apply (blast intro: same)+
    done
qed

text \<open>Reading back: the parser may give the entries of the record in any order\<close>

lemma vault_get_held:
  assumes "holds J vault scope name v t g n c"
    and "\<And>k n x a. je_decrypt J k n (je_encrypt J k n x a) a = Some x"
    and "e_loads (je_env J) (record_text J (vault_record g scope name n c)) = Some (JObj e)"
    and "\<forall>k. dget e k = dget (vault_record g scope name n c) k"
  shows "fst (vault_get J vault scope name t) = Inr v"
proof -
  obtain k where k: "dget (fs_files (sy_fs t)) (key_path vault) = Some k" "length k = 32"
      "c = je_encrypt J k n v (scope @ ''/'' @ name)"
    and p: "vault_path vault scope name = Inr (record_path vault scope name)"
    and r: "dget (fs_files (sy_fs t)) (record_path vault scope name) =
      Some (record_text J (vault_record g scope name n c))"
    using assms(1) by (auto simp: holds_def)
  have "dget e ''nonce'' = Some (JStr (b64encode n))"
    "dget e ''ciphertext'' = Some (JStr (b64encode c))"
    using assms(4) by (simp_all add: vault_record_def)
  then have d: "decoded (JObj e) ''nonce'' = Inr n" "decoded (JObj e) ''ciphertext'' = Inr c"
    by (simp_all add: decoded_def index_def item_def b64_roundtrip)
  have key: "wp (vault_key J vault) (\<lambda>x _. x = k) (\<lambda>_ _. False) t"
    using k(1,2) by (simp add: vault_key_def vault_initialize_def wp_eqs is_file_def read_file_def
        make_dirs_def path_exists_def)
  have "wp (vault_get J vault scope name) (\<lambda>x _. x = v) (\<lambda>_ _. False) t"
    unfolding vault_get_def known_credential_def
    apply (simp add: wp_eqs p r is_file_def read_file_def assms(3) d)
    apply (rule wp_conseq [OF key])
     apply (simp_all add: k(3) assms(2) [simplified] wp_eqs)
    done
  then show ?thesis
    by (auto simp: wp_def split: prod.splits sum.splits)
qed

end
