(* ===== verification/Job_Example.thy ===== *)
theory Job_Example
  imports Job_Reviews Vault_Proofs
begin

text \<open>
  A small world in which the job service runs, for the witnesses: one write provider, a reviewed
  dry run with its artifacts, an approved promotion and a vault. Checksums and encryption are the
  identity.
\<close>

definition je_demo_env :: env where
  "je_demo_env = \<lparr>e_uuid = (\<lambda>n. show_nat n), e_now = (\<lambda>n. ''2026-07-01T00:00:00Z''),
     e_git = (\<lambda>n c f. (\<lparr>px_code = 0, px_stdout = [], px_stderr = []\<rparr>, f)),
     e_exec = (\<lambda>n argv cwd i f. (Not_started [], f)), e_which = (\<lambda>f n. None),
     e_state_root = ''/h'', e_sha = (\<lambda>s. s), e_resolve = (\<lambda>f p. p), e_dumps = (\<lambda>n j. []),
     e_float = (\<lambda>r. []), e_loads = (\<lambda>s. None), e_shlex = (\<lambda>s. None),
     e_toml_repo = (\<lambda>s. Inl []), e_toml_policy = (\<lambda>s. Inl []), e_toml_workers = (\<lambda>s. Inl [])\<rparr>"

definition demo_world :: job_env where
  "demo_world = \<lparr>je_env = je_demo_env, je_token_hex = (\<lambda>n k. replicate n CHR ''x''),
     je_token_bytes = (\<lambda>n k. replicate k CHR ''k''), je_getenv = (\<lambda>n v. None), je_home = ''/h'',
     je_expanduser = (\<lambda>p. p), je_yaml = (\<lambda>s. Inl []), je_bracketed = (\<lambda>s. True),
     je_package = (\<lambda>s. True), je_guess_type = (\<lambda>s. None), je_executable = (\<lambda>f s. True),
     je_python = ''python'', je_encrypt = (\<lambda>k n x a. x), je_decrypt = (\<lambda>k n x a. Some x),
     je_popen = (\<lambda>n c f. (Not_started [], f))\<rparr>"

definition demo_settings :: settings where
  "demo_settings = \<lparr>set_root_dir = ''/c'', set_redis_url = [], set_host = [], set_port = 8765,
     set_provider_timeout_seconds = 60, set_max_provider_output_bytes = 1000,
     set_max_provider_cpu_seconds = 60, set_max_provider_memory_bytes = 1000,
     set_max_job_artifact_bytes = 1000\<rparr>"

definition demo_service :: service where
  "demo_service = \<lparr>jv_env = demo_world, jv_settings = demo_settings, jv_source = None,
     jv_vault = Some ''/v''\<rparr>"

definition demo_files :: fsys where
  "demo_files = \<lparr>fs_files = [(''/a/change.json'', ''{}''), (''/a/valid.json'', ''{}'')], fs_dirs = [''/c''],
     fs_links = [], fs_readonly = []\<rparr>"

definition demo_provider :: jobj where
  "demo_provider = [(''name'', JStr ''p''), (''skill'', JStr ''s''),
     (''permissions'', JObj [(''network_read'', JBool True)]),
     (''_manifest_path'', JStr ''/m/provider.yaml'')]"

definition demo_reg :: reg where
  "demo_reg = \<lparr>rg_skills_dir = ''/c/skills'', rg_tools_dir = ''/c/tools'', rg_capability_roots = [],
     rg_index_state = None, rg_skills = [(JStr ''s'', [(''name'', JStr ''s'')])],
     rg_providers = [((JStr ''s'', JStr ''p''), demo_provider)], rg_tools = []\<rparr>"

definition demo_request :: job_request where
  "demo_request = \<lparr>jr_skill = ''s'', jr_provider = ''p'', jr_goal = [], jr_inputs = [],
     jr_policy = \<lparr>py_mode = Mode_dry_run, py_allow_network = False,
       py_allow_filesystem_write = False, py_allow_destructive = False, py_approved_domains = []\<rparr>,
     jr_requested_by = ''u'', jr_approval_id = None\<rparr>"

definition demo_job :: "job_status \<Rightarrow> jobj option \<Rightarrow> job_rec" where
  "demo_job st err = \<lparr>jb_job_id = ''job_20260701_x'', jb_status = st,
     jb_created_at = ''2026-07-01T00:00:00Z'', jb_updated_at = ''2026-07-01T00:00:00Z'',
     jb_requested_by = ''u'', jb_skill = ''s'', jb_provider = ''p'', jb_goal = [], jb_inputs = [],
     jb_policy = jr_policy demo_request, jb_artifact_dir = ''/c/work/jobs/job_20260701_x'',
     jb_result = None, jb_error = err, jb_requires_approval = False, jb_approval_id = None,
     jb_promotion = None, jb_recovery = None\<rparr>"

definition demo_event :: "string \<Rightarrow> string \<Rightarrow> jobj \<Rightarrow> jobj" where
  "demo_event ty message data = [(''timestamp'', JStr ''2026-07-01T00:00:00Z''),
     (''type'', JStr ty), (''message'', JStr message), (''data'', JObj data)]"

definition demo_queued :: jsys where
  "demo_queued = \<lparr>js_sys = \<lparr>sy_store = empty_store\<lparr>
       st_jobs := [(''job_20260701_x'', demo_job J_queued None)],
       st_events := [(''job_20260701_x'', [demo_event ''job_created'' ''Job queued.'' []])]\<rparr>,
     sy_fs = make_dirs ''/c/work/jobs/job_20260701_x'' demo_files, sy_tick = 5\<rparr>, js_reg = demo_reg\<rparr>"

lemma on_sys_run:
  "on_sys m s = (case m (js_sys s) of (r, t) \<Rightarrow> (r, s\<lparr>js_sys := t\<rparr>))"
  by (simp add: on_sys_def)

lemma store_run:
  "on_store g u = (Inr (), u\<lparr>sy_store := g (sy_store u)\<rparr>)" "from_store h u = (Inr (h (sy_store u)), u)"
  "on_fs d u = (Inr (), u\<lparr>sy_fs := d (sy_fs u)\<rparr>)" "from_fs b u = (Inr (b (sy_fs u)), u)"
  "ask_store q u = (case q (sy_store u) of (a, t) \<Rightarrow> (Inr a, u\<lparr>sy_store := t\<rparr>))"
  "utc_now E u = (Inr (e_now E (sy_tick u)), u\<lparr>sy_tick := Suc (sy_tick u)\<rparr>)"
  "token_hex J n u = (Inr (je_token_hex J (sy_tick u) n), u\<lparr>sy_tick := Suc (sy_tick u)\<rparr>)"
  by (simp_all add: world_defs token_hex_def run_eqs)

lemmas job_runs = on_sys_run store_run now_def job_event_def save_def transition_to_def fail_def
  read_job_def read_approval_def reread_job_def known_job_def refresh_def refresh_if_changed_def
  refresh_registry_def provider_internal_def stop_def claim_status_def ignore_def
  lazy_eqs

lemmas demo_simps = demo_service_def demo_world_def je_demo_env_def demo_reg_def demo_provider_def
  demo_queued_def demo_job_def demo_request_def demo_event_def

lemmas store_simps = get_job_def set_job_def transition_job_def get_approval_def set_approval_def
  append_event_def get_events_def

lemma lazy_bindE: "r = r' \<Longrightarrow> bindE r f = bindE r' f"
  by simp

lemmas pure_simps = bindE_run as_set_def checkE_def get_null_def get_or_def as_dict_def iter_def hashed_def
  has_key_def given_def find_provider_def

lemmas demo_congs = lazy_congs lazy_bindE

lemma demo_dir:
  "path_join (jobs_dir demo_settings) ''job_20260701_x'' = ''/c/work/jobs/job_20260701_x''"
  by code_simp

lemma demo_inputs: "validate_inputs (\<lambda>r. []) demo_provider [] = Inr []"
  by code_simp

lemmas create_runs = create_job_def linked_approval_def live_write_gate_def job_id_def make_job_dir_def
  resolve_path_def require_def raise_def compact_date_def demo_dir

lemma demo_create:
  "run_job demo_service (Create_job demo_request) (start_jobs demo_reg demo_files) = (Inr (), demo_queued)"
  by (simp add: create_runs job_runs demo_simps store_simps pure_simps start_jobs_def blank_def
    empty_store_def lappend_def demo_inputs [unfolded demo_provider_def] demo_files_def path_exists_def is_dir_def is_file_def
    split del: if_split cong: demo_congs)

definition demo_error :: jobj where
  "demo_error = [(''code'', JStr ''policy_denied''), (''message'', JStr
     ''Provider requires network access, but policy.allow_network is false''), (''details'', JObj [])]"

lemma demo_process:
  "job_at ''job_20260701_x'' (snd (run_job demo_service (Process_job ''job_20260701_x'') demo_queued)) =
     Some (demo_job J_failed (Some demo_error))"
  by (simp add: process_job_def job_runs demo_simps store_simps pure_simps admit_def check_queued_def
     find_tools_def check_dependencies_def needed_def sort_values_def check_policy_def evaluate_policy_def
     demo_error_def split del: if_split cong: demo_congs)

section \<open>A reviewed dry run\<close>

text \<open>A write provider and its contract\<close>

definition demo_writer :: jobj where
  "demo_writer = [(''name'', JStr ''w''), (''skill'', JStr ''s''), (''version'', JStr ''1''),
     (''runner'', JObj [(''type'', JStr ''python''), (''entrypoint'', JStr ''run.py'')]),
     (''inputs'', JObj [(''site'', JObj [(''type'', JStr ''string'')]),
        (''key'', JObj [(''type'', JStr ''string'')]),
        (''api_key_ref'', JObj [(''type'', JStr ''string'')])]),
     (''outputs'', JObj [(''c'', JNull), (''v'', JNull), (''f'', JNull), (''r'', JNull)]),
     (''permissions'', JObj [(''production_access'', JBool True), (''destructive'', JBool False)]),
     (''write'', JObj [
        (''modes'', JList [JStr ''dry_run'', JStr ''live'']),
        (''target'', JObj [(''scope'', JStr ''site''), (''identity_input'', JStr ''site'')]),
        (''artifacts'', JObj [(''change_set'', JStr ''c''), (''validation'', JStr ''v''),
           (''verification'', JStr ''f''), (''recovery'', JStr ''r'')]),
        (''idempotency'', JObj [(''required'', JBool True), (''input'', JStr ''key'')]),
        (''recovery'', JObj [(''mode'', JStr ''rollback'')])]),
     (''_manifest_path'', JStr ''/m/provider.yaml'')]"

definition demo_inputs_given :: jobj where
  "demo_inputs_given = [(''site'', JStr ''x''), (''key'', JStr ''k''), (''api_key_ref'', JStr ''env:T'')]"

definition demo_policy_rec :: "policy_mode \<Rightarrow> policy_rec" where
  "demo_policy_rec m = \<lparr>py_mode = m, py_allow_network = True, py_allow_filesystem_write = True,
     py_allow_destructive = False, py_approved_domains = []\<rparr>"

definition demo_dry :: job_rec where
  "demo_dry = (demo_job J_completed None)\<lparr>jb_job_id := ''d'', jb_provider := ''w'',
     jb_inputs := demo_inputs_given, jb_policy := demo_policy_rec Mode_dry_run\<rparr>"

definition demo_artifacts :: "jobj list" where
  "demo_artifacts =
     [[(''name'', JStr ''c''), (''path'', JStr ''/a/change.json'')],
      [(''name'', JStr ''v''), (''path'', JStr ''/a/valid.json'')]]"

definition demo_snapshot :: jobj where
  "demo_snapshot =
     [(''dry_run_job_id'', JStr ''d''), (''skill'', JStr ''s''), (''provider'', JStr ''w''),
      (''provider_provenance'', JObj [(''capability'', JStr ''builtin''), (''version'', JStr ''1''),
         (''checksum'', JStr [])]),
      (''change_set_path'', JStr ''/a/change.json''), (''change_set_checksum'', JStr ''{}''),
      (''validation_path'', JStr ''/a/valid.json''), (''validation_checksum'', JStr ''{}''),
      (''target_identity'', JStr ''x''), (''credential_refs'', JObj []),
      (''inputs_checksum'', JStr (json_text (\<lambda>r. []) compact True (JObj demo_inputs_given)))]"

definition demo_approval :: approval_rec where
  "demo_approval = (bare_approval ''a'' ''s'' ''w'' [] 1 [] [])\<lparr>ap_status := Ap_approved,
     ap_promotion := Some demo_snapshot\<rparr>"

definition demo_writers :: reg where
  "demo_writers = demo_reg\<lparr>rg_providers := [((JStr ''s'', JStr ''w''), demo_writer)]\<rparr>"

definition demo_reviewed :: jsys where
  "demo_reviewed = \<lparr>js_sys = \<lparr>sy_store = empty_store\<lparr>
       st_jobs := [(''d'', demo_dry)], st_artifacts := [(''d'', demo_artifacts)],
       st_approvals := [(''a'', demo_approval)]\<rparr>,
     sy_fs = demo_files, sy_tick = 0\<rparr>, js_reg = demo_writers\<rparr>"

definition demo_live_request :: job_request where
  "demo_live_request = \<lparr>jr_skill = ''s'', jr_provider = ''w'', jr_goal = [],
     jr_inputs = demo_inputs_given, jr_policy = demo_policy_rec Mode_live, jr_requested_by = ''u'',
     jr_approval_id = Some ''a''\<rparr>"

lemma demo_promotion:
  "promotion_snapshot demo_service demo_dry demo_writer demo_reviewed = (Inr demo_snapshot, demo_reviewed)"
  by code_simp

lemma demo_validate:
  "validate_promotion demo_service demo_approval demo_writer demo_inputs_given demo_reviewed =
     (Inr (), demo_reviewed)"
  by code_simp

lemma demo_given_inputs:
  "validate_inputs (\<lambda>r. []) demo_writer demo_inputs_given = Inr demo_inputs_given"
  "validate_sensitive_inputs ''inputs'' (JObj demo_inputs_given) = Inr ()"
  by code_simp+

lemma demo_live:
  "\<exists>j t. create_job demo_service demo_live_request None demo_reviewed = (Inr j, t) \<and>
     js_reg t = demo_writers \<and> jb_inputs j = demo_inputs_given"
proof -
  have reads: "js_reg demo_reviewed = demo_writers" "dget (rg_providers demo_writers) (JStr ''s'', JStr ''w'') =
      Some demo_writer" "dget (st_approvals (sy_store (js_sys demo_reviewed))) ''a'' = Some demo_approval"
    "ap_status demo_approval = Ap_approved" "is_dir (sy_fs (js_sys demo_reviewed)) ''/c/work/jobs/job_20260701_x'' = False"
    "is_file (sy_fs (js_sys demo_reviewed)) ''/c/work/jobs/job_20260701_x'' = False"
    "sy_tick (js_sys demo_reviewed) = 0" "\<exists>y. dget demo_writer ''write'' = Some y"
    by (simp_all add: demo_reviewed_def demo_writers_def demo_reg_def demo_approval_def demo_files_def
        is_dir_def is_file_def has_key_def demo_writer_def)
  have V: "jv_source demo_service = None" "jv_settings demo_service = demo_settings"
    "je_env (jv_env demo_service) = je_demo_env" "je_token_hex (jv_env demo_service) = (\<lambda>n k. replicate n CHR ''x'')"
    "e_float je_demo_env = (\<lambda>r. [])" "e_now je_demo_env = (\<lambda>n. ''2026-07-01T00:00:00Z'')"
    "e_resolve je_demo_env = (\<lambda>f p. p)"
    by (simp_all add: demo_service_def demo_world_def je_demo_env_def)
  show ?thesis
    by (simp add: create_runs job_runs V reads pure_simps get_approval_def demo_live_request_def
        demo_policy_rec_def demo_given_inputs [simplified] demo_validate
        truthy_def path_exists_def
        split del: if_split cong: demo_congs)
qed

section \<open>The service runs\<close>

lemma demo_sane: "source_calm demo_service" "ids_differ demo_service"
  by (simp_all add: source_calm_def demo_service_def ids_differ_def id_at_def demo_world_def je_demo_env_def inj_def)

lemma job_demo_steps:
  "(job_step demo_service)\<^sup>*\<^sup>* (start_jobs demo_reg demo_files)
     (snd (run_job demo_service (Process_job ''job_20260701_x'') demo_queued))"
proof -
  have "job_step demo_service (start_jobs demo_reg demo_files) demo_queued"
    using job_step.call [of demo_service "start_jobs demo_reg demo_files" "Create_job demo_request"]
    by (simp add: demo_create del: run_job.simps)
  then show ?thesis by (blast intro: rtranclp.intros job_step.call)
qed

text \<open>A queued job to which the policy has no objection\<close>

definition demo_free :: job_rec where
  "demo_free = (demo_job J_queued None)\<lparr>jb_policy := demo_policy_rec Mode_dry_run\<rparr>"

definition demo_ready :: jsys where
  "demo_ready = demo_queued\<lparr>js_sys := (js_sys demo_queued)\<lparr>sy_store :=
     empty_store\<lparr>st_jobs := [(''job_20260701_x'', demo_free)]\<rparr>\<rparr>\<rparr>"

lemma demo_admit: "\<exists>j t. admit demo_service demo_free demo_provider demo_ready = (Inr (Go j), t)"
  by (simp add: demo_ready_def demo_free_def demo_policy_rec_def job_runs demo_simps store_simps
     pure_simps empty_store_def admit_def check_queued_def find_tools_def check_dependencies_def
     needed_def sort_values_def check_policy_def evaluate_policy_def sorted_set_def at_least_def
     split del: if_split cong: demo_congs)

text \<open>The live job of the approved promotion, whose idempotency key is taken\<close>

definition demo_live_job :: job_rec where
  "demo_live_job = demo_dry\<lparr>jb_policy := demo_policy_rec Mode_live, jb_promotion := Some demo_snapshot\<rparr>"

definition demo_entry :: idem_rec where
  "demo_entry = \<lparr>id_status = Id_completed, id_job_id = ''e'', id_change_set_checksum = ''{}''\<rparr>"

definition demo_taken :: jsys where
  "demo_taken = \<lparr>js_sys = \<lparr>sy_store = empty_store\<lparr>st_idempotency := [(''s:w:x:k'', demo_entry)]\<rparr>,
     sy_fs = demo_files, sy_tick = 0\<rparr>, js_reg = demo_writers\<rparr>"

text \<open>A job that names the approval of another one\<close>

definition demo_borrower :: job_rec where
  "demo_borrower = (demo_job J_checking_dependencies None)\<lparr>jb_approval_id := Some ''a''\<rparr>"

definition demo_borrowed :: jsys where
  "demo_borrowed = \<lparr>js_sys = \<lparr>sy_store = empty_store\<lparr>
       st_jobs := [(''job_20260701_x'', demo_borrower)], st_approvals := [(''a'', demo_approval)]\<rparr>,
     sy_fs = demo_files, sy_tick = 0\<rparr>, js_reg = demo_reg\<rparr>"

section \<open>The vault\<close>

definition demo_vault_record :: jobj where
  "demo_vault_record = vault_record 1 ''s'' ''n'' (replicate 12 CHR ''k'') ''pw''"

definition demo_vault_world :: job_env where
  "demo_vault_world = demo_world\<lparr>je_env := je_demo_env\<lparr>e_loads := (\<lambda>t. Some (JObj demo_vault_record))\<rparr>\<rparr>"

lemma demo_vault_set:
  "case vault_set demo_vault_world ''/v'' ''s'' ''n'' ''pw'' (blank demo_files) of
     (Inr ref, t) \<Rightarrow> sy_tick t = 2 \<and>
       read_file (sy_fs t) (record_path ''/v'' ''s'' ''n'') = record_text demo_vault_world demo_vault_record
   | _ \<Rightarrow> False"
  by code_simp

end
