(* ===== verification/Job_Properties.thy ===== *)
theory Job_Properties
  imports Job_Promotions Job_Example
begin

text \<open>
  The properties of the job service and of the parts it is made of: policies, contracts, limits,
  artifacts, redaction and the credential vault.
\<close>

section \<open>Life of a job\<close>

text \<open>C6: a job that is completed, failed, cancelled or rejected never changes again, whatever is
  called and whatever happens to the files: only a failed job can still be marked as rejected,
  when the approval it was waiting for is rejected after all.\<close>

theorem finished_jobs_are_final:
  assumes "source_calm V" and "ids_differ V"
    and "(job_step V)\<^sup>*\<^sup>* (start_jobs r f) s" and "job_at k s = Some j" and "finished j"
    and "(job_step V)\<^sup>*\<^sup>* s t"
  shows "job_at k t = Some j \<or>
    jb_status j = J_failed \<and> (\<exists>i. job_at k t = Some i \<and> jb_status i = J_rejected)"
proof -
  have "jobs_ok V s" using job_steps_onward [OF assms(1-3) jobs_ok_start] ..
  from job_steps_onward [OF assms(1,2,6) this] assms(4,5) show ?thesis
    unfolding onward_def by blast
qed

theorem finished_jobs_are_final_witness:
  "job_at ''job_20260701_x'' (snd (run_job demo_service (Reject_job ''a'' ''u'' [])
       (snd (run_job demo_service (Process_job ''job_20260701_x'') demo_queued)))) =
     Some (demo_job J_failed (Some demo_error)) \<or>
   jb_status (demo_job J_failed (Some demo_error)) = J_failed \<and>
     (\<exists>i. job_at ''job_20260701_x'' (snd (run_job demo_service (Reject_job ''a'' ''u'' [])
       (snd (run_job demo_service (Process_job ''job_20260701_x'') demo_queued)))) = Some i \<and>
       jb_status i = J_rejected)"
  apply (rule finished_jobs_are_final [OF demo_sane job_demo_steps demo_process])
   apply (simp add: finished_def demo_job_def)
  apply (rule r_into_rtranclp, rule job_step.call)
  done

text \<open>C5: a live job of a write provider is created only with an approval that is approved and
  that reviews what is about to be done: the completed dry run it names has the same inputs, or
  it is the approval of just this recovery of a completed live job.\<close>

theorem live_write_is_reviewed:
  assumes "source_calm V" and "create_job V q recovery s = (Inr j, t)"
    and "find_provider (js_reg t) (jr_skill q) (jr_provider q) = Some p"
    and "has_key p ''write''" and "py_mode (jr_policy q) = Mode_live"
  shows "\<exists>k a. jr_approval_id q = Some k \<and> approval_of k s = Some a \<and> ap_status a = Ap_approved \<and>
    (if truthy recovery = None
     then \<exists>dry. reviewed_job a s dry \<and> dict_eq (jb_inputs j) (jb_inputs dry)
     else opt_dict_eq (ap_recovery a) recovery \<and> (\<exists>live. reviewed_recovery a s live))"
  using wp_InrD [OF wp_create_checked [OF assms(1)] assms(2)] assms(3-5)
  by (simp add: create_checked_def reviewed_def)

theorem live_write_is_reviewed_witness:
  "\<exists>k a. jr_approval_id demo_live_request = Some k \<and> approval_of k demo_reviewed = Some a \<and>
     ap_status a = Ap_approved \<and>
     (\<exists>dry. reviewed_job a demo_reviewed dry \<and> dict_eq demo_inputs_given (jb_inputs dry))"
proof -
  obtain j t where c: "create_job demo_service demo_live_request None demo_reviewed = (Inr j, t)"
    "js_reg t = demo_writers" "jb_inputs j = demo_inputs_given"
    using demo_live by blast
  have "find_provider (js_reg t) (jr_skill demo_live_request) (jr_provider demo_live_request) =
      Some demo_writer"
    by (simp add: c(2) find_provider_def demo_writers_def demo_live_request_def)
  moreover have "has_key demo_writer ''write''" by (simp add: has_key_def demo_writer_def)
  moreover have "py_mode (jr_policy demo_live_request) = Mode_live"
    by (simp add: demo_live_request_def demo_policy_rec_def)
  ultimately show ?thesis
    using live_write_is_reviewed [OF demo_sane(1) c(1)] by (simp add: c(3) truthy_def)
qed

text \<open>C20: when the check of a promotion passes, the approved snapshot names a completed dry run
  whose inputs are the ones given, and everything that it recorded is the same when it is taken
  again: the skill and the provider, the provenance of the provider, the resolved path and the
  checksum of the change set and of the validation that the dry run recorded, both still files, the
  identity of the target, the credential references and the checksum of the inputs. A promotion
  for which any of them has changed since the review is refused.\<close>

theorem stale_promotion_is_refused:
  assumes "validate_promotion V a p inputs s = (Inr (), t)"
  shows "\<exists>snap d dry. ap_promotion a = Some snap \<and> dget snap ''dry_run_job_id'' = Some d \<and>
    job_at (string_of d) s = Some dry \<and> jb_status dry = J_completed \<and>
    py_mode (jb_policy dry) = Mode_dry_run \<and> dict_eq inputs (jb_inputs dry) \<and>
    held snap ''skill'' (JStr (jb_skill dry)) \<and> held snap ''provider'' (JStr (jb_provider dry)) \<and>
    (\<exists>prov. fst (provider_provenance V p s) = Inr prov \<and>
       held snap ''provider_provenance'' (JObj prov)) \<and>
    unchanged_output V s dry p snap ''change_set'' \<and>
    unchanged_output V s dry p snap ''validation'' \<and>
    (\<exists>target. identity_input p (jb_inputs dry) = Inr target \<and> held snap ''target_identity'' target) \<and>
    (\<exists>refs. credential_references p (jb_inputs dry) = Inr refs \<and>
       held snap ''credential_refs'' (JObj refs)) \<and>
    held snap ''inputs_checksum'' (JStr (e_sha (je_env (jv_env V))
      (json_text (e_float (je_env (jv_env V))) compact True (JObj (jb_inputs dry)))))"
  using wp_InrD [OF wp_promotion_unchanged assms] unfolding snapshot_of_def .

theorem stale_promotion_is_refused_witness:
  "\<exists>snap dry. ap_promotion demo_approval = Some snap \<and>
     dict_eq demo_inputs_given (jb_inputs dry) \<and>
     unchanged_output demo_service demo_reviewed dry demo_writer snap ''change_set''"
  using stale_promotion_is_refused [OF demo_validate] by blast

text \<open>C7: a job is admitted to run only when its policy has no objection or when the approval that
  the job names is approved.\<close>

theorem admitted_jobs_are_allowed:
  assumes "admit V job p s = (Inr (Go j), t)"
  shows "jb_status j = J_running \<and>
    (evaluate_policy (je_bracketed (jv_env V)) p (jb_inputs job) (jb_policy job) = Inr [] \<or>
     (\<exists>a. approval_of (case jb_approval_id job of Some k \<Rightarrow> k | None \<Rightarrow> []) s = Some a \<and>
        ap_status a = Ap_approved))"
  using wp_InrD [OF wp_admit_go assms] by (simp add: allowed_def)

theorem admitted_jobs_are_allowed_witness:
  "\<exists>j t. admit demo_service demo_free demo_provider demo_ready = (Inr (Go j), t) \<and>
     jb_status j = J_running"
  using demo_admit admitted_jobs_are_allowed by blast

text \<open>C23: a live write whose idempotency key is already taken never reaches the provider: the job
  ends here, no file is touched and the key stays as it was; the job is completed with the
  artifacts of the earlier one exactly when that one is completed and had the same change set,
  and fails otherwise.\<close>

theorem taken_key_never_runs:
  assumes "py_mode (jb_policy job) = Mode_live" and "has_key p ''write''"
    and "truthy (jb_recovery job) = None" and "idempotency_record_key V job p = Inr key"
    and "change_set_of job = Inr change"
    and "dget (st_idempotency (sy_store (js_sys s))) key = Some e" and "id_status e \<noteq> Id_failed"
  shows "\<exists>j t. claim_key V job p s = (Inr (Stop j), t) \<and> sy_fs (js_sys t) = sy_fs (js_sys s) \<and>
    st_idempotency (sy_store (js_sys t)) = st_idempotency (sy_store (js_sys s)) \<and>
    (if id_change_set_checksum e = change \<and> id_status e = Id_completed
     then jb_status j = J_completed \<and> get_artifacts (jb_job_id job) (sy_store (js_sys t)) =
       get_artifacts (id_job_id e) (sy_store (js_sys s))
     else jb_status j = J_failed)"
proof -
  have c: "claim_idempotency key v (sy_store (js_sys s)) = (Some e, sy_store (js_sys s))" for v
    using assms(6,7) by (simp add: claim_idempotency_def)
  note runs = job_runs set_job_def set_artifacts_def get_artifacts_def lget_def append_event_def
  have failed: "\<exists>j t. stop (fail V job code msg d) s = (Inr (Stop j), t) \<and>
      sy_fs (js_sys t) = sy_fs (js_sys s) \<and>
      st_idempotency (sy_store (js_sys t)) = st_idempotency (sy_store (js_sys s)) \<and>
      jb_status j = J_failed" for code msg d
    by (simp add: runs cong: demo_congs)
  have replayed: "\<exists>j t. stop (replay V job i) s = (Inr (Stop j), t) \<and>
      sy_fs (js_sys t) = sy_fs (js_sys s) \<and>
      st_idempotency (sy_store (js_sys t)) = st_idempotency (sy_store (js_sys s)) \<and>
      jb_status j = J_completed \<and> get_artifacts (jb_job_id job) (sy_store (js_sys t)) =
        get_artifacts i (sy_store (js_sys s))" for i
    by (simp add: replay_def runs cong: demo_congs)
  show ?thesis
    unfolding claim_key_def using failed replayed
    by (auto simp: assms(1-5) c bindM_run liftM_run on_sys_run store_run)
qed

theorem taken_key_never_runs_witness:
  "\<exists>j t. claim_key demo_service demo_live_job demo_writer demo_taken = (Inr (Stop j), t) \<and>
     sy_fs (js_sys t) = demo_files \<and> jb_status j = J_completed"
proof -
  have "py_mode (jb_policy demo_live_job) = Mode_live" "has_key demo_writer ''write''"
    "truthy (jb_recovery demo_live_job) = None" "change_set_of demo_live_job = Inr ''{}''"
    "dget (st_idempotency (sy_store (js_sys demo_taken))) ''s:w:x:k'' = Some demo_entry"
    "id_status demo_entry \<noteq> Id_failed"
    by (simp_all add: demo_live_job_def demo_dry_def demo_job_def demo_policy_rec_def has_key_def
        demo_writer_def truthy_def change_set_of_def opt_item_def item_def demo_snapshot_def
        string_of_def demo_taken_def demo_entry_def)
  moreover have "idempotency_record_key demo_service demo_live_job demo_writer = Inr ''s:w:x:k''"
    by code_simp
  ultimately show ?thesis
    using taken_key_never_runs [of demo_live_job demo_writer demo_service "''s:w:x:k''" "''{}''" demo_taken
        demo_entry]
    by (auto simp: demo_entry_def demo_taken_def)
qed

text \<open>a live write that fails before its provider is started, because its manifest asks for limits that
  are not positive, keeps the idempotency key it claimed: the key stays as it is, in the state
  \<open>running\<close>, and no later job can use it.\<close>

theorem failed_setup_keeps_key:
  assumes "effective_limits p (jv_settings V) = Inl (Runner_error msg d)"
  shows "\<exists>j t. execute V job p key s = (Inr j, t) \<and> jb_status j = J_failed \<and>
    st_idempotency (sy_store (js_sys t)) = st_idempotency (sy_store (js_sys s))"
  unfolding execute_def
  by (simp add: assms job_runs set_job_def append_event_def cong: demo_congs)

theorem failed_setup_keeps_key_witness:
  "\<exists>j t. execute demo_service demo_live_job [(''limits'', JObj [(''wall_seconds'', JInt 0)])]
       (Some (''s:w:x:k'', ''{}'')) demo_taken = (Inr j, t) \<and> jb_status j = J_failed"
proof -
  have "effective_limits [(''limits'', JObj [(''wall_seconds'', JInt 0)])] (jv_settings demo_service) =
      Inl (Runner_error ''Provider limit wall_seconds must be a positive integer'' [])"
    by (simp add: effective_limits_def has_key_def other_def as_dict_def get_null_def get_or_def
        bounded_def)
  from failed_setup_keeps_key [OF this] show ?thesis by blast
qed

text \<open>nothing ties the approval to the job: any approval that is approved lets a job run that
  names it, whatever the approval was given for.\<close>

theorem any_approval_admits:
  assumes "jb_approval_id job = Some k" and "k \<noteq> []" and "approval_of k s = Some a"
    and "ap_status a = Ap_approved" and "job_at (jb_job_id job) s = Some cur"
    and "jb_status cur = J_checking_dependencies"
  shows "\<exists>j t. seek_approval V job p reasons s = (Inr (Go j), t) \<and> jb_status j = J_running"
proof -
  have "given (jb_approval_id job)" using assms(1,2) by (simp add: given_def)
  moreover have "transition_job (jb_job_id job) [J_checking_dependencies] v (sy_store (js_sys s)) =
      (True, set_job (jb_job_id job) v (sy_store (js_sys s)))" for v
    using assms(5,6) by (simp add: transition_job_def get_job_def set_job_def)
  ultimately show ?thesis
    unfolding seek_approval_def
    by (simp add: assms(1,3,4) job_runs split del: if_split cong: demo_congs)
qed

theorem any_approval_admits_witness:
  "\<exists>j t. seek_approval demo_service demo_borrower demo_provider [''r''] demo_borrowed = (Inr (Go j), t) \<and>
     jb_status j = J_running"
  by (rule any_approval_admits [of demo_borrower "''a''" demo_borrowed demo_approval demo_borrower])
    (simp_all add: demo_borrower_def demo_borrowed_def demo_job_def get_job_def get_approval_def
      demo_approval_def)

text \<open>C24: a job that is left while it checks its dependencies, waits for them or runs stays so for
  ever: processing it again does nothing.\<close>

theorem stranded_jobs_stay:
  assumes "source_calm V" and "job_at k s = Some j"
    and "jb_status j \<in> {J_checking_dependencies, J_waiting_for_dependency, J_running}"
  shows "job_at k (snd (process_job V k s)) = Some j"
proof -
  obtain r t where t: "refresh_registry V s = (r, t)" by force
  have "records t = records s"
    using calm_records [OF calm_refresh_registry [OF assms(1)]] t unfolding steady_def
    by (metis snd_conv)
  then have "job_at k t = Some j" using assms(2) by (simp add: records_def get_job_def)
  with assms(3) t show ?thesis
    by (cases r) (auto simp: process_job_def known_job_def read_job_def on_sys_run store_run run_eqs)
qed

theorem stranded_jobs_stay_witness:
  "job_at ''job_20260701_x'' (snd (process_job demo_service ''job_20260701_x'' demo_borrowed)) =
     Some demo_borrower"
  by (rule stranded_jobs_stay [OF demo_sane(1)])
    (simp_all add: demo_borrower_def demo_borrowed_def demo_job_def get_job_def)

section \<open>Policy and contracts\<close>

text \<open>a host is approved exactly when the dot-separated labels of some approved domain are the
  last labels of the host, compared in lower case and without trailing dots; in particular
  \<open>evilexample.com\<close> is not covered by \<open>example.com\<close>.\<close>

theorem domain_approval_is_label_suffix:
  "domain_is_approved h ds =
     list_ex (\<lambda>d. label_suffix (split_on CHR ''.'' (plain_domain d))
       (split_on CHR ''.'' (plain_domain h))) ds"
proof -
  have "endswith x (''.'' @ d) = endswith x (CHR ''.'' # d)" for x d by simp
  then show ?thesis
    unfolding domain_is_approved_def Let_def list_ex_iff endswith_labels [symmetric] by simp
qed

text \<open>C21: when the registry was loaded, every provider in it that has a write contract belongs to
  an installed skill and has a complete contract: a runner, both modes, the scope of its target, an
  identity input and an idempotency input that are declared, credential references that are
  declared and end in \<open>_ref\<close>, the four artifacts, each a declared output, a required idempotency
  key, a known way to recover and the two permissions.\<close>

theorem write_contract_is_complete:
  assumes "reload J r s = (Inr r', t)" and "find_provider r' skill provider = Some p"
    and "dget p ''write'' = Some w" and "w \<noteq> JNull"
  shows "dget (rg_skills r') (JStr skill) \<noteq> None \<and>
    (\<exists>w runner modes target scope identity refs artifacts idem key recovery mode inputs permissions.
        dget p ''write'' = Some (JObj w) \<and> dget p ''runner'' = Some (JObj runner) \<and>
        dget w ''modes'' = Some (JList modes) \<and> {JStr ''dry_run'', JStr ''live''} \<subseteq> set modes \<and>
        dget w ''target'' = Some (JObj target) \<and> dget target ''scope'' = Some (JStr scope) \<and>
        dget target ''identity_input'' = Some (JStr identity) \<and>
        inputs = get_or p ''inputs'' (JObj []) \<and> member identity inputs = Inr True \<and>
        get_or w ''credential_refs'' (JList []) = JList refs \<and>
        (\<forall>v\<in>set refs. \<exists>n. v = JStr n \<and> endswith n ''_ref'' \<and> member n inputs = Inr True) \<and>
        dget w ''artifacts'' = Some (JObj artifacts) \<and>
        (\<forall>n\<in>set REQUIRED_ARTIFACTS. dget artifacts n \<noteq> None) \<and>
        (\<forall>v\<in>snd ` set artifacts. declared_output (get_or p ''outputs'' (JObj [])) v = Inr True) \<and>
        dget w ''idempotency'' = Some (JObj idem) \<and> dget idem ''required'' = Some (JBool True) \<and>
        dget idem ''input'' = Some (JStr key) \<and> member key inputs = Inr True \<and>
        dget w ''recovery'' = Some (JObj recovery) \<and> dget recovery ''mode'' = Some (JStr mode) \<and>
        mode \<in> set RECOVERY_MODES \<and>
        permissions = get_or p ''permissions'' (JObj []) \<and>
        member ''production_access'' permissions = Inr True \<and>
        member ''destructive'' permissions = Inr True)"
proof -
  have "registry_ok J r'" by (rule wp_InrD [OF wp_reload assms(1)])
  then have "provider_ok J (JStr skill, JStr provider) p"
    and skill: "dget (rg_skills r') (JStr skill) \<noteq> None"
    using assms(2) by (auto simp: registry_ok_def find_provider_def)
  then have "write_contract p"
    using validated_contract [OF _ assms(3,4)] by (auto simp: provider_ok_def)
  with skill show ?thesis unfolding write_contract_def by (intro conjI)
qed

text \<open>A registry with a skill and its write provider\<close>

definition demo_yaml_world :: job_env where
  "demo_yaml_world = demo_world\<lparr>je_yaml := (\<lambda>t.
     if t = ''skill'' then Inr (JObj [(''name'', JStr ''s'')])
     else Inr (JObj (ddel ''_manifest_path'' demo_writer)))\<rparr>"

definition demo_yaml_files :: fsys where
  "demo_yaml_files = demo_files\<lparr>fs_files := [(''/c/skills/s/skill.yaml'', ''skill''),
     (''/c/skills/s/providers/w/provider.yaml'', ''provider'')]\<rparr>"

lemma demo_reload:
  "case reload demo_yaml_world demo_reg (blank demo_yaml_files) of
     (Inr r, t) \<Rightarrow> (case find_provider r ''s'' ''w'' of
        Some p \<Rightarrow> (case dget p ''write'' of Some w \<Rightarrow> w \<noteq> JNull | None \<Rightarrow> False) | None \<Rightarrow> False)
   | _ \<Rightarrow> False"
  by code_simp

theorem write_contract_is_complete_witness:
  "\<exists>r t p w. reload demo_yaml_world demo_reg (blank demo_yaml_files) = (Inr r, t) \<and>
     find_provider r ''s'' ''w'' = Some p \<and> dget p ''write'' = Some (JObj w) \<and>
     (\<exists>modes. dget w ''modes'' = Some (JList modes) \<and> JStr ''live'' \<in> set modes)"
proof -
  obtain r t p w where r: "reload demo_yaml_world demo_reg (blank demo_yaml_files) = (Inr r, t)"
    "find_provider r ''s'' ''w'' = Some p" "dget p ''write'' = Some w" "w \<noteq> JNull"
    using demo_reload by (auto split: prod.splits sum.splits option.splits)
  from write_contract_is_complete [OF this] r(1,2) show ?thesis
    by (elim conjE exE) (intro exI conjI, assumption+, blast)
qed

text \<open>C9: the limits under which a provider runs never exceed the ceilings of the settings, whatever
  its manifest asks for, and are positive when the ceilings are.\<close>

theorem limits_never_exceed_settings:
  assumes "effective_limits provider st = Inr l"
  shows "lm_wall_seconds l \<le> set_provider_timeout_seconds st \<and>
    lm_cpu_seconds l \<le> set_max_provider_cpu_seconds st \<and>
    lm_memory_bytes l \<le> set_max_provider_memory_bytes st \<and>
    lm_artifact_bytes l \<le> set_max_job_artifact_bytes st \<and>
    lm_output_bytes l = set_max_provider_output_bytes st"
  using limits_bounded [OF assms] by simp

theorem limits_never_exceed_settings_witness:
  "\<exists>l. effective_limits [(''limits'', JObj [(''wall_seconds'', JInt 1000)])] demo_settings = Inr l \<and>
     lm_wall_seconds l \<le> 60"
proof -
  let ?p = "[(''limits'', JObj [(''wall_seconds'', JInt 1000)])]"
  obtain l where l: "effective_limits ?p demo_settings = Inr l"
    by (simp add: effective_limits_def has_key_def other_def as_dict_def get_null_def get_or_def
        bounded_def demo_settings_def)
  from limits_never_exceed_settings [OF l] l show ?thesis by (simp add: demo_settings_def)
qed

text \<open>C8: every artifact that is recorded for a job is a file inside the job's directory, after
  symbolic links and \<open>..\<close> are resolved, whatever path the manifest declares.\<close>

theorem artifacts_stay_inside:
  assumes "collect_artifacts J dir outputs f = Inr found" and "a \<in> set found"
  shows "\<exists>path. dget a ''path'' = Some (JStr path) \<and> is_file f path \<and>
    (path = e_resolve (je_env J) f dir \<or> in_parents (e_resolve (je_env J) f dir) path)"
  by (rule collected_inside [OF assms])

theorem artifacts_stay_inside_witness:
  "\<exists>a path. collect_artifacts demo_world ''/a'' (JObj [(''c'', JObj [(''path'', JStr ''change.json'')])])
       demo_files = Inr [a] \<and> dget a ''path'' = Some (JStr path) \<and> is_file demo_files path \<and>
     (path = ''/a'' \<or> in_parents ''/a'' path)"
proof -
  have "\<exists>a. collect_artifacts demo_world ''/a'' (JObj [(''c'', JObj [(''path'', JStr ''change.json'')])])
      demo_files = Inr [a]"
  proof -
    have "(case collect_artifacts demo_world ''/a'' (JObj [(''c'', JObj [(''path'', JStr ''change.json'')])])
        demo_files of Inr [a] \<Rightarrow> True | _ \<Rightarrow> False)"
      by code_simp
    then show ?thesis by (auto split: sum.splits list.splits)
  qed
  then obtain a where a: "collect_artifacts demo_world ''/a''
      (JObj [(''c'', JObj [(''path'', JStr ''change.json'')])]) demo_files = Inr [a]" ..
  from artifacts_stay_inside [OF a, of a] a show ?thesis
    by (auto simp: demo_world_def je_demo_env_def)
qed

section \<open>Redaction\<close>

text \<open>After redaction no string value of a result and no file below the artifact directory contains a
  credential or its reference any more, for every credential that has no bracket in it and is not
  part of the word \<open>REDACTED\<close>. The keys of a result are not redacted, and of a credential with a
  bracket, such as \<open>]x\<close> in \<open>]xx\<close>, a part can remain.\<close>

theorem redaction_leaves_no_secret:
  assumes "redactable w" and "w \<in> set secrets"
  shows "list_all (\<lambda>t. \<not> contains w t) (texts (redact_sensitive v secrets)) \<and>
    (\<forall>p c. below f base p \<and> \<not> is_symlink f p \<and>
       dget (fs_files (redact_artifacts base secrets f)) p = Some c \<longrightarrow> \<not> contains w c)"
  using redacted_texts(1)[OF assms] redacted_file [OF assms] by blast

theorem redaction_leaves_no_secret_witness:
  "list_all (\<lambda>t. \<not> contains ''pw'' t)
     (texts (redact_sensitive (JObj [(''log'', JStr ''using pw now'')]) [''env:T'', ''pw'']))"
proof -
  have "redactable ''pw''" by code_simp
  then show ?thesis
    by (rule redaction_leaves_no_secret [THEN conjunct1]) simp
qed

section \<open>Inputs\<close>

text \<open>C22: in the inputs of a job that was created, whatever is stored under a sensitive name, at
  any depth, is a reference to an environment variable or to the vault.\<close>

theorem sensitive_inputs_are_references:
  assumes "source_calm V" and "create_job V q r s = (Inr j, t)"
  shows "list_all (\<lambda>(k, v). is_sensitive_key (lower k) \<longrightarrow>
    endswith (lower k) ''_ref'' \<and> reference_ok v) (exposed (JObj (jb_inputs j)))"
  using wp_InrD [OF wp_create_checked [OF assms(1)] assms(2)]
  by (intro validated_pairs(1)[of "''inputs''"]) (simp add: create_checked_def)

theorem sensitive_inputs_are_references_witness:
  "list_all (\<lambda>(k, v). is_sensitive_key (lower k) \<longrightarrow>
    endswith (lower k) ''_ref'' \<and> reference_ok v) (exposed (JObj demo_inputs_given))"
proof -
  obtain j t where "create_job demo_service demo_live_request None demo_reviewed = (Inr j, t)"
    and "jb_inputs j = demo_inputs_given"
    using demo_live by blast
  from sensitive_inputs_are_references [OF demo_sane(1) this(1)] this(2) show ?thesis by metis
qed

section \<open>The vault\<close>

text \<open>C10: when a value was stored in the vault, the file of its scope and name holds the record
  with the next generation, 1 when there was none, the fresh nonce and the value encrypted with the
  master key and that nonce for its scope and name; and when the JSON parser reads the entries of
  that text, in any order, the next read of the scope and name returns the value.\<close>

theorem vault_get_returns_what_was_set:
  assumes "vault_set J vault scope name v s = (Inr ref, t)"
    and "\<And>k n x a. je_decrypt J k n (je_encrypt J k n x a) a = Some x"
  shows "ref = credential_ref scope name \<and>
    (\<exists>g n c. n = je_token_bytes J (sy_tick t - 1) 12 \<and>
       c = je_encrypt J (read_file (sy_fs t) (key_path vault)) n v (scope @ ''/'' @ name) \<and>
       (case dget (fs_files (sy_fs s)) (record_path vault scope name) of
          None \<Rightarrow> g = 1 | Some text \<Rightarrow> next_generation J text = Inr g) \<and>
       dget (fs_files (sy_fs t)) (record_path vault scope name) =
         Some (record_text J (vault_record g scope name n c)) \<and>
       (\<forall>e. e_loads (je_env J) (record_text J (vault_record g scope name n c)) = Some (JObj e) \<and>
          (\<forall>k. dget e k = dget (vault_record g scope name n c) k) \<longrightarrow>
          fst (vault_get J vault scope name t) = Inr v))"
proof -
  let ?n = "je_token_bytes J (sy_tick t - 1) 12"
  let ?c = "je_encrypt J (read_file (sy_fs t) (key_path vault)) ?n v (scope @ ''/'' @ name)"
  obtain g where ref: "ref = credential_ref scope name"
    and g: "generation_after J vault scope name (sy_fs s) g"
    and h: "holds J vault scope name v t g ?n ?c"
    using wp_InrD [OF wp_vault_set assms(1)] by blast
  note read = vault_get_held [OF h assms(2)]
  show ?thesis
    using ref g h unfolding generation_after_def holds_def
    by (intro conjI exI [of _ g] exI [of _ ?n] exI [of _ ?c] refl allI impI) (auto intro: read)
qed

theorem vault_get_returns_what_was_set_witness:
  "\<exists>ref t. vault_set demo_vault_world ''/v'' ''s'' ''n'' ''pw'' (blank demo_files) = (Inr ref, t) \<and>
     fst (vault_get demo_vault_world ''/v'' ''s'' ''n'' t) = Inr ''pw''"
proof -
  let ?J = demo_vault_world
  obtain ref t where t: "vault_set ?J ''/v'' ''s'' ''n'' ''pw'' (blank demo_files) = (Inr ref, t)"
    "sy_tick t = 2"
    using demo_vault_set by (auto split: prod.splits sum.splits)
  have world: "je_decrypt ?J k n (je_encrypt ?J k n x a) a = Some x" "je_encrypt ?J k n x a = x"
    "je_token_bytes ?J m 12 = replicate 12 CHR ''k''" "e_loads (je_env ?J) y = Some (JObj demo_vault_record)"
    for k n x a m y
    by (simp_all add: demo_vault_world_def demo_world_def)
  have "dget (fs_files (sy_fs (blank demo_files))) (record_path ''/v'' ''s'' ''n'') = None"
    by code_simp
  with vault_get_returns_what_was_set [OF t(1) world(1)]
  have "fst (vault_get ?J ''/v'' ''s'' ''n'' t) = Inr ''pw''"
    by (auto simp: world demo_vault_record_def)
  with t(1) show ?thesis by blast
qed

text \<open>two different credentials can share one file: the scope \<open>a--b\<close> with the name \<open>c\<close> and
  the scope \<open>a\<close> with the name \<open>b--c\<close> are both valid and have the same path, so that storing one
  destroys the other.\<close>

theorem vault_paths_collide:
  "vault_path vault ''a--b'' ''c'' = Inr (record_path vault ''a'' ''b--c'') \<and>
   vault_path vault ''a'' ''b--c'' = Inr (record_path vault ''a'' ''b--c'')"
proof -
  have "vault_identifier ''a--b'' \<and> vault_identifier ''c'' \<and> vault_identifier ''a'' \<and>
    vault_identifier ''b--c''" by code_simp
  then show ?thesis by (simp add: vault_path_def validate_identifier_def record_path_def)
qed

end
