(* ===== verification/Spec2Isabelle.thy ===== *)
theory Spec2Isabelle
  imports Delegation_Properties View_Properties Selection_Properties Store_Properties Memory_Properties Job_Properties
begin

text \<open>
  A model of Canto (\<open>src/canto\<close>), a local broker between people and AI coding agents: it hands
  tasks to workers in isolated Git worktrees, reviews and promotes their results, and keeps a
  governed memory for them. Everything is translated by hand from the Python sources.

  \<^bold>\<open>How the program is put together.\<close> A state store (\<open>core/state.py\<close>) holds tables of records
  (\<open>models/*.py\<close>) and offers, per table, reads, writes and compare-and-set. The services are
  layers over it: the delegation service moves a task along its transition table; workspaces,
  commands, result artifacts, reviews, promotion, the promotion queue and the worker launcher each
  drive it through one stretch of its life. The memory service keeps notes with approvals, an
  activation policy, retention and recall. The job service runs the providers of capabilities as
  processes, under policies, approvals, reviewed live writes and idempotency keys. The command line
  calls these services, and the views and the selection of models read what they stored.

  \<^bold>\<open>The computational model.\<close> An operation is a state transformer that returns a value or an
  exception together with the state that is left (\<open>Prelude\<close>, \<open>sm\<close>): state changes made
  before an exception stay made, as in Python. The state \<open>sys\<close> (\<open>System\<close>) is the store, a file
  system and a counter of the calls made to the outside. The outside is the record \<open>env\<close>, an
  argument of every operation that uses it: Git, other executables, the clock, identifiers, SHA-256,
  JSON and TOML codecs. The job service needs more of it (\<open>job_env\<close>): random bytes, environment
  variables, YAML, AES-GCM, installed packages and the start of a provider. A subprocess may change
  the file system arbitrarily. No theorem assumes anything about these unless its statement says so;
  such a hypothesis is a named definition (\<open>source_calm\<close>: the capability registry answers without
  changing the store; \<open>ids_differ\<close>: identifiers do not repeat), and a witness shows that it holds
  of a concrete environment.

  \<^bold>\<open>The theories.\<close>

    \<^item> \<open>Prelude\<close>: the state-and-exception monad with weakest-precondition rules, dicts that keep
      insertion order (\<open>dict\<close>), and list lemmas; \<open>PyText\<close>: the \<open>str\<close> and \<open>pathlib\<close> operations
      that the source uses.
    \<^item> \<open>Models_AI\<close>, \<open>Models_Delegation\<close>, \<open>Models_Core\<close>: the models of \<open>canto/models/\<close> as records
      and datatypes, with their validators and derived orders.
    \<^item> \<open>Interfaces\<close>: the contracts of a state store as locales (a table, a compare-and-set table,
      a log, a record log, an idempotency table); \<open>Store\<close>: \<open>MemoryStateStore\<close>, on which they are
      interpreted; \<open>Sqlite\<close>: the tables and statements of \<open>SqliteStateStore\<close>, on which they are
      interpreted again; \<open>Refinement\<close>: the simulation between the two.
    \<^item> \<open>System\<close>: exceptions, the file system, \<open>env\<close>, and the operations that reach them.
    \<^item> \<open>Delegation\<close> (\<open>core/delegation.py\<close>), \<open>Repository\<close> (\<open>core/repository.py\<close>), \<open>Workspace\<close>
      (\<open>core/delegation_workspace.py\<close>), \<open>Artifacts\<close> (\<open>core/delegation_artifacts.py\<close>), \<open>Commands\<close>
      (\<open>core/delegation_commands.py\<close>), \<open>Review\<close> (\<open>core/delegation_review.py\<close>), \<open>Promotion\<close>
      (\<open>core/delegation_promotion.py\<close>, \<open>core/delegation_queue.py\<close>), \<open>Executor\<close>
      (\<open>core/cli_executor.py\<close>, \<open>core/delegation_executor.py\<close>): one definition per method, under the
      method's name as far as Isabelle allows it.
    \<^item> \<open>Workflow\<close>: the delegation commands as a datatype of calls, and the step relation of the
      calls together with arbitrary changes of the file system by others. The creation of variants,
      the registration of profiles and the launch of a worker are modelled but are not among these
      calls: in the reachable states workers are manual.
    \<^item> \<open>Delegation_Proofs\<close>, \<open>Workspace_Proofs\<close>, \<open>Executor_Proofs\<close>, \<open>Workflow_Proofs\<close>: the
      behaviour of the operations; \<open>Delegation_Invariant\<close>: the invariant \<open>delegation_ok\<close> of the
      stored tasks and records, and that every operation keeps it; \<open>Workflow_Example\<close>: one task
      taken from draft to promoted by evaluation, which the witnesses use.
    \<^item> \<open>Memory_Text\<close>, \<open>Memory\<close> (\<open>core/memory.py\<close>), \<open>Memory_Workflow\<close> (the memory commands of
      \<open>cli.py\<close> and the memory branch of \<open>JobService.approve\<close> and \<open>reject\<close>): the memory service and
      its step relation; \<open>Memory_Proofs\<close>: its invariant \<open>memory_ok\<close> and the relation \<open>evolved\<close>
      between earlier and later stores; \<open>Recall_Proofs\<close>: the search and the token budget.
    \<^item> \<open>Views\<close>: the read-only projections of delegation (\<open>core/delegation_pool.py\<close>, \<open>_timeline\<close>,
      \<open>_comparison\<close>, \<open>_review_summary\<close>, \<open>_conflicts\<close>, \<open>_dashboard\<close>) and the creation of variants;
      timestamps are those \<open>utc_now\<close> writes, and bytes are decoded as they are.
    \<^item> \<open>Selection\<close> (\<open>core/ai_selection.py\<close>): composing policies and choosing a model. Scores are
      rationals where the source has floats; whether a host is an IPv6 loopback is a parameter.
    \<^item> \<open>Json_Values\<close>: what Python does with values of unknown type; \<open>Job_Policy\<close>
      (\<open>core/policy.py\<close>, \<open>runner_contract.py\<close>, \<open>write_contract.py\<close>), \<open>Job_Security\<close>
      (\<open>core/security.py\<close>), \<open>Job_World\<close> (\<open>config.py\<close> and \<open>job_env\<close>), \<open>Vault\<close>
      (\<open>core/credentials.py\<close>), \<open>Registry\<close> (\<open>core/registry.py\<close>; the source of capability roots is an
      argument, as it is a protocol in the code), \<open>Runner\<close> (\<open>core/runner.py\<close>, \<open>artifacts.py\<close>,
      \<open>dependencies.py\<close>), \<open>Jobs\<close> (\<open>core/jobs.py\<close>): the job service, its state being \<open>sys\<close> and the
      registry of manifests.
    \<^item> \<open>Job_Workflow\<close>: the calls of the job service as a step relation; \<open>Job_Calm\<close>: the operations
      that leave jobs and approvals alone; \<open>Job_Proofs\<close>: how a job moves on; \<open>Job_Reviews\<close>: what a
      live write was reviewed for; \<open>Job_Promotions\<close>: what a promotion compares and what a write
      contract contains; \<open>Vault_Proofs\<close>; \<open>Job_Example\<close>: a dry run, its review and its
      live run by evaluation.
    \<^item> \<open>Delegation_Properties\<close>, \<open>View_Properties\<close>, \<open>Selection_Properties\<close>, \<open>Store_Properties\<close>,
      \<open>Memory_Properties\<close>, \<open>Job_Properties\<close>: the properties.

  \<^bold>\<open>What the lemmas show.\<close> For delegation: the invariant makes the history of each task a legal
  chain, its results numbered, accepted states reviewed, and promoted changes inside the scope that
  was frozen at creation. For the stores: SQLite refines the in-memory store as long as no
  constraint is violated, and races have one winner. For memory: only approved items are ever
  active, contents never change, an orchestrator stays within its limits, and recall is scoped and
  within its budget. For jobs: a finished job is final, a job is admitted only by its policy or an approved
  approval, a live write only after the review of just this change, artifacts stay inside the
  directory of the job and limits below the settings, a loaded write contract is complete, inputs
  name credentials only by reference, and the vault returns what was stored. For views and
  selection: a result is called ready only after its checks, a timeline holds every entry of the
  logs it merges, variants share their source, and the chosen model obeys the policy. Several properties establish behaviour that is surprising and possibly unintended;
  their text says so.

  \<^bold>\<open>Interleaving.\<close> A step is one whole call of a service. The compare-and-set contracts
  (\<open>Interfaces\<close>, \<open>Store_Properties\<close>) cover what two processes may do to each other in the store.

  \<^bold>\<open>Bounds.\<close> Nothing runs on fuel: every recursion is structural or has a proof of termination.

  \<^bold>\<open>Not modelled.\<close> The Redis store, the schema migrations and the full-text search of SQLite; orchestration and the installation
  of capability packages; the discovery and probing of models, which is network traffic, with the
  catalog and the worker loop over it; executor profiles; the HTTP server; packaging and demos; file
  modes and signals of provider processes. Strings are sequences of 8-bit characters, and case
  folding and character classes are those of ASCII: what the search does with other letters is not
  captured. \<open>json\<close> numbers with a fraction are rationals.
  Secrets of one length are replaced in the order they were found, where the source iterates over
  a set.
\<close>

end
